(* ===== verification/Prelude.thy ===== *)
theory Prelude
  imports Main "HOL-Library.Word" "HOL-Library.AList" "HOL-Library.Sublist"
begin

text \<open>
  Shared vocabulary of the development: how Go values that carry no program logic are
  represented, and the generic facts every component uses.

  \<^item> A pointer \<open>*T\<close> is \<open>T option\<close>; \<open>None\<close> is \<open>nil\<close>.
  \<^item> A slice \<open>[]T\<close> is \<open>T list option\<close>; \<open>None\<close> is the nil slice, which Go
    distinguishes from an empty one by \<open>== nil\<close> and identifies with it by \<open>len\<close>.
  \<^item> A map \<open>map[K]V\<close> is \<open>(K \<times> V) list option\<close>; \<open>None\<close> is the nil map and the
    list holds the entries, with distinct keys, in the order a \<open>range\<close> loop meets them.
    Go leaves that order unspecified, so a fact about a \<open>range\<close> loop is stated for every
    order (every list with the same entries).
  \<^item> An \<open>error\<close> is a value of \<open>go_error\<close>, a call that may fail returns
    \<open>go_error + 'a\<close>, and a call that may panic returns \<open>'a exec\<close>.
\<close>

named_theorems merge_defs "definitions of the merge functions"
named_theorems leaf_laws "how leaf views behave under the merges"

section \<open>Values\<close>

type_synonym 'a slice = "'a list option"
type_synonym ('k, 'v) gomap = "('k \<times> 'v) list option"
type_synonym int32 = "32 word"
type_synonym uint32 = "32 word"
type_synonym int64 = "64 word"
type_synonym uint64 = "64 word"

text \<open>
  A value of a library type whose fields the program never reads or writes (a toleration, an
  environment variable, a resource quantity): only its identity as a value matters.
\<close>

datatype opaque = Opaque string

section \<open>Errors and panics\<close>

text \<open>
  \<open>ErrNew\<close> is \<open>errors.New\<close> or \<open>errors.Errorf\<close> without an error among its arguments,
  \<open>ErrApi\<close> an error returned by the Kubernetes client, with whether
  \<open>apierrors.IsNotFound\<close> accepts it, \<open>ErrWrap\<close> is \<open>errors.Wrap\<close>/\<open>Wrapf\<close> and
  \<open>ErrFmt\<close> an \<open>errors.Errorf\<close> whose last argument is an error. The package is
  \<^verbatim>\<open>github.com/pkg/errors\<close>: its \<open>Wrap\<close> keeps the cause, which \<open>Unwrap\<close> finds, while its \<open>Errorf\<close>
  only formats, whatever the verb, so that the cause is part of the text and not of the chain.
\<close>

datatype go_error =
    ErrNew string
  | ErrApi bool string
  | ErrWrap go_error string
  | ErrFmt string go_error

datatype 'a exec = Panic string | Ret 'a

definition returns :: "'a exec \<Rightarrow> bool" where
  "returns x \<longleftrightarrow> (case x of Panic _ \<Rightarrow> False | Ret _ \<Rightarrow> True)"

lemma returns_simps [simp]: "returns (Ret a)" "\<not> returns (Panic m)"
  by (simp_all add: returns_def)

lemma returns_iff: "returns x \<longleftrightarrow> (\<exists>a. x = Ret a)"
  by (cases x) auto

definition exec_bind :: "'a exec \<Rightarrow> ('a \<Rightarrow> 'b exec) \<Rightarrow> 'b exec" where
  "exec_bind x f = (case x of Panic m \<Rightarrow> Panic m | Ret a \<Rightarrow> f a)"

lemma exec_bind_simps [simp]: "exec_bind (Ret a) f = f a" "exec_bind (Panic m) f = Panic m"
  by (simp_all add: exec_bind_def)

lemma exec_bind_eq_Ret: "exec_bind x f = Ret b \<longleftrightarrow> (\<exists>a. x = Ret a \<and> f a = Ret b)"
  by (cases x) auto

text \<open>
  What repeated \<open>Unwrap\<close> gives, which is what \<open>errors.Is\<close> and \<open>apierrors.IsNotFound\<close> search, and the
  errors whose text an error carries, both outermost first.
\<close>

fun error_chain :: "go_error \<Rightarrow> go_error list" where
  "error_chain (ErrWrap e m) = ErrWrap e m # error_chain e"
| "error_chain e = [e]"

fun error_texts :: "go_error \<Rightarrow> go_error list" where
  "error_texts (ErrWrap e m) = ErrWrap e m # error_texts e"
| "error_texts (ErrFmt m e) = ErrFmt m e # error_texts e"
| "error_texts e = [e]"

section \<open>Slices and maps\<close>

definition slice_elems :: "'a slice \<Rightarrow> 'a list" where
  "slice_elems s = (case s of None \<Rightarrow> [] | Some xs \<Rightarrow> xs)"

definition slice_len :: "'a slice \<Rightarrow> nat" where
  "slice_len s = length (slice_elems s)"

definition map_entries :: "('k, 'v) gomap \<Rightarrow> ('k \<times> 'v) list" where
  "map_entries m = (case m of None \<Rightarrow> [] | Some es \<Rightarrow> es)"

definition map_len :: "('k, 'v) gomap \<Rightarrow> nat" where
  "map_len m = length (map_entries m)"

text \<open>\<open>v, ok := m[k]\<close> and, with the zero value of the element type, \<open>m[k]\<close>.\<close>

definition map_get :: "('k, 'v) gomap \<Rightarrow> 'k \<Rightarrow> 'v option" where
  "map_get m k = map_of (map_entries m) k"

definition map_index :: "'v \<Rightarrow> ('k, 'v) gomap \<Rightarrow> 'k \<Rightarrow> 'v" where
  "map_index zero m k = (case map_get m k of None \<Rightarrow> zero | Some v \<Rightarrow> v)"

text \<open>\<open>m[k] = v\<close>, which panics on a nil map.\<close>

definition map_assign :: "'k \<Rightarrow> 'v \<Rightarrow> ('k, 'v) gomap \<Rightarrow> ('k, 'v) gomap exec" where
  "map_assign k v m = (case m of None \<Rightarrow> Panic ''assignment to entry in nil map''
     | Some es \<Rightarrow> Ret (Some (AList.update k v es)))"

definition map_wf :: "('k, 'v) gomap \<Rightarrow> bool" where
  "map_wf m \<longleftrightarrow> distinct (map fst (map_entries m))"

lemma slice_simps [simp]:
  "slice_elems None = []" "slice_elems (Some xs) = xs"
  "slice_len None = 0" "slice_len (Some xs) = length xs"
  by (simp_all add: slice_elems_def slice_len_def)

lemma map_simps [simp]:
  "map_entries None = []" "map_entries (Some es) = es"
  "map_len None = 0" "map_len (Some es) = length es"
  "map_get None = (\<lambda>_. None)" "map_get (Some es) = map_of es"
  "map_wf None" "map_wf (Some es) \<longleftrightarrow> distinct (map fst es)"
  by (simp_all add: map_entries_def map_len_def map_get_def map_wf_def fun_eq_iff)

lemma map_assign_simps [simp]:
  "map_assign k v (Some es) = Ret (Some (AList.update k v es))"
  by (simp add: map_assign_def)

lemma map_index_simps [simp]:
  "map_index z None k = z"
  "map_index z (Some []) k = z"
  "map_index z (Some ((a, b) # es)) k = (if k = a then b else map_index z (Some es) k)"
  by (simp_all add: map_index_def)

text \<open>\<open>for k, v := range src { dst[k] = v }\<close>, over the entries in the order met.\<close>

definition range_assign :: "('k \<times> 'v) list \<Rightarrow> ('k \<times> 'v) list \<Rightarrow> ('k \<times> 'v) list" where
  "range_assign es dst = fold (\<lambda>(k, v) m. AList.update k v m) es dst"

lemma range_assign_simps [simp]:
  "range_assign [] dst = dst"
  "range_assign ((k, v) # es) dst = range_assign es (AList.update k v dst)"
  by (simp_all add: range_assign_def)

lemma map_of_range_assign:
  "distinct (map fst es) \<Longrightarrow> map_of (range_assign es dst) = map_of dst ++ map_of es"
proof (induction es arbitrary: dst)
  case Nil
  then show ?case by simp
next
  case (Cons e es)
  obtain k v where e: "e = (k, v)" by (cases e)
  with Cons.prems have fresh: "map_of es k = None" and d: "distinct (map fst es)"
    by (auto simp: map_of_eq_None_iff)
  from Cons.IH [OF d] have "map_of (range_assign (e # es) dst) = (map_of dst)(k \<mapsto> v) ++ map_of es"
    by (simp add: e update_conv' fun_upd_def)
  also have "\<dots> = map_of dst ++ (map_of es)(k \<mapsto> v)"
    using fresh by (auto simp: fun_eq_iff map_add_def split: option.splits)
  finally show ?case by (simp add: e fun_eq_iff map_add_def)
qed

lemma distinct_range_assign [simp]:
  "distinct (map fst dst) \<Longrightarrow> distinct (map fst (range_assign es dst))"
  by (induction es arbitrary: dst) (auto simp: distinct_update)

lemma update_fresh: "k \<notin> fst ` set al \<Longrightarrow> AList.update k v al = al @ [(k, v)]"
  by (induction al) auto

lemma range_assign_fresh: "distinct (map fst (acc @ es)) \<Longrightarrow> range_assign es acc = acc @ es"
proof (induction es arbitrary: acc)
  case (Cons x es)
  obtain k v where x: "x = (k, v)" by (cases x)
  have "AList.update k v acc = acc @ [(k, v)]" using Cons.prems x by (intro update_fresh) auto
  then show ?case using Cons x by simp
qed simp
text \<open>\<open>maps.Equal\<close> of the standard library: same length, and every entry of the one is in the other.\<close>

definition maps_Equal :: "('k, 'v) gomap \<Rightarrow> ('k, 'v) gomap \<Rightarrow> bool" where
  "maps_Equal m1 m2 \<longleftrightarrow> map_len m1 = map_len m2 \<and>
     list_all (\<lambda>(k, v). map_get m2 k = Some v) (map_entries m1)"

lemma maps_Equal_iff:
  assumes "map_wf m1" and "map_wf m2"
  shows "maps_Equal m1 m2 \<longleftrightarrow> map_get m1 = map_get m2"
proof -
  let ?a = "map_entries m1" and ?b = "map_entries m2"
  have d: "distinct (map fst ?a)" "distinct (map fst ?b)"
    using assms by (simp_all add: map_wf_def)
  have inj: "inj_on fst (set ?a)" "inj_on fst (set ?b)" and dd: "distinct ?a" "distinct ?b"
    using d by (simp_all add: distinct_map)
  have sub: "list_all (\<lambda>(k, v). map_get m2 k = Some v) ?a \<longleftrightarrow> set ?a \<subseteq> set ?b"
    using d by (auto simp: list_all_iff map_get_def)
  show ?thesis
  proof
    assume eq: "maps_Equal m1 m2"
    then have "set ?a \<subseteq> set ?b" and "card (set ?a) = card (set ?b)"
      using sub dd by (auto simp: maps_Equal_def map_len_def distinct_card)
    then have "set ?a = set ?b" by (simp add: card_subset_eq)
    then show "map_get m1 = map_get m2"
      using map_of_inject_set [OF d] by (simp add: fun_eq_iff map_get_def)
  next
    assume eq: "map_get m1 = map_get m2"
    then have s: "set ?a = set ?b"
      using map_of_inject_set [OF d] by (auto simp: fun_eq_iff map_get_def)
    then have "length ?a = length ?b" using dd by (metis distinct_card)
    then show "maps_Equal m1 m2" using s sub by (simp add: maps_Equal_def map_len_def)
  qed
qed

section \<open>The contract of a map\<close>

text \<open>
  What the components rely on when they read, write and delete entries of a Go map: a read
  after a write or a delete, and that the entries stay keyed uniquely.
\<close>

locale key_store =
  fixes lookup :: "'m \<Rightarrow> 'k \<Rightarrow> 'v option"
    and put :: "'k \<Rightarrow> 'v \<Rightarrow> 'm \<Rightarrow> 'm"
    and remove :: "'k \<Rightarrow> 'm \<Rightarrow> 'm"
    and ok :: "'m \<Rightarrow> bool"
  assumes lookup_put: "lookup (put k v m) = (lookup m)(k \<mapsto> v)"
    and lookup_remove: "lookup (remove k m) = (lookup m)(k := None)"
    and ok_put: "ok m \<Longrightarrow> ok (put k v m)"
    and ok_remove: "ok m \<Longrightarrow> ok (remove k m)"
begin

lemma dom_put: "dom (lookup (put k v m)) = insert k (dom (lookup m))"
  by (simp add: lookup_put)

lemma dom_remove: "dom (lookup (remove k m)) = dom (lookup m) - {k}"
  by (simp add: lookup_remove)

lemma put_remove_other: "k \<noteq> k' \<Longrightarrow> lookup (remove k' (put k v m)) k = Some v"
  by (simp add: lookup_put lookup_remove)

end

lemma map_index_update: "map_index z (Some (AList.update k v es)) k' = (if k' = k then v else map_index z (Some es) k')"
  by (simp add: map_index_def update_conv')

interpretation entries: key_store map_of AList.update AList.delete "\<lambda>es. distinct (map fst es)"
  by unfold_locales (simp_all add: update_conv' delete_conv' distinct_update distinct_delete)

section \<open>Strings\<close>

text \<open>\<open>strings.HasPrefix\<close>.\<close>

definition HasPrefix :: "string \<Rightarrow> string \<Rightarrow> bool" where
  "HasPrefix s p \<longleftrightarrow> take (length p) s = p"

lemma HasPrefix_iff: "HasPrefix s p \<longleftrightarrow> (\<exists>t. s = p @ t)"
  unfolding HasPrefix_def by (metis append_eq_conv_conj append_take_drop_id)

text \<open>
  \<open>strings.SplitN(s, sep, 2)\<close> for a one-character separator: the text before the first
  separator and the text after it, or the whole text alone.
\<close>

fun SplitN2 :: "char \<Rightarrow> string \<Rightarrow> string list" where
  "SplitN2 c [] = [[]]"
| "SplitN2 c (x # xs) =
     (if x = c then [[], xs]
      else case SplitN2 c xs of [] \<Rightarrow> [[x]] | y # ys \<Rightarrow> (x # y) # ys)"

lemma SplitN2_join: "c \<notin> set a \<Longrightarrow> SplitN2 c (a @ c # b) = [a, b]"
  by (induction a) auto

lemma SplitN2_none: "c \<notin> set a \<Longrightarrow> SplitN2 c a = [a]"
  by (induction a) auto

lemma SplitN2_cases:
  "(\<exists>a b. s = a @ c # b \<and> c \<notin> set a) \<or> c \<notin> set s"
  by (meson split_list_first)

text \<open>Decimal digits, as \<open>%d\<close> prints an unsigned integer.\<close>

fun show_nat :: "nat \<Rightarrow> string" where
  "show_nat n = (if n < 10 then [char_of (48 + n)]
     else show_nat (n div 10) @ [char_of (48 + n mod 10)])"

declare show_nat.simps [simp del]

fun read_digits :: "nat \<Rightarrow> string \<Rightarrow> nat" where
  "read_digits acc [] = acc"
| "read_digits acc (c # cs) = read_digits (10 * acc + (of_char c - 48)) cs"

lemma read_digits_append: "read_digits acc (xs @ ys) = read_digits (read_digits acc xs) ys"
  by (induction xs arbitrary: acc) auto

lemma of_char_digit: "d < 10 \<Longrightarrow> of_char (char_of (48 + d) :: char) = (48 + d :: nat)"
  by (simp add: of_char_of)

lemma read_show_nat: "read_digits 0 (show_nat n) = n"
proof (induction n rule: show_nat.induct)
  case (1 n)
  show ?case
  proof (cases "n < 10")
    case True
    then show ?thesis by (simp add: show_nat.simps [of n] of_char_digit)
  next
    case False
    then have "read_digits 0 (show_nat n) = 10 * (n div 10) + n mod 10"
      using 1 by (simp add: show_nat.simps [of n] read_digits_append of_char_digit)
    then show ?thesis by simp
  qed
qed

lemma show_nat_inj: "show_nat m = show_nat n \<longleftrightarrow> m = n"
  by (metis read_show_nat)

lemma show_nat_digits: "c \<in> set (show_nat n) \<Longrightarrow> of_char c \<in> {48..57 :: nat}"
proof (induction n rule: show_nat.induct)
  case (1 n)
  have d: "of_char (char_of (48 + n mod 10) :: char) = 48 + n mod 10"
    by (rule of_char_digit) simp
  show ?case
  proof (cases "n < 10")
    case True
    with 1(2) show ?thesis by (auto simp: show_nat.simps [of n] of_char_digit)
  next
    case False
    with 1 d show ?thesis by (auto simp: show_nat.simps [of n])
  qed
qed

lemma split_last_eq:
  assumes "a @ c # b = a' @ c # b'" and "c \<notin> set b" and "c \<notin> set b'"
  shows "a = a' \<and> b = b'"
proof -
  from assms(1) obtain us where
    "a = a' @ us \<and> us @ c # b = c # b' \<or> a @ us = a' \<and> c # b = us @ c # b'"
    by (auto simp: append_eq_append_conv2)
  then show ?thesis
    using assms(2,3) by (cases us) auto
qed

end
