(* ===== verification/Kube_Types.thy ===== *)
theory Kube_Types
  imports Prelude
begin

text \<open>
  The structs of the Kubernetes API libraries (\<^verbatim>\<open>k8s.io/api/core/v1\<close>,
  \<^verbatim>\<open>k8s.io/apimachinery\<close>) as the program uses them: the fields the program reads or
  writes, under the name \<open>Struct_Field\<close>. Fields of a struct that the program never touches
  are kept together in one opaque \<open>_rest\<close> field, so that an update of the others visibly
  leaves them alone. Element types the program only passes along are \<open>opaque\<close>.
\<close>

section \<open>Object metadata\<close>

record OwnerReference =
  OwnerReference_APIVersion :: string
  OwnerReference_Kind :: string
  OwnerReference_Name :: string
  OwnerReference_UID :: string
  OwnerReference_Controller :: "bool option"

record TypeMeta =
  TypeMeta_Kind :: string
  TypeMeta_APIVersion :: string

record ObjectMeta =
  ObjectMeta_Name :: string
  ObjectMeta_Namespace :: string
  ObjectMeta_UID :: string
  ObjectMeta_DeletionTimestamp :: "string option"
  ObjectMeta_Labels :: "(string, string) gomap"
  ObjectMeta_Annotations :: "(string, string) gomap"
  ObjectMeta_OwnerReferences :: "OwnerReference slice"

type_synonym ListMeta = opaque
type_synonym PullPolicy = string
type_synonym ServiceType = string

section \<open>Security contexts\<close>

record SELinuxOptions =
  SELinuxOptions_User :: string
  SELinuxOptions_Role :: string
  SELinuxOptions_Type :: string
  SELinuxOptions_Level :: string

record WindowsSecurityContextOptions =
  WindowsOptions_GMSACredentialSpecName :: "string option"
  WindowsOptions_GMSACredentialSpec :: "string option"
  WindowsOptions_RunAsUserName :: "string option"
  WindowsOptions_HostProcess :: "bool option"

record SeccompProfile =
  SeccompProfile_Type :: string
  SeccompProfile_LocalhostProfile :: "string option"

record Capabilities =
  Capabilities_Add :: "string slice"
  Capabilities_Drop :: "string slice"

record SecurityContext =
  SecurityContext_Capabilities :: "Capabilities option"
  SecurityContext_Privileged :: "bool option"
  SecurityContext_SELinuxOptions :: "SELinuxOptions option"
  SecurityContext_WindowsOptions :: "WindowsSecurityContextOptions option"
  SecurityContext_RunAsUser :: "int64 option"
  SecurityContext_RunAsGroup :: "int64 option"
  SecurityContext_RunAsNonRoot :: "bool option"
  SecurityContext_ReadOnlyRootFilesystem :: "bool option"
  SecurityContext_AllowPrivilegeEscalation :: "bool option"
  SecurityContext_ProcMount :: "string option"
  SecurityContext_SeccompProfile :: "SeccompProfile option"
  SecurityContext_rest :: opaque

record PodSecurityContext =
  PodSecurityContext_SELinuxOptions :: "SELinuxOptions option"
  PodSecurityContext_WindowsOptions :: "WindowsSecurityContextOptions option"
  PodSecurityContext_RunAsUser :: "int64 option"
  PodSecurityContext_RunAsGroup :: "int64 option"
  PodSecurityContext_RunAsNonRoot :: "bool option"
  PodSecurityContext_SupplementalGroups :: "int64 slice"
  PodSecurityContext_FSGroup :: "int64 option"
  PodSecurityContext_Sysctls :: "opaque slice"
  PodSecurityContext_FSGroupChangePolicy :: "string option"
  PodSecurityContext_SeccompProfile :: "SeccompProfile option"
  PodSecurityContext_rest :: opaque

section \<open>Scheduling and resources\<close>

record ResourceRequirements =
  ResourceRequirements_Limits :: "(string, opaque) gomap"
  ResourceRequirements_Requests :: "(string, opaque) gomap"
  ResourceRequirements_rest :: opaque

record NodeSelector =
  NodeSelector_NodeSelectorTerms :: "opaque slice"

record NodeAffinity =
  NodeAffinity_Required :: "NodeSelector option"
  NodeAffinity_Preferred :: "opaque slice"

record PodAffinity =
  PodAffinity_Required :: "opaque slice"
  PodAffinity_Preferred :: "opaque slice"

record PodAntiAffinity =
  PodAntiAffinity_Required :: "opaque slice"
  PodAntiAffinity_Preferred :: "opaque slice"

record Affinity =
  Affinity_NodeAffinity :: "NodeAffinity option"
  Affinity_PodAffinity :: "PodAffinity option"
  Affinity_PodAntiAffinity :: "PodAntiAffinity option"

section \<open>Probes\<close>

record IntOrString =
  IntOrString_Type :: int64
  IntOrString_IntVal :: int32
  IntOrString_StrVal :: string

record ExecAction =
  ExecAction_Command :: "string slice"

record HTTPGetAction =
  HTTPGetAction_Path :: string
  HTTPGetAction_Port :: IntOrString
  HTTPGetAction_Host :: string
  HTTPGetAction_Scheme :: string
  HTTPGetAction_HTTPHeaders :: "opaque slice"

record TCPSocketAction =
  TCPSocketAction_Port :: IntOrString
  TCPSocketAction_Host :: string

record GRPCAction =
  GRPCAction_Port :: int32
  GRPCAction_Service :: "string option"

record ProbeHandler =
  ProbeHandler_Exec :: "ExecAction option"
  ProbeHandler_HTTPGet :: "HTTPGetAction option"
  ProbeHandler_TCPSocket :: "TCPSocketAction option"
  ProbeHandler_GRPC :: "GRPCAction option"

record Probe =
  Probe_ProbeHandler :: ProbeHandler
  Probe_InitialDelaySeconds :: int32
  Probe_TimeoutSeconds :: int32
  Probe_PeriodSeconds :: int32
  Probe_SuccessThreshold :: int32
  Probe_FailureThreshold :: int32
  Probe_TerminationGracePeriodSeconds :: "int64 option"

text \<open>The zero values Go gives these structs.\<close>

definition IntOrString_zero :: IntOrString where
  "IntOrString_zero = \<lparr>IntOrString_Type = 0, IntOrString_IntVal = 0, IntOrString_StrVal = ''''\<rparr>"

definition ProbeHandler_zero :: ProbeHandler where
  "ProbeHandler_zero = \<lparr>ProbeHandler_Exec = None, ProbeHandler_HTTPGet = None,
     ProbeHandler_TCPSocket = None, ProbeHandler_GRPC = None\<rparr>"

section \<open>Gateways, classes and rendered objects\<close>

record GatewayStatusAddress =
  Address_Type :: "nat option" \<comment> \<open>a pointer: nil or the location of an address type\<close>
  Address_Value :: string

record Gateway =
  Gateway_TypeMeta :: TypeMeta
  Gateway_ObjectMeta :: ObjectMeta
  Gateway_GatewayClassName :: string
  Gateway_StatusAddresses :: "GatewayStatusAddress slice"
  Gateway_rest :: opaque

record ParametersReference =
  ParametersRef_Name :: string
  ParametersRef_Namespace :: "string option"

record GatewayClass =
  GatewayClass_ObjectMeta :: ObjectMeta
  GatewayClass_ControllerName :: string
  GatewayClass_ParametersRef :: "ParametersReference option"

record GroupVersionKind =
  GVK_Group :: string
  GVK_Version :: string
  GVK_Kind :: string

text \<open>
  A \<open>client.Object\<close>: its dynamic Go type, what \<open>GetObjectKind().GroupVersionKind()\<close> returns,
  and its metadata.
\<close>

record KObject =
  KObject_GoType :: string
  KObject_GVK :: GroupVersionKind
  KObject_Meta :: ObjectMeta
  KObject_rest :: opaque

text \<open>The zero value of \<open>ObjectMeta\<close>.\<close>

definition ObjectMeta_zero :: ObjectMeta where
  "ObjectMeta_zero = \<lparr>ObjectMeta_Name = '''', ObjectMeta_Namespace = '''', ObjectMeta_UID = '''',
     ObjectMeta_DeletionTimestamp = None, ObjectMeta_Labels = None, ObjectMeta_Annotations = None,
     ObjectMeta_OwnerReferences = None\<rparr>"

end
