(* ===== verification/Gateway_Parameters.thy ===== *)
theory Gateway_Parameters
  imports Kube_Types
begin

text \<open>
  The GatewayParameters API, \<^verbatim>\<open>apis/fgateway/v1alpha1\<close>: one record per struct of
  \<^verbatim>\<open>kube_types.go\<close> and \<^verbatim>\<open>gateway_parameters_types.go\<close>, fields in the order of
  the source under the name \<open>Struct_Field\<close>, and one function per accessor
  \<open>func (in *Struct) GetField()\<close> under the name \<open>Struct_GetField\<close>. An accessor may be
  called on a nil receiver; it then returns the zero value.
\<close>

record Image =
  Image_Registry :: "string option"
  Image_Repository :: "string option"
  Image_Tag :: "string option"
  Image_Digest :: "string option"
  Image_PullPolicy :: "PullPolicy option"

primrec Image_GetRegistry :: "Image option \<Rightarrow> string option" where
  "Image_GetRegistry None = None"
| "Image_GetRegistry (Some v) = Image_Registry v"

primrec Image_GetRepository :: "Image option \<Rightarrow> string option" where
  "Image_GetRepository None = None"
| "Image_GetRepository (Some v) = Image_Repository v"

primrec Image_GetTag :: "Image option \<Rightarrow> string option" where
  "Image_GetTag None = None"
| "Image_GetTag (Some v) = Image_Tag v"

primrec Image_GetDigest :: "Image option \<Rightarrow> string option" where
  "Image_GetDigest None = None"
| "Image_GetDigest (Some v) = Image_Digest v"

primrec Image_GetPullPolicy :: "Image option \<Rightarrow> PullPolicy option" where
  "Image_GetPullPolicy None = None"
| "Image_GetPullPolicy (Some v) = Image_PullPolicy v"

record Service =
  Service_Type :: "ServiceType option"
  Service_ClusterIP :: "string option"
  Service_ExtraLabels :: "(string, string) gomap"
  Service_ExtraAnnotations :: "(string, string) gomap"

primrec Service_GetType :: "Service option \<Rightarrow> ServiceType option" where
  "Service_GetType None = None"
| "Service_GetType (Some v) = Service_Type v"

primrec Service_GetClusterIP :: "Service option \<Rightarrow> string option" where
  "Service_GetClusterIP None = None"
| "Service_GetClusterIP (Some v) = Service_ClusterIP v"

primrec Service_GetExtraLabels :: "Service option \<Rightarrow> (string, string) gomap" where
  "Service_GetExtraLabels None = None"
| "Service_GetExtraLabels (Some v) = Service_ExtraLabels v"

primrec Service_GetExtraAnnotations :: "Service option \<Rightarrow> (string, string) gomap" where
  "Service_GetExtraAnnotations None = None"
| "Service_GetExtraAnnotations (Some v) = Service_ExtraAnnotations v"

record ServiceAccount =
  ServiceAccount_ExtraLabels :: "(string, string) gomap"
  ServiceAccount_ExtraAnnotations :: "(string, string) gomap"

primrec ServiceAccount_GetExtraLabels :: "ServiceAccount option \<Rightarrow> (string, string) gomap" where
  "ServiceAccount_GetExtraLabels None = None"
| "ServiceAccount_GetExtraLabels (Some v) = ServiceAccount_ExtraLabels v"

primrec ServiceAccount_GetExtraAnnotations :: "ServiceAccount option \<Rightarrow> (string, string) gomap" where
  "ServiceAccount_GetExtraAnnotations None = None"
| "ServiceAccount_GetExtraAnnotations (Some v) = ServiceAccount_ExtraAnnotations v"

record GracefulShutdownSpec =
  GracefulShutdownSpec_Enabled :: "bool option"
  GracefulShutdownSpec_SleepTimeSeconds :: "int64 option"

primrec GracefulShutdownSpec_GetEnabled :: "GracefulShutdownSpec option \<Rightarrow> bool option" where
  "GracefulShutdownSpec_GetEnabled None = None"
| "GracefulShutdownSpec_GetEnabled (Some v) = GracefulShutdownSpec_Enabled v"

primrec GracefulShutdownSpec_GetSleepTimeSeconds :: "GracefulShutdownSpec option \<Rightarrow> int64 option" where
  "GracefulShutdownSpec_GetSleepTimeSeconds None = None"
| "GracefulShutdownSpec_GetSleepTimeSeconds (Some v) = GracefulShutdownSpec_SleepTimeSeconds v"

record Pod =
  Pod_ExtraLabels :: "(string, string) gomap"
  Pod_ExtraAnnotations :: "(string, string) gomap"
  Pod_SecurityContext :: "PodSecurityContext option"
  Pod_ImagePullSecrets :: "opaque slice"
  Pod_NodeSelector :: "(string, string) gomap"
  Pod_Affinity :: "Affinity option"
  Pod_Tolerations :: "opaque slice"
  Pod_GracefulShutdown :: "GracefulShutdownSpec option"
  Pod_TerminationGracePeriodSeconds :: "int64 option"
  Pod_ReadinessProbe :: "Probe option"
  Pod_LivenessProbe :: "Probe option"

primrec Pod_GetExtraLabels :: "Pod option \<Rightarrow> (string, string) gomap" where
  "Pod_GetExtraLabels None = None"
| "Pod_GetExtraLabels (Some v) = Pod_ExtraLabels v"

primrec Pod_GetExtraAnnotations :: "Pod option \<Rightarrow> (string, string) gomap" where
  "Pod_GetExtraAnnotations None = None"
| "Pod_GetExtraAnnotations (Some v) = Pod_ExtraAnnotations v"

primrec Pod_GetSecurityContext :: "Pod option \<Rightarrow> PodSecurityContext option" where
  "Pod_GetSecurityContext None = None"
| "Pod_GetSecurityContext (Some v) = Pod_SecurityContext v"

primrec Pod_GetImagePullSecrets :: "Pod option \<Rightarrow> opaque slice" where
  "Pod_GetImagePullSecrets None = None"
| "Pod_GetImagePullSecrets (Some v) = Pod_ImagePullSecrets v"

primrec Pod_GetNodeSelector :: "Pod option \<Rightarrow> (string, string) gomap" where
  "Pod_GetNodeSelector None = None"
| "Pod_GetNodeSelector (Some v) = Pod_NodeSelector v"

primrec Pod_GetAffinity :: "Pod option \<Rightarrow> Affinity option" where
  "Pod_GetAffinity None = None"
| "Pod_GetAffinity (Some v) = Pod_Affinity v"

primrec Pod_GetTolerations :: "Pod option \<Rightarrow> opaque slice" where
  "Pod_GetTolerations None = None"
| "Pod_GetTolerations (Some v) = Pod_Tolerations v"

primrec Pod_GetReadinessProbe :: "Pod option \<Rightarrow> Probe option" where
  "Pod_GetReadinessProbe None = None"
| "Pod_GetReadinessProbe (Some v) = Pod_ReadinessProbe v"

primrec Pod_GetGracefulShutdown :: "Pod option \<Rightarrow> GracefulShutdownSpec option" where
  "Pod_GetGracefulShutdown None = None"
| "Pod_GetGracefulShutdown (Some v) = Pod_GracefulShutdown v"

primrec Pod_GetTerminationGracePeriodSeconds :: "Pod option \<Rightarrow> int64 option" where
  "Pod_GetTerminationGracePeriodSeconds None = None"
| "Pod_GetTerminationGracePeriodSeconds (Some v) = Pod_TerminationGracePeriodSeconds v"

primrec Pod_GetLivenessProbe :: "Pod option \<Rightarrow> Probe option" where
  "Pod_GetLivenessProbe None = None"
| "Pod_GetLivenessProbe (Some v) = Pod_LivenessProbe v"

record ProxyDeployment =
  ProxyDeployment_Replicas :: "uint32 option"

primrec ProxyDeployment_GetReplicas :: "ProxyDeployment option \<Rightarrow> uint32 option" where
  "ProxyDeployment_GetReplicas None = None"
| "ProxyDeployment_GetReplicas (Some v) = ProxyDeployment_Replicas v"

record EnvoyBootstrap =
  EnvoyBootstrap_LogLevel :: "string option"
  EnvoyBootstrap_ComponentLogLevels :: "(string, string) gomap"

primrec EnvoyBootstrap_GetLogLevel :: "EnvoyBootstrap option \<Rightarrow> string option" where
  "EnvoyBootstrap_GetLogLevel None = None"
| "EnvoyBootstrap_GetLogLevel (Some v) = EnvoyBootstrap_LogLevel v"

primrec EnvoyBootstrap_GetComponentLogLevels :: "EnvoyBootstrap option \<Rightarrow> (string, string) gomap" where
  "EnvoyBootstrap_GetComponentLogLevels None = None"
| "EnvoyBootstrap_GetComponentLogLevels (Some v) = EnvoyBootstrap_ComponentLogLevels v"

record EnvoyContainer =
  EnvoyContainer_Bootstrap :: "EnvoyBootstrap option"
  EnvoyContainer_Image :: "Image option"
  EnvoyContainer_SecurityContext :: "SecurityContext option"
  EnvoyContainer_Resources :: "ResourceRequirements option"

primrec EnvoyContainer_GetBootstrap :: "EnvoyContainer option \<Rightarrow> EnvoyBootstrap option" where
  "EnvoyContainer_GetBootstrap None = None"
| "EnvoyContainer_GetBootstrap (Some v) = EnvoyContainer_Bootstrap v"

primrec EnvoyContainer_GetImage :: "EnvoyContainer option \<Rightarrow> Image option" where
  "EnvoyContainer_GetImage None = None"
| "EnvoyContainer_GetImage (Some v) = EnvoyContainer_Image v"

primrec EnvoyContainer_GetSecurityContext :: "EnvoyContainer option \<Rightarrow> SecurityContext option" where
  "EnvoyContainer_GetSecurityContext None = None"
| "EnvoyContainer_GetSecurityContext (Some v) = EnvoyContainer_SecurityContext v"

primrec EnvoyContainer_GetResources :: "EnvoyContainer option \<Rightarrow> ResourceRequirements option" where
  "EnvoyContainer_GetResources None = None"
| "EnvoyContainer_GetResources (Some v) = EnvoyContainer_Resources v"

record SdsBootstrap =
  SdsBootstrap_LogLevel :: "string option"

primrec SdsBootstrap_GetLogLevel :: "SdsBootstrap option \<Rightarrow> string option" where
  "SdsBootstrap_GetLogLevel None = None"
| "SdsBootstrap_GetLogLevel (Some v) = SdsBootstrap_LogLevel v"

record SdsContainer =
  SdsContainer_Image :: "Image option"
  SdsContainer_SecurityContext :: "SecurityContext option"
  SdsContainer_Resources :: "ResourceRequirements option"
  SdsContainer_Bootstrap :: "SdsBootstrap option"

primrec SdsContainer_GetImage :: "SdsContainer option \<Rightarrow> Image option" where
  "SdsContainer_GetImage None = None"
| "SdsContainer_GetImage (Some v) = SdsContainer_Image v"

primrec SdsContainer_GetSecurityContext :: "SdsContainer option \<Rightarrow> SecurityContext option" where
  "SdsContainer_GetSecurityContext None = None"
| "SdsContainer_GetSecurityContext (Some v) = SdsContainer_SecurityContext v"

primrec SdsContainer_GetResources :: "SdsContainer option \<Rightarrow> ResourceRequirements option" where
  "SdsContainer_GetResources None = None"
| "SdsContainer_GetResources (Some v) = SdsContainer_Resources v"

primrec SdsContainer_GetBootstrap :: "SdsContainer option \<Rightarrow> SdsBootstrap option" where
  "SdsContainer_GetBootstrap None = None"
| "SdsContainer_GetBootstrap (Some v) = SdsContainer_Bootstrap v"

record IstioContainer =
  IstioContainer_Image :: "Image option"
  IstioContainer_SecurityContext :: "SecurityContext option"
  IstioContainer_Resources :: "ResourceRequirements option"
  IstioContainer_LogLevel :: "string option"
  IstioContainer_IstioDiscoveryAddress :: "string option"
  IstioContainer_IstioMetaMeshId :: "string option"
  IstioContainer_IstioMetaClusterId :: "string option"

primrec IstioContainer_GetImage :: "IstioContainer option \<Rightarrow> Image option" where
  "IstioContainer_GetImage None = None"
| "IstioContainer_GetImage (Some v) = IstioContainer_Image v"

primrec IstioContainer_GetSecurityContext :: "IstioContainer option \<Rightarrow> SecurityContext option" where
  "IstioContainer_GetSecurityContext None = None"
| "IstioContainer_GetSecurityContext (Some v) = IstioContainer_SecurityContext v"

primrec IstioContainer_GetResources :: "IstioContainer option \<Rightarrow> ResourceRequirements option" where
  "IstioContainer_GetResources None = None"
| "IstioContainer_GetResources (Some v) = IstioContainer_Resources v"

primrec IstioContainer_GetLogLevel :: "IstioContainer option \<Rightarrow> string option" where
  "IstioContainer_GetLogLevel None = None"
| "IstioContainer_GetLogLevel (Some v) = IstioContainer_LogLevel v"

primrec IstioContainer_GetIstioDiscoveryAddress :: "IstioContainer option \<Rightarrow> string option" where
  "IstioContainer_GetIstioDiscoveryAddress None = None"
| "IstioContainer_GetIstioDiscoveryAddress (Some v) = IstioContainer_IstioDiscoveryAddress v"

primrec IstioContainer_GetIstioMetaMeshId :: "IstioContainer option \<Rightarrow> string option" where
  "IstioContainer_GetIstioMetaMeshId None = None"
| "IstioContainer_GetIstioMetaMeshId (Some v) = IstioContainer_IstioMetaMeshId v"

primrec IstioContainer_GetIstioMetaClusterId :: "IstioContainer option \<Rightarrow> string option" where
  "IstioContainer_GetIstioMetaClusterId None = None"
| "IstioContainer_GetIstioMetaClusterId (Some v) = IstioContainer_IstioMetaClusterId v"

record IstioIntegration =
  IstioIntegration_IstioProxyContainer :: "IstioContainer option"
  IstioIntegration_CustomSidecars :: "opaque slice"

primrec IstioIntegration_GetIstioProxyContainer :: "IstioIntegration option \<Rightarrow> IstioContainer option" where
  "IstioIntegration_GetIstioProxyContainer None = None"
| "IstioIntegration_GetIstioProxyContainer (Some v) = IstioIntegration_IstioProxyContainer v"

primrec IstioIntegration_GetCustomSidecars :: "IstioIntegration option \<Rightarrow> opaque slice" where
  "IstioIntegration_GetCustomSidecars None = None"
| "IstioIntegration_GetCustomSidecars (Some v) = IstioIntegration_CustomSidecars v"

record StatsConfig =
  StatsConfig_Enabled :: "bool option"
  StatsConfig_RoutePrefixRewrite :: "string option"
  StatsConfig_EnableStatsRoute :: "bool option"
  StatsConfig_StatsRoutePrefixRewrite :: "string option"

primrec StatsConfig_GetEnabled :: "StatsConfig option \<Rightarrow> bool option" where
  "StatsConfig_GetEnabled None = None"
| "StatsConfig_GetEnabled (Some v) = StatsConfig_Enabled v"

primrec StatsConfig_GetRoutePrefixRewrite :: "StatsConfig option \<Rightarrow> string option" where
  "StatsConfig_GetRoutePrefixRewrite None = None"
| "StatsConfig_GetRoutePrefixRewrite (Some v) = StatsConfig_RoutePrefixRewrite v"

primrec StatsConfig_GetEnableStatsRoute :: "StatsConfig option \<Rightarrow> bool option" where
  "StatsConfig_GetEnableStatsRoute None = None"
| "StatsConfig_GetEnableStatsRoute (Some v) = StatsConfig_EnableStatsRoute v"

primrec StatsConfig_GetStatsRoutePrefixRewrite :: "StatsConfig option \<Rightarrow> string option" where
  "StatsConfig_GetStatsRoutePrefixRewrite None = None"
| "StatsConfig_GetStatsRoutePrefixRewrite (Some v) = StatsConfig_StatsRoutePrefixRewrite v"

record CustomLabel =
  CustomLabel_Name :: "string"
  CustomLabel_MetadataNamespace :: "string option"
  CustomLabel_MetdataKey :: "string"
  CustomLabel_KeyDelimiter :: "string option"

primrec CustomLabel_GetName :: "CustomLabel option \<Rightarrow> string" where
  "CustomLabel_GetName None = ''''"
| "CustomLabel_GetName (Some v) = CustomLabel_Name v"

primrec CustomLabel_GetMetadataNamespace :: "CustomLabel option \<Rightarrow> string option" where
  "CustomLabel_GetMetadataNamespace None = None"
| "CustomLabel_GetMetadataNamespace (Some v) = CustomLabel_MetadataNamespace v"

primrec CustomLabel_GetMetdataKey :: "CustomLabel option \<Rightarrow> string" where
  "CustomLabel_GetMetdataKey None = ''''"
| "CustomLabel_GetMetdataKey (Some v) = CustomLabel_MetdataKey v"

primrec CustomLabel_GetKeyDelimiter :: "CustomLabel option \<Rightarrow> string option" where
  "CustomLabel_GetKeyDelimiter None = None"
| "CustomLabel_GetKeyDelimiter (Some v) = CustomLabel_KeyDelimiter v"

record AiExtensionStats =
  AiExtensionStats_CustomLabels :: "(CustomLabel option) slice"

primrec AiExtensionStats_GetCustomLabels :: "AiExtensionStats option \<Rightarrow> (CustomLabel option) slice" where
  "AiExtensionStats_GetCustomLabels None = None"
| "AiExtensionStats_GetCustomLabels (Some v) = AiExtensionStats_CustomLabels v"

record AiExtension =
  AiExtension_Enabled :: "bool option"
  AiExtension_Image :: "Image option"
  AiExtension_SecurityContext :: "SecurityContext option"
  AiExtension_Resources :: "ResourceRequirements option"
  AiExtension_Env :: "opaque slice"
  AiExtension_Ports :: "opaque slice"
  AiExtension_Stats :: "AiExtensionStats option"

primrec AiExtension_GetEnabled :: "AiExtension option \<Rightarrow> bool option" where
  "AiExtension_GetEnabled None = None"
| "AiExtension_GetEnabled (Some v) = AiExtension_Enabled v"

primrec AiExtension_GetImage :: "AiExtension option \<Rightarrow> Image option" where
  "AiExtension_GetImage None = None"
| "AiExtension_GetImage (Some v) = AiExtension_Image v"

primrec AiExtension_GetSecurityContext :: "AiExtension option \<Rightarrow> SecurityContext option" where
  "AiExtension_GetSecurityContext None = None"
| "AiExtension_GetSecurityContext (Some v) = AiExtension_SecurityContext v"

primrec AiExtension_GetResources :: "AiExtension option \<Rightarrow> ResourceRequirements option" where
  "AiExtension_GetResources None = None"
| "AiExtension_GetResources (Some v) = AiExtension_Resources v"

primrec AiExtension_GetEnv :: "AiExtension option \<Rightarrow> opaque slice" where
  "AiExtension_GetEnv None = None"
| "AiExtension_GetEnv (Some v) = AiExtension_Env v"

primrec AiExtension_GetPorts :: "AiExtension option \<Rightarrow> opaque slice" where
  "AiExtension_GetPorts None = None"
| "AiExtension_GetPorts (Some v) = AiExtension_Ports v"

primrec AiExtension_GetStats :: "AiExtension option \<Rightarrow> AiExtensionStats option" where
  "AiExtension_GetStats None = None"
| "AiExtension_GetStats (Some v) = AiExtension_Stats v"

record KubernetesProxyConfig =
  KubernetesProxyConfig_Deployment :: "ProxyDeployment option"
  KubernetesProxyConfig_EnvoyContainer :: "EnvoyContainer option"
  KubernetesProxyConfig_SdsContainer :: "SdsContainer option"
  KubernetesProxyConfig_PodTemplate :: "Pod option"
  KubernetesProxyConfig_Service :: "Service option"
  KubernetesProxyConfig_ServiceAccount :: "ServiceAccount option"
  KubernetesProxyConfig_Istio :: "IstioIntegration option"
  KubernetesProxyConfig_Stats :: "StatsConfig option"
  KubernetesProxyConfig_AiExtension :: "AiExtension option"
  KubernetesProxyConfig_FloatingUserId :: "bool option"

primrec KubernetesProxyConfig_GetDeployment :: "KubernetesProxyConfig option \<Rightarrow> ProxyDeployment option" where
  "KubernetesProxyConfig_GetDeployment None = None"
| "KubernetesProxyConfig_GetDeployment (Some v) = KubernetesProxyConfig_Deployment v"

primrec KubernetesProxyConfig_GetEnvoyContainer :: "KubernetesProxyConfig option \<Rightarrow> EnvoyContainer option" where
  "KubernetesProxyConfig_GetEnvoyContainer None = None"
| "KubernetesProxyConfig_GetEnvoyContainer (Some v) = KubernetesProxyConfig_EnvoyContainer v"

primrec KubernetesProxyConfig_GetSdsContainer :: "KubernetesProxyConfig option \<Rightarrow> SdsContainer option" where
  "KubernetesProxyConfig_GetSdsContainer None = None"
| "KubernetesProxyConfig_GetSdsContainer (Some v) = KubernetesProxyConfig_SdsContainer v"

primrec KubernetesProxyConfig_GetPodTemplate :: "KubernetesProxyConfig option \<Rightarrow> Pod option" where
  "KubernetesProxyConfig_GetPodTemplate None = None"
| "KubernetesProxyConfig_GetPodTemplate (Some v) = KubernetesProxyConfig_PodTemplate v"

primrec KubernetesProxyConfig_GetService :: "KubernetesProxyConfig option \<Rightarrow> Service option" where
  "KubernetesProxyConfig_GetService None = None"
| "KubernetesProxyConfig_GetService (Some v) = KubernetesProxyConfig_Service v"

primrec KubernetesProxyConfig_GetServiceAccount :: "KubernetesProxyConfig option \<Rightarrow> ServiceAccount option" where
  "KubernetesProxyConfig_GetServiceAccount None = None"
| "KubernetesProxyConfig_GetServiceAccount (Some v) = KubernetesProxyConfig_ServiceAccount v"

primrec KubernetesProxyConfig_GetIstio :: "KubernetesProxyConfig option \<Rightarrow> IstioIntegration option" where
  "KubernetesProxyConfig_GetIstio None = None"
| "KubernetesProxyConfig_GetIstio (Some v) = KubernetesProxyConfig_Istio v"

primrec KubernetesProxyConfig_GetStats :: "KubernetesProxyConfig option \<Rightarrow> StatsConfig option" where
  "KubernetesProxyConfig_GetStats None = None"
| "KubernetesProxyConfig_GetStats (Some v) = KubernetesProxyConfig_Stats v"

primrec KubernetesProxyConfig_GetAiExtension :: "KubernetesProxyConfig option \<Rightarrow> AiExtension option" where
  "KubernetesProxyConfig_GetAiExtension None = None"
| "KubernetesProxyConfig_GetAiExtension (Some v) = KubernetesProxyConfig_AiExtension v"

primrec KubernetesProxyConfig_GetFloatingUserId :: "KubernetesProxyConfig option \<Rightarrow> bool option" where
  "KubernetesProxyConfig_GetFloatingUserId None = None"
| "KubernetesProxyConfig_GetFloatingUserId (Some v) = KubernetesProxyConfig_FloatingUserId v"

datatype SelfManagedGateway = SelfManagedGateway

datatype GatewayParametersStatus = GatewayParametersStatus

record GatewayParametersSpec =
  GatewayParametersSpec_Kube :: "KubernetesProxyConfig option"
  GatewayParametersSpec_SelfManaged :: "SelfManagedGateway option"

record GatewayParameters =
  GatewayParameters_TypeMeta :: "TypeMeta"
  GatewayParameters_ObjectMeta :: "ObjectMeta"
  GatewayParameters_Spec :: "GatewayParametersSpec"
  GatewayParameters_Status :: "GatewayParametersStatus"

record GatewayParametersList =
  GatewayParametersList_TypeMeta :: "TypeMeta"
  GatewayParametersList_ListMeta :: "ListMeta"
  GatewayParametersList_Items :: "GatewayParameters slice"

text \<open>
  The CRD's validation rule on the spec, \<open>(has(self.kube) && !has(self.selfManaged)) ||
  (!has(self.kube) && has(self.selfManaged))\<close>: exactly one of the two is set.
\<close>

definition GatewayParametersSpec_valid :: "GatewayParametersSpec \<Rightarrow> bool" where
  "GatewayParametersSpec_valid self \<longleftrightarrow>
     (GatewayParametersSpec_Kube self \<noteq> None \<and> \<not> GatewayParametersSpec_SelfManaged self \<noteq> None) \<or>
     (\<not> GatewayParametersSpec_Kube self \<noteq> None \<and> GatewayParametersSpec_SelfManaged self \<noteq> None)"

end
