(* ===== verification/Merge.thy ===== *)
theory Merge
  imports Gateway_Parameters
begin

text \<open>
  \<^verbatim>\<open>internal/fgateway/deployer/merge.go\<close>: how the GatewayParameters of a Gateway
  (\<open>src\<close>) override the ones of its GatewayClass (\<open>dst\<close>). One definition per function of the
  file, under its name. Go's functions write into \<open>*dst\<close> and return it; the model returns
  the written value. No assignment of a function reads a field an earlier one has written,
  so the right-hand sides read the value \<open>d\<close> that \<open>dst\<close> had on entry.
\<close>

section \<open>Generic merges\<close>

definition mergePointers :: "'a option \<Rightarrow> 'a option \<Rightarrow> 'a option" where
  "mergePointers dst src = (if src = None then dst else src)"

definition deepMergeMaps :: "('k, 'v) gomap \<Rightarrow> ('k, 'v) gomap \<Rightarrow> ('k, 'v) gomap" where
  "deepMergeMaps dst src =
     (case src of None \<Rightarrow> dst
      | Some se \<Rightarrow> (case dst of None \<Rightarrow> src
         | Some de \<Rightarrow> if length se = 0 then src else Some (range_assign se de)))"

definition deepMergeSlices :: "'a slice \<Rightarrow> 'a slice \<Rightarrow> 'a slice" where
  "deepMergeSlices dst src =
     (case src of None \<Rightarrow> dst
      | Some se \<Rightarrow> (case dst of None \<Rightarrow> src
         | Some de \<Rightarrow> if length se = 0 then src else Some (de @ se)))"

definition overrideSlices :: "'a slice \<Rightarrow> 'a slice \<Rightarrow> 'a slice" where
  "overrideSlices dst src = (if src = None then dst else src)"

text \<open>\<open>t\<close> is the zero value \<open>var t T\<close> of the type at which the function is used.\<close>

definition mergeComparable :: "'a \<Rightarrow> 'a \<Rightarrow> 'a \<Rightarrow> 'a" where
  "mergeComparable t dst src = (if src = t then dst else src)"

definition mergeIntOrString :: "IntOrString \<Rightarrow> IntOrString \<Rightarrow> IntOrString" where
  "mergeIntOrString dst src = mergeComparable IntOrString_zero dst src"

definition mergeCustomSidecars :: "opaque slice \<Rightarrow> opaque slice \<Rightarrow> opaque slice" where
  "mergeCustomSidecars dst src = (if slice_len src = 0 then dst else src)"

text \<open>
  The two guards every \<open>deepMerge\<close> function on pointers starts with,
  \<open>if src == nil { return dst }; if dst == nil { return src }\<close>, before its assignments.
\<close>

definition nil_guarded :: "('a \<Rightarrow> 'a \<Rightarrow> 'a) \<Rightarrow> 'a option \<Rightarrow> 'a option \<Rightarrow> 'a option" where
  "nil_guarded body dst src =
     (case src of None \<Rightarrow> dst
      | Some s \<Rightarrow> (case dst of None \<Rightarrow> Some s | Some d \<Rightarrow> Some (body d s)))"

lemma nil_guarded_simps [simp]:
  "nil_guarded body dst None = dst"
  "nil_guarded body None src = src"
  "nil_guarded body (Some d) (Some s) = Some (body d s)"
  by (cases src; simp add: nil_guarded_def)+

section \<open>The merges, struct by struct\<close>

definition deepMergeStatsConfig :: "StatsConfig option \<Rightarrow> StatsConfig option \<Rightarrow> StatsConfig option" where
  [merge_defs]: "deepMergeStatsConfig = nil_guarded (\<lambda>d s. d\<lparr>
        StatsConfig_Enabled := mergePointers (StatsConfig_GetEnabled (Some d)) (StatsConfig_GetEnabled (Some s)),
        StatsConfig_RoutePrefixRewrite := mergeComparable None (StatsConfig_GetRoutePrefixRewrite (Some d)) (StatsConfig_GetRoutePrefixRewrite (Some s)),
        StatsConfig_EnableStatsRoute := mergeComparable None (StatsConfig_GetEnableStatsRoute (Some d)) (StatsConfig_GetEnableStatsRoute (Some s)),
        StatsConfig_StatsRoutePrefixRewrite := mergeComparable None (StatsConfig_GetStatsRoutePrefixRewrite (Some d)) (StatsConfig_GetStatsRoutePrefixRewrite (Some s))\<rparr>)"

definition deepMergeSeccompProfile :: "SeccompProfile option \<Rightarrow> SeccompProfile option \<Rightarrow> SeccompProfile option" where
  [merge_defs]: "deepMergeSeccompProfile = nil_guarded (\<lambda>d s. d\<lparr>
        SeccompProfile_Type := mergeComparable '''' (SeccompProfile_Type d) (SeccompProfile_Type s),
        SeccompProfile_LocalhostProfile := mergePointers (SeccompProfile_LocalhostProfile d) (SeccompProfile_LocalhostProfile s)\<rparr>)"

definition deepMergeSELinuxOptions :: "SELinuxOptions option \<Rightarrow> SELinuxOptions option \<Rightarrow> SELinuxOptions option" where
  [merge_defs]: "deepMergeSELinuxOptions = nil_guarded (\<lambda>d s. d\<lparr>
        SELinuxOptions_User := mergeComparable '''' (SELinuxOptions_User d) (SELinuxOptions_User s),
        SELinuxOptions_Role := mergeComparable '''' (SELinuxOptions_Role d) (SELinuxOptions_Role s),
        SELinuxOptions_Type := mergeComparable '''' (SELinuxOptions_Type d) (SELinuxOptions_Type s),
        SELinuxOptions_Level := mergeComparable '''' (SELinuxOptions_Level d) (SELinuxOptions_Level s)\<rparr>)"

definition deepMergeWindowsSecurityContextOptions :: "WindowsSecurityContextOptions option \<Rightarrow> WindowsSecurityContextOptions option \<Rightarrow> WindowsSecurityContextOptions option" where
  [merge_defs]: "deepMergeWindowsSecurityContextOptions = nil_guarded (\<lambda>d s. d\<lparr>
        WindowsOptions_GMSACredentialSpecName := mergePointers (WindowsOptions_GMSACredentialSpec d) (WindowsOptions_GMSACredentialSpec s),
        WindowsOptions_GMSACredentialSpec := mergePointers (WindowsOptions_GMSACredentialSpec d) (WindowsOptions_GMSACredentialSpec s),
        WindowsOptions_RunAsUserName := mergePointers (WindowsOptions_RunAsUserName d) (WindowsOptions_RunAsUserName s),
        WindowsOptions_HostProcess := mergePointers (WindowsOptions_HostProcess d) (WindowsOptions_HostProcess s)\<rparr>)"

definition deepMergePodSecurityContext :: "PodSecurityContext option \<Rightarrow> PodSecurityContext option \<Rightarrow> PodSecurityContext option" where
  [merge_defs]: "deepMergePodSecurityContext = nil_guarded (\<lambda>d s. d\<lparr>
        PodSecurityContext_SELinuxOptions := deepMergeSELinuxOptions (PodSecurityContext_SELinuxOptions d) (PodSecurityContext_SELinuxOptions s),
        PodSecurityContext_WindowsOptions := deepMergeWindowsSecurityContextOptions (PodSecurityContext_WindowsOptions d) (PodSecurityContext_WindowsOptions s),
        PodSecurityContext_RunAsUser := mergePointers (PodSecurityContext_RunAsUser d) (PodSecurityContext_RunAsUser s),
        PodSecurityContext_RunAsGroup := mergePointers (PodSecurityContext_RunAsGroup d) (PodSecurityContext_RunAsGroup s),
        PodSecurityContext_RunAsNonRoot := mergePointers (PodSecurityContext_RunAsNonRoot d) (PodSecurityContext_RunAsNonRoot s),
        PodSecurityContext_SupplementalGroups := deepMergeSlices (PodSecurityContext_SupplementalGroups d) (PodSecurityContext_SupplementalGroups s),
        PodSecurityContext_FSGroup := mergePointers (PodSecurityContext_FSGroup d) (PodSecurityContext_FSGroup s),
        PodSecurityContext_Sysctls := deepMergeSlices (PodSecurityContext_Sysctls d) (PodSecurityContext_Sysctls s),
        PodSecurityContext_FSGroupChangePolicy := mergePointers (PodSecurityContext_FSGroupChangePolicy d) (PodSecurityContext_FSGroupChangePolicy s),
        PodSecurityContext_SeccompProfile := deepMergeSeccompProfile (PodSecurityContext_SeccompProfile d) (PodSecurityContext_SeccompProfile s)\<rparr>)"

definition deepMergeHTTPGetAction :: "HTTPGetAction option \<Rightarrow> HTTPGetAction option \<Rightarrow> HTTPGetAction option" where
  [merge_defs]: "deepMergeHTTPGetAction = nil_guarded (\<lambda>d s. d\<lparr>
        HTTPGetAction_Path := mergeComparable '''' (HTTPGetAction_Path d) (HTTPGetAction_Path s),
        HTTPGetAction_Port := mergeIntOrString (HTTPGetAction_Port d) (HTTPGetAction_Port s),
        HTTPGetAction_Host := mergeComparable '''' (HTTPGetAction_Host d) (HTTPGetAction_Host s),
        HTTPGetAction_Scheme := mergeComparable '''' (HTTPGetAction_Scheme d) (HTTPGetAction_Scheme s),
        HTTPGetAction_HTTPHeaders := deepMergeSlices (HTTPGetAction_HTTPHeaders d) (HTTPGetAction_HTTPHeaders s)\<rparr>)"

definition deepMergeTCPSocketAction :: "TCPSocketAction option \<Rightarrow> TCPSocketAction option \<Rightarrow> TCPSocketAction option" where
  [merge_defs]: "deepMergeTCPSocketAction = nil_guarded (\<lambda>d s. d\<lparr>
        TCPSocketAction_Port := mergeIntOrString (TCPSocketAction_Port d) (TCPSocketAction_Port s),
        TCPSocketAction_Host := mergeComparable '''' (TCPSocketAction_Host d) (TCPSocketAction_Host s)\<rparr>)"

definition deepMergeGRPCAction :: "GRPCAction option \<Rightarrow> GRPCAction option \<Rightarrow> GRPCAction option" where
  [merge_defs]: "deepMergeGRPCAction = nil_guarded (\<lambda>d s. d\<lparr>
        GRPCAction_Port := mergeComparable 0 (GRPCAction_Port d) (GRPCAction_Port s),
        GRPCAction_Service := mergePointers (GRPCAction_Service d) (GRPCAction_Service s)\<rparr>)"

definition deepMergeExecAction :: "ExecAction option \<Rightarrow> ExecAction option \<Rightarrow> ExecAction option" where
  [merge_defs]: "deepMergeExecAction = nil_guarded (\<lambda>d s. d\<lparr>
        ExecAction_Command := overrideSlices (ExecAction_Command d) (ExecAction_Command s)\<rparr>)"

definition deepMergeProbeHandler :: "ProbeHandler \<Rightarrow> ProbeHandler \<Rightarrow> ProbeHandler" where
  [merge_defs]: "deepMergeProbeHandler d s = d\<lparr>
        ProbeHandler_Exec := deepMergeExecAction (ProbeHandler_Exec d) (ProbeHandler_Exec s),
        ProbeHandler_HTTPGet := deepMergeHTTPGetAction (ProbeHandler_HTTPGet d) (ProbeHandler_HTTPGet s),
        ProbeHandler_TCPSocket := deepMergeTCPSocketAction (ProbeHandler_TCPSocket d) (ProbeHandler_TCPSocket s),
        ProbeHandler_GRPC := deepMergeGRPCAction (ProbeHandler_GRPC d) (ProbeHandler_GRPC s)\<rparr>"

definition deepMergeProbe :: "Probe option \<Rightarrow> Probe option \<Rightarrow> Probe option" where
  [merge_defs]: "deepMergeProbe = nil_guarded (\<lambda>d s. d\<lparr>
        Probe_ProbeHandler := deepMergeProbeHandler (Probe_ProbeHandler d) (Probe_ProbeHandler s),
        Probe_InitialDelaySeconds := mergeComparable 0 (Probe_InitialDelaySeconds d) (Probe_InitialDelaySeconds s),
        Probe_TimeoutSeconds := mergeComparable 0 (Probe_TimeoutSeconds d) (Probe_TimeoutSeconds s),
        Probe_PeriodSeconds := mergeComparable 0 (Probe_PeriodSeconds d) (Probe_PeriodSeconds s),
        Probe_SuccessThreshold := mergeComparable 0 (Probe_SuccessThreshold d) (Probe_SuccessThreshold s),
        Probe_FailureThreshold := mergeComparable 0 (Probe_FailureThreshold d) (Probe_FailureThreshold s),
        Probe_TerminationGracePeriodSeconds := mergePointers (Probe_TerminationGracePeriodSeconds d) (Probe_TerminationGracePeriodSeconds s)\<rparr>)"

definition deepMergeGracefulShutdown :: "GracefulShutdownSpec option \<Rightarrow> GracefulShutdownSpec option \<Rightarrow> GracefulShutdownSpec option" where
  [merge_defs]: "deepMergeGracefulShutdown = nil_guarded (\<lambda>d s. d\<lparr>
        GracefulShutdownSpec_Enabled := mergePointers (GracefulShutdownSpec_Enabled d) (GracefulShutdownSpec_Enabled s),
        GracefulShutdownSpec_SleepTimeSeconds := mergePointers (GracefulShutdownSpec_SleepTimeSeconds d) (GracefulShutdownSpec_SleepTimeSeconds s)\<rparr>)"

definition deepMergePodAntiAffinity :: "PodAntiAffinity option \<Rightarrow> PodAntiAffinity option \<Rightarrow> PodAntiAffinity option" where
  [merge_defs]: "deepMergePodAntiAffinity = nil_guarded (\<lambda>d s. d\<lparr>
        PodAntiAffinity_Required := deepMergeSlices (PodAntiAffinity_Required d) (PodAntiAffinity_Required s),
        PodAntiAffinity_Preferred := deepMergeSlices (PodAntiAffinity_Preferred d) (PodAntiAffinity_Preferred s)\<rparr>)"

definition deepMergeNodeSelector :: "NodeSelector option \<Rightarrow> NodeSelector option \<Rightarrow> NodeSelector option" where
  [merge_defs]: "deepMergeNodeSelector = nil_guarded (\<lambda>d s. d\<lparr>
        NodeSelector_NodeSelectorTerms := deepMergeSlices (NodeSelector_NodeSelectorTerms d) (NodeSelector_NodeSelectorTerms s)\<rparr>)"

definition deepMergeNodeAffinity :: "NodeAffinity option \<Rightarrow> NodeAffinity option \<Rightarrow> NodeAffinity option" where
  [merge_defs]: "deepMergeNodeAffinity = nil_guarded (\<lambda>d s. d\<lparr>
        NodeAffinity_Required := deepMergeNodeSelector (NodeAffinity_Required d) (NodeAffinity_Required s),
        NodeAffinity_Preferred := deepMergeSlices (NodeAffinity_Preferred d) (NodeAffinity_Preferred s)\<rparr>)"

definition deepMergePodAffinity :: "PodAffinity option \<Rightarrow> PodAffinity option \<Rightarrow> PodAffinity option" where
  [merge_defs]: "deepMergePodAffinity = nil_guarded (\<lambda>d s. d\<lparr>
        PodAffinity_Required := deepMergeSlices (PodAffinity_Required d) (PodAffinity_Required s),
        PodAffinity_Preferred := deepMergeSlices (PodAffinity_Preferred d) (PodAffinity_Preferred s)\<rparr>)"

definition deepMergeAffinity :: "Affinity option \<Rightarrow> Affinity option \<Rightarrow> Affinity option" where
  [merge_defs]: "deepMergeAffinity = nil_guarded (\<lambda>d s. d\<lparr>
        Affinity_NodeAffinity := deepMergeNodeAffinity (Affinity_NodeAffinity d) (Affinity_NodeAffinity s),
        Affinity_PodAffinity := deepMergePodAffinity (Affinity_PodAffinity d) (Affinity_PodAffinity s),
        Affinity_PodAntiAffinity := deepMergePodAntiAffinity (Affinity_PodAntiAffinity d) (Affinity_PodAntiAffinity s)\<rparr>)"

definition deepMergePodTemplate :: "Pod option \<Rightarrow> Pod option \<Rightarrow> Pod option" where
  [merge_defs]: "deepMergePodTemplate = nil_guarded (\<lambda>d s. d\<lparr>
        Pod_ExtraLabels := deepMergeMaps (Pod_GetExtraLabels (Some d)) (Pod_GetExtraLabels (Some s)),
        Pod_ExtraAnnotations := deepMergeMaps (Pod_GetExtraAnnotations (Some d)) (Pod_GetExtraAnnotations (Some s)),
        Pod_SecurityContext := deepMergePodSecurityContext (Pod_GetSecurityContext (Some d)) (Pod_GetSecurityContext (Some s)),
        Pod_ImagePullSecrets := deepMergeSlices (Pod_GetImagePullSecrets (Some d)) (Pod_GetImagePullSecrets (Some s)),
        Pod_NodeSelector := deepMergeMaps (Pod_GetNodeSelector (Some d)) (Pod_GetNodeSelector (Some s)),
        Pod_Affinity := deepMergeAffinity (Pod_GetAffinity (Some d)) (Pod_GetAffinity (Some s)),
        Pod_Tolerations := deepMergeSlices (Pod_GetTolerations (Some d)) (Pod_GetTolerations (Some s)),
        Pod_GracefulShutdown := deepMergeGracefulShutdown (Pod_GetGracefulShutdown (Some d)) (Pod_GetGracefulShutdown (Some s)),
        Pod_TerminationGracePeriodSeconds := mergePointers (Pod_TerminationGracePeriodSeconds d) (Pod_TerminationGracePeriodSeconds s),
        Pod_ReadinessProbe := deepMergeProbe (Pod_GetReadinessProbe (Some d)) (Pod_GetReadinessProbe (Some s)),
        Pod_LivenessProbe := deepMergeProbe (Pod_GetLivenessProbe (Some d)) (Pod_GetLivenessProbe (Some s))\<rparr>)"

definition deepMergeService :: "Service option \<Rightarrow> Service option \<Rightarrow> Service option" where
  [merge_defs]: "deepMergeService = nil_guarded (\<lambda>d s. d\<lparr>
        Service_Type := (if Service_GetType (Some s) \<noteq> None then Service_GetType (Some s) else Service_Type d),
        Service_ClusterIP := (if Service_GetClusterIP (Some s) \<noteq> None then Service_GetClusterIP (Some s) else Service_ClusterIP d),
        Service_ExtraLabels := deepMergeMaps (Service_GetExtraLabels (Some d)) (Service_GetExtraLabels (Some s)),
        Service_ExtraAnnotations := deepMergeMaps (Service_GetExtraAnnotations (Some d)) (Service_GetExtraAnnotations (Some s))\<rparr>)"

definition deepMergeServiceAccount :: "ServiceAccount option \<Rightarrow> ServiceAccount option \<Rightarrow> ServiceAccount option" where
  [merge_defs]: "deepMergeServiceAccount = nil_guarded (\<lambda>d s. d\<lparr>
        ServiceAccount_ExtraLabels := deepMergeMaps (ServiceAccount_GetExtraLabels (Some d)) (ServiceAccount_GetExtraLabels (Some s)),
        ServiceAccount_ExtraAnnotations := deepMergeMaps (ServiceAccount_GetExtraAnnotations (Some d)) (ServiceAccount_GetExtraAnnotations (Some s))\<rparr>)"

definition deepMergeImage :: "Image option \<Rightarrow> Image option \<Rightarrow> Image option" where
  [merge_defs]: "deepMergeImage = nil_guarded (\<lambda>d s. d\<lparr>
        Image_Registry := (if Image_GetRegistry (Some s) \<noteq> None then Image_GetRegistry (Some s) else Image_Registry d),
        Image_Repository := (if Image_GetRepository (Some s) \<noteq> None then Image_GetRepository (Some s) else Image_Repository d),
        Image_Tag := (if Image_GetTag (Some s) \<noteq> None then Image_GetTag (Some s) else Image_Tag d),
        Image_Digest := (if Image_GetDigest (Some s) \<noteq> None then Image_GetDigest (Some s) else Image_Digest d),
        Image_PullPolicy := (if Image_GetPullPolicy (Some s) \<noteq> None then Image_GetPullPolicy (Some s) else Image_PullPolicy d)\<rparr>)"

definition deepMergeCapabilities :: "Capabilities option \<Rightarrow> Capabilities option \<Rightarrow> Capabilities option" where
  [merge_defs]: "deepMergeCapabilities = nil_guarded (\<lambda>d s. d\<lparr>
        Capabilities_Add := deepMergeSlices (Capabilities_Add d) (Capabilities_Add s),
        Capabilities_Drop := deepMergeSlices (Capabilities_Drop d) (Capabilities_Drop s)\<rparr>)"

definition deepMergeSecurityContext :: "SecurityContext option \<Rightarrow> SecurityContext option \<Rightarrow> SecurityContext option" where
  [merge_defs]: "deepMergeSecurityContext = nil_guarded (\<lambda>d s. d\<lparr>
        SecurityContext_Capabilities := deepMergeCapabilities (SecurityContext_Capabilities d) (SecurityContext_Capabilities s),
        SecurityContext_SELinuxOptions := deepMergeSELinuxOptions (SecurityContext_SELinuxOptions d) (SecurityContext_SELinuxOptions s),
        SecurityContext_WindowsOptions := deepMergeWindowsSecurityContextOptions (SecurityContext_WindowsOptions d) (SecurityContext_WindowsOptions s),
        SecurityContext_RunAsUser := mergePointers (SecurityContext_RunAsUser d) (SecurityContext_RunAsUser s),
        SecurityContext_RunAsGroup := mergePointers (SecurityContext_RunAsGroup d) (SecurityContext_RunAsGroup s),
        SecurityContext_RunAsNonRoot := mergePointers (SecurityContext_RunAsNonRoot d) (SecurityContext_RunAsNonRoot s),
        SecurityContext_Privileged := mergePointers (SecurityContext_Privileged d) (SecurityContext_Privileged s),
        SecurityContext_ReadOnlyRootFilesystem := mergePointers (SecurityContext_ReadOnlyRootFilesystem d) (SecurityContext_ReadOnlyRootFilesystem s),
        SecurityContext_AllowPrivilegeEscalation := mergePointers (SecurityContext_AllowPrivilegeEscalation d) (SecurityContext_AllowPrivilegeEscalation s),
        SecurityContext_ProcMount := mergePointers (SecurityContext_ProcMount d) (SecurityContext_ProcMount s),
        SecurityContext_SeccompProfile := deepMergeSeccompProfile (SecurityContext_SeccompProfile d) (SecurityContext_SeccompProfile s)\<rparr>)"

definition deepMergeResourceRequirements :: "ResourceRequirements option \<Rightarrow> ResourceRequirements option \<Rightarrow> ResourceRequirements option" where
  [merge_defs]: "deepMergeResourceRequirements = nil_guarded (\<lambda>d s. d\<lparr>
        ResourceRequirements_Limits := deepMergeMaps (ResourceRequirements_Limits d) (ResourceRequirements_Limits s),
        ResourceRequirements_Requests := deepMergeMaps (ResourceRequirements_Requests d) (ResourceRequirements_Requests s)\<rparr>)"

definition deepMergeSdsBootstrap :: "SdsBootstrap option \<Rightarrow> SdsBootstrap option \<Rightarrow> SdsBootstrap option" where
  [merge_defs]: "deepMergeSdsBootstrap = nil_guarded (\<lambda>d s. d\<lparr>
        SdsBootstrap_LogLevel := (if SdsBootstrap_GetLogLevel (Some s) \<noteq> None then SdsBootstrap_GetLogLevel (Some s) else SdsBootstrap_LogLevel d)\<rparr>)"

definition deepMergeSdsContainer :: "SdsContainer option \<Rightarrow> SdsContainer option \<Rightarrow> SdsContainer option" where
  [merge_defs]: "deepMergeSdsContainer = nil_guarded (\<lambda>d s. d\<lparr>
        SdsContainer_Image := deepMergeImage (SdsContainer_GetImage (Some d)) (SdsContainer_GetImage (Some s)),
        SdsContainer_SecurityContext := deepMergeSecurityContext (SdsContainer_GetSecurityContext (Some d)) (SdsContainer_GetSecurityContext (Some s)),
        SdsContainer_Resources := deepMergeResourceRequirements (SdsContainer_GetResources (Some d)) (SdsContainer_GetResources (Some s)),
        SdsContainer_Bootstrap := deepMergeSdsBootstrap (SdsContainer_GetBootstrap (Some d)) (SdsContainer_GetBootstrap (Some s))\<rparr>)"

definition deepMergeIstioContainer :: "IstioContainer option \<Rightarrow> IstioContainer option \<Rightarrow> IstioContainer option" where
  [merge_defs]: "deepMergeIstioContainer = nil_guarded (\<lambda>d s. d\<lparr>
        IstioContainer_Image := deepMergeImage (IstioContainer_GetImage (Some d)) (IstioContainer_GetImage (Some s)),
        IstioContainer_SecurityContext := deepMergeSecurityContext (IstioContainer_GetSecurityContext (Some d)) (IstioContainer_GetSecurityContext (Some s)),
        IstioContainer_Resources := deepMergeResourceRequirements (IstioContainer_GetResources (Some d)) (IstioContainer_GetResources (Some s)),
        IstioContainer_LogLevel := (if IstioContainer_GetLogLevel (Some s) \<noteq> None then IstioContainer_GetLogLevel (Some s) else IstioContainer_LogLevel d),
        IstioContainer_IstioDiscoveryAddress := (if IstioContainer_GetIstioDiscoveryAddress (Some d) = None then IstioContainer_GetIstioDiscoveryAddress (Some s) else IstioContainer_IstioDiscoveryAddress d),
        IstioContainer_IstioMetaMeshId := (if IstioContainer_GetIstioMetaMeshId (Some d) = None then IstioContainer_GetIstioMetaMeshId (Some s) else IstioContainer_IstioMetaMeshId d),
        IstioContainer_IstioMetaClusterId := (if IstioContainer_GetIstioMetaClusterId (Some d) = None then IstioContainer_GetIstioMetaClusterId (Some s) else IstioContainer_IstioMetaClusterId d)\<rparr>)"

definition deepMergeIstioIntegration :: "IstioIntegration option \<Rightarrow> IstioIntegration option \<Rightarrow> IstioIntegration option" where
  [merge_defs]: "deepMergeIstioIntegration = nil_guarded (\<lambda>d s. d\<lparr>
        IstioIntegration_IstioProxyContainer := deepMergeIstioContainer (IstioIntegration_GetIstioProxyContainer (Some d)) (IstioIntegration_GetIstioProxyContainer (Some s)),
        IstioIntegration_CustomSidecars := mergeCustomSidecars (IstioIntegration_GetCustomSidecars (Some d)) (IstioIntegration_GetCustomSidecars (Some s))\<rparr>)"

definition deepMergeEnvoyBootstrap :: "EnvoyBootstrap option \<Rightarrow> EnvoyBootstrap option \<Rightarrow> EnvoyBootstrap option" where
  [merge_defs]: "deepMergeEnvoyBootstrap = nil_guarded (\<lambda>d s. d\<lparr>
        EnvoyBootstrap_LogLevel := (if EnvoyBootstrap_GetLogLevel (Some s) \<noteq> None then EnvoyBootstrap_GetLogLevel (Some s) else EnvoyBootstrap_LogLevel d),
        EnvoyBootstrap_ComponentLogLevels := deepMergeMaps (EnvoyBootstrap_GetComponentLogLevels (Some d)) (EnvoyBootstrap_GetComponentLogLevels (Some s))\<rparr>)"

definition deepMergeEnvoyContainer :: "EnvoyContainer option \<Rightarrow> EnvoyContainer option \<Rightarrow> EnvoyContainer option" where
  [merge_defs]: "deepMergeEnvoyContainer = nil_guarded (\<lambda>d s. d\<lparr>
        EnvoyContainer_Bootstrap := deepMergeEnvoyBootstrap (EnvoyContainer_GetBootstrap (Some d)) (EnvoyContainer_GetBootstrap (Some s)),
        EnvoyContainer_Image := deepMergeImage (EnvoyContainer_GetImage (Some d)) (EnvoyContainer_GetImage (Some s)),
        EnvoyContainer_SecurityContext := deepMergeSecurityContext (EnvoyContainer_GetSecurityContext (Some d)) (EnvoyContainer_GetSecurityContext (Some s)),
        EnvoyContainer_Resources := deepMergeResourceRequirements (EnvoyContainer_GetResources (Some d)) (EnvoyContainer_GetResources (Some s))\<rparr>)"

definition deepMergeDeployment :: "ProxyDeployment option \<Rightarrow> ProxyDeployment option \<Rightarrow> ProxyDeployment option" where
  [merge_defs]: "deepMergeDeployment = nil_guarded (\<lambda>d s. d\<lparr>
        ProxyDeployment_Replicas := mergePointers (ProxyDeployment_GetReplicas (Some d)) (ProxyDeployment_GetReplicas (Some s))\<rparr>)"

definition deepMergeAIExtensionStats :: "AiExtensionStats option \<Rightarrow> AiExtensionStats option \<Rightarrow> AiExtensionStats option" where
  [merge_defs]: "deepMergeAIExtensionStats = nil_guarded (\<lambda>d s. d\<lparr>
        AiExtensionStats_CustomLabels := deepMergeSlices (AiExtensionStats_GetCustomLabels (Some d)) (AiExtensionStats_GetCustomLabels (Some s))\<rparr>)"

definition deepMergeAIExtension :: "AiExtension option \<Rightarrow> AiExtension option \<Rightarrow> AiExtension option" where
  [merge_defs]: "deepMergeAIExtension = nil_guarded (\<lambda>d s. d\<lparr>
        AiExtension_Enabled := mergePointers (AiExtension_GetEnabled (Some d)) (AiExtension_GetEnabled (Some s)),
        AiExtension_Image := deepMergeImage (AiExtension_GetImage (Some d)) (AiExtension_GetImage (Some s)),
        AiExtension_SecurityContext := deepMergeSecurityContext (AiExtension_GetSecurityContext (Some d)) (AiExtension_GetSecurityContext (Some s)),
        AiExtension_Resources := deepMergeResourceRequirements (AiExtension_GetResources (Some d)) (AiExtension_GetResources (Some s)),
        AiExtension_Env := deepMergeSlices (AiExtension_GetEnv (Some d)) (AiExtension_GetEnv (Some s)),
        AiExtension_Ports := deepMergeSlices (AiExtension_GetPorts (Some d)) (AiExtension_GetPorts (Some s)),
        AiExtension_Stats := deepMergeAIExtensionStats (AiExtension_GetStats (Some d)) (AiExtension_GetStats (Some s))\<rparr>)"

section \<open>The merge of whole objects\<close>

text \<open>The ten assignments to \<open>dstKube\<close>.\<close>

definition mergeKube :: "KubernetesProxyConfig \<Rightarrow> KubernetesProxyConfig \<Rightarrow> KubernetesProxyConfig" where
  [merge_defs]: "mergeKube d s = d\<lparr>
        KubernetesProxyConfig_Deployment := deepMergeDeployment (KubernetesProxyConfig_GetDeployment (Some d)) (KubernetesProxyConfig_GetDeployment (Some s)),
        KubernetesProxyConfig_EnvoyContainer := deepMergeEnvoyContainer (KubernetesProxyConfig_GetEnvoyContainer (Some d)) (KubernetesProxyConfig_GetEnvoyContainer (Some s)),
        KubernetesProxyConfig_SdsContainer := deepMergeSdsContainer (KubernetesProxyConfig_GetSdsContainer (Some d)) (KubernetesProxyConfig_GetSdsContainer (Some s)),
        KubernetesProxyConfig_PodTemplate := deepMergePodTemplate (KubernetesProxyConfig_GetPodTemplate (Some d)) (KubernetesProxyConfig_GetPodTemplate (Some s)),
        KubernetesProxyConfig_Service := deepMergeService (KubernetesProxyConfig_GetService (Some d)) (KubernetesProxyConfig_GetService (Some s)),
        KubernetesProxyConfig_ServiceAccount := deepMergeServiceAccount (KubernetesProxyConfig_GetServiceAccount (Some d)) (KubernetesProxyConfig_GetServiceAccount (Some s)),
        KubernetesProxyConfig_Istio := deepMergeIstioIntegration (KubernetesProxyConfig_GetIstio (Some d)) (KubernetesProxyConfig_GetIstio (Some s)),
        KubernetesProxyConfig_Stats := deepMergeStatsConfig (KubernetesProxyConfig_GetStats (Some d)) (KubernetesProxyConfig_GetStats (Some s)),
        KubernetesProxyConfig_AiExtension := deepMergeAIExtension (KubernetesProxyConfig_GetAiExtension (Some d)) (KubernetesProxyConfig_GetAiExtension (Some s)),
        KubernetesProxyConfig_FloatingUserId := mergePointers (KubernetesProxyConfig_GetFloatingUserId (Some d)) (KubernetesProxyConfig_GetFloatingUserId (Some s))\<rparr>"

text \<open>
  The result is the pair of what \<open>dst\<close> points to after the call and the pointer returned: a
  caller may use either. \<open>dst.Spec.SelfManaged = \<dots>\<close> on a nil \<open>dst\<close> panics.
\<close>

definition deepMergeGatewayParameters ::
  "GatewayParameters option \<Rightarrow> GatewayParameters option
     \<Rightarrow> (GatewayParameters option \<times> GatewayParameters option) exec" where
  "deepMergeGatewayParameters dst src =
     (case src of
        None \<Rightarrow> Ret (dst, dst)
      | Some s \<Rightarrow>
         (case GatewayParametersSpec_SelfManaged (GatewayParameters_Spec s) of
            Some sm \<Rightarrow>
              (case dst of
                 None \<Rightarrow> Panic ''nil pointer dereference''
               | Some d \<Rightarrow>
                   (let d' = d\<lparr>GatewayParameters_Spec := (GatewayParameters_Spec d)\<lparr>
                          GatewayParametersSpec_SelfManaged := Some sm,
                          GatewayParametersSpec_Kube := None\<rparr>\<rparr>
                    in Ret (Some d', Some d')))
          | None \<Rightarrow>
              (case GatewayParametersSpec_Kube (GatewayParameters_Spec s) of
                 None \<Rightarrow> Ret (dst, dst)
               | Some srcKube \<Rightarrow>
                  (case dst of
                     None \<Rightarrow> Ret (dst, src)
                   | Some d \<Rightarrow>
                      (case GatewayParametersSpec_Kube (GatewayParameters_Spec d) of
                         None \<Rightarrow> Ret (dst, src)
                       | Some dstKube \<Rightarrow>
                          (let d' = d\<lparr>GatewayParameters_Spec := (GatewayParameters_Spec d)\<lparr>
                                 GatewayParametersSpec_Kube := Some (mergeKube dstKube srcKube)\<rparr>\<rparr>
                           in Ret (Some d', Some d')))))))"

section \<open>Laws of the generic merges\<close>

lemma mergePointers_simps [simp]:
  "mergePointers d None = d" "mergePointers d (Some v) = Some v" "mergePointers None s = s"
  by (simp_all add: mergePointers_def)

lemma overrideSlices_simps [simp]:
  "overrideSlices d None = d" "overrideSlices d (Some v) = Some v" "overrideSlices None s = s"
  by (simp_all add: overrideSlices_def)

lemma mergeComparable_simps [simp]:
  "mergeComparable t d t = d" "mergeComparable t t s = s"
  by (simp_all add: mergeComparable_def)

lemma mergeComparable_None: "mergeComparable None = mergePointers"
  by (simp add: fun_eq_iff mergeComparable_def mergePointers_def)

lemma deepMergeMaps_simps [simp]:
  "deepMergeMaps d None = d" "deepMergeMaps None s = s"
  by (auto simp: deepMergeMaps_def split: option.splits)

lemma deepMergeSlices_simps [simp]:
  "deepMergeSlices d None = d" "deepMergeSlices None s = s"
  by (auto simp: deepMergeSlices_def split: option.splits)

lemma mergeCustomSidecars_simps [simp]:
  "mergeCustomSidecars d None = d"
  by (simp add: mergeCustomSidecars_def)

lemma deepMergeMaps_wf: "map_wf d \<Longrightarrow> map_wf s \<Longrightarrow> map_wf (deepMergeMaps d s)"
  by (auto simp: deepMergeMaps_def split: option.splits)

lemma deepMergeMaps_get:
  assumes "map_wf s" and "s \<noteq> Some []"
  shows "map_get (deepMergeMaps d s) = map_get d ++ map_get s"
  using assms
  by (cases s; cases d)
     (auto simp: deepMergeMaps_def map_get_def fun_eq_iff map_of_range_assign map_add_def split: option.splits)

lemma deepMergeMaps_clear: "deepMergeMaps d (Some []) = Some []"
  by (cases d) (simp_all add: deepMergeMaps_def)

lemma deepMergeSlices_elems:
  assumes "s \<noteq> Some []"
  shows "slice_elems (deepMergeSlices d s) = slice_elems d @ slice_elems s"
  using assms by (cases s; cases d) (auto simp: deepMergeSlices_def)

section \<open>The contract of a pointer merge\<close>

text \<open>
  What every \<open>deepMerge\<close> function on pointers promises its callers: nil on either side is
  neutral, and two non-nil values give a non-nil one.
\<close>

locale nil_merge =
  fixes merge :: "'a option \<Rightarrow> 'a option \<Rightarrow> 'a option"
  assumes nil_src: "merge d None = d"
    and nil_dst: "merge None s = s"
    and nonnil: "merge (Some x) (Some y) \<noteq> None"
begin

lemma eq_nil_iff: "merge d s = None \<longleftrightarrow> d = None \<and> s = None"
  by (cases d; cases s) (auto simp: nil_src nil_dst nonnil)

lemma nonnil_iff: "(\<exists>v. merge d s = Some v) \<longleftrightarrow> d \<noteq> None \<or> s \<noteq> None"
  using eq_nil_iff [of d s] by auto

end

interpretation pointers: nil_merge mergePointers
  by unfold_locales simp_all

interpretation guarded: nil_merge "nil_guarded body"
  by unfold_locales simp_all

end
