(* ===== verification/Merge_Leaves.thy ===== *)
theory Merge_Leaves
  imports Merge
begin

text \<open>
  The abstract contract of the GatewayParameters merge. A configuration is viewed as the list
  of its leaves: every field that is not itself a struct, under its path of Go field names. A
  leaf carries the policy by which an override changes it, and the merge of two
  configurations is, leaf by leaf, the policy applied to the two leaves at that path
  (\<open>merge_leaf\<close>): no leaf is dropped, and none depends on another one but for
  \<open>GMSACredentialSpecName\<close>, whose leaf has a policy of its own, \<open>Shadowed\<close>, that says what the code
  does with it.

  The locale \<open>leaf_merge\<close> states that contract for one struct; it is interpreted for every
  \<open>deepMerge\<close> function, each proof resting on the contracts of the structs nested in it.
\<close>

section \<open>Leaves and policies\<close>

datatype "value" =
    VStr string
  | VBool bool
  | VInt32 int32
  | VInt64 int64
  | VPort IntOrString
  | VLabel "CustomLabel option"
  | VOpaque opaque

fun zero_value :: "value \<Rightarrow> value" where
  "zero_value (VStr _) = VStr ''''"
| "zero_value (VBool _) = VBool False"
| "zero_value (VInt32 _) = VInt32 0"
| "zero_value (VInt64 _) = VInt64 0"
| "zero_value (VPort _) = VPort IntOrString_zero"
| "zero_value (VLabel _) = VLabel None"
| "zero_value (VOpaque _) = VOpaque (Opaque '''')"

text \<open>
  \<open>Override\<close>: a set override wins. \<open>Keep\<close>: a set default wins. \<open>Nonzero\<close>: an override
  other than the zero value wins. \<open>Entries\<close>: maps are united, the override's entries
  winning, an empty non-nil override clears. \<open>Appended\<close>: the override is appended, an
  empty non-nil override clears. \<open>Replaced\<close>: a non-nil override replaces the slice.
  \<open>ReplacedNonempty\<close>: a non-empty one does. \<open>Shadowed\<close>, for an optional field of an optional
  struct beside another field of the same type: where both structs are present the field is
  overwritten by the merged value of the other field, so the leaf holds both; where one is
  absent the other one's leaf is taken.
\<close>

datatype leaf =
    Override "value option"
  | Keep "value option"
  | Nonzero "value"
  | Entries "(string \<times> value) list option"
  | Appended "value list option"
  | Replaced "value list option"
  | ReplacedNonempty "value list"
  | Shadowed "(value option \<times> value option) option"

definition first_set :: "'a option \<Rightarrow> 'a option \<Rightarrow> 'a option" where
  "first_set a b = (case a of None \<Rightarrow> b | Some v \<Rightarrow> Some v)"

definition override_nonzero :: "value \<Rightarrow> value \<Rightarrow> value" where
  "override_nonzero d s = (if zero_value s = s then d else s)"

definition union_entries ::
  "(string \<times> value) list option \<Rightarrow> (string \<times> value) list option \<Rightarrow> (string \<times> value) list option" where
  "union_entries d s = (case s of None \<Rightarrow> d | Some [] \<Rightarrow> Some []
     | Some (e # es) \<Rightarrow> (case d of None \<Rightarrow> s | Some ds \<Rightarrow> Some (range_assign (e # es) ds)))"

definition append_slice :: "value list option \<Rightarrow> value list option \<Rightarrow> value list option" where
  "append_slice d s = (case s of None \<Rightarrow> d | Some [] \<Rightarrow> Some []
     | Some (e # es) \<Rightarrow> (case d of None \<Rightarrow> s | Some ds \<Rightarrow> Some (ds @ e # es)))"

definition shadow ::
  "(value option \<times> value option) option \<Rightarrow> (value option \<times> value option) option \<Rightarrow> (value option \<times> value option) option" where
  "shadow d s = (case (d, s) of
     (Some (_, other), Some (_, other')) \<Rightarrow> Some (first_set other' other, first_set other' other)
   | (_, None) \<Rightarrow> d
   | (None, _) \<Rightarrow> s)"

definition replace_nonempty :: "value list \<Rightarrow> value list \<Rightarrow> value list" where
  "replace_nonempty d s = (if s = [] then d else s)"

fun merge_leaf :: "leaf \<Rightarrow> leaf \<Rightarrow> leaf" where
  "merge_leaf (Override d) (Override s) = Override (first_set s d)"
| "merge_leaf (Keep d) (Keep s) = Keep (first_set d s)"
| "merge_leaf (Nonzero d) (Nonzero s) = Nonzero (override_nonzero d s)"
| "merge_leaf (Entries d) (Entries s) = Entries (union_entries d s)"
| "merge_leaf (Appended d) (Appended s) = Appended (append_slice d s)"
| "merge_leaf (Replaced d) (Replaced s) = Replaced (first_set s d)"
| "merge_leaf (ReplacedNonempty d) (ReplacedNonempty s) = ReplacedNonempty (replace_nonempty d s)"
| "merge_leaf (Shadowed d) (Shadowed s) = Shadowed (shadow d s)"
| "merge_leaf d _ = d"

text \<open>The leaf of the same policy in a struct that is absent.\<close>

fun zero_leaf :: "leaf \<Rightarrow> leaf" where
  "zero_leaf (Override _) = Override None"
| "zero_leaf (Keep _) = Keep None"
| "zero_leaf (Nonzero v) = Nonzero (zero_value v)"
| "zero_leaf (Entries _) = Entries None"
| "zero_leaf (Appended _) = Appended None"
| "zero_leaf (Replaced _) = Replaced None"
| "zero_leaf (ReplacedNonempty _) = ReplacedNonempty []"
| "zero_leaf (Shadowed _) = Shadowed None"

lemma zero_value_idem [simp]: "zero_value (zero_value v) = zero_value v"
  by (cases v) simp_all

lemma policy_nil [simp]:
  "first_set None b = b" "first_set a None = a" "first_set (Some v) b = Some v"
  "union_entries None es = es" "union_entries es None = es"
  "append_slice None xs = xs" "append_slice xs None = xs"
  "replace_nonempty ys [] = ys" "replace_nonempty [] ys = ys"
  by (auto simp: first_set_def union_entries_def append_slice_def replace_nonempty_def
      split: option.splits list.splits)

lemma shadow_simps [simp]:
  "shadow d None = d" "shadow None s = s"
  "shadow (Some (a, b)) (Some (a', b')) = Some (first_set b' b, first_set b' b)"
  by (cases d; cases s; simp add: shadow_def split_beta)+

lemma override_nonzero_zero [simp]:
  "override_nonzero v (zero_value v) = v" "override_nonzero (zero_value v) v = v"
  by (simp_all add: override_nonzero_def)

lemma merge_leaf_zero [simp]:
  "merge_leaf l (zero_leaf l) = l" "merge_leaf (zero_leaf l) l = l"
  by (cases l; simp)+

lemma zero_leaf_idem: "zero_leaf (zero_leaf l) = zero_leaf l"
  by (cases l) simp_all

type_synonym view = "(string list \<times> leaf) list"

definition under :: "string \<Rightarrow> view \<Rightarrow> view" where
  "under n ls = map (apfst ((#) n)) ls"

definition zero_view :: "view \<Rightarrow> view" where
  "zero_view ls = map (apsnd zero_leaf) ls"

definition merge_view :: "view \<Rightarrow> view \<Rightarrow> view" where
  "merge_view d s = map2 (\<lambda>(p, l) (_, l'). (p, merge_leaf l l')) d s"

definition leaf_at :: "view \<Rightarrow> string list \<Rightarrow> leaf option" where
  "leaf_at ls p = map_of ls p"

lemma view_laws [leaf_laws]:
  "zero_view [] = []" "zero_view ((p, l) # ls) = (p, zero_leaf l) # zero_view ls"
  "zero_view (xs @ ys) = zero_view xs @ zero_view ys"
  "zero_view (under n xs) = under n (zero_view xs)"
  "merge_view [] [] = []"
  "merge_view ((p, l) # ls) ((p', l') # ls') = (p, merge_leaf l l') # merge_view ls ls'"
  "merge_view (under n xs) (under n ys) = under n (merge_view xs ys)"
  "length (under n xs) = length xs"
  by (simp_all add: zero_view_def merge_view_def under_def zip_map1 zip_map2 split_def o_def)

lemma merge_view_append [leaf_laws]:
  "length xs = length us \<Longrightarrow> merge_view (xs @ ys) (us @ vs) = merge_view xs us @ merge_view ys vs"
  by (simp add: merge_view_def)

lemma merge_view_zero:
  "zero_view ls = z \<Longrightarrow> merge_view ls z = ls" "zero_view ls = z \<Longrightarrow> merge_view z ls = ls"
  by (induction ls arbitrary: z; auto simp: zero_view_def merge_view_def)+

lemma path_laws [leaf_laws]:
  "distinct (map fst (under n xs)) \<longleftrightarrow> distinct (map fst xs)"
  "n \<noteq> m \<Longrightarrow> fst ` set (under n xs) \<inter> fst ` set (under m ys) = {}"
  "n \<noteq> m \<Longrightarrow> [n] \<notin> fst ` set (under m ys)"
  "fst ` (A \<union> B) = fst ` A \<union> fst ` B"
  "(A' \<union> B') \<inter> C' = {} \<longleftrightarrow> A' \<inter> C' = {} \<and> B' \<inter> C' = {}"
  "A' \<inter> (B' \<union> C') = {} \<longleftrightarrow> A' \<inter> B' = {} \<and> A' \<inter> C' = {}"
  by (auto simp: under_def distinct_map o_def inj_on_def image_iff)

text \<open>An optional field of an optional struct, \<open>z\<close> where the struct is absent.\<close>

definition field :: "'b \<Rightarrow> ('a \<Rightarrow> 'b) \<Rightarrow> 'a option \<Rightarrow> 'b" where
  "field z f m = (case m of None \<Rightarrow> z | Some v \<Rightarrow> f v)"

lemma field_simps' [simp]: "field z f None = z" "field z f (Some v) = f v"
  by (simp_all add: field_def)

section \<open>The generic merges follow their policies\<close>

lemma update_apsnd: "AList.update k (f v) (map (apsnd f) ds) = map (apsnd f) (AList.update k v ds)"
  by (induction ds) auto

lemma range_assign_apsnd:
  "range_assign (map (apsnd f) es) (map (apsnd f) ds) = map (apsnd f) (range_assign es ds)"
  by (induction es arbitrary: ds) (auto simp: update_apsnd)

lemma if_set_conv:
  "(if \<exists>y. s = Some y then s else d) = mergePointers d s"
  "(if d = None then s else d) = first_set d s"
  by (auto simp: mergePointers_def split: option.splits)

lemma policy_laws [leaf_laws]:
  "map_option g (mergePointers d s) = first_set (map_option g s) (map_option g d)"
  "map_option g (first_set d s) = first_set (map_option g d) (map_option g s)"
  "map_option (map (apsnd g')) (deepMergeMaps de se) =
     union_entries (map_option (map (apsnd g')) de) (map_option (map (apsnd g')) se)"
  "map_option (map h) (deepMergeSlices dl sl) = append_slice (map_option (map h) dl) (map_option (map h) sl)"
  "map_option (map h) (overrideSlices dl sl) = first_set (map_option (map h) sl) (map_option (map h) dl)"
  "map h' (slice_elems (mergeCustomSidecars dc sc)) =
     replace_nonempty (map h' (slice_elems dc)) (map h' (slice_elems sc))"
  by (auto simp: mergePointers_def first_set_def deepMergeMaps_def union_entries_def deepMergeSlices_def
        append_slice_def overrideSlices_def mergeCustomSidecars_def replace_nonempty_def slice_len_def
        range_assign_apsnd update_apsnd split: option.splits list.splits)

lemma nonzero_laws [leaf_laws]:
  "VStr (mergeComparable '''' a b) = override_nonzero (VStr a) (VStr b)"
  "VInt32 (mergeComparable 0 i j) = override_nonzero (VInt32 i) (VInt32 j)"
  "VPort (mergeIntOrString p q) = override_nonzero (VPort p) (VPort q)"
  by (auto simp: mergeComparable_def mergeIntOrString_def override_nonzero_def)

lemmas pointer_laws [leaf_laws] = mergeComparable_None if_set_conv

section \<open>The contract of one struct\<close>

locale leaf_merge = nil_merge merge
  for merge :: "'a option \<Rightarrow> 'a option \<Rightarrow> 'a option" +
  fixes leaves :: "'a option \<Rightarrow> view"
  assumes shape: "zero_view (leaves (Some x)) = leaves None"
    and leafwise: "leaves (merge (Some x) (Some y)) = merge_view (leaves (Some x)) (leaves (Some y))"
    and distinct_paths [leaf_laws]: "distinct (map fst (leaves None))"
begin

lemma zero_zero: "zero_view (leaves None) = leaves None"
proof -
  have "zero_view (zero_view ls) = zero_view ls" for ls
    by (induction ls) (auto simp: zero_view_def zero_leaf_idem)
  then show ?thesis using shape by metis
qed

lemma shape_all [leaf_laws]: "zero_view (leaves x) = leaves None"
  by (cases x) (simp_all add: zero_zero shape)

lemma length_leaves [leaf_laws]: "length (leaves x) = length (leaves y)"
proof -
  have "length (zero_view (leaves x)) = length (zero_view (leaves y))" by (simp only: shape_all)
  then show ?thesis by (simp add: zero_view_def)
qed

lemma paths_leaves: "map fst (leaves x) = map fst (leaves None)"
  using arg_cong [OF shape_all [of x], of "map fst"] by (simp add: zero_view_def)

lemma leafwise_all [leaf_laws]: "leaves (merge d s) = merge_view (leaves d) (leaves s)"
proof (cases d)
  case None
  then show ?thesis using merge_view_zero(2) [OF shape_all] by (simp add: nil_dst)
next
  case (Some x)
  then show ?thesis using merge_view_zero(1) [OF shape_all] by (cases s) (simp_all add: nil_src leafwise)
qed

end

section \<open>The contract, struct by struct\<close>

definition leaves_StatsConfig :: "StatsConfig option \<Rightarrow> view" where
  "leaves_StatsConfig m =
     [([''Enabled''], Override (map_option VBool (StatsConfig_GetEnabled m))),
      ([''RoutePrefixRewrite''], Override (map_option VStr (StatsConfig_GetRoutePrefixRewrite m))),
      ([''EnableStatsRoute''], Override (map_option VBool (StatsConfig_GetEnableStatsRoute m))),
      ([''StatsRoutePrefixRewrite''], Override (map_option VStr (StatsConfig_GetStatsRoutePrefixRewrite m)))]"

interpretation L_StatsConfig: leaf_merge deepMergeStatsConfig leaves_StatsConfig
  by unfold_locales (simp_all add: deepMergeStatsConfig_def leaves_StatsConfig_def leaf_laws)

definition leaves_SeccompProfile :: "SeccompProfile option \<Rightarrow> view" where
  "leaves_SeccompProfile m =
     [([''Type''], Nonzero (VStr (field '''' SeccompProfile_Type m))),
      ([''LocalhostProfile''], Override (map_option VStr (field None SeccompProfile_LocalhostProfile m)))]"

interpretation L_SeccompProfile: leaf_merge deepMergeSeccompProfile leaves_SeccompProfile
  by unfold_locales (simp_all add: deepMergeSeccompProfile_def leaves_SeccompProfile_def leaf_laws)

definition leaves_SELinuxOptions :: "SELinuxOptions option \<Rightarrow> view" where
  "leaves_SELinuxOptions m =
     [([''User''], Nonzero (VStr (field '''' SELinuxOptions_User m))),
      ([''Role''], Nonzero (VStr (field '''' SELinuxOptions_Role m))),
      ([''Type''], Nonzero (VStr (field '''' SELinuxOptions_Type m))),
      ([''Level''], Nonzero (VStr (field '''' SELinuxOptions_Level m)))]"

interpretation L_SELinuxOptions: leaf_merge deepMergeSELinuxOptions leaves_SELinuxOptions
  by unfold_locales (simp_all add: deepMergeSELinuxOptions_def leaves_SELinuxOptions_def leaf_laws)

definition leaves_WindowsSecurityContextOptions :: "WindowsSecurityContextOptions option \<Rightarrow> view" where
  "leaves_WindowsSecurityContextOptions m =
     [([''GMSACredentialSpecName''], Shadowed (map_option (\<lambda>w.
          (map_option VStr (WindowsOptions_GMSACredentialSpecName w), map_option VStr (WindowsOptions_GMSACredentialSpec w))) m)),
      ([''GMSACredentialSpec''], Override (map_option VStr (field None WindowsOptions_GMSACredentialSpec m))),
      ([''RunAsUserName''], Override (map_option VStr (field None WindowsOptions_RunAsUserName m))),
      ([''HostProcess''], Override (map_option VBool (field None WindowsOptions_HostProcess m)))]"

interpretation L_WindowsSecurityContextOptions: leaf_merge deepMergeWindowsSecurityContextOptions leaves_WindowsSecurityContextOptions
  by unfold_locales (simp_all add: deepMergeWindowsSecurityContextOptions_def leaves_WindowsSecurityContextOptions_def leaf_laws)

definition leaves_PodSecurityContext :: "PodSecurityContext option \<Rightarrow> view" where
  "leaves_PodSecurityContext m =
     under ''SELinuxOptions'' (leaves_SELinuxOptions (field None PodSecurityContext_SELinuxOptions m)) @
     under ''WindowsOptions'' (leaves_WindowsSecurityContextOptions (field None PodSecurityContext_WindowsOptions m)) @
     [([''RunAsUser''], Override (map_option VInt64 (field None PodSecurityContext_RunAsUser m))),
      ([''RunAsGroup''], Override (map_option VInt64 (field None PodSecurityContext_RunAsGroup m))),
      ([''RunAsNonRoot''], Override (map_option VBool (field None PodSecurityContext_RunAsNonRoot m))),
      ([''SupplementalGroups''], Appended (map_option (map VInt64) (field None PodSecurityContext_SupplementalGroups m))),
      ([''FSGroup''], Override (map_option VInt64 (field None PodSecurityContext_FSGroup m))),
      ([''Sysctls''], Appended (map_option (map VOpaque) (field None PodSecurityContext_Sysctls m))),
      ([''FSGroupChangePolicy''], Override (map_option VStr (field None PodSecurityContext_FSGroupChangePolicy m)))] @
     under ''SeccompProfile'' (leaves_SeccompProfile (field None PodSecurityContext_SeccompProfile m)) @
     [([''rest''], Keep (map_option (VOpaque \<circ> PodSecurityContext_rest) m))]"

interpretation L_PodSecurityContext: leaf_merge deepMergePodSecurityContext leaves_PodSecurityContext
  by unfold_locales (simp_all add: deepMergePodSecurityContext_def leaves_PodSecurityContext_def leaf_laws)

definition leaves_HTTPGetAction :: "HTTPGetAction option \<Rightarrow> view" where
  "leaves_HTTPGetAction m =
     [([''Path''], Nonzero (VStr (field '''' HTTPGetAction_Path m))),
      ([''Port''], Nonzero (VPort (field IntOrString_zero HTTPGetAction_Port m))),
      ([''Host''], Nonzero (VStr (field '''' HTTPGetAction_Host m))),
      ([''Scheme''], Nonzero (VStr (field '''' HTTPGetAction_Scheme m))),
      ([''HTTPHeaders''], Appended (map_option (map VOpaque) (field None HTTPGetAction_HTTPHeaders m)))]"

interpretation L_HTTPGetAction: leaf_merge deepMergeHTTPGetAction leaves_HTTPGetAction
  by unfold_locales (simp_all add: deepMergeHTTPGetAction_def leaves_HTTPGetAction_def leaf_laws)

definition leaves_TCPSocketAction :: "TCPSocketAction option \<Rightarrow> view" where
  "leaves_TCPSocketAction m =
     [([''Port''], Nonzero (VPort (field IntOrString_zero TCPSocketAction_Port m))),
      ([''Host''], Nonzero (VStr (field '''' TCPSocketAction_Host m)))]"

interpretation L_TCPSocketAction: leaf_merge deepMergeTCPSocketAction leaves_TCPSocketAction
  by unfold_locales (simp_all add: deepMergeTCPSocketAction_def leaves_TCPSocketAction_def leaf_laws)

definition leaves_GRPCAction :: "GRPCAction option \<Rightarrow> view" where
  "leaves_GRPCAction m =
     [([''Port''], Nonzero (VInt32 (field 0 GRPCAction_Port m))),
      ([''Service''], Override (map_option VStr (field None GRPCAction_Service m)))]"

interpretation L_GRPCAction: leaf_merge deepMergeGRPCAction leaves_GRPCAction
  by unfold_locales (simp_all add: deepMergeGRPCAction_def leaves_GRPCAction_def leaf_laws)

definition leaves_ExecAction :: "ExecAction option \<Rightarrow> view" where
  "leaves_ExecAction m =
     [([''Command''], Replaced (map_option (map VStr) (field None ExecAction_Command m)))]"

interpretation L_ExecAction: leaf_merge deepMergeExecAction leaves_ExecAction
  by unfold_locales (simp_all add: deepMergeExecAction_def leaves_ExecAction_def leaf_laws)

definition leaves_ProbeHandler :: "ProbeHandler option \<Rightarrow> view" where
  "leaves_ProbeHandler m =
     under ''Exec'' (leaves_ExecAction (field None ProbeHandler_Exec m)) @
     under ''HTTPGet'' (leaves_HTTPGetAction (field None ProbeHandler_HTTPGet m)) @
     under ''TCPSocket'' (leaves_TCPSocketAction (field None ProbeHandler_TCPSocket m)) @
     under ''GRPC'' (leaves_GRPCAction (field None ProbeHandler_GRPC m))"

interpretation L_ProbeHandler: leaf_merge "nil_guarded deepMergeProbeHandler" leaves_ProbeHandler
  by unfold_locales (simp_all add: deepMergeProbeHandler_def leaves_ProbeHandler_def leaf_laws)

definition leaves_Probe :: "Probe option \<Rightarrow> view" where
  "leaves_Probe m =
     (leaves_ProbeHandler (map_option Probe_ProbeHandler m)) @
     [([''InitialDelaySeconds''], Nonzero (VInt32 (field 0 Probe_InitialDelaySeconds m))),
      ([''TimeoutSeconds''], Nonzero (VInt32 (field 0 Probe_TimeoutSeconds m))),
      ([''PeriodSeconds''], Nonzero (VInt32 (field 0 Probe_PeriodSeconds m))),
      ([''SuccessThreshold''], Nonzero (VInt32 (field 0 Probe_SuccessThreshold m))),
      ([''FailureThreshold''], Nonzero (VInt32 (field 0 Probe_FailureThreshold m))),
      ([''TerminationGracePeriodSeconds''], Override (map_option VInt64 (field None Probe_TerminationGracePeriodSeconds m)))]"

interpretation L_Probe: leaf_merge deepMergeProbe leaves_Probe
  by unfold_locales (simp_all add: deepMergeProbe_def leaves_Probe_def leaf_laws leaves_ProbeHandler_def deepMergeProbeHandler_def)

definition leaves_GracefulShutdownSpec :: "GracefulShutdownSpec option \<Rightarrow> view" where
  "leaves_GracefulShutdownSpec m =
     [([''Enabled''], Override (map_option VBool (field None GracefulShutdownSpec_Enabled m))),
      ([''SleepTimeSeconds''], Override (map_option VInt64 (field None GracefulShutdownSpec_SleepTimeSeconds m)))]"

interpretation L_GracefulShutdownSpec: leaf_merge deepMergeGracefulShutdown leaves_GracefulShutdownSpec
  by unfold_locales (simp_all add: deepMergeGracefulShutdown_def leaves_GracefulShutdownSpec_def leaf_laws)

definition leaves_PodAntiAffinity :: "PodAntiAffinity option \<Rightarrow> view" where
  "leaves_PodAntiAffinity m =
     [([''Required''], Appended (map_option (map VOpaque) (field None PodAntiAffinity_Required m))),
      ([''Preferred''], Appended (map_option (map VOpaque) (field None PodAntiAffinity_Preferred m)))]"

interpretation L_PodAntiAffinity: leaf_merge deepMergePodAntiAffinity leaves_PodAntiAffinity
  by unfold_locales (simp_all add: deepMergePodAntiAffinity_def leaves_PodAntiAffinity_def leaf_laws)

definition leaves_NodeSelector :: "NodeSelector option \<Rightarrow> view" where
  "leaves_NodeSelector m =
     [([''NodeSelectorTerms''], Appended (map_option (map VOpaque) (field None NodeSelector_NodeSelectorTerms m)))]"

interpretation L_NodeSelector: leaf_merge deepMergeNodeSelector leaves_NodeSelector
  by unfold_locales (simp_all add: deepMergeNodeSelector_def leaves_NodeSelector_def leaf_laws)

definition leaves_NodeAffinity :: "NodeAffinity option \<Rightarrow> view" where
  "leaves_NodeAffinity m =
     under ''Required'' (leaves_NodeSelector (field None NodeAffinity_Required m)) @
     [([''Preferred''], Appended (map_option (map VOpaque) (field None NodeAffinity_Preferred m)))]"

interpretation L_NodeAffinity: leaf_merge deepMergeNodeAffinity leaves_NodeAffinity
  by unfold_locales (simp_all add: deepMergeNodeAffinity_def leaves_NodeAffinity_def leaf_laws)

definition leaves_PodAffinity :: "PodAffinity option \<Rightarrow> view" where
  "leaves_PodAffinity m =
     [([''Required''], Appended (map_option (map VOpaque) (field None PodAffinity_Required m))),
      ([''Preferred''], Appended (map_option (map VOpaque) (field None PodAffinity_Preferred m)))]"

interpretation L_PodAffinity: leaf_merge deepMergePodAffinity leaves_PodAffinity
  by unfold_locales (simp_all add: deepMergePodAffinity_def leaves_PodAffinity_def leaf_laws)

definition leaves_Affinity :: "Affinity option \<Rightarrow> view" where
  "leaves_Affinity m =
     under ''NodeAffinity'' (leaves_NodeAffinity (field None Affinity_NodeAffinity m)) @
     under ''PodAffinity'' (leaves_PodAffinity (field None Affinity_PodAffinity m)) @
     under ''PodAntiAffinity'' (leaves_PodAntiAffinity (field None Affinity_PodAntiAffinity m))"

interpretation L_Affinity: leaf_merge deepMergeAffinity leaves_Affinity
  by unfold_locales (simp_all add: deepMergeAffinity_def leaves_Affinity_def leaf_laws)

definition leaves_Pod :: "Pod option \<Rightarrow> view" where
  "leaves_Pod m =
     [([''ExtraLabels''], Entries (map_option (map (apsnd VStr)) (Pod_GetExtraLabels m))),
      ([''ExtraAnnotations''], Entries (map_option (map (apsnd VStr)) (Pod_GetExtraAnnotations m)))] @
     under ''SecurityContext'' (leaves_PodSecurityContext (Pod_GetSecurityContext m)) @
     [([''ImagePullSecrets''], Appended (map_option (map VOpaque) (Pod_GetImagePullSecrets m))),
      ([''NodeSelector''], Entries (map_option (map (apsnd VStr)) (Pod_GetNodeSelector m)))] @
     under ''Affinity'' (leaves_Affinity (Pod_GetAffinity m)) @
     [([''Tolerations''], Appended (map_option (map VOpaque) (Pod_GetTolerations m)))] @
     under ''GracefulShutdown'' (leaves_GracefulShutdownSpec (Pod_GetGracefulShutdown m)) @
     [([''TerminationGracePeriodSeconds''], Override (map_option VInt64 (field None Pod_TerminationGracePeriodSeconds m)))] @
     under ''ReadinessProbe'' (leaves_Probe (Pod_GetReadinessProbe m)) @
     under ''LivenessProbe'' (leaves_Probe (Pod_GetLivenessProbe m))"

interpretation L_Pod: leaf_merge deepMergePodTemplate leaves_Pod
  by unfold_locales (simp_all add: deepMergePodTemplate_def leaves_Pod_def leaf_laws)

definition leaves_Service :: "Service option \<Rightarrow> view" where
  "leaves_Service m =
     [([''Type''], Override (map_option VStr (Service_GetType m))),
      ([''ClusterIP''], Override (map_option VStr (Service_GetClusterIP m))),
      ([''ExtraLabels''], Entries (map_option (map (apsnd VStr)) (Service_GetExtraLabels m))),
      ([''ExtraAnnotations''], Entries (map_option (map (apsnd VStr)) (Service_GetExtraAnnotations m)))]"

interpretation L_Service: leaf_merge deepMergeService leaves_Service
  by unfold_locales (simp_all add: deepMergeService_def leaves_Service_def leaf_laws cong: if_cong)

definition leaves_ServiceAccount :: "ServiceAccount option \<Rightarrow> view" where
  "leaves_ServiceAccount m =
     [([''ExtraLabels''], Entries (map_option (map (apsnd VStr)) (ServiceAccount_GetExtraLabels m))),
      ([''ExtraAnnotations''], Entries (map_option (map (apsnd VStr)) (ServiceAccount_GetExtraAnnotations m)))]"

interpretation L_ServiceAccount: leaf_merge deepMergeServiceAccount leaves_ServiceAccount
  by unfold_locales (simp_all add: deepMergeServiceAccount_def leaves_ServiceAccount_def leaf_laws)

definition leaves_Image :: "Image option \<Rightarrow> view" where
  "leaves_Image m =
     [([''Registry''], Override (map_option VStr (Image_GetRegistry m))),
      ([''Repository''], Override (map_option VStr (Image_GetRepository m))),
      ([''Tag''], Override (map_option VStr (Image_GetTag m))),
      ([''Digest''], Override (map_option VStr (Image_GetDigest m))),
      ([''PullPolicy''], Override (map_option VStr (Image_GetPullPolicy m)))]"

interpretation L_Image: leaf_merge deepMergeImage leaves_Image
  by unfold_locales (simp_all add: deepMergeImage_def leaves_Image_def leaf_laws cong: if_cong)

definition leaves_Capabilities :: "Capabilities option \<Rightarrow> view" where
  "leaves_Capabilities m =
     [([''Add''], Appended (map_option (map VStr) (field None Capabilities_Add m))),
      ([''Drop''], Appended (map_option (map VStr) (field None Capabilities_Drop m)))]"

interpretation L_Capabilities: leaf_merge deepMergeCapabilities leaves_Capabilities
  by unfold_locales (simp_all add: deepMergeCapabilities_def leaves_Capabilities_def leaf_laws)

definition leaves_SecurityContext :: "SecurityContext option \<Rightarrow> view" where
  "leaves_SecurityContext m =
     under ''Capabilities'' (leaves_Capabilities (field None SecurityContext_Capabilities m)) @
     under ''SELinuxOptions'' (leaves_SELinuxOptions (field None SecurityContext_SELinuxOptions m)) @
     under ''WindowsOptions'' (leaves_WindowsSecurityContextOptions (field None SecurityContext_WindowsOptions m)) @
     [([''RunAsUser''], Override (map_option VInt64 (field None SecurityContext_RunAsUser m))),
      ([''RunAsGroup''], Override (map_option VInt64 (field None SecurityContext_RunAsGroup m))),
      ([''RunAsNonRoot''], Override (map_option VBool (field None SecurityContext_RunAsNonRoot m))),
      ([''Privileged''], Override (map_option VBool (field None SecurityContext_Privileged m))),
      ([''ReadOnlyRootFilesystem''], Override (map_option VBool (field None SecurityContext_ReadOnlyRootFilesystem m))),
      ([''AllowPrivilegeEscalation''], Override (map_option VBool (field None SecurityContext_AllowPrivilegeEscalation m))),
      ([''ProcMount''], Override (map_option VStr (field None SecurityContext_ProcMount m)))] @
     under ''SeccompProfile'' (leaves_SeccompProfile (field None SecurityContext_SeccompProfile m)) @
     [([''rest''], Keep (map_option (VOpaque \<circ> SecurityContext_rest) m))]"

interpretation L_SecurityContext: leaf_merge deepMergeSecurityContext leaves_SecurityContext
  by unfold_locales (simp_all add: deepMergeSecurityContext_def leaves_SecurityContext_def leaf_laws)

definition leaves_ResourceRequirements :: "ResourceRequirements option \<Rightarrow> view" where
  "leaves_ResourceRequirements m =
     [([''Limits''], Entries (map_option (map (apsnd VOpaque)) (field None ResourceRequirements_Limits m))),
      ([''Requests''], Entries (map_option (map (apsnd VOpaque)) (field None ResourceRequirements_Requests m))),
      ([''rest''], Keep (map_option (VOpaque \<circ> ResourceRequirements_rest) m))]"

interpretation L_ResourceRequirements: leaf_merge deepMergeResourceRequirements leaves_ResourceRequirements
  by unfold_locales (simp_all add: deepMergeResourceRequirements_def leaves_ResourceRequirements_def leaf_laws)

definition leaves_SdsBootstrap :: "SdsBootstrap option \<Rightarrow> view" where
  "leaves_SdsBootstrap m =
     [([''LogLevel''], Override (map_option VStr (SdsBootstrap_GetLogLevel m)))]"

interpretation L_SdsBootstrap: leaf_merge deepMergeSdsBootstrap leaves_SdsBootstrap
  by unfold_locales (simp_all add: deepMergeSdsBootstrap_def leaves_SdsBootstrap_def leaf_laws cong: if_cong)

definition leaves_SdsContainer :: "SdsContainer option \<Rightarrow> view" where
  "leaves_SdsContainer m =
     under ''Image'' (leaves_Image (SdsContainer_GetImage m)) @
     under ''SecurityContext'' (leaves_SecurityContext (SdsContainer_GetSecurityContext m)) @
     under ''Resources'' (leaves_ResourceRequirements (SdsContainer_GetResources m)) @
     under ''Bootstrap'' (leaves_SdsBootstrap (SdsContainer_GetBootstrap m))"

interpretation L_SdsContainer: leaf_merge deepMergeSdsContainer leaves_SdsContainer
  by unfold_locales (simp_all add: deepMergeSdsContainer_def leaves_SdsContainer_def leaf_laws)

definition leaves_IstioContainer :: "IstioContainer option \<Rightarrow> view" where
  "leaves_IstioContainer m =
     under ''Image'' (leaves_Image (IstioContainer_GetImage m)) @
     under ''SecurityContext'' (leaves_SecurityContext (IstioContainer_GetSecurityContext m)) @
     under ''Resources'' (leaves_ResourceRequirements (IstioContainer_GetResources m)) @
     [([''LogLevel''], Override (map_option VStr (IstioContainer_GetLogLevel m))),
      ([''IstioDiscoveryAddress''], Keep (map_option VStr (IstioContainer_GetIstioDiscoveryAddress m))),
      ([''IstioMetaMeshId''], Keep (map_option VStr (IstioContainer_GetIstioMetaMeshId m))),
      ([''IstioMetaClusterId''], Keep (map_option VStr (IstioContainer_GetIstioMetaClusterId m)))]"

interpretation L_IstioContainer: leaf_merge deepMergeIstioContainer leaves_IstioContainer
  by unfold_locales (simp_all add: deepMergeIstioContainer_def leaves_IstioContainer_def leaf_laws cong: if_cong)

definition leaves_IstioIntegration :: "IstioIntegration option \<Rightarrow> view" where
  "leaves_IstioIntegration m =
     under ''IstioProxyContainer'' (leaves_IstioContainer (IstioIntegration_GetIstioProxyContainer m)) @
     [([''CustomSidecars''], ReplacedNonempty (map VOpaque (slice_elems (IstioIntegration_GetCustomSidecars m))))]"

interpretation L_IstioIntegration: leaf_merge deepMergeIstioIntegration leaves_IstioIntegration
  by unfold_locales (simp_all add: deepMergeIstioIntegration_def leaves_IstioIntegration_def leaf_laws)

definition leaves_EnvoyBootstrap :: "EnvoyBootstrap option \<Rightarrow> view" where
  "leaves_EnvoyBootstrap m =
     [([''LogLevel''], Override (map_option VStr (EnvoyBootstrap_GetLogLevel m))),
      ([''ComponentLogLevels''], Entries (map_option (map (apsnd VStr)) (EnvoyBootstrap_GetComponentLogLevels m)))]"

interpretation L_EnvoyBootstrap: leaf_merge deepMergeEnvoyBootstrap leaves_EnvoyBootstrap
  by unfold_locales (simp_all add: deepMergeEnvoyBootstrap_def leaves_EnvoyBootstrap_def leaf_laws cong: if_cong)

definition leaves_EnvoyContainer :: "EnvoyContainer option \<Rightarrow> view" where
  "leaves_EnvoyContainer m =
     under ''Bootstrap'' (leaves_EnvoyBootstrap (EnvoyContainer_GetBootstrap m)) @
     under ''Image'' (leaves_Image (EnvoyContainer_GetImage m)) @
     under ''SecurityContext'' (leaves_SecurityContext (EnvoyContainer_GetSecurityContext m)) @
     under ''Resources'' (leaves_ResourceRequirements (EnvoyContainer_GetResources m))"

interpretation L_EnvoyContainer: leaf_merge deepMergeEnvoyContainer leaves_EnvoyContainer
  by unfold_locales (simp_all add: deepMergeEnvoyContainer_def leaves_EnvoyContainer_def leaf_laws)

definition leaves_ProxyDeployment :: "ProxyDeployment option \<Rightarrow> view" where
  "leaves_ProxyDeployment m =
     [([''Replicas''], Override (map_option VInt32 (ProxyDeployment_GetReplicas m)))]"

interpretation L_ProxyDeployment: leaf_merge deepMergeDeployment leaves_ProxyDeployment
  by unfold_locales (simp_all add: deepMergeDeployment_def leaves_ProxyDeployment_def leaf_laws)

definition leaves_AiExtensionStats :: "AiExtensionStats option \<Rightarrow> view" where
  "leaves_AiExtensionStats m =
     [([''CustomLabels''], Appended (map_option (map VLabel) (AiExtensionStats_GetCustomLabels m)))]"

interpretation L_AiExtensionStats: leaf_merge deepMergeAIExtensionStats leaves_AiExtensionStats
  by unfold_locales (simp_all add: deepMergeAIExtensionStats_def leaves_AiExtensionStats_def leaf_laws)

definition leaves_AiExtension :: "AiExtension option \<Rightarrow> view" where
  "leaves_AiExtension m =
     [([''Enabled''], Override (map_option VBool (AiExtension_GetEnabled m)))] @
     under ''Image'' (leaves_Image (AiExtension_GetImage m)) @
     under ''SecurityContext'' (leaves_SecurityContext (AiExtension_GetSecurityContext m)) @
     under ''Resources'' (leaves_ResourceRequirements (AiExtension_GetResources m)) @
     [([''Env''], Appended (map_option (map VOpaque) (AiExtension_GetEnv m))),
      ([''Ports''], Appended (map_option (map VOpaque) (AiExtension_GetPorts m)))] @
     under ''Stats'' (leaves_AiExtensionStats (AiExtension_GetStats m))"

interpretation L_AiExtension: leaf_merge deepMergeAIExtension leaves_AiExtension
  by unfold_locales (simp_all add: deepMergeAIExtension_def leaves_AiExtension_def leaf_laws)

definition leaves_KubernetesProxyConfig :: "KubernetesProxyConfig option \<Rightarrow> view" where
  "leaves_KubernetesProxyConfig m =
     under ''Deployment'' (leaves_ProxyDeployment (KubernetesProxyConfig_GetDeployment m)) @
     under ''EnvoyContainer'' (leaves_EnvoyContainer (KubernetesProxyConfig_GetEnvoyContainer m)) @
     under ''SdsContainer'' (leaves_SdsContainer (KubernetesProxyConfig_GetSdsContainer m)) @
     under ''PodTemplate'' (leaves_Pod (KubernetesProxyConfig_GetPodTemplate m)) @
     under ''Service'' (leaves_Service (KubernetesProxyConfig_GetService m)) @
     under ''ServiceAccount'' (leaves_ServiceAccount (KubernetesProxyConfig_GetServiceAccount m)) @
     under ''Istio'' (leaves_IstioIntegration (KubernetesProxyConfig_GetIstio m)) @
     under ''Stats'' (leaves_StatsConfig (KubernetesProxyConfig_GetStats m)) @
     under ''AiExtension'' (leaves_AiExtension (KubernetesProxyConfig_GetAiExtension m)) @
     [([''FloatingUserId''], Override (map_option VBool (KubernetesProxyConfig_GetFloatingUserId m)))]"

interpretation L_KubernetesProxyConfig: leaf_merge "nil_guarded mergeKube" leaves_KubernetesProxyConfig
  by unfold_locales (simp_all add: mergeKube_def leaves_KubernetesProxyConfig_def leaf_laws)

section \<open>The whole configuration\<close>

lemma leaf_at_merge_view:
  "map fst xs = map fst ys \<Longrightarrow> leaf_at (merge_view xs ys) p =
     (case leaf_at xs p of None \<Rightarrow> None
      | Some a \<Rightarrow> (case leaf_at ys p of None \<Rightarrow> None | Some b \<Rightarrow> Some (merge_leaf a b)))"
proof (induction xs arbitrary: ys)
  case Nil
  then show ?case by (simp add: leaf_at_def merge_view_def)
next
  case (Cons x xs)
  then obtain y ys' where "ys = y # ys'" by (cases ys) auto
  with Cons show ?case by (cases x; cases y) (auto simp: leaf_at_def merge_view_def split: option.splits)
qed

lemma kube_paths_eq:
  "map fst (leaves_KubernetesProxyConfig x) = map fst (leaves_KubernetesProxyConfig y)"
  using L_KubernetesProxyConfig.paths_leaves [of x] L_KubernetesProxyConfig.paths_leaves [of y] by simp

lemma kube_paths_distinct: "distinct (map fst (leaves_KubernetesProxyConfig x))"
  using L_KubernetesProxyConfig.distinct_paths by (simp only: L_KubernetesProxyConfig.paths_leaves [of x])

lemma mergeKube_view:
  "leaves_KubernetesProxyConfig (Some (mergeKube d s)) =
     merge_view (leaves_KubernetesProxyConfig (Some d)) (leaves_KubernetesProxyConfig (Some s))"
  using L_KubernetesProxyConfig.leafwise [of d s] by simp

text \<open>
  C1. The merge of two Kubernetes proxy configurations is the leaf-by-leaf application of the
  override policies: the paths of a configuration are distinct and the same for all
  configurations, and at every path of a field the merged configuration holds exactly the policy's
  combination of the default's and the override's leaf at that path. Every leaf follows the
  policy of its field alone, except \<open>GMSACredentialSpecName\<close>: where both Windows options are
  present it ends up with the merged value of \<open>GMSACredentialSpec\<close>.
\<close>

theorem mergeKube_leafwise:
  "distinct (map fst (leaves_KubernetesProxyConfig (Some d))) \<and>
   map fst (leaves_KubernetesProxyConfig (Some d)) = map fst (leaves_KubernetesProxyConfig (Some s)) \<and>
   leaf_at (leaves_KubernetesProxyConfig (Some (mergeKube d s))) p =
     (case leaf_at (leaves_KubernetesProxyConfig (Some d)) p of None \<Rightarrow> None
      | Some a \<Rightarrow> (case leaf_at (leaves_KubernetesProxyConfig (Some s)) p of None \<Rightarrow> None
         | Some b \<Rightarrow> Some (merge_leaf a b)))"
  using kube_paths_distinct kube_paths_eq leaf_at_merge_view [OF kube_paths_eq]
  by (simp add: mergeKube_view)

end
