(* ===== verification/Merge_Properties.thy ===== *)
theory Merge_Properties
  imports Merge_Leaves "HOL-Library.Multiset"
begin

text \<open>
  What \<open>deepMergeGatewayParameters\<close> and the generic merges guarantee beyond the leaf-by-leaf
  view: map unions do not depend on Go's iteration order, the exactly-one-of rule of the CRD
  survives a merge, a self-managed override switches provisioning off, and the exact behaviour
  in the corner cases where the code departs from that pattern.
\<close>

lemma map_of_mset:
  assumes "distinct (map fst es)" and "mset es' = mset es"
  shows "distinct (map fst es')" and "map_of es' = map_of es"
proof -
  have "mset (map fst es') = mset (map fst es)" using assms(2) by simp
  then show d: "distinct (map fst es')" using assms(1) mset_eq_imp_distinct_iff by blast
  show "map_of es' = map_of es"
    using map_of_inject_set [OF d assms(1)] mset_eq_setD [OF assms(2)] by simp
qed

text \<open>
  C26. \<open>deepMergeMaps\<close>, on every branch. A nil override leaves the default as it is and a nil
  default gives the override; an override that is empty but not nil replaces the default, so that
  the result has no entry. On a default and a non-empty override every key of the override gets
  the override's value, every other key keeps the default's, keys stay unique, and the result
  is the same map whatever order the range loop visits the override in.
\<close>

theorem deepMergeMaps_union:
  assumes "distinct (map fst ds)" and "distinct (map fst es)" and "es \<noteq> []"
    and "mset es' = mset es"
  shows "map_wf (deepMergeMaps (Some ds) (Some es)) \<and>
    map_get (deepMergeMaps (Some ds) (Some es)) k =
      (case map_of es k of None \<Rightarrow> map_of ds k | Some v \<Rightarrow> Some v) \<and>
    map_get (deepMergeMaps (Some ds) (Some es')) k = map_get (deepMergeMaps (Some ds) (Some es)) k \<and>
    deepMergeMaps m None = m \<and> deepMergeMaps None m = m \<and>
    deepMergeMaps (Some ds) (Some []) = Some [] \<and> map_get (deepMergeMaps (Some ds) (Some [])) k = None"
proof -
  note perm = map_of_mset [OF assms(2,4)]
  have ne: "es' \<noteq> []" using assms(3,4) by auto
  have *: "map_get (deepMergeMaps (Some ds) (Some xs)) = map_of ds ++ map_of xs"
    if "distinct (map fst xs)" "xs \<noteq> []" for xs
    using deepMergeMaps_get [of "Some xs" "Some ds"] that by simp
  show ?thesis
    using deepMergeMaps_wf [of "Some ds" "Some es"] assms perm ne
    by (simp add: * map_add_def deepMergeMaps_clear)
qed

theorem deepMergeMaps_union_witness:
  "map_get (deepMergeMaps (Some [(''a'', 1), (''b'', 2 :: nat)]) (Some [(''b'', 3), (''c'', 4)])) ''b'' = Some 3 \<and>
   map_get (deepMergeMaps (Some [(''a'', 1), (''b'', 2 :: nat)]) (Some [(''c'', 4), (''b'', 3)])) ''a'' = Some 1"
  using deepMergeMaps_union [of "[(''a'', 1), (''b'', 2 :: nat)]" "[(''b'', 3), (''c'', 4)]"
      "[(''c'', 4), (''b'', 3)]" "''b''"]
    deepMergeMaps_union [of "[(''a'', 1), (''b'', 2 :: nat)]" "[(''b'', 3), (''c'', 4)]"
      "[(''c'', 4), (''b'', 3)]" "''a''"]
  by simp

text \<open>
  An empty but non-nil override clears the default: the merged map has no entries and the
  merged slice no elements, whatever the default was.
\<close>

theorem deepMerge_empty_clears:
  "map_len (deepMergeMaps (d :: ('k, 'v) gomap) (Some [])) = 0 \<and>
   slice_len (deepMergeSlices (l :: 'a slice) (Some [])) = 0"
  by (cases l) (simp_all add: deepMergeMaps_clear deepMergeSlices_def)

section \<open>Whole objects\<close>

abbreviation spec_of :: "GatewayParameters \<Rightarrow> GatewayParametersSpec" where
  "spec_of \<equiv> GatewayParameters_Spec"

lemma merge_selfManaged:
  assumes "GatewayParametersSpec_SelfManaged (spec_of s) = Some sm"
  shows "deepMergeGatewayParameters (Some d) (Some s) =
    (let d' = d\<lparr>GatewayParameters_Spec := (spec_of d)\<lparr>
         GatewayParametersSpec_SelfManaged := Some sm, GatewayParametersSpec_Kube := None\<rparr>\<rparr>
     in Ret (Some d', Some d'))"
  using assms by (simp add: deepMergeGatewayParameters_def)

lemma merge_kube:
  assumes "GatewayParametersSpec_SelfManaged (spec_of s) = None"
    and "GatewayParametersSpec_Kube (spec_of s) = Some sk"
    and "GatewayParametersSpec_Kube (spec_of d) = Some dk"
  shows "deepMergeGatewayParameters (Some d) (Some s) =
    (let d' = d\<lparr>GatewayParameters_Spec := (spec_of d)\<lparr>
         GatewayParametersSpec_Kube := Some (mergeKube dk sk)\<rparr>\<rparr>
     in Ret (Some d', Some d'))"
  using assms by (simp add: deepMergeGatewayParameters_def)

lemma merge_kube_missing:
  assumes "GatewayParametersSpec_SelfManaged (spec_of s) = None"
    and "GatewayParametersSpec_Kube (spec_of s) = Some sk"
    and "GatewayParametersSpec_Kube (spec_of d) = None"
  shows "deepMergeGatewayParameters (Some d) (Some s) = Ret (Some d, Some s)"
  using assms by (simp add: deepMergeGatewayParameters_def)

lemmas merge_object_cases = merge_selfManaged merge_kube merge_kube_missing

lemma merge_total: "\<exists>d' r. deepMergeGatewayParameters (Some d) (Some s) = Ret (Some d', Some r)"
  by (cases "GatewayParametersSpec_SelfManaged (spec_of s)"; cases "GatewayParametersSpec_Kube (spec_of s)";
      cases "GatewayParametersSpec_Kube (spec_of d)")
    (simp_all add: deepMergeGatewayParameters_def Let_def)

lemma merge_valid_result:
  assumes "GatewayParametersSpec_valid (spec_of d)" and "GatewayParametersSpec_valid (spec_of s)"
    and "deepMergeGatewayParameters (Some d) (Some s) = Ret (Some d', Some r)"
  shows "GatewayParametersSpec_valid (spec_of d') \<and> GatewayParametersSpec_valid (spec_of r)"
proof (cases "GatewayParametersSpec_SelfManaged (spec_of s)")
  case (Some sm)
  then show ?thesis
    using assms(3) by (auto simp: merge_selfManaged Let_def GatewayParametersSpec_valid_def)
next
  case None
  with assms(2) obtain sk where sk: "GatewayParametersSpec_Kube (spec_of s) = Some sk"
    by (auto simp: GatewayParametersSpec_valid_def)
  show ?thesis
    using assms None sk
    by (cases "GatewayParametersSpec_Kube (spec_of d)")
       (auto simp: merge_kube merge_kube_missing Let_def GatewayParametersSpec_valid_def)
qed

text \<open>
  C27. Merging a valid default with a valid override never panics, and both the object the
  default points to afterwards and the returned object satisfy the CRD's rule that exactly one
  of \<open>kube\<close> and \<open>selfManaged\<close> is set.
\<close>

theorem merge_preserves_valid:
  assumes "GatewayParametersSpec_valid (spec_of d)" and "GatewayParametersSpec_valid (spec_of s)"
  shows "\<exists>d' r. deepMergeGatewayParameters (Some d) (Some s) = Ret (Some d', Some r) \<and>
    GatewayParametersSpec_valid (spec_of d') \<and> GatewayParametersSpec_valid (spec_of r)"
  using merge_total [of d s] merge_valid_result [OF assms] by blast

definition kube_zero :: KubernetesProxyConfig where
  "kube_zero = \<lparr>KubernetesProxyConfig_Deployment = None, KubernetesProxyConfig_EnvoyContainer = None,
     KubernetesProxyConfig_SdsContainer = None, KubernetesProxyConfig_PodTemplate = None,
     KubernetesProxyConfig_Service = None, KubernetesProxyConfig_ServiceAccount = None,
     KubernetesProxyConfig_Istio = None, KubernetesProxyConfig_Stats = None,
     KubernetesProxyConfig_AiExtension = None, KubernetesProxyConfig_FloatingUserId = None\<rparr>"

definition params_of :: "KubernetesProxyConfig option \<Rightarrow> SelfManagedGateway option \<Rightarrow> GatewayParameters" where
  "params_of k sm = \<lparr>
     GatewayParameters_TypeMeta = \<lparr>TypeMeta_Kind = ''GatewayParameters'', TypeMeta_APIVersion = ''fgateway.fleezesd.io/v1alpha1''\<rparr>,
     GatewayParameters_ObjectMeta = \<lparr>ObjectMeta_Name = ''gwp'', ObjectMeta_Namespace = ''default'', ObjectMeta_UID = ''1'',
       ObjectMeta_DeletionTimestamp = None, ObjectMeta_Labels = None, ObjectMeta_Annotations = None,
       ObjectMeta_OwnerReferences = None\<rparr>,
     GatewayParameters_Spec = \<lparr>GatewayParametersSpec_Kube = k, GatewayParametersSpec_SelfManaged = sm\<rparr>,
     GatewayParameters_Status = GatewayParametersStatus\<rparr>"

lemma params_of_spec [simp]:
  "GatewayParametersSpec_Kube (spec_of (params_of k sm)) = k"
  "GatewayParametersSpec_SelfManaged (spec_of (params_of k sm)) = sm"
  "GatewayParametersSpec_valid (spec_of (params_of k sm)) \<longleftrightarrow> (k = None) \<noteq> (sm = None)"
  by (auto simp: params_of_def GatewayParametersSpec_valid_def)

theorem merge_preserves_valid_witness:
  "\<exists>d' r. deepMergeGatewayParameters (Some (params_of (Some kube_zero) None))
      (Some (params_of None (Some SelfManagedGateway))) = Ret (Some d', Some r) \<and>
    GatewayParametersSpec_valid (spec_of d') \<and> GatewayParametersSpec_valid (spec_of r)"
  by (rule merge_preserves_valid) simp_all

text \<open>
  A self-managed override wins over any default: the default object keeps its metadata, is
  marked self-managed and loses its Kubernetes configuration, and no field of the override's or
  the default's Kubernetes configuration is merged.
\<close>

theorem merge_selfManaged_override:
  assumes "GatewayParametersSpec_SelfManaged (spec_of s) = Some sm"
  shows "\<exists>d'. deepMergeGatewayParameters (Some d) (Some s) = Ret (Some d', Some d') \<and>
    GatewayParametersSpec_SelfManaged (spec_of d') = Some sm \<and>
    GatewayParametersSpec_Kube (spec_of d') = None \<and>
    GatewayParameters_ObjectMeta d' = GatewayParameters_ObjectMeta d"
  by (simp add: merge_selfManaged [OF assms] Let_def)

theorem merge_selfManaged_override_witness:
  "\<exists>d'. deepMergeGatewayParameters (Some (params_of (Some kube_zero) None))
      (Some (params_of (Some kube_zero) (Some SelfManagedGateway))) = Ret (Some d', Some d') \<and>
    GatewayParametersSpec_SelfManaged (spec_of d') = Some SelfManagedGateway \<and>
    GatewayParametersSpec_Kube (spec_of d') = None \<and>
    GatewayParameters_ObjectMeta d' = GatewayParameters_ObjectMeta (params_of (Some kube_zero) None)"
  by (rule merge_selfManaged_override) simp

text \<open>
  C28. The values a platform owner sets for Istio's discovery address, mesh id and cluster id
  in the defaults cannot be overridden per Gateway.
\<close>

theorem istio_defaults_protected:
  assumes "IstioIntegration_GetIstioProxyContainer (KubernetesProxyConfig_GetIstio (Some d)) = Some c"
  shows "\<exists>c'. IstioIntegration_GetIstioProxyContainer (KubernetesProxyConfig_GetIstio (Some (mergeKube d s))) = Some c' \<and>
    (IstioContainer_IstioDiscoveryAddress c = Some a \<longrightarrow> IstioContainer_IstioDiscoveryAddress c' = Some a) \<and>
    (IstioContainer_IstioMetaMeshId c = Some m \<longrightarrow> IstioContainer_IstioMetaMeshId c' = Some m) \<and>
    (IstioContainer_IstioMetaClusterId c = Some i \<longrightarrow> IstioContainer_IstioMetaClusterId c' = Some i)"
proof -
  obtain ii where ii: "KubernetesProxyConfig_Istio d = Some ii"
    and c: "IstioIntegration_IstioProxyContainer ii = Some c"
    using assms by (cases "KubernetesProxyConfig_Istio d") auto
  have *: "\<exists>c'. deepMergeIstioContainer (Some c) sc = Some c' \<and>
    (IstioContainer_IstioDiscoveryAddress c = Some a \<longrightarrow> IstioContainer_IstioDiscoveryAddress c' = Some a) \<and>
    (IstioContainer_IstioMetaMeshId c = Some m \<longrightarrow> IstioContainer_IstioMetaMeshId c' = Some m) \<and>
    (IstioContainer_IstioMetaClusterId c = Some i \<longrightarrow> IstioContainer_IstioMetaClusterId c' = Some i)" for sc
    by (cases sc) (simp_all add: deepMergeIstioContainer_def)
  then show ?thesis
    using ii c by (cases "KubernetesProxyConfig_Istio s") (simp_all add: mergeKube_def deepMergeIstioIntegration_def)
qed

definition istio_example :: "string option \<Rightarrow> KubernetesProxyConfig" where
  "istio_example addr = kube_zero\<lparr>KubernetesProxyConfig_Istio := Some \<lparr>
     IstioIntegration_IstioProxyContainer = Some \<lparr>IstioContainer_Image = None, IstioContainer_SecurityContext = None,
       IstioContainer_Resources = None, IstioContainer_LogLevel = None, IstioContainer_IstioDiscoveryAddress = addr,
       IstioContainer_IstioMetaMeshId = addr, IstioContainer_IstioMetaClusterId = addr\<rparr>,
     IstioIntegration_CustomSidecars = None\<rparr>\<rparr>"

theorem istio_defaults_protected_witness:
  "\<exists>c'. IstioIntegration_GetIstioProxyContainer (KubernetesProxyConfig_GetIstio
      (Some (mergeKube (istio_example (Some ''istiod'')) (istio_example (Some ''other''))))) = Some c' \<and>
    IstioContainer_IstioDiscoveryAddress c' = Some ''istiod''"
  using istio_defaults_protected [where d = "istio_example (Some ''istiod'')" and s = "istio_example (Some ''other'')"
      and a = "''istiod''" and m = "''istiod''" and i = "''istiod''"]
  by (auto simp: istio_example_def)

section \<open>Where the code departs from its pattern\<close>

text \<open>
  \<open>GMSACredentialSpecName\<close> is the one field the merge does not take from the same field of
  its arguments: in the merge of two present Windows options it is the merged
  \<open>GMSACredentialSpec\<close>, so a spec name set by the default or the override is lost.
\<close>

theorem windows_specName_lost:
  "\<exists>w. deepMergeWindowsSecurityContextOptions (Some d) (Some s) = Some w \<and>
     WindowsOptions_GMSACredentialSpecName w = WindowsOptions_GMSACredentialSpec w \<and>
     (WindowsOptions_GMSACredentialSpec d = None \<and> WindowsOptions_GMSACredentialSpec s = None \<longrightarrow>
        WindowsOptions_GMSACredentialSpecName w = None)"
  by (simp add: deepMergeWindowsSecurityContextOptions_def)

theorem windows_specName_lost_witness:
  "\<exists>w. deepMergeWindowsSecurityContextOptions
        (Some \<lparr>WindowsOptions_GMSACredentialSpecName = Some ''a'', WindowsOptions_GMSACredentialSpec = None,
           WindowsOptions_RunAsUserName = None, WindowsOptions_HostProcess = None\<rparr>)
        (Some \<lparr>WindowsOptions_GMSACredentialSpecName = Some ''b'', WindowsOptions_GMSACredentialSpec = None,
           WindowsOptions_RunAsUserName = None, WindowsOptions_HostProcess = None\<rparr>) = Some w \<and>
     WindowsOptions_GMSACredentialSpecName w = None"
  using windows_specName_lost
    [of "\<lparr>WindowsOptions_GMSACredentialSpecName = Some ''a'', WindowsOptions_GMSACredentialSpec = None,
           WindowsOptions_RunAsUserName = None, WindowsOptions_HostProcess = None\<rparr>"
        "\<lparr>WindowsOptions_GMSACredentialSpecName = Some ''b'', WindowsOptions_GMSACredentialSpec = None,
           WindowsOptions_RunAsUserName = None, WindowsOptions_HostProcess = None\<rparr>"]
  by auto

end
