(* ===== verification/Go_Heap.thy ===== *)
theory Go_Heap
  imports Prelude
begin

text \<open>
  Memory, for the code whose purpose is to copy it. A heap is a list of objects and an address
  a position in it; an allocation appends an object. A value is a scalar (of whatever basic
  type), nil, a struct of named fields, or a reference: to a single value, to the array of a
  slice, or to the entries of a map. What a value stands for once its references are followed
  is a \<open>tree\<close>.
\<close>

section \<open>Heaps and contents\<close>

datatype hval =
    HScalar string
  | HNil
  | HPtr nat
  | HSlice nat
  | HMap nat
  | HStruct "(string \<times> hval) list"

datatype hobj = HCell hval | HArr "hval list" | HEntries "(string \<times> hval) list"

type_synonym heap = "hobj list"

datatype tree =
    TScalar string
  | TNil
  | TPtr tree
  | TSlice "tree list"
  | TMap "(string \<times> tree) list"
  | TStruct "(string \<times> tree) list"

text \<open>
  \<open>reads lo h v t\<close>: in heap \<open>h\<close> the value \<open>v\<close> has the content \<open>t\<close>, and every address followed to
  see this is at least \<open>lo\<close>.
\<close>

inductive reads :: "nat \<Rightarrow> heap \<Rightarrow> hval \<Rightarrow> tree \<Rightarrow> bool" for lo h where
  scalar: "reads lo h (HScalar s) (TScalar s)"
| nil: "reads lo h HNil TNil"
| ptr: "\<lbrakk>lo \<le> a; a < length h; h ! a = HCell v; reads lo h v t\<rbrakk> \<Longrightarrow> reads lo h (HPtr a) (TPtr t)"
| slice: "\<lbrakk>lo \<le> a; a < length h; h ! a = HArr vs; length vs = length ts;
    \<And>i. i < length ts \<Longrightarrow> reads lo h (vs ! i) (ts ! i)\<rbrakk> \<Longrightarrow> reads lo h (HSlice a) (TSlice ts)"
| map: "\<lbrakk>lo \<le> a; a < length h; h ! a = HEntries vs; map fst vs = map fst ts; distinct (map fst ts);
    \<And>k v t. map_of vs k = Some v \<Longrightarrow> map_of ts k = Some t \<Longrightarrow> reads lo h v t\<rbrakk> \<Longrightarrow> reads lo h (HMap a) (TMap ts)"
| struct: "\<lbrakk>map fst vs = map fst ts; distinct (map fst ts);
    \<And>k v t. map_of vs k = Some v \<Longrightarrow> map_of ts k = Some t \<Longrightarrow> reads lo h v t\<rbrakk> \<Longrightarrow> reads lo h (HStruct vs) (TStruct ts)"

inductive_cases reads_scalarE: "reads lo h v (TScalar s)"
inductive_cases reads_nilE: "reads lo h v TNil"
inductive_cases reads_ptrE: "reads lo h v (TPtr t)"
inductive_cases reads_sliceE: "reads lo h v (TSlice ts)"
inductive_cases reads_mapE: "reads lo h v (TMap ts)"
inductive_cases reads_structE: "reads lo h v (TStruct ts)"

lemma reads_mono:
  assumes "reads lo h v t" and "lo' \<le> lo"
    and "\<And>a. lo \<le> a \<Longrightarrow> a < length h \<Longrightarrow> a < length h' \<and> h' ! a = h ! a"
  shows "reads lo' h' v t"
  using assms(1)
proof (induction rule: reads.induct)
  case (ptr a v t)
  then show ?case using assms(2,3) by (auto intro!: reads.ptr)
next
  case (slice a vs ts)
  then show ?case using assms(2,3) by (auto intro!: reads.slice)
next
  case (map a vs ts)
  then show ?case using assms(2) assms(3) [of a] by (intro reads.map [where vs = vs]) auto
next
  case (struct vs ts)
  then show ?case by (intro reads.struct) auto
qed (auto intro: reads.intros)

lemma reads_append: "reads lo h v t \<Longrightarrow> reads lo (h @ e) v t"
  by (erule reads_mono) (auto simp: nth_append)

lemma reads_append_low: "reads lo h v t \<Longrightarrow> lo' \<le> lo \<Longrightarrow> reads lo' (h @ e) v t"
  by (erule reads_mono) (auto simp: nth_append)

text \<open>The part of the heap below \<open>lo\<close> does not matter.\<close>

lemma reads_swap_low:
  assumes "reads (length h) (h @ e) v t" and "length g = length h"
  shows "reads 0 (g @ e) v t"
  using assms(1) by (rule reads_mono) (auto simp: nth_append assms(2))

section \<open>The copying idioms of the generated code\<close>

text \<open>
  A copier is the effect of \<open>in.DeepCopyInto(out)\<close>: from the value \<open>*in\<close>, and the heap, to the
  value stored in \<open>*out\<close> and the heap with what was allocated on the way. \<open>out\<close> is always freshly
  allocated by the caller and read by nobody before the call returns, so when exactly the value
  is stored there cannot be observed.
\<close>

type_synonym copier = "hval \<Rightarrow> heap \<Rightarrow> hval \<times> heap"

text \<open>Go has no dangling references, so the last cases below do not arise.\<close>

definition deref :: "heap \<Rightarrow> nat \<Rightarrow> hval" where
  "deref h a = (if a < length h then case h ! a of HCell v \<Rightarrow> v | _ \<Rightarrow> HNil else HNil)"

definition array_at :: "heap \<Rightarrow> nat \<Rightarrow> hval list" where
  "array_at h a = (if a < length h then case h ! a of HArr vs \<Rightarrow> vs | _ \<Rightarrow> [] else [])"

definition entries_at :: "heap \<Rightarrow> nat \<Rightarrow> (string \<times> hval) list" where
  "entries_at h a = (if a < length h then case h ! a of HEntries es \<Rightarrow> es | _ \<Rightarrow> [] else [])"

text \<open>Plain assignment: \<open>**out = **in\<close>, and the elements \<open>copy(*out, *in)\<close> moves.\<close>

definition assign_copy :: copier where
  "assign_copy v h = (v, h)"

text \<open>\<open>if in.F != nil { *out = new(T); (*in).DeepCopyInto(*out) }\<close>; a nil field stays nil.\<close>

definition ptr_copy :: "copier \<Rightarrow> copier" where
  "ptr_copy c v h =
     (case v of
        HPtr a \<Rightarrow> (let out = length h; (w, h') = c (deref h a) (h @ [HCell HNil]) in (HPtr out, h'[out := HCell w]))
      | _ \<Rightarrow> (v, h))"

fun copy_list :: "copier \<Rightarrow> hval list \<Rightarrow> heap \<Rightarrow> hval list \<times> heap" where
  "copy_list c [] h = ([], h)"
| "copy_list c (v # vs) h = (let (w, h1) = c v h; (ws, h2) = copy_list c vs h1 in (w # ws, h2))"

text \<open>\<open>*out = make([]T, len(*in)); for i := range *in { (*in)[i].DeepCopyInto(&(*out)[i]) }\<close>.\<close>

definition slice_copy :: "copier \<Rightarrow> copier" where
  "slice_copy c v h =
     (case v of
        HSlice a \<Rightarrow>
          (let out = length h; vs = array_at h a;
               (ws, h') = copy_list c vs (h @ [HArr (replicate (length vs) HNil)])
           in (HSlice out, h'[out := HArr ws]))
      | _ \<Rightarrow> (v, h))"

text \<open>\<open>*out = make(map[string]string, len(*in)); for key, val := range *in { (*out)[key] = val }\<close>.\<close>

definition map_copy :: copier where
  "map_copy v h =
     (case v of
        HMap a \<Rightarrow> (HMap (length h), h @ [HEntries (range_assign (entries_at h a) [])])
      | _ \<Rightarrow> (v, h))"

definition get_field :: "string \<Rightarrow> hval \<Rightarrow> hval" where
  "get_field f v = (case v of HStruct fs \<Rightarrow> (case map_of fs f of Some x \<Rightarrow> x | None \<Rightarrow> HNil) | _ \<Rightarrow> HNil)"

definition set_field :: "string \<Rightarrow> hval \<Rightarrow> hval \<Rightarrow> hval" where
  "set_field f x v = (case v of HStruct fs \<Rightarrow> HStruct (AList.update f x fs) | _ \<Rightarrow> v)"

fun copy_fields :: "(string \<times> copier) list \<Rightarrow> hval \<Rightarrow> hval \<times> heap \<Rightarrow> hval \<times> heap" where
  "copy_fields [] i oh = oh"
| "copy_fields ((f, c) # fs) i (out, h) =
     (let (v, h') = c (get_field f i) h in copy_fields fs i (set_field f v out, h'))"

text \<open>\<open>*out = *in\<close>, then the fields listed, in order.\<close>

definition struct_copy :: "(string \<times> copier) list \<Rightarrow> copier" where
  "struct_copy fs v h = copy_fields fs v (v, h)"

section \<open>Types of contents\<close>

type_synonym ty = "tree \<Rightarrow> bool"

definition scalar_ty :: ty where
  "scalar_ty t = (case t of TScalar _ \<Rightarrow> True | _ \<Rightarrow> False)"

definition ptr_ty :: "ty \<Rightarrow> ty" where
  "ptr_ty P t = (case t of TNil \<Rightarrow> True | TPtr u \<Rightarrow> P u | _ \<Rightarrow> False)"

definition slice_ty :: "ty \<Rightarrow> ty" where
  "slice_ty P t = (case t of TNil \<Rightarrow> True | TSlice us \<Rightarrow> list_all P us | _ \<Rightarrow> False)"

definition string_map_ty :: ty where
  "string_map_ty t = (case t of TNil \<Rightarrow> True | TMap es \<Rightarrow> list_all (scalar_ty \<circ> snd) es | _ \<Rightarrow> False)"

definition struct_ty :: "(string \<times> ty) list \<Rightarrow> ty" where
  "struct_ty decl t =
     (case t of TStruct fs \<Rightarrow> list_all2 (\<lambda>(f, P) (g, u). f = g \<and> P u) decl fs | _ \<Rightarrow> False)"

text \<open>A type without references: a plain copy of a value of it shares nothing.\<close>

definition flat :: "ty \<Rightarrow> bool" where
  "flat P \<longleftrightarrow> (\<forall>lo h v t h' lo'. P t \<longrightarrow> reads lo h v t \<longrightarrow> reads lo' h' v t)"

lemma flatD: "flat P \<Longrightarrow> P t \<Longrightarrow> reads lo h v t \<Longrightarrow> reads lo' h' v t"
  unfolding flat_def by blast

lemma flat_scalar: "flat scalar_ty"
  by (auto simp: flat_def scalar_ty_def elim!: reads_scalarE intro: reads.intros split: tree.splits)

lemma struct_ty_fields:
  assumes "struct_ty decl (TStruct fs)"
  shows "map fst fs = map fst decl"
    and "distinct (map fst decl) \<Longrightarrow> map_of fs f = Some u \<Longrightarrow> \<exists>P. map_of decl f = Some P \<and> P u"
proof -
  have l: "list_all2 (\<lambda>(f, P) (g, u). f = g \<and> P u) decl fs" using assms by (simp add: struct_ty_def)
  then show "map fst fs = map fst decl"
    by (induction rule: list_all2_induct) auto
  from l show "map_of fs f = Some u \<Longrightarrow> \<exists>P. map_of decl f = Some P \<and> P u"
    by (induction rule: list_all2_induct) (auto split: if_splits)
qed

lemma flat_struct:
  assumes "\<forall>p \<in> set decl. flat (snd p)" and "distinct (map fst decl)"
  shows "flat (struct_ty decl)"
  unfolding flat_def
proof (intro allI impI)
  fix lo h v t h' lo' assume s: "struct_ty decl t" and r: "reads lo h v t"
  then obtain fs where t: "t = TStruct fs" by (auto simp: struct_ty_def split: tree.splits)
  from r obtain vs where vs: "v = HStruct vs" "map fst vs = map fst fs" "distinct (map fst fs)"
      "\<And>k x u. map_of vs k = Some x \<Longrightarrow> map_of fs k = Some u \<Longrightarrow> reads lo h x u"
    unfolding t by (auto elim: reads_structE)
  have "reads lo' h' x u" if m: "map_of vs k = Some x" "map_of fs k = Some u" for k x u
  proof -
    obtain P where P: "map_of decl k = Some P" "P u"
      using struct_ty_fields(2) [OF s [unfolded t] assms(2) m(2)] by blast
    then have "flat P" using assms(1) map_of_SomeD [OF P(1)] by fastforce
    then show ?thesis using P(2) vs(4) [OF m] by (rule flatD)
  qed
  then show "reads lo' h' v t" using vs unfolding t by (auto intro: reads.struct)
qed

section \<open>The contract of a deep copy\<close>

text \<open>
  A copier deep-copies values of type \<open>P\<close>: it only allocates, the copy has the content of the
  original, and everything the copy refers to was allocated by it.
\<close>

locale deep_copier =
  fixes P :: ty and c :: copier
  assumes copies: "P t \<Longrightarrow> reads 0 h v t \<Longrightarrow> \<exists>w e. c v h = (w, h @ e) \<and> reads (length h) (h @ e) w t"
begin

text \<open>Later changes to the memory of the original do not reach the copy, nor the other way round.\<close>

lemma independent:
  assumes "P t" and "reads 0 h v t"
  shows "\<exists>w e. c v h = (w, h @ e) \<and> (\<forall>g. length g = length h \<longrightarrow> reads 0 (g @ e) w t) \<and>
    (\<forall>e'. reads 0 (h @ e') v t)"
  using copies [OF assms] reads_append [OF assms(2)] reads_swap_low by blast

end

lemma deep_copier_assign: "flat P \<Longrightarrow> deep_copier P assign_copy"
  by unfold_locales (auto simp: assign_copy_def intro: flatD exI [of _ "[]"])

lemma deep_copier_ptr:
  assumes "deep_copier P c"
  shows "deep_copier (ptr_ty P) (ptr_copy c)"
proof
  fix t h v assume P: "ptr_ty P t" and r: "reads 0 h v t"
  show "\<exists>w e. ptr_copy c v h = (w, h @ e) \<and> reads (length h) (h @ e) w t"
  proof (cases "t = TNil")
    case True
    then show ?thesis using r by (auto simp: ptr_copy_def elim!: reads_nilE intro: reads.nil)
  next
    case False
    then obtain u where u: "t = TPtr u" "P u" using P by (auto simp: ptr_ty_def split: tree.splits)
    from r obtain a x where a: "v = HPtr a" "a < length h" "h ! a = HCell x" "reads 0 h x u"
      unfolding u by (auto elim: reads_ptrE)
    let ?h = "h @ [HCell HNil]"
    obtain w e where w: "c x ?h = (w, ?h @ e)" "reads (length ?h) (?h @ e) w u"
      using deep_copier.copies [OF assms u(2) reads_append [OF a(4)]] by blast
    have "ptr_copy c v h = (HPtr (length h), h @ HCell w # e)"
      using a w(1) by (simp add: ptr_copy_def deref_def)
    moreover have "reads (length h) (h @ HCell w # e) w u"
      using w(2) by (rule reads_mono) (auto simp: nth_append nth_Cons')
    ultimately show ?thesis unfolding u by (auto intro!: reads.ptr)
  qed
qed

lemma copy_list_deep:
  assumes "deep_copier P c" and "list_all P ts" and "length vs = length ts"
    and "\<And>i. i < length ts \<Longrightarrow> reads 0 h (vs ! i) (ts ! i)"
  shows "\<exists>ws e. copy_list c vs h = (ws, h @ e) \<and> length ws = length ts \<and>
    (\<forall>i < length ts. reads (length h) (h @ e) (ws ! i) (ts ! i))"
  using assms(2-)
proof (induction ts arbitrary: vs h)
  case Nil
  then show ?case by simp
next
  case (Cons t ts)
  then obtain v vs' where vs: "vs = v # vs'" by (cases vs) auto
  have "reads 0 h v t" using Cons.prems(3) [of 0] vs by simp
  then obtain w e where w: "c v h = (w, h @ e)" "reads (length h) (h @ e) w t"
    using deep_copier.copies [OF assms(1)] Cons.prems(1) by fastforce
  have "reads 0 (h @ e) (vs' ! i) (ts ! i)" if "i < length ts" for i
    using Cons.prems(3) [of "Suc i"] that vs by (auto intro: reads_append)
  then obtain ws e2 where ws: "copy_list c vs' (h @ e) = (ws, (h @ e) @ e2)" "length ws = length ts"
      "\<forall>i < length ts. reads (length (h @ e)) ((h @ e) @ e2) (ws ! i) (ts ! i)"
    using Cons.IH [of vs' "h @ e"] Cons.prems(1,2) vs by auto
  have "reads (length h) (h @ e @ e2) ((w # ws) ! i) ((t # ts) ! i)" if "i < length (t # ts)" for i
    using that reads_append [OF w(2), of e2] ws(3) reads_append_low [of "length (h @ e)" "(h @ e) @ e2" _ _ "length h" "[]"]
    by (cases i) auto
  then show ?case using vs w(1) ws(1,2) by (intro exI [of _ "w # ws"] exI [of _ "e @ e2"]) auto
qed

lemma deep_copier_slice:
  assumes "deep_copier P c"
  shows "deep_copier (slice_ty P) (slice_copy c)"
proof
  fix t h v assume P: "slice_ty P t" and r: "reads 0 h v t"
  show "\<exists>w e. slice_copy c v h = (w, h @ e) \<and> reads (length h) (h @ e) w t"
  proof (cases "t = TNil")
    case True
    then show ?thesis using r by (auto simp: slice_copy_def elim!: reads_nilE intro: reads.nil)
  next
    case False
    then obtain us where u: "t = TSlice us" "list_all P us" using P by (auto simp: slice_ty_def split: tree.splits)
    from r obtain a vs where a: "v = HSlice a" "a < length h" "h ! a = HArr vs" "length vs = length us"
        "\<And>i. i < length us \<Longrightarrow> reads 0 h (vs ! i) (us ! i)"
      unfolding u by (auto elim: reads_sliceE)
    let ?h = "h @ [HArr (replicate (length vs) HNil)]"
    obtain ws e where w: "copy_list c vs ?h = (ws, ?h @ e)" "length ws = length us"
        "\<forall>i < length us. reads (length ?h) (?h @ e) (ws ! i) (us ! i)"
      using copy_list_deep [OF assms u(2) a(4), of ?h] reads_append [OF a(5)] by blast
    have "slice_copy c v h = (HSlice (length h), h @ HArr ws # e)"
      using a w(1) by (simp add: slice_copy_def array_at_def)
    moreover have "reads (length h) (h @ HArr ws # e) (ws ! i) (us ! i)" if "i < length us" for i
      using w(3) [rule_format, OF that] by (rule reads_mono) (auto simp: nth_append nth_Cons')
    ultimately show ?thesis using w(2) unfolding u by (auto intro!: reads.slice)
  qed
qed

lemma deep_copier_map: "deep_copier string_map_ty map_copy"
proof
  fix t h v assume P: "string_map_ty t" and r: "reads 0 h v t"
  show "\<exists>w e. map_copy v h = (w, h @ e) \<and> reads (length h) (h @ e) w t"
  proof (cases "t = TNil")
    case True
    then show ?thesis using r by (auto simp: map_copy_def elim!: reads_nilE intro: reads.nil)
  next
    case False
    then obtain us where u: "t = TMap us" "list_all (scalar_ty \<circ> snd) us"
      using P by (auto simp: string_map_ty_def split: tree.splits)
    from r obtain a vs where a: "v = HMap a" "a < length h" "h ! a = HEntries vs" "map fst vs = map fst us"
        "distinct (map fst us)" "\<And>k x y. map_of vs k = Some x \<Longrightarrow> map_of us k = Some y \<Longrightarrow> reads 0 h x y"
      unfolding u by (auto elim: reads_mapE)
    let ?h = "h @ [HEntries vs]"
    have "map_copy v h = (HMap (length h), ?h)"
      using a range_assign_fresh [of "[]" vs] by (simp add: map_copy_def entries_at_def)
    moreover have "reads (length h) ?h x y" if m: "map_of vs k = Some x" "map_of us k = Some y" for k x y
    proof -
      have "scalar_ty y" using u(2) map_of_SomeD [OF m(2)] by (auto simp: list_all_iff)
      then show ?thesis using a(6) [OF m] by (rule flatD [OF flat_scalar])
    qed
    then have "reads (length h) ?h (HMap (length h)) t"
      unfolding u using a(4,5) by (intro reads.map [where vs = vs]) auto
    ultimately show ?thesis by blast
  qed
qed

text \<open>
  Copying the fields one by one. Field \<open>f\<close> of the copy is either still the original value or
  already a deep copy.
\<close>

lemma copy_fields_deep:
  assumes "distinct (map fst vs)" and "map fst ws = map fst vs" and "distinct (map fst cs)"
    and "\<And>f c. (f, c) \<in> set cs \<Longrightarrow> \<exists>x t. map_of vs f = Some x \<and> map_of ts f = Some t \<and> reads 0 h x t \<and>
           (\<exists>P. P t \<and> deep_copier P c)"
  shows "\<exists>ws' e. copy_fields cs (HStruct vs) (HStruct ws, h) = (HStruct ws', h @ e) \<and> map fst ws' = map fst vs \<and>
    (\<forall>f. f \<notin> fst ` set cs \<longrightarrow> map_of ws' f = map_of ws f) \<and>
    (\<forall>f t. f \<in> fst ` set cs \<longrightarrow> map_of ts f = Some t \<longrightarrow> (\<exists>y. map_of ws' f = Some y \<and> reads (length h) (h @ e) y t))"
  using assms(2-)
proof (induction cs arbitrary: ws h)
  case Nil
  then show ?case by auto
next
  case (Cons fc cs)
  obtain f c where fc: "fc = (f, c)" by (cases fc)
  obtain x t P where x: "map_of vs f = Some x" "map_of ts f = Some t" "reads 0 h x t" "P t" "deep_copier P c"
    using Cons.prems(3) [of f c] fc by auto
  obtain w e where w: "c x h = (w, h @ e)" "reads (length h) (h @ e) w t"
    using deep_copier.copies [OF x(5) x(4) x(3)] by blast
  let ?ws = "AList.update f w ws"
  have "f \<in> set (map fst ws)" unfolding Cons.prems(1) using map_of_SomeD [OF x(1)] by force
  then have keys: "map fst ?ws = map fst vs"
    using Cons.prems(1) update_keys [of f w ws] by (simp only: if_True)
  have cs: "\<exists>x t. map_of vs g = Some x \<and> map_of ts g = Some t \<and> reads 0 (h @ e) x t \<and> (\<exists>P. P t \<and> deep_copier P d)"
    if "(g, d) \<in> set cs" for g d
    using Cons.prems(3) [of g d] that reads_append by fastforce
  have "distinct (map fst cs)" using Cons.prems(2) by simp
  from Cons.IH [OF keys this cs] obtain ws' e2 where ws': "copy_fields cs (HStruct vs) (HStruct ?ws, h @ e) = (HStruct ws', (h @ e) @ e2)"
      "map fst ws' = map fst vs" "\<And>g. g \<notin> fst ` set cs \<Longrightarrow> map_of ws' g = map_of ?ws g"
      "\<And>g t. g \<in> fst ` set cs \<Longrightarrow> map_of ts g = Some t \<Longrightarrow> \<exists>y. map_of ws' g = Some y \<and> reads (length (h @ e)) ((h @ e) @ e2) y t"
    by blast
  have f: "f \<notin> fst ` set cs" using Cons.prems(2) fc by auto
  have "copy_fields (fc # cs) (HStruct vs) (HStruct ws, h) = (HStruct ws', h @ e @ e2)"
    using w(1) ws'(1) x(1) fc by (simp add: get_field_def set_field_def)
  moreover have "map_of ws' g = map_of ws g" if "g \<notin> fst ` set (fc # cs)" for g
    using that ws'(3) [of g] fc by (simp add: update_conv')
  moreover have "\<exists>y. map_of ws' g = Some y \<and> reads (length h) (h @ e @ e2) y u"
    if g: "g \<in> fst ` set (fc # cs)" "map_of ts g = Some u" for g u
  proof (cases "g = f")
    case True
    then show ?thesis using ws'(3) [OF f] x(2) g(2) reads_append [OF w(2), of e2] by (simp add: update_conv')
  next
    case False
    then obtain y where "map_of ws' g = Some y" "reads (length (h @ e)) ((h @ e) @ e2) y u"
      using ws'(4) [OF _ g(2)] g(1) fc by auto
    then show ?thesis using reads_append_low [of "length (h @ e)" "(h @ e) @ e2" y u "length h" "[]"] by auto
  qed
  ultimately show ?case using ws'(2) by (intro exI [of _ ws'] exI [of _ "e @ e2"]) auto
qed

text \<open>
  A struct is deep-copied if the fields copied are fields of it, each by a copier for its type,
  and the fields left to the plain assignment hold no references.
\<close>

definition fields_covered :: "(string \<times> ty) list \<Rightarrow> (string \<times> copier) list \<Rightarrow> bool" where
  "fields_covered decl cs \<longleftrightarrow> distinct (map fst decl) \<and> distinct (map fst cs) \<and> fst ` set cs \<subseteq> fst ` set decl \<and>
     (\<forall>(f, P) \<in> set decl. case map_of cs f of Some c \<Rightarrow> deep_copier P c | None \<Rightarrow> flat P)"

lemma deep_copier_struct:
  assumes "fields_covered decl cs"
  shows "deep_copier (struct_ty decl) (struct_copy cs)"
proof
  fix t h v assume s: "struct_ty decl t" and r: "reads 0 h v t"
  then obtain ts where t: "t = TStruct ts" by (auto simp: struct_ty_def split: tree.splits)
  from r obtain vs where vs: "v = HStruct vs" "map fst vs = map fst ts" "distinct (map fst ts)"
      "\<And>k x u. map_of vs k = Some x \<Longrightarrow> map_of ts k = Some u \<Longrightarrow> reads 0 h x u"
    unfolding t by (auto elim: reads_structE)
  have d: "distinct (map fst decl)" "distinct (map fst cs)" "fst ` set cs \<subseteq> fst ` set decl"
    using assms by (auto simp: fields_covered_def)
  have names: "map fst ts = map fst decl" using struct_ty_fields(1) s t by simp
  have dom: "\<exists>x. map_of xs f = Some x" if "f \<in> fst ` set decl" "map fst xs = map fst decl" for f and xs :: "(string \<times> 'b) list"
    using that by (metis (no_types, lifting) list.set_map map_of_eq_None_iff not_None_eq)
  have cov: "case map_of cs f of Some c \<Rightarrow> deep_copier P c | None \<Rightarrow> flat P" "P u"
    if m: "map_of ts f = Some u" "map_of decl f = Some P" for f u P
  proof -
    show "case map_of cs f of Some c \<Rightarrow> deep_copier P c | None \<Rightarrow> flat P"
      using assms map_of_SomeD [OF m(2)] by (auto simp: fields_covered_def)
    show "P u" using struct_ty_fields(2) [OF s [unfolded t] d(1) m(1)] m(2) by auto
  qed
  have fields: "\<exists>x u. map_of vs f = Some x \<and> map_of ts f = Some u \<and> reads 0 h x u \<and> (\<exists>P. P u \<and> deep_copier P c)"
    if "(f, c) \<in> set cs" for f c
  proof -
    have "f \<in> fst ` set decl" using that d(3) by force
    then obtain x u where m: "map_of vs f = Some x" "map_of ts f = Some u"
      using dom vs(2) names by metis
    obtain P where P: "map_of decl f = Some P" "P u" using struct_ty_fields(2) [OF s [unfolded t] d(1) m(2)] by blast
    have "map_of cs f = Some c" using that d(2) by simp
    then show ?thesis using cov(1) [OF m(2) P(1)] m P(2) vs(4) [OF m] by auto
  qed
  have dv: "distinct (map fst vs)" using vs by simp
  from copy_fields_deep [OF dv refl d(2) fields] obtain ws e where
    ws: "copy_fields cs (HStruct vs) (HStruct vs, h) = (HStruct ws, h @ e)" "map fst ws = map fst vs"
      "\<And>f. f \<notin> fst ` set cs \<Longrightarrow> map_of ws f = map_of vs f"
      "\<And>f u. f \<in> fst ` set cs \<Longrightarrow> map_of ts f = Some u \<Longrightarrow> \<exists>y. map_of ws f = Some y \<and> reads (length h) (h @ e) y u"
    by blast
  have "reads (length h) (h @ e) y u" if m: "map_of ws f = Some y" "map_of ts f = Some u" for f y u
  proof (cases "f \<in> fst ` set cs")
    case True
    then show ?thesis using ws(4) [OF True m(2)] m(1) by auto
  next
    case False
    then have "map_of cs f = None" by (simp add: map_of_eq_None_iff)
    moreover obtain P where P: "map_of decl f = Some P" "P u"
      using struct_ty_fields(2) [OF s [unfolded t] d(1) m(2)] by blast
    ultimately have "flat P" using cov(1) [OF m(2) P(1)] by simp
    moreover have "reads 0 h y u" using vs(4) ws(3) [OF False] m by simp
    ultimately show ?thesis using P(2) by (auto intro: flatD)
  qed
  then have "reads (length h) (h @ e) (HStruct ws) t" unfolding t using vs ws(2) by (intro reads.struct) auto
  then show "\<exists>w e. struct_copy cs v h = (w, h @ e) \<and> reads (length h) (h @ e) w t"
    using ws(1) vs(1) by (auto simp: struct_copy_def)
qed

end
