(* ===== verification/Deep_Copy.thy ===== *)
theory Deep_Copy
  imports Go_Heap
begin

text \<open>
  The deep copies of the API types, \<^verbatim>\<open>apis/fgateway/v1alpha1/zz_generated.deepcopy.go\<close>, over the
  heap of \<open>Go_Heap\<close>: for each struct its type (the fields of \<^verbatim>\<open>kube_types.go\<close> and
  \<^verbatim>\<open>gateway_parameters_types.go\<close>, in order), \<open>DeepCopyInto\<close> (the fields it copies, in order, each
  with its idiom), \<open>DeepCopy\<close>, and that the copy is deep. Types of the Kubernetes libraries are
  parameters: \<open>E\<close> gives their contents and \<open>ext\<close> their \<open>DeepCopyInto\<close>; that those are deep copies,
  and that the two types the code copies by assignment hold no references, is the hypothesis
  \<open>ext_ok\<close>.
\<close>

named_theorems copier_rules "when a copier deep-copies a type"

lemmas [copier_rules] = deep_copier_assign deep_copier_ptr deep_copier_slice deep_copier_map flat_scalar

definition ext_ok :: "(string \<Rightarrow> ty) \<Rightarrow> (string \<Rightarrow> copier) \<Rightarrow> bool" where
  "ext_ok E ext \<longleftrightarrow> (\<forall>n. deep_copier (E n) (ext n)) \<and>
     flat (E ''v1.LocalObjectReference'') \<and> flat (E ''v1.ContainerPort'')"

lemma ext_rules [copier_rules]:
  "ext_ok E ext \<Longrightarrow> deep_copier (E n) (ext n)"
  "ext_ok E ext \<Longrightarrow> flat (E ''v1.LocalObjectReference'')"
  "ext_ok E ext \<Longrightarrow> flat (E ''v1.ContainerPort'')"
  by (simp_all add: ext_ok_def)

definition TypeMeta_ty :: ty where
  "TypeMeta_ty = struct_ty [(''Kind'', scalar_ty), (''APIVersion'', scalar_ty)]"

lemma flat_TypeMeta [copier_rules]: "flat TypeMeta_ty"
  by (simp add: TypeMeta_ty_def flat_struct flat_scalar)

section \<open>The types and their copies\<close>

definition Image_ty :: "ty" where
  "Image_ty = struct_ty
    [(''Registry'', ptr_ty scalar_ty),
     (''Repository'', ptr_ty scalar_ty),
     (''Tag'', ptr_ty scalar_ty),
     (''Digest'', ptr_ty scalar_ty),
     (''PullPolicy'', ptr_ty scalar_ty)]"

definition Image_DeepCopyInto :: "copier" where
  "Image_DeepCopyInto = struct_copy
    [(''Registry'', ptr_copy assign_copy),
     (''Repository'', ptr_copy assign_copy),
     (''Tag'', ptr_copy assign_copy),
     (''Digest'', ptr_copy assign_copy),
     (''PullPolicy'', ptr_copy assign_copy)]"

definition Image_DeepCopy :: "copier" where
  "Image_DeepCopy = ptr_copy Image_DeepCopyInto"

interpretation Image_copy: deep_copier Image_ty Image_DeepCopyInto
  by (simp add: Image_ty_def Image_DeepCopyInto_def deep_copier_struct fields_covered_def copier_rules)

lemmas Image_copier [copier_rules] = Image_copy.deep_copier_axioms

definition Service_ty :: "ty" where
  "Service_ty = struct_ty
    [(''Type'', ptr_ty scalar_ty),
     (''ClusterIP'', ptr_ty scalar_ty),
     (''ExtraLabels'', string_map_ty),
     (''ExtraAnnotations'', string_map_ty)]"

definition Service_DeepCopyInto :: "copier" where
  "Service_DeepCopyInto = struct_copy
    [(''Type'', ptr_copy assign_copy),
     (''ClusterIP'', ptr_copy assign_copy),
     (''ExtraLabels'', map_copy),
     (''ExtraAnnotations'', map_copy)]"

definition Service_DeepCopy :: "copier" where
  "Service_DeepCopy = ptr_copy Service_DeepCopyInto"

interpretation Service_copy: deep_copier Service_ty Service_DeepCopyInto
  by (simp add: Service_ty_def Service_DeepCopyInto_def deep_copier_struct fields_covered_def copier_rules)

lemmas Service_copier [copier_rules] = Service_copy.deep_copier_axioms

definition ServiceAccount_ty :: "ty" where
  "ServiceAccount_ty = struct_ty
    [(''ExtraLabels'', string_map_ty),
     (''ExtraAnnotations'', string_map_ty)]"

definition ServiceAccount_DeepCopyInto :: "copier" where
  "ServiceAccount_DeepCopyInto = struct_copy
    [(''ExtraLabels'', map_copy),
     (''ExtraAnnotations'', map_copy)]"

definition ServiceAccount_DeepCopy :: "copier" where
  "ServiceAccount_DeepCopy = ptr_copy ServiceAccount_DeepCopyInto"

interpretation ServiceAccount_copy: deep_copier ServiceAccount_ty ServiceAccount_DeepCopyInto
  by (simp add: ServiceAccount_ty_def ServiceAccount_DeepCopyInto_def deep_copier_struct fields_covered_def copier_rules)

lemmas ServiceAccount_copier [copier_rules] = ServiceAccount_copy.deep_copier_axioms

definition GracefulShutdownSpec_ty :: "ty" where
  "GracefulShutdownSpec_ty = struct_ty
    [(''Enabled'', ptr_ty scalar_ty),
     (''SleepTimeSeconds'', ptr_ty scalar_ty)]"

definition GracefulShutdownSpec_DeepCopyInto :: "copier" where
  "GracefulShutdownSpec_DeepCopyInto = struct_copy
    [(''Enabled'', ptr_copy assign_copy),
     (''SleepTimeSeconds'', ptr_copy assign_copy)]"

definition GracefulShutdownSpec_DeepCopy :: "copier" where
  "GracefulShutdownSpec_DeepCopy = ptr_copy GracefulShutdownSpec_DeepCopyInto"

interpretation GracefulShutdownSpec_copy: deep_copier GracefulShutdownSpec_ty GracefulShutdownSpec_DeepCopyInto
  by (simp add: GracefulShutdownSpec_ty_def GracefulShutdownSpec_DeepCopyInto_def deep_copier_struct fields_covered_def copier_rules)

lemmas GracefulShutdownSpec_copier [copier_rules] = GracefulShutdownSpec_copy.deep_copier_axioms

definition Pod_ty :: "(string \<Rightarrow> ty) \<Rightarrow> ty" where
  "Pod_ty E = struct_ty
    [(''ExtraLabels'', string_map_ty),
     (''ExtraAnnotations'', string_map_ty),
     (''SecurityContext'', ptr_ty (E ''v1.PodSecurityContext'')),
     (''ImagePullSecrets'', slice_ty (E ''v1.LocalObjectReference'')),
     (''NodeSelector'', string_map_ty),
     (''Affinity'', ptr_ty (E ''v1.Affinity'')),
     (''Tolerations'', slice_ty (E ''v1.Toleration'')),
     (''GracefulShutdown'', ptr_ty GracefulShutdownSpec_ty),
     (''TerminationGracePeriodSeconds'', ptr_ty scalar_ty),
     (''ReadinessProbe'', ptr_ty (E ''v1.Probe'')),
     (''LivenessProbe'', ptr_ty (E ''v1.Probe''))]"

definition Pod_DeepCopyInto :: "(string \<Rightarrow> copier) \<Rightarrow> copier" where
  "Pod_DeepCopyInto ext = struct_copy
    [(''ExtraLabels'', map_copy),
     (''ExtraAnnotations'', map_copy),
     (''SecurityContext'', ptr_copy (ext ''v1.PodSecurityContext'')),
     (''ImagePullSecrets'', slice_copy assign_copy),
     (''NodeSelector'', map_copy),
     (''Affinity'', ptr_copy (ext ''v1.Affinity'')),
     (''Tolerations'', slice_copy (ext ''v1.Toleration'')),
     (''GracefulShutdown'', ptr_copy GracefulShutdownSpec_DeepCopyInto),
     (''TerminationGracePeriodSeconds'', ptr_copy assign_copy),
     (''ReadinessProbe'', ptr_copy (ext ''v1.Probe'')),
     (''LivenessProbe'', ptr_copy (ext ''v1.Probe''))]"

definition Pod_DeepCopy :: "(string \<Rightarrow> copier) \<Rightarrow> copier" where
  "Pod_DeepCopy ext = ptr_copy (Pod_DeepCopyInto ext)"

lemma Pod_copier [copier_rules]: "ext_ok E ext \<Longrightarrow> deep_copier (Pod_ty E) (Pod_DeepCopyInto ext)"
  by (simp add: Pod_ty_def Pod_DeepCopyInto_def deep_copier_struct fields_covered_def copier_rules)

definition ProxyDeployment_ty :: "ty" where
  "ProxyDeployment_ty = struct_ty
    [(''Replicas'', ptr_ty scalar_ty)]"

definition ProxyDeployment_DeepCopyInto :: "copier" where
  "ProxyDeployment_DeepCopyInto = struct_copy
    [(''Replicas'', ptr_copy assign_copy)]"

definition ProxyDeployment_DeepCopy :: "copier" where
  "ProxyDeployment_DeepCopy = ptr_copy ProxyDeployment_DeepCopyInto"

interpretation ProxyDeployment_copy: deep_copier ProxyDeployment_ty ProxyDeployment_DeepCopyInto
  by (simp add: ProxyDeployment_ty_def ProxyDeployment_DeepCopyInto_def deep_copier_struct fields_covered_def copier_rules)

lemmas ProxyDeployment_copier [copier_rules] = ProxyDeployment_copy.deep_copier_axioms

definition EnvoyBootstrap_ty :: "ty" where
  "EnvoyBootstrap_ty = struct_ty
    [(''LogLevel'', ptr_ty scalar_ty),
     (''ComponentLogLevels'', string_map_ty)]"

definition EnvoyBootstrap_DeepCopyInto :: "copier" where
  "EnvoyBootstrap_DeepCopyInto = struct_copy
    [(''LogLevel'', ptr_copy assign_copy),
     (''ComponentLogLevels'', map_copy)]"

definition EnvoyBootstrap_DeepCopy :: "copier" where
  "EnvoyBootstrap_DeepCopy = ptr_copy EnvoyBootstrap_DeepCopyInto"

interpretation EnvoyBootstrap_copy: deep_copier EnvoyBootstrap_ty EnvoyBootstrap_DeepCopyInto
  by (simp add: EnvoyBootstrap_ty_def EnvoyBootstrap_DeepCopyInto_def deep_copier_struct fields_covered_def copier_rules)

lemmas EnvoyBootstrap_copier [copier_rules] = EnvoyBootstrap_copy.deep_copier_axioms

definition EnvoyContainer_ty :: "(string \<Rightarrow> ty) \<Rightarrow> ty" where
  "EnvoyContainer_ty E = struct_ty
    [(''Bootstrap'', ptr_ty EnvoyBootstrap_ty),
     (''Image'', ptr_ty Image_ty),
     (''SecurityContext'', ptr_ty (E ''v1.SecurityContext'')),
     (''Resources'', ptr_ty (E ''v1.ResourceRequirements''))]"

definition EnvoyContainer_DeepCopyInto :: "(string \<Rightarrow> copier) \<Rightarrow> copier" where
  "EnvoyContainer_DeepCopyInto ext = struct_copy
    [(''Bootstrap'', ptr_copy EnvoyBootstrap_DeepCopyInto),
     (''Image'', ptr_copy Image_DeepCopyInto),
     (''SecurityContext'', ptr_copy (ext ''v1.SecurityContext'')),
     (''Resources'', ptr_copy (ext ''v1.ResourceRequirements''))]"

definition EnvoyContainer_DeepCopy :: "(string \<Rightarrow> copier) \<Rightarrow> copier" where
  "EnvoyContainer_DeepCopy ext = ptr_copy (EnvoyContainer_DeepCopyInto ext)"

lemma EnvoyContainer_copier [copier_rules]: "ext_ok E ext \<Longrightarrow> deep_copier (EnvoyContainer_ty E) (EnvoyContainer_DeepCopyInto ext)"
  by (simp add: EnvoyContainer_ty_def EnvoyContainer_DeepCopyInto_def deep_copier_struct fields_covered_def copier_rules)

definition SdsBootstrap_ty :: "ty" where
  "SdsBootstrap_ty = struct_ty
    [(''LogLevel'', ptr_ty scalar_ty)]"

definition SdsBootstrap_DeepCopyInto :: "copier" where
  "SdsBootstrap_DeepCopyInto = struct_copy
    [(''LogLevel'', ptr_copy assign_copy)]"

definition SdsBootstrap_DeepCopy :: "copier" where
  "SdsBootstrap_DeepCopy = ptr_copy SdsBootstrap_DeepCopyInto"

interpretation SdsBootstrap_copy: deep_copier SdsBootstrap_ty SdsBootstrap_DeepCopyInto
  by (simp add: SdsBootstrap_ty_def SdsBootstrap_DeepCopyInto_def deep_copier_struct fields_covered_def copier_rules)

lemmas SdsBootstrap_copier [copier_rules] = SdsBootstrap_copy.deep_copier_axioms

definition SdsContainer_ty :: "(string \<Rightarrow> ty) \<Rightarrow> ty" where
  "SdsContainer_ty E = struct_ty
    [(''Image'', ptr_ty Image_ty),
     (''SecurityContext'', ptr_ty (E ''v1.SecurityContext'')),
     (''Resources'', ptr_ty (E ''v1.ResourceRequirements'')),
     (''Bootstrap'', ptr_ty SdsBootstrap_ty)]"

definition SdsContainer_DeepCopyInto :: "(string \<Rightarrow> copier) \<Rightarrow> copier" where
  "SdsContainer_DeepCopyInto ext = struct_copy
    [(''Image'', ptr_copy Image_DeepCopyInto),
     (''SecurityContext'', ptr_copy (ext ''v1.SecurityContext'')),
     (''Resources'', ptr_copy (ext ''v1.ResourceRequirements'')),
     (''Bootstrap'', ptr_copy SdsBootstrap_DeepCopyInto)]"

definition SdsContainer_DeepCopy :: "(string \<Rightarrow> copier) \<Rightarrow> copier" where
  "SdsContainer_DeepCopy ext = ptr_copy (SdsContainer_DeepCopyInto ext)"

lemma SdsContainer_copier [copier_rules]: "ext_ok E ext \<Longrightarrow> deep_copier (SdsContainer_ty E) (SdsContainer_DeepCopyInto ext)"
  by (simp add: SdsContainer_ty_def SdsContainer_DeepCopyInto_def deep_copier_struct fields_covered_def copier_rules)

definition IstioContainer_ty :: "(string \<Rightarrow> ty) \<Rightarrow> ty" where
  "IstioContainer_ty E = struct_ty
    [(''Image'', ptr_ty Image_ty),
     (''SecurityContext'', ptr_ty (E ''v1.SecurityContext'')),
     (''Resources'', ptr_ty (E ''v1.ResourceRequirements'')),
     (''LogLevel'', ptr_ty scalar_ty),
     (''IstioDiscoveryAddress'', ptr_ty scalar_ty),
     (''IstioMetaMeshId'', ptr_ty scalar_ty),
     (''IstioMetaClusterId'', ptr_ty scalar_ty)]"

definition IstioContainer_DeepCopyInto :: "(string \<Rightarrow> copier) \<Rightarrow> copier" where
  "IstioContainer_DeepCopyInto ext = struct_copy
    [(''Image'', ptr_copy Image_DeepCopyInto),
     (''SecurityContext'', ptr_copy (ext ''v1.SecurityContext'')),
     (''Resources'', ptr_copy (ext ''v1.ResourceRequirements'')),
     (''LogLevel'', ptr_copy assign_copy),
     (''IstioDiscoveryAddress'', ptr_copy assign_copy),
     (''IstioMetaMeshId'', ptr_copy assign_copy),
     (''IstioMetaClusterId'', ptr_copy assign_copy)]"

definition IstioContainer_DeepCopy :: "(string \<Rightarrow> copier) \<Rightarrow> copier" where
  "IstioContainer_DeepCopy ext = ptr_copy (IstioContainer_DeepCopyInto ext)"

lemma IstioContainer_copier [copier_rules]: "ext_ok E ext \<Longrightarrow> deep_copier (IstioContainer_ty E) (IstioContainer_DeepCopyInto ext)"
  by (simp add: IstioContainer_ty_def IstioContainer_DeepCopyInto_def deep_copier_struct fields_covered_def copier_rules)

definition IstioIntegration_ty :: "(string \<Rightarrow> ty) \<Rightarrow> ty" where
  "IstioIntegration_ty E = struct_ty
    [(''IstioProxyContainer'', ptr_ty (IstioContainer_ty E)),
     (''CustomSidecars'', slice_ty (E ''v1.Container''))]"

definition IstioIntegration_DeepCopyInto :: "(string \<Rightarrow> copier) \<Rightarrow> copier" where
  "IstioIntegration_DeepCopyInto ext = struct_copy
    [(''IstioProxyContainer'', ptr_copy (IstioContainer_DeepCopyInto ext)),
     (''CustomSidecars'', slice_copy (ext ''v1.Container''))]"

definition IstioIntegration_DeepCopy :: "(string \<Rightarrow> copier) \<Rightarrow> copier" where
  "IstioIntegration_DeepCopy ext = ptr_copy (IstioIntegration_DeepCopyInto ext)"

lemma IstioIntegration_copier [copier_rules]: "ext_ok E ext \<Longrightarrow> deep_copier (IstioIntegration_ty E) (IstioIntegration_DeepCopyInto ext)"
  by (simp add: IstioIntegration_ty_def IstioIntegration_DeepCopyInto_def deep_copier_struct fields_covered_def copier_rules)

definition StatsConfig_ty :: "ty" where
  "StatsConfig_ty = struct_ty
    [(''Enabled'', ptr_ty scalar_ty),
     (''RoutePrefixRewrite'', ptr_ty scalar_ty),
     (''EnableStatsRoute'', ptr_ty scalar_ty),
     (''StatsRoutePrefixRewrite'', ptr_ty scalar_ty)]"

definition StatsConfig_DeepCopyInto :: "copier" where
  "StatsConfig_DeepCopyInto = struct_copy
    [(''Enabled'', ptr_copy assign_copy),
     (''RoutePrefixRewrite'', ptr_copy assign_copy),
     (''EnableStatsRoute'', ptr_copy assign_copy),
     (''StatsRoutePrefixRewrite'', ptr_copy assign_copy)]"

definition StatsConfig_DeepCopy :: "copier" where
  "StatsConfig_DeepCopy = ptr_copy StatsConfig_DeepCopyInto"

interpretation StatsConfig_copy: deep_copier StatsConfig_ty StatsConfig_DeepCopyInto
  by (simp add: StatsConfig_ty_def StatsConfig_DeepCopyInto_def deep_copier_struct fields_covered_def copier_rules)

lemmas StatsConfig_copier [copier_rules] = StatsConfig_copy.deep_copier_axioms

definition CustomLabel_ty :: "ty" where
  "CustomLabel_ty = struct_ty
    [(''Name'', scalar_ty),
     (''MetadataNamespace'', ptr_ty scalar_ty),
     (''MetdataKey'', scalar_ty),
     (''KeyDelimiter'', ptr_ty scalar_ty)]"

definition CustomLabel_DeepCopyInto :: "copier" where
  "CustomLabel_DeepCopyInto = struct_copy
    [(''MetadataNamespace'', ptr_copy assign_copy),
     (''KeyDelimiter'', ptr_copy assign_copy)]"

definition CustomLabel_DeepCopy :: "copier" where
  "CustomLabel_DeepCopy = ptr_copy CustomLabel_DeepCopyInto"

interpretation CustomLabel_copy: deep_copier CustomLabel_ty CustomLabel_DeepCopyInto
  by (simp add: CustomLabel_ty_def CustomLabel_DeepCopyInto_def deep_copier_struct fields_covered_def copier_rules)

lemmas CustomLabel_copier [copier_rules] = CustomLabel_copy.deep_copier_axioms

definition AiExtensionStats_ty :: "ty" where
  "AiExtensionStats_ty = struct_ty
    [(''CustomLabels'', slice_ty (ptr_ty CustomLabel_ty))]"

definition AiExtensionStats_DeepCopyInto :: "copier" where
  "AiExtensionStats_DeepCopyInto = struct_copy
    [(''CustomLabels'', slice_copy (ptr_copy CustomLabel_DeepCopyInto))]"

definition AiExtensionStats_DeepCopy :: "copier" where
  "AiExtensionStats_DeepCopy = ptr_copy AiExtensionStats_DeepCopyInto"

interpretation AiExtensionStats_copy: deep_copier AiExtensionStats_ty AiExtensionStats_DeepCopyInto
  by (simp add: AiExtensionStats_ty_def AiExtensionStats_DeepCopyInto_def deep_copier_struct fields_covered_def copier_rules)

lemmas AiExtensionStats_copier [copier_rules] = AiExtensionStats_copy.deep_copier_axioms

definition AiExtension_ty :: "(string \<Rightarrow> ty) \<Rightarrow> ty" where
  "AiExtension_ty E = struct_ty
    [(''Enabled'', ptr_ty scalar_ty),
     (''Image'', ptr_ty Image_ty),
     (''SecurityContext'', ptr_ty (E ''v1.SecurityContext'')),
     (''Resources'', ptr_ty (E ''v1.ResourceRequirements'')),
     (''Env'', slice_ty (E ''v1.EnvVar'')),
     (''Ports'', slice_ty (E ''v1.ContainerPort'')),
     (''Stats'', ptr_ty AiExtensionStats_ty)]"

definition AiExtension_DeepCopyInto :: "(string \<Rightarrow> copier) \<Rightarrow> copier" where
  "AiExtension_DeepCopyInto ext = struct_copy
    [(''Enabled'', ptr_copy assign_copy),
     (''Image'', ptr_copy Image_DeepCopyInto),
     (''SecurityContext'', ptr_copy (ext ''v1.SecurityContext'')),
     (''Resources'', ptr_copy (ext ''v1.ResourceRequirements'')),
     (''Env'', slice_copy (ext ''v1.EnvVar'')),
     (''Ports'', slice_copy assign_copy),
     (''Stats'', ptr_copy AiExtensionStats_DeepCopyInto)]"

definition AiExtension_DeepCopy :: "(string \<Rightarrow> copier) \<Rightarrow> copier" where
  "AiExtension_DeepCopy ext = ptr_copy (AiExtension_DeepCopyInto ext)"

lemma AiExtension_copier [copier_rules]: "ext_ok E ext \<Longrightarrow> deep_copier (AiExtension_ty E) (AiExtension_DeepCopyInto ext)"
  by (simp add: AiExtension_ty_def AiExtension_DeepCopyInto_def deep_copier_struct fields_covered_def copier_rules)

definition KubernetesProxyConfig_ty :: "(string \<Rightarrow> ty) \<Rightarrow> ty" where
  "KubernetesProxyConfig_ty E = struct_ty
    [(''Deployment'', ptr_ty ProxyDeployment_ty),
     (''EnvoyContainer'', ptr_ty (EnvoyContainer_ty E)),
     (''SdsContainer'', ptr_ty (SdsContainer_ty E)),
     (''PodTemplate'', ptr_ty (Pod_ty E)),
     (''Service'', ptr_ty Service_ty),
     (''ServiceAccount'', ptr_ty ServiceAccount_ty),
     (''Istio'', ptr_ty (IstioIntegration_ty E)),
     (''Stats'', ptr_ty StatsConfig_ty),
     (''AiExtension'', ptr_ty (AiExtension_ty E)),
     (''FloatingUserId'', ptr_ty scalar_ty)]"

definition KubernetesProxyConfig_DeepCopyInto :: "(string \<Rightarrow> copier) \<Rightarrow> copier" where
  "KubernetesProxyConfig_DeepCopyInto ext = struct_copy
    [(''Deployment'', ptr_copy ProxyDeployment_DeepCopyInto),
     (''EnvoyContainer'', ptr_copy (EnvoyContainer_DeepCopyInto ext)),
     (''SdsContainer'', ptr_copy (SdsContainer_DeepCopyInto ext)),
     (''PodTemplate'', ptr_copy (Pod_DeepCopyInto ext)),
     (''Service'', ptr_copy Service_DeepCopyInto),
     (''ServiceAccount'', ptr_copy ServiceAccount_DeepCopyInto),
     (''Istio'', ptr_copy (IstioIntegration_DeepCopyInto ext)),
     (''Stats'', ptr_copy StatsConfig_DeepCopyInto),
     (''AiExtension'', ptr_copy (AiExtension_DeepCopyInto ext)),
     (''FloatingUserId'', ptr_copy assign_copy)]"

definition KubernetesProxyConfig_DeepCopy :: "(string \<Rightarrow> copier) \<Rightarrow> copier" where
  "KubernetesProxyConfig_DeepCopy ext = ptr_copy (KubernetesProxyConfig_DeepCopyInto ext)"

lemma KubernetesProxyConfig_copier [copier_rules]: "ext_ok E ext \<Longrightarrow> deep_copier (KubernetesProxyConfig_ty E) (KubernetesProxyConfig_DeepCopyInto ext)"
  by (simp add: KubernetesProxyConfig_ty_def KubernetesProxyConfig_DeepCopyInto_def deep_copier_struct fields_covered_def copier_rules)

definition SelfManagedGateway_ty :: "ty" where
  "SelfManagedGateway_ty = struct_ty
    []"

definition SelfManagedGateway_DeepCopyInto :: "copier" where
  "SelfManagedGateway_DeepCopyInto = struct_copy
    []"

definition SelfManagedGateway_DeepCopy :: "copier" where
  "SelfManagedGateway_DeepCopy = ptr_copy SelfManagedGateway_DeepCopyInto"

interpretation SelfManagedGateway_copy: deep_copier SelfManagedGateway_ty SelfManagedGateway_DeepCopyInto
  by (simp add: SelfManagedGateway_ty_def SelfManagedGateway_DeepCopyInto_def deep_copier_struct fields_covered_def copier_rules)

lemmas SelfManagedGateway_copier [copier_rules] = SelfManagedGateway_copy.deep_copier_axioms

lemma flat_SelfManagedGateway [copier_rules]: "flat SelfManagedGateway_ty"
  by (simp add: SelfManagedGateway_ty_def flat_struct)

definition GatewayParametersStatus_ty :: "ty" where
  "GatewayParametersStatus_ty = struct_ty
    []"

definition GatewayParametersStatus_DeepCopyInto :: "copier" where
  "GatewayParametersStatus_DeepCopyInto = struct_copy
    []"

definition GatewayParametersStatus_DeepCopy :: "copier" where
  "GatewayParametersStatus_DeepCopy = ptr_copy GatewayParametersStatus_DeepCopyInto"

interpretation GatewayParametersStatus_copy: deep_copier GatewayParametersStatus_ty GatewayParametersStatus_DeepCopyInto
  by (simp add: GatewayParametersStatus_ty_def GatewayParametersStatus_DeepCopyInto_def deep_copier_struct fields_covered_def copier_rules)

lemmas GatewayParametersStatus_copier [copier_rules] = GatewayParametersStatus_copy.deep_copier_axioms

lemma flat_GatewayParametersStatus [copier_rules]: "flat GatewayParametersStatus_ty"
  by (simp add: GatewayParametersStatus_ty_def flat_struct)

definition GatewayParametersSpec_ty :: "(string \<Rightarrow> ty) \<Rightarrow> ty" where
  "GatewayParametersSpec_ty E = struct_ty
    [(''Kube'', ptr_ty (KubernetesProxyConfig_ty E)),
     (''SelfManaged'', ptr_ty SelfManagedGateway_ty)]"

definition GatewayParametersSpec_DeepCopyInto :: "(string \<Rightarrow> copier) \<Rightarrow> copier" where
  "GatewayParametersSpec_DeepCopyInto ext = struct_copy
    [(''Kube'', ptr_copy (KubernetesProxyConfig_DeepCopyInto ext)),
     (''SelfManaged'', ptr_copy assign_copy)]"

definition GatewayParametersSpec_DeepCopy :: "(string \<Rightarrow> copier) \<Rightarrow> copier" where
  "GatewayParametersSpec_DeepCopy ext = ptr_copy (GatewayParametersSpec_DeepCopyInto ext)"

lemma GatewayParametersSpec_copier [copier_rules]: "ext_ok E ext \<Longrightarrow> deep_copier (GatewayParametersSpec_ty E) (GatewayParametersSpec_DeepCopyInto ext)"
  by (simp add: GatewayParametersSpec_ty_def GatewayParametersSpec_DeepCopyInto_def deep_copier_struct fields_covered_def copier_rules)

definition GatewayParameters_ty :: "(string \<Rightarrow> ty) \<Rightarrow> ty" where
  "GatewayParameters_ty E = struct_ty
    [(''TypeMeta'', TypeMeta_ty),
     (''ObjectMeta'', E ''metav1.ObjectMeta''),
     (''Spec'', GatewayParametersSpec_ty E),
     (''Status'', GatewayParametersStatus_ty)]"

definition GatewayParameters_DeepCopyInto :: "(string \<Rightarrow> copier) \<Rightarrow> copier" where
  "GatewayParameters_DeepCopyInto ext = struct_copy
    [(''TypeMeta'', assign_copy),
     (''ObjectMeta'', ext ''metav1.ObjectMeta''),
     (''Spec'', GatewayParametersSpec_DeepCopyInto ext),
     (''Status'', assign_copy)]"

definition GatewayParameters_DeepCopy :: "(string \<Rightarrow> copier) \<Rightarrow> copier" where
  "GatewayParameters_DeepCopy ext = ptr_copy (GatewayParameters_DeepCopyInto ext)"

lemma GatewayParameters_copier [copier_rules]: "ext_ok E ext \<Longrightarrow> deep_copier (GatewayParameters_ty E) (GatewayParameters_DeepCopyInto ext)"
  by (simp add: GatewayParameters_ty_def GatewayParameters_DeepCopyInto_def deep_copier_struct fields_covered_def copier_rules)

definition GatewayParameters_DeepCopyObject :: "(string \<Rightarrow> copier) \<Rightarrow> copier" where
  "GatewayParameters_DeepCopyObject ext v h =
     (case GatewayParameters_DeepCopy ext v h of (c, h') \<Rightarrow> if c \<noteq> HNil then (c, h') else (HNil, h'))"

definition GatewayParametersList_ty :: "(string \<Rightarrow> ty) \<Rightarrow> ty" where
  "GatewayParametersList_ty E = struct_ty
    [(''TypeMeta'', TypeMeta_ty),
     (''ListMeta'', E ''metav1.ListMeta''),
     (''Items'', slice_ty (GatewayParameters_ty E))]"

definition GatewayParametersList_DeepCopyInto :: "(string \<Rightarrow> copier) \<Rightarrow> copier" where
  "GatewayParametersList_DeepCopyInto ext = struct_copy
    [(''TypeMeta'', assign_copy),
     (''ListMeta'', ext ''metav1.ListMeta''),
     (''Items'', slice_copy (GatewayParameters_DeepCopyInto ext))]"

definition GatewayParametersList_DeepCopy :: "(string \<Rightarrow> copier) \<Rightarrow> copier" where
  "GatewayParametersList_DeepCopy ext = ptr_copy (GatewayParametersList_DeepCopyInto ext)"

lemma GatewayParametersList_copier [copier_rules]: "ext_ok E ext \<Longrightarrow> deep_copier (GatewayParametersList_ty E) (GatewayParametersList_DeepCopyInto ext)"
  by (simp add: GatewayParametersList_ty_def GatewayParametersList_DeepCopyInto_def deep_copier_struct fields_covered_def copier_rules)

definition GatewayParametersList_DeepCopyObject :: "(string \<Rightarrow> copier) \<Rightarrow> copier" where
  "GatewayParametersList_DeepCopyObject ext v h =
     (case GatewayParametersList_DeepCopy ext v h of (c, h') \<Rightarrow> if c \<noteq> HNil then (c, h') else (HNil, h'))"

section \<open>Properties\<close>

text \<open>
  C7. \<open>DeepCopy\<close> of a GatewayParameters object: it only allocates memory, the copy has the same
  content in every field, and the two share nothing. Whatever is later written to the memory
  that existed before the copy, the copy still reads as the original did; and whatever is
  written to the memory the copy allocated, the original does.
\<close>

theorem GatewayParameters_DeepCopy_independent:
  assumes "ext_ok E ext" and "GatewayParameters_ty E t" and "reads 0 h (HPtr a) (TPtr t)"
  shows "\<exists>w e. GatewayParameters_DeepCopy ext (HPtr a) h = (w, h @ e) \<and>
    (\<forall>g. length g = length h \<longrightarrow> reads 0 (g @ e) w (TPtr t)) \<and> (\<forall>e'. reads 0 (h @ e') (HPtr a) (TPtr t))"
  unfolding GatewayParameters_DeepCopy_def
  by (rule deep_copier.independent [OF deep_copier_ptr [OF GatewayParameters_copier [OF assms(1)]] _ assms(3)])
    (simp add: ptr_ty_def assms(2))

text \<open>An external type copied by assignment, and a self-managed GatewayParameters in memory.\<close>

lemma example_ext_ok: "ext_ok (\<lambda>_. scalar_ty) (\<lambda>_. assign_copy)"
  by (simp add: ext_ok_def copier_rules)

definition example_tree :: tree where
  "example_tree = TStruct [(''TypeMeta'', TStruct [(''Kind'', TScalar ''GatewayParameters''), (''APIVersion'', TScalar ''v1alpha1'')]),
     (''ObjectMeta'', TScalar ''meta''),
     (''Spec'', TStruct [(''Kube'', TNil), (''SelfManaged'', TPtr (TStruct []))]), (''Status'', TStruct [])]"

definition example_heap :: heap where
  "example_heap = [HCell (HStruct []),
     HCell (HStruct [(''TypeMeta'', HStruct [(''Kind'', HScalar ''GatewayParameters''), (''APIVersion'', HScalar ''v1alpha1'')]),
       (''ObjectMeta'', HScalar ''meta''),
       (''Spec'', HStruct [(''Kube'', HNil), (''SelfManaged'', HPtr 0)]), (''Status'', HStruct [])])]"

lemma example_reads: "reads 0 example_heap (HPtr 1) (TPtr example_tree)"
  unfolding example_tree_def
  by (rule reads.ptr, simp_all add: example_heap_def)
    (rule reads.struct, auto intro!: reads.intros split: if_splits)

lemma example_typed: "GatewayParameters_ty (\<lambda>_. scalar_ty) example_tree"
  by (simp add: GatewayParameters_ty_def GatewayParametersSpec_ty_def GatewayParametersStatus_ty_def
      SelfManagedGateway_ty_def TypeMeta_ty_def struct_ty_def scalar_ty_def ptr_ty_def example_tree_def)

theorem GatewayParameters_DeepCopy_independent_witness:
  "\<exists>w e. GatewayParameters_DeepCopy (\<lambda>_. assign_copy) (HPtr 1) example_heap = (w, example_heap @ e) \<and>
     reads 0 ([HCell HNil, HCell HNil] @ e) w (TPtr example_tree)"
proof -
  have "length [HCell HNil, HCell HNil] = length example_heap" by (simp add: example_heap_def)
  then show ?thesis
    using GatewayParameters_DeepCopy_independent [OF example_ext_ok example_typed example_reads] by blast
qed

text \<open>
  \<open>DeepCopyObject\<close> of a list of GatewayParameters: nil for nil, and otherwise a list whose items
  have the same contents and share no memory with the original, nor does the list itself.
\<close>

theorem GatewayParametersList_DeepCopyObject_independent:
  assumes "ext_ok E ext"
  shows "GatewayParametersList_DeepCopyObject ext HNil h = (HNil, h) \<and>
    (\<forall>t a. GatewayParametersList_ty E t \<and> reads 0 h (HPtr a) (TPtr t) \<longrightarrow>
      (\<exists>w e. GatewayParametersList_DeepCopyObject ext (HPtr a) h = (w, h @ e) \<and>
        (\<forall>g. length g = length h \<longrightarrow> reads 0 (g @ e) w (TPtr t)) \<and> (\<forall>e'. reads 0 (h @ e') (HPtr a) (TPtr t))))"
proof (intro conjI allI impI)
  show "GatewayParametersList_DeepCopyObject ext HNil h = (HNil, h)"
    by (simp add: GatewayParametersList_DeepCopyObject_def GatewayParametersList_DeepCopy_def ptr_copy_def)
  fix t a assume t: "GatewayParametersList_ty E t \<and> reads 0 h (HPtr a) (TPtr t)"
  have "GatewayParametersList_DeepCopyObject ext (HPtr a) h = ptr_copy (GatewayParametersList_DeepCopyInto ext) (HPtr a) h"
    by (simp add: GatewayParametersList_DeepCopyObject_def GatewayParametersList_DeepCopy_def split: prod.split)
  then show "\<exists>w e. GatewayParametersList_DeepCopyObject ext (HPtr a) h = (w, h @ e) \<and>
        (\<forall>g. length g = length h \<longrightarrow> reads 0 (g @ e) w (TPtr t)) \<and> (\<forall>e'. reads 0 (h @ e') (HPtr a) (TPtr t))"
    using deep_copier.independent [OF deep_copier_ptr [OF GatewayParametersList_copier [OF assms]], of "TPtr t" h "HPtr a"] t
    by (simp add: ptr_ty_def)
qed

theorem GatewayParametersList_DeepCopyObject_independent_witness:
  "GatewayParametersList_DeepCopyObject (\<lambda>_. assign_copy) HNil [] = (HNil, []) \<and>
   (\<exists>w e. GatewayParametersList_DeepCopyObject (\<lambda>_. assign_copy) (HPtr 0)
      [HCell (HStruct [(''TypeMeta'', HStruct [(''Kind'', HScalar ''''), (''APIVersion'', HScalar '''')]),
         (''ListMeta'', HScalar ''m''), (''Items'', HNil)])] = (w, e))"
proof -
  let ?h = "[HCell (HStruct [(''TypeMeta'', HStruct [(''Kind'', HScalar ''''), (''APIVersion'', HScalar '''')]),
         (''ListMeta'', HScalar ''m''), (''Items'', HNil)])]"
  let ?t = "TStruct [(''TypeMeta'', TStruct [(''Kind'', TScalar ''''), (''APIVersion'', TScalar '''')]),
         (''ListMeta'', TScalar ''m''), (''Items'', TNil)]"
  have "GatewayParametersList_ty (\<lambda>_. scalar_ty) ?t"
    by (simp add: GatewayParametersList_ty_def TypeMeta_ty_def struct_ty_def scalar_ty_def slice_ty_def)
  moreover have "reads 0 ?h (HPtr 0) (TPtr ?t)"
    by (rule reads.ptr, simp_all) (rule reads.struct, auto intro!: reads.intros split: if_splits)
  ultimately show ?thesis
    using GatewayParametersList_DeepCopyObject_independent [OF example_ext_ok, of ?h]
      GatewayParametersList_DeepCopyObject_independent [OF example_ext_ok, of "[]"] by blast
qed

end
