(* ===== verification/Xds.thy ===== *)
theory Xds
  imports Prelude
begin

text \<open>
  xDS requests and the role of a node: the cache key test of
  \<^verbatim>\<open>internal/fgateway/xds/utils.go\<close>, the node hash of \<^verbatim>\<open>pkg/xds/xds.go\<close>, and
  \<open>GetRoleFromRequest\<close> and \<open>getRef\<close> of \<^verbatim>\<open>internal/fgateway/krtcollections\<close>.
\<close>

section \<open>Requests\<close>

text \<open>
  The protobuf messages of go-control-plane, as far as the program reads them. Their generated
  accessors may be called on nil and then return the zero value; \<open>GetStringValue\<close> returns the
  empty string for a value of another kind.
\<close>

datatype pb_Value = StringValue string | OtherValue opaque

record pb_Struct =
  Struct_Fields :: "(string, pb_Value option) gomap"

record Node =
  Node_Id :: string
  Node_Metadata :: "pb_Struct option"
  Node_rest :: opaque

record DiscoveryRequest =
  Request_Node :: "Node option"
  Request_rest :: opaque

primrec Node_GetId :: "Node option \<Rightarrow> string" where
  "Node_GetId None = ''''"
| "Node_GetId (Some n) = Node_Id n"

primrec Node_GetMetadata :: "Node option \<Rightarrow> pb_Struct option" where
  "Node_GetMetadata None = None"
| "Node_GetMetadata (Some n) = Node_Metadata n"

primrec Struct_GetFields :: "pb_Struct option \<Rightarrow> (string, pb_Value option) gomap" where
  "Struct_GetFields None = None"
| "Struct_GetFields (Some s) = Struct_Fields s"

fun Value_GetStringValue :: "pb_Value option \<Rightarrow> string" where
  "Value_GetStringValue (Some (StringValue s)) = s"
| "Value_GetStringValue _ = ''''"

section \<open>Roles\<close>

definition RoleKey :: string where
  "RoleKey = ''role''"

definition GatewayApiProxyValue :: string where
  "GatewayApiProxyValue = ''fleezesd-kube-gateway-api''"

definition IsKubeGatewayCacheKey :: "string \<Rightarrow> bool" where
  "IsKubeGatewayCacheKey key \<longleftrightarrow> HasPrefix key GatewayApiProxyValue"

definition GetRoleFromRequest :: "DiscoveryRequest \<Rightarrow> string" where
  "GetRoleFromRequest r =
     Value_GetStringValue (map_index None (Struct_GetFields (Node_GetMetadata (Request_Node r))) RoleKey)"

section \<open>The node hash of the snapshot cache\<close>

definition FallbackNodeCacheKey :: string where
  "FallbackNodeCacheKey = ''misconfigured-node''"

definition nodeRoleHasher_ID :: "Node option \<Rightarrow> string" where
  "nodeRoleHasher_ID node =
     (if Node_GetMetadata node \<noteq> None
      then let roleValue = map_index None (Struct_GetFields (Node_GetMetadata node)) RoleKey
           in if roleValue \<noteq> None then Value_GetStringValue roleValue else FallbackNodeCacheKey
      else FallbackNodeCacheKey)"

section \<open>The pod of a node\<close>

record NamespacedName =
  NN_Namespace :: string
  NN_Name :: string

definition getRef :: "Node option \<Rightarrow> NamespacedName" where
  "getRef node =
     (case SplitN2 (CHR ''.'') (Node_GetId node) of
        [a, b] \<Rightarrow> \<lparr>NN_Namespace = b, NN_Name = a\<rparr>
      | _ \<Rightarrow> \<lparr>NN_Namespace = '''', NN_Name = ''''\<rparr>)"

section \<open>Facts\<close>

lemma IsKubeGatewayCacheKey_append: "IsKubeGatewayCacheKey r \<Longrightarrow> IsKubeGatewayCacheKey (r @ s)"
  by (auto simp: IsKubeGatewayCacheKey_def HasPrefix_iff)

lemma IsKubeGatewayCacheKey_prefix [simp]: "IsKubeGatewayCacheKey (GatewayApiProxyValue @ s)"
  by (auto simp: IsKubeGatewayCacheKey_def HasPrefix_iff)

lemma IsKubeGatewayCacheKey_nonempty: "IsKubeGatewayCacheKey r \<Longrightarrow> r \<noteq> ''''"
  by (auto simp: IsKubeGatewayCacheKey_def HasPrefix_def GatewayApiProxyValue_def)

lemma role_node_nil [simp]: "Request_Node r = None \<Longrightarrow> GetRoleFromRequest r = ''''"
  by (simp add: GetRoleFromRequest_def)

lemma gateway_request_has_node:
  "IsKubeGatewayCacheKey (GetRoleFromRequest r) \<Longrightarrow> Request_Node r \<noteq> None"
  using IsKubeGatewayCacheKey_nonempty role_node_nil by blast

lemma role_key_set:
  "map_index None (Some (AList.update RoleKey v fs)) RoleKey = v"
  by (simp add: map_index_def update_conv')

text \<open>
  C37. A node id \<open>name.namespace\<close>, as the pods are configured with, is taken apart at its
  first dot: the pod name and namespace come back for every name without a dot, and an id
  with no dot names no pod.
\<close>

theorem getRef_roundtrip:
  assumes "CHR ''.'' \<notin> set name"
  shows "getRef (Some (n\<lparr>Node_Id := name @ ''.'' @ ns\<rparr>)) = \<lparr>NN_Namespace = ns, NN_Name = name\<rparr> \<and>
    getRef (Some (n\<lparr>Node_Id := name\<rparr>)) = \<lparr>NN_Namespace = '''', NN_Name = ''''\<rparr>"
  using SplitN2_join [OF assms, of ns] SplitN2_none [OF assms]
  by (simp add: getRef_def)

theorem getRef_roundtrip_witness:
  "getRef (Some \<lparr>Node_Id = ''gateway-proxy-5d4f9b7f-xyz.default'', Node_Metadata = None, Node_rest = Opaque ''''\<rparr>)
     = \<lparr>NN_Namespace = ''default'', NN_Name = ''gateway-proxy-5d4f9b7f-xyz''\<rparr>"
  using getRef_roundtrip [where name = "''gateway-proxy-5d4f9b7f-xyz''" and ns = "''default''"
      and n = "\<lparr>Node_Id = '''', Node_Metadata = None, Node_rest = Opaque ''''\<rparr>"]
  by simp

end
