(* ===== verification/Client_Identity.thy ===== *)
theory Client_Identity
  imports Prelude "HOL-Library.Multiset"
begin

text \<open>
  How connected Envoy clients are identified: the label hash
  (\<^verbatim>\<open>internal/fgateway/utils/hashutil/utils.go\<close>) and the unique client and its resource
  name (\<^verbatim>\<open>internal/fgateway/ir/model.go\<close>).
\<close>

unbundle bit_operations_syntax

section \<open>FNV-1, 64 bits\<close>

text \<open>
  \<^verbatim>\<open>hash/fnv\<close>'s \<open>New64\<close>: start at the offset basis; for each byte multiply by the prime
  (modulo \<open>2 ^ 64\<close>), then xor the byte in. \<open>Sum64\<close> reads the state.
\<close>

definition fnv_offset64 :: uint64 where
  "fnv_offset64 = 14695981039346656037"

definition fnv_prime64 :: uint64 where
  "fnv_prime64 = 1099511628211"

definition fnv_byte :: "char \<Rightarrow> uint64 \<Rightarrow> uint64" where
  "fnv_byte c h = (h * fnv_prime64) XOR of_char c"

definition fnv_Write :: "string \<Rightarrow> uint64 \<Rightarrow> uint64" where
  "fnv_Write data h = fold fnv_byte data h"

section \<open>\<open>HashLables\<close>\<close>

text \<open>The loop body: hash one label, key and value each followed by a zero byte.\<close>

definition hash_label :: "string \<Rightarrow> string \<Rightarrow> uint64" where
  "hash_label k v =
     fnv_Write [CHR 0x00] (fnv_Write v (fnv_Write [CHR 0x00] (fnv_Write k fnv_offset64)))"

definition HashLables :: "(string, string) gomap \<Rightarrow> uint64" where
  "HashLables labels = fold (\<lambda>(k, v) finalHash. finalHash XOR hash_label k v) (map_entries labels) 0"

section \<open>Unique clients\<close>

definition KeyDelimiter :: string where
  "KeyDelimiter = ''~''"

record ir_LocalityPod =
  Locality_Region :: string
  Locality_Zone :: string
  Locality_Subzone :: string

record UniqlyConnectedClient =
  UCC_Role :: string
  UCC_Labels :: "(string, string) gomap"
  UCC_Locality :: ir_LocalityPod
  UCC_Namespace :: string
  UCC_ResourceName :: string

definition Locality_zero :: ir_LocalityPod where
  "Locality_zero = \<lparr>Locality_Region = '''', Locality_Zone = '''', Locality_Subzone = ''''\<rparr>"

definition UCC_zero :: UniqlyConnectedClient where
  "UCC_zero = \<lparr>UCC_Role = '''', UCC_Labels = None, UCC_Locality = Locality_zero,
     UCC_Namespace = '''', UCC_ResourceName = ''''\<rparr>"

definition labeledRole :: "string \<Rightarrow> (string, string) gomap \<Rightarrow> string" where
  "labeledRole role labels = role @ KeyDelimiter @ show_nat (unat (HashLables labels))"

definition NewUniqlyConnectedClient ::
  "string \<Rightarrow> string \<Rightarrow> (string, string) gomap \<Rightarrow> ir_LocalityPod \<Rightarrow> UniqlyConnectedClient" where
  "NewUniqlyConnectedClient roleFromEnvoy ns labels locality =
     (let resourceName = (if ns \<noteq> '''' then labeledRole roleFromEnvoy labels @ KeyDelimiter @ ns
                          else roleFromEnvoy)
      in \<lparr>UCC_Role = roleFromEnvoy, UCC_Labels = labels, UCC_Locality = locality,
          UCC_Namespace = ns, UCC_ResourceName = resourceName\<rparr>)"

section \<open>Facts about the hash\<close>

lemma fnv_Write_simps [simp]:
  "fnv_Write [] h = h" "fnv_Write (c # cs) h = fnv_Write cs (fnv_byte c h)"
  "fnv_Write (a @ b) h = fnv_Write b (fnv_Write a h)"
  by (simp_all add: fnv_Write_def)

text \<open>The prime is odd, so multiplying by it is undone by its inverse modulo \<open>2 ^ 64\<close>.\<close>

lemma fnv_prime64_invertible: "fnv_prime64 * 14886173955864302971 = 1"
  by (simp add: fnv_prime64_def)

lemma fnv_prime64_cancel: "a * fnv_prime64 = b * fnv_prime64 \<longleftrightarrow> a = b"
proof
  assume "a * fnv_prime64 = b * fnv_prime64"
  then have "a * fnv_prime64 * 14886173955864302971 = b * fnv_prime64 * 14886173955864302971" by simp
  then show "a = b" by (simp only: mult.assoc fnv_prime64_invertible mult_1_right)
qed simp

lemma xor_cancel_right: "(a :: uint64) XOR c = b XOR c \<longleftrightarrow> a = b"
proof
  assume "a XOR c = b XOR c"
  then have "(a XOR c) XOR c = (b XOR c) XOR c" by (simp only:)
  then show "a = b" by (simp only: xor.assoc xor_self_eq xor.right_neutral)
qed simp

lemma xor_cancel_left: "(c :: uint64) XOR a = c XOR b \<longleftrightarrow> a = b"
  using xor_cancel_right [of a c b] by (simp only: xor.commute)

lemma fnv_byte_inj: "fnv_byte c h = fnv_byte c h' \<longleftrightarrow> h = h'"
  by (simp add: fnv_byte_def xor_cancel_right fnv_prime64_cancel)

lemma of_char_uint64_inj: "(of_char c :: uint64) = of_char c' \<longleftrightarrow> c = c'"
proof -
  have *: "unat (of_char x :: uint64) = of_char x" for x
  proof -
    have "(of_char x :: uint64) = of_nat (of_char x)" by (simp add: of_nat_of_char)
    moreover have "(of_char x :: nat) < 256" by (metis of_char_mod_256 mod_less_divisor zero_less_numeral)
    then have "(of_char x :: nat) < 2 ^ LENGTH(64)" by (rule less_trans) simp
    ultimately show ?thesis by (metis of_nat_inverse)
  qed
  show ?thesis
  proof
    assume "(of_char c :: uint64) = of_char c'"
    then have "(of_char c :: nat) = of_char c'" by (metis *)
    then show "c = c'" by simp
  qed simp
qed

lemma fnv_byte_char_inj: "fnv_byte c h = fnv_byte c' h \<longleftrightarrow> c = c'"
  by (simp add: fnv_byte_def xor_cancel_left of_char_uint64_inj)

lemma fnv_Write_inj: "fnv_Write s h = fnv_Write s h' \<longleftrightarrow> h = h'"
  by (induction s arbitrary: h h') (simp_all add: fnv_byte_inj)

lemma fold_xor_acc:
  "fold (\<lambda>(k, v) h. h XOR hash_label k v) es a = a XOR fold (\<lambda>(k, v) h. h XOR hash_label k v) es 0"
proof (induction es arbitrary: a)
  case Nil
  then show ?case by simp
next
  case (Cons e es)
  obtain k v where e: "e = (k, v)" by (cases e)
  have "fold (\<lambda>(k, v) h. h XOR hash_label k v) (e # es) a =
      (a XOR hash_label k v) XOR fold (\<lambda>(k, v) h. h XOR hash_label k v) es 0"
    using Cons.IH [of "a XOR hash_label k v"] by (simp add: e)
  also have "\<dots> = a XOR fold (\<lambda>(k, v) h. h XOR hash_label k v) (e # es) 0"
    using Cons.IH [of "hash_label k v"] by (simp add: e xor.assoc)
  finally show ?case .
qed

lemma HashLables_Nil [simp]: "HashLables None = 0" "HashLables (Some []) = 0"
  by (simp_all add: HashLables_def)

lemma HashLables_Cons:
  "HashLables (Some ((k, v) # es)) = hash_label k v XOR HashLables (Some es)"
  using fold_xor_acc [of es "hash_label k v"] by (simp add: HashLables_def)

lemma HashLables_append:
  "HashLables (Some (xs @ ys)) = HashLables (Some xs) XOR HashLables (Some ys)"
  by (induction xs) (auto simp: HashLables_Cons xor.assoc)

lemma HashLables_mset:
  "mset es = mset es' \<Longrightarrow> HashLables (Some es) = HashLables (Some es')"
proof (induction es arbitrary: es')
  case Nil
  then show ?case by simp
next
  case (Cons e es)
  obtain k v where e: "e = (k, v)" by (cases e)
  from Cons.prems have "e \<in> set es'" by (metis list.set_intros(1) mset_eq_setD)
  then obtain xs ys where es': "es' = xs @ e # ys" by (meson split_list)
  with Cons.prems have "HashLables (Some es) = HashLables (Some (xs @ ys))"
    by (intro Cons.IH) simp
  then show ?case
    by (simp add: es' e HashLables_Cons HashLables_append xor.assoc xor.left_commute)
qed

text \<open>Maps that \<open>maps.Equal\<close> identifies, a nil and an empty map among them, have the same hash.\<close>

lemma HashLables_maps_Equal:
  assumes "map_wf m" and "map_wf m'" and "maps_Equal m m'"
  shows "HashLables m = HashLables m'"
proof -
  have some: "HashLables x = HashLables (Some (map_entries x))" for x
    by (cases x) (simp_all add: HashLables_def map_entries_def)
  have d: "distinct (map fst (map_entries m))" "distinct (map fst (map_entries m'))"
    using assms(1,2) by (simp_all add: map_wf_def)
  have "map_get m = map_get m'" using assms maps_Equal_iff by blast
  then have "set (map_entries m) = set (map_entries m')"
    using map_of_inject_set [OF d] by (simp add: map_get_def fun_eq_iff)
  then have "mset (map_entries m) = mset (map_entries m')"
    using d by (simp add: set_eq_iff_mset_eq_distinct distinct_map)
  then show ?thesis using some HashLables_mset by metis
qed

text \<open>
  C33. The label hash does not depend on the order in which the range loop visits the labels,
  so two clients with equal label sets get the same hash.
\<close>

theorem HashLables_order_independent:
  assumes "mset es = mset es'"
  shows "HashLables (Some es) = HashLables (Some es')"
  using assms by (rule HashLables_mset)

theorem HashLables_order_independent_witness:
  "HashLables (Some [(''app'', ''gw''), (''zone'', ''a'')]) = HashLables (Some [(''zone'', ''a''), (''app'', ''gw'')])"
  by (rule HashLables_order_independent) simp

text \<open>
  C34. Changing a single byte of a single label value always changes the hash: FNV's step is
  injective in the state and in the byte, and the other labels cancel.
\<close>

theorem HashLables_detects_byte:
  assumes "c \<noteq> c'"
  shows "HashLables (Some (xs @ (k, p @ c # q) # ys)) \<noteq> HashLables (Some (xs @ (k, p @ c' # q) # ys))"
proof -
  have "hash_label k (p @ c # q) \<noteq> hash_label k (p @ c' # q)"
    using assms by (simp add: hash_label_def fnv_Write_inj fnv_byte_inj fnv_byte_char_inj)
  then show ?thesis
    by (simp add: HashLables_append HashLables_Cons xor_cancel_left xor_cancel_right)
qed

theorem HashLables_detects_byte_witness:
  "HashLables (Some [(''zone'', ''eu-1''), (''app'', ''gw'')]) \<noteq> HashLables (Some [(''zone'', ''eu-2''), (''app'', ''gw'')])"
  using HashLables_detects_byte [of "CHR ''1''" "CHR ''2''" "[]" "''zone''" "''eu-''" "[]" "[(''app'', ''gw'')]"]
  by simp

section \<open>Facts about resource names\<close>

lemma delim_not_digit: "CHR ''~'' \<notin> set (show_nat n)"
  using show_nat_digits [of "CHR ''~''" n] by auto

lemma NewUCC_simps [simp]:
  "UCC_Role (NewUniqlyConnectedClient r ns ls loc) = r"
  "UCC_Labels (NewUniqlyConnectedClient r ns ls loc) = ls"
  "UCC_Locality (NewUniqlyConnectedClient r ns ls loc) = loc"
  "UCC_Namespace (NewUniqlyConnectedClient r ns ls loc) = ns"
  by (simp_all add: NewUniqlyConnectedClient_def Let_def)

lemma NewUCC_name_eq:
  "UCC_ResourceName (NewUniqlyConnectedClient r ns ls loc) =
     (if ns = '''' then r else r @ ''~'' @ show_nat (unat (HashLables ls)) @ ''~'' @ ns)"
  by (simp add: NewUniqlyConnectedClient_def Let_def labeledRole_def KeyDelimiter_def)

lemma resourceName_parts:
  assumes "UCC_ResourceName (NewUniqlyConnectedClient r ns ls loc) =
      UCC_ResourceName (NewUniqlyConnectedClient r' ns' ls' loc')"
    and "ns \<noteq> ''''" and "ns' \<noteq> ''''" and "CHR ''~'' \<notin> set ns" and "CHR ''~'' \<notin> set ns'"
  shows "r = r' \<and> HashLables ls = HashLables ls' \<and> ns = ns'"
proof -
  let ?d = "show_nat (unat (HashLables ls))" and ?d' = "show_nat (unat (HashLables ls'))"
  have "(r @ CHR ''~'' # ?d) @ CHR ''~'' # ns = (r' @ CHR ''~'' # ?d') @ CHR ''~'' # ns'"
    using assms(1-3) by (simp add: NewUCC_name_eq)
  from split_last_eq [OF this assms(4,5)]
  have *: "r @ CHR ''~'' # ?d = r' @ CHR ''~'' # ?d'" and "ns = ns'" by simp_all
  from split_last_eq [OF *] have "r = r'" "?d = ?d'" by (simp_all add: delim_not_digit)
  then show ?thesis using \<open>ns = ns'\<close> by (simp add: show_nat_inj word_unat_eq_iff)
qed

text \<open>
  C32. Which clients share a resource name. In namespaces that are not empty and contain no
  delimiter (the namespace of a pod is neither), two clients have the same name exactly when
  role, label hash and namespace agree, whatever delimiters the role contains; the locality plays
  no part. A client without a namespace (pods are not used) is named by its bare role, so there
  the name tells the role and nothing else.
\<close>

theorem resourceName_injective:
  assumes "ns \<noteq> ''''" and "ns' \<noteq> ''''" and "CHR ''~'' \<notin> set ns" and "CHR ''~'' \<notin> set ns'"
  shows "(UCC_ResourceName (NewUniqlyConnectedClient r ns ls loc) =
      UCC_ResourceName (NewUniqlyConnectedClient r' ns' ls' loc') \<longleftrightarrow>
        r = r' \<and> HashLables ls = HashLables ls' \<and> ns = ns') \<and>
    UCC_ResourceName (NewUniqlyConnectedClient r '''' ls loc) = r"
proof (intro conjI iffI)
  assume "r = r' \<and> HashLables ls = HashLables ls' \<and> ns = ns'"
  then show "UCC_ResourceName (NewUniqlyConnectedClient r ns ls loc) =
      UCC_ResourceName (NewUniqlyConnectedClient r' ns' ls' loc')" by (simp only: NewUCC_name_eq)
next
  assume eq: "UCC_ResourceName (NewUniqlyConnectedClient r ns ls loc) =
      UCC_ResourceName (NewUniqlyConnectedClient r' ns' ls' loc')"
  show "r = r'" "HashLables ls = HashLables ls'" "ns = ns'"
    using resourceName_parts [OF eq assms] by blast+
qed (simp add: NewUCC_name_eq)

text \<open>
  A role that ends in what looks like a hash and a namespace is still told apart, and so are two
  namespaces; the order of the labels and the locality are not.
\<close>

theorem resourceName_injective_witness:
  "UCC_ResourceName (NewUniqlyConnectedClient ''gw'' ''ns'' (Some [(''app'', ''a'')]) Locality_zero) \<noteq>
     UCC_ResourceName (NewUniqlyConnectedClient ''gw~1~ns'' ''ns'' (Some [(''app'', ''a'')]) Locality_zero) \<and>
   UCC_ResourceName (NewUniqlyConnectedClient ''gw'' ''ns'' None Locality_zero) \<noteq>
     UCC_ResourceName (NewUniqlyConnectedClient ''gw'' ''other'' None Locality_zero) \<and>
   UCC_ResourceName (NewUniqlyConnectedClient ''gw'' ''ns'' (Some [(''k'', ''v''), (''l'', ''w'')]) Locality_zero) =
     UCC_ResourceName (NewUniqlyConnectedClient ''gw'' ''ns'' (Some [(''l'', ''w''), (''k'', ''v'')])
       \<lparr>Locality_Region = ''eu'', Locality_Zone = '''', Locality_Subzone = ''''\<rparr>)"
proof -
  have h: "HashLables (Some [(''k'', ''v''), (''l'', ''w'')]) = HashLables (Some [(''l'', ''w''), (''k'', ''v'')])"
    by (rule HashLables_mset) simp
  have *: "UCC_ResourceName (NewUniqlyConnectedClient r ns ls loc) =
      UCC_ResourceName (NewUniqlyConnectedClient r' ns' ls' loc') \<longleftrightarrow>
        r = r' \<and> HashLables ls = HashLables ls' \<and> ns = ns'"
    if "ns = ''ns''" "ns' = ''ns'' \<or> ns' = ''other''" for r ns ls loc r' ns' ls' loc'
    by (rule resourceName_injective [THEN conjunct1]) (use that in auto)
  show ?thesis by (intro conjI; subst *) (simp_all add: h del: HashLables_Nil)
qed

end
