(* ===== verification/Pods.thy ===== *)
theory Pods
  imports Client_Identity Kube_Types
begin

text \<open>
  The pod and node collections, \<^verbatim>\<open>internal/fgateway/krtcollections/pods.go\<close> and
  \<^verbatim>\<open>nodes.go\<close>: the functions krt runs on each object. The krt framework itself is not
  part of the model; \<open>krt.FetchOne\<close> by node name is the parameter \<open>fetchNode\<close> and the keys
  of the topology labels, constants of an Istio package, are the parameter \<open>keys\<close>.
\<close>

section \<open>Nodes\<close>

record NodeMetadata =
  NodeMetadata_name :: string
  NodeMetadata_labels :: "(string, string) gomap"

record CoreNode =
  CoreNode_ObjectMeta :: ObjectMeta

text \<open>The function \<open>NewNodeMetaCollection\<close> maps over the nodes.\<close>

definition nodeMetadata_of :: "CoreNode \<Rightarrow> NodeMetadata" where
  "nodeMetadata_of node = \<lparr>NodeMetadata_name = ObjectMeta_Name (CoreNode_ObjectMeta node),
     NodeMetadata_labels = ObjectMeta_Labels (CoreNode_ObjectMeta node)\<rparr>"

definition NodeMetadata_ResourceName :: "NodeMetadata \<Rightarrow> string" where
  "NodeMetadata_ResourceName c = NodeMetadata_name c"

definition NodeMetadata_Equals :: "NodeMetadata \<Rightarrow> NodeMetadata \<Rightarrow> bool" where
  "NodeMetadata_Equals c in' \<longleftrightarrow> NodeMetadata_name c = NodeMetadata_name in' \<and>
     maps_Equal (NodeMetadata_labels c) (NodeMetadata_labels in')"

section \<open>Pods\<close>

record Named =
  Named_Name :: string
  Named_Namespace :: string

record LocalityPod =
  LocalityPod_Named :: Named
  LocalityPod_Locality :: ir_LocalityPod
  LocalityPod_AugmentedLabels :: "(string, string) gomap"
  LocalityPod_Addresses :: "string slice"

record CorePod =
  CorePod_ObjectMeta :: ObjectMeta
  CorePod_NodeName :: string
  CorePod_PodIPs :: "string slice"
  CorePod_PodIP :: string

record topology_keys =
  LabelTopologyRegion :: string
  LabelTopologyZone :: string
  LabelTopologySubzone :: string

definition LocalityPod_IP :: "LocalityPod \<Rightarrow> string" where
  "LocalityPod_IP c = (case slice_elems (LocalityPod_Addresses c) of [] \<Rightarrow> '''' | a # _ \<Rightarrow> a)"

definition LocalityPod_Equals :: "LocalityPod \<Rightarrow> LocalityPod \<Rightarrow> bool" where
  "LocalityPod_Equals c in' \<longleftrightarrow>
     LocalityPod_Named c = LocalityPod_Named in' \<and>
     LocalityPod_Locality c = LocalityPod_Locality in' \<and>
     maps_Equal (LocalityPod_AugmentedLabels c) (LocalityPod_AugmentedLabels in') \<and>
     slice_elems (LocalityPod_Addresses c) = slice_elems (LocalityPod_Addresses in')"

definition localityFromLabels :: "topology_keys \<Rightarrow> (string, string) gomap \<Rightarrow> ir_LocalityPod" where
  "localityFromLabels keys labels = \<lparr>
     Locality_Region = map_index '''' labels (LabelTopologyRegion keys),
     Locality_Zone = map_index '''' labels (LabelTopologyZone keys),
     Locality_Subzone = map_index '''' labels (LabelTopologySubzone keys)\<rparr>"

definition AugmentLabels ::
  "topology_keys \<Rightarrow> ir_LocalityPod \<Rightarrow> (string, string) gomap \<Rightarrow> (string, string) gomap exec" where
  "AugmentLabels keys locality labels =
     exec_bind (if Locality_Region locality \<noteq> ''''
                then map_assign (LabelTopologyRegion keys) (Locality_Region locality) labels else Ret labels)
     (\<lambda>labels. exec_bind (if Locality_Zone locality \<noteq> ''''
                then map_assign (LabelTopologyZone keys) (Locality_Zone locality) labels else Ret labels)
     (\<lambda>labels. if Locality_Subzone locality \<noteq> ''''
                then map_assign (LabelTopologySubzone keys) (Locality_Subzone locality) labels else Ret labels))"

definition extractPodIPs :: "CorePod \<Rightarrow> string slice" where
  "extractPodIPs pod =
     (if slice_len (CorePod_PodIPs pod) > 0 then Some (slice_elems (CorePod_PodIPs pod))
      else if CorePod_PodIP pod \<noteq> '''' then Some [CorePod_PodIP pod]
      else None)"

definition augmentPodLabels ::
  "topology_keys \<Rightarrow> (string \<Rightarrow> NodeMetadata option) \<Rightarrow> CorePod \<Rightarrow> LocalityPod exec" where
  "augmentPodLabels keys fetchNode pod =
     (let cloned = ObjectMeta_Labels (CorePod_ObjectMeta pod);
          labels = (if cloned = None then Some [] else cloned);
          nodeName = CorePod_NodeName pod;
          finish = (\<lambda>localityPod labels. \<lparr>
             LocalityPod_Named = \<lparr>Named_Name = ObjectMeta_Name (CorePod_ObjectMeta pod),
               Named_Namespace = ObjectMeta_Namespace (CorePod_ObjectMeta pod)\<rparr>,
             LocalityPod_Locality = localityPod,
             LocalityPod_AugmentedLabels = labels,
             LocalityPod_Addresses = extractPodIPs pod\<rparr>)
      in if nodeName \<noteq> ''''
         then (case fetchNode nodeName of
                 None \<Rightarrow> Ret (finish Locality_zero labels)
               | Some node \<Rightarrow>
                   (let localityPod = localityFromLabels keys (NodeMetadata_labels node)
                    in exec_bind (AugmentLabels keys localityPod labels)
                         (\<lambda>labels. Ret (finish localityPod labels))))
         else Ret (finish Locality_zero labels))"

section \<open>The collections\<close>

text \<open>
  \<open>krt.NewCollection\<close> keeps the image of its input under the function given, and
  \<open>krt.FetchOne\<close> with a name filter is the node of that name, if any. \<open>strip\<close> stands for
  Istio's \<open>StripPodUnusedFields\<close>, which is applied to every pod before it is stored.
\<close>

definition NewNodeMetaCollection :: "CoreNode list \<Rightarrow> NodeMetadata list" where
  "NewNodeMetaCollection nodes = map nodeMetadata_of nodes"

definition NewLocalityPodsCollection ::
  "topology_keys \<Rightarrow> (CorePod \<Rightarrow> CorePod) \<Rightarrow> CoreNode list \<Rightarrow> CorePod list \<Rightarrow> LocalityPod exec list" where
  "NewLocalityPodsCollection keys strip nodes pods =
     (let podCollection = map strip pods; nodeMetadataCollection = NewNodeMetaCollection nodes
      in map (augmentPodLabels keys (\<lambda>nodeName. find (\<lambda>n. NodeMetadata_ResourceName n = nodeName) nodeMetadataCollection))
           podCollection)"

section \<open>Facts\<close>

lemma AugmentLabels_Some:
  "\<exists>fs. AugmentLabels keys loc (Some es) = Ret (Some fs) \<and>
     (distinct (map fst es) \<longrightarrow> distinct (map fst fs)) \<and>
     map_of fs = (map_of es)
       ++ (if Locality_Region loc \<noteq> '''' then [LabelTopologyRegion keys \<mapsto> Locality_Region loc] else Map.empty)
       ++ (if Locality_Zone loc \<noteq> '''' then [LabelTopologyZone keys \<mapsto> Locality_Zone loc] else Map.empty)
       ++ (if Locality_Subzone loc \<noteq> '''' then [LabelTopologySubzone keys \<mapsto> Locality_Subzone loc] else Map.empty)"
  by (simp add: AugmentLabels_def entries.lookup_put distinct_update)





lemma augmentPodLabels_returns: "returns (augmentPodLabels keys fetchNode pod)"
proof (cases "CorePod_NodeName pod = '''' \<or> fetchNode (CorePod_NodeName pod) = None")
  case True
  then show ?thesis by (auto simp: augmentPodLabels_def Let_def)
next
  case False
  then obtain node where n: "fetchNode (CorePod_NodeName pod) = Some node" by auto
  obtain es where es: "(if ObjectMeta_Labels (CorePod_ObjectMeta pod) = None then Some []
      else ObjectMeta_Labels (CorePod_ObjectMeta pod)) = Some es" by force
  obtain fs where "AugmentLabels keys (localityFromLabels keys (NodeMetadata_labels node)) (Some es) = Ret (Some fs)"
    using AugmentLabels_Some by blast
  with False n es show ?thesis by (simp add: augmentPodLabels_def Let_def)
qed

end
