(* ===== verification/Unique_Clients.thy ===== *)
theory Unique_Clients
  imports Xds Pods
begin

text \<open>
  The registry of connected Envoy clients: \<^verbatim>\<open>callbackscollections.go\<close>, \<^verbatim>\<open>callbacks.go\<close>
  and \<^verbatim>\<open>uniqueclients.go\<close> of \<^verbatim>\<open>internal/fgateway/krtcollections\<close>.

  The mutex \<open>stateLock\<close> makes each of \<open>cleanup\<close>, \<open>getClients\<close> and the locked part of
  \<open>add\<close> atomic; each is one function on the state. \<open>add\<close> looks the pod up before it takes the
  lock, so the pod is an argument of the locked part. Parameters: \<open>podsGet\<close> is
  \<open>augmentedPods.GetKey\<close> and \<open>named name namespace\<close> is the \<open>ResourceName()\<close> of a
  \<open>krt.Named\<close>. \<open>col_trigger\<close> counts the calls of \<open>TriggerRecomputation\<close>.
\<close>

section \<open>State\<close>

record ConnectedClient =
  CC_uniqueClientName :: string

definition NewConnectedClient :: "string \<Rightarrow> ConnectedClient" where
  "NewConnectedClient uniqueClientName = \<lparr>CC_uniqueClientName = uniqueClientName\<rparr>"

record callbacksCollection =
  col_augmentedPods :: bool \<comment> \<open>whether \<open>augmentedPods\<close> is non-nil\<close>
  col_clients :: "(int64 \<times> ConnectedClient) list"
  col_uniqClientCount :: "(string \<times> uint64) list"
  col_uniqClients :: "(string \<times> UniqlyConnectedClient) list"
  col_trigger :: nat

section \<open>Operations of the collection\<close>

definition getClients :: "callbacksCollection \<Rightarrow> UniqlyConnectedClient list" where
  "getClients o' = map snd (col_uniqClients o')"

definition TriggerRecomputation :: "callbacksCollection \<Rightarrow> callbacksCollection" where
  "TriggerRecomputation o' = o'\<lparr>col_trigger := Suc (col_trigger o')\<rparr>"

definition cleanup ::
  "int64 \<Rightarrow> callbacksCollection \<Rightarrow> UniqlyConnectedClient option \<times> callbacksCollection" where
  "cleanup streamId o' =
     (let found = map_of (col_clients o') streamId;
          o1 = o'\<lparr>col_clients := AList.delete streamId (col_clients o')\<rparr>
      in case found of
           None \<Rightarrow> (None, o1)
         | Some connectedClient \<Rightarrow>
             (let resourceName = CC_uniqueClientName connectedClient;
                  current = map_index 0 (Some (col_uniqClientCount o1)) resourceName;
                  o2 = o1\<lparr>col_uniqClientCount := AList.update resourceName (current - 1) (col_uniqClientCount o1)\<rparr>
              in if current = 1
                 then (Some (map_index UCC_zero (Some (col_uniqClients o2)) resourceName),
                       o2\<lparr>col_uniqClientCount := AList.delete resourceName (col_uniqClientCount o2),
                          col_uniqClients := AList.delete resourceName (col_uniqClients o2)\<rparr>)
                 else (None, o2)))"

definition collection_OnStreamClosed :: "int64 \<Rightarrow> callbacksCollection \<Rightarrow> callbacksCollection" where
  "collection_OnStreamClosed streamId o' =
     (let (ucc, o1) = cleanup streamId o' in if ucc \<noteq> None then TriggerRecomputation o1 else o1)"

text \<open>The pod lookup at the start of \<open>add\<close>, before the lock is taken.\<close>

definition add_pod ::
  "(string \<Rightarrow> string \<Rightarrow> string) \<Rightarrow> (string \<Rightarrow> LocalityPod option) \<Rightarrow> DiscoveryRequest
     \<Rightarrow> callbacksCollection \<Rightarrow> LocalityPod option" where
  "add_pod named podsGet r o' =
     (if col_augmentedPods o' \<and> Request_Node r \<noteq> None
      then let podRef = getRef (Request_Node r) in podsGet (named (NN_Name podRef) (NN_Namespace podRef))
      else None)"

definition add_locked ::
  "int64 \<Rightarrow> DiscoveryRequest \<Rightarrow> LocalityPod option \<Rightarrow> callbacksCollection
     \<Rightarrow> (go_error + string \<times> bool) \<times> callbacksCollection" where
  "add_locked streamId r pod o' =
     (case map_of (col_clients o') streamId of
        Some cc \<Rightarrow> (Inr (CC_uniqueClientName cc, False), o')
      | None \<Rightarrow>
         (case (col_augmentedPods o', pod) of
            (True, None) \<Rightarrow> (Inl (ErrNew ''pod not found for node %v''), o')
          | (usePod, _) \<Rightarrow>
             (let (locality, ns, labels) =
                    (case pod of
                       Some p \<Rightarrow> if usePod then (LocalityPod_Locality p, Named_Namespace (LocalityPod_Named p),
                                              LocalityPod_AugmentedLabels p)
                                 else (Locality_zero, '''', None)
                     | None \<Rightarrow> (Locality_zero, '''', None));
                  role = GetRoleFromRequest r;
                  ucc = NewUniqlyConnectedClient role ns labels locality;
                  cc = NewConnectedClient (UCC_ResourceName ucc);
                  o1 = o'\<lparr>col_clients := AList.update streamId cc (col_clients o')\<rparr>;
                  currentUnique = map_index 0 (Some (col_uniqClientCount o1)) (UCC_ResourceName ucc);
                  addedNew = (currentUnique = 0);
                  o2 = (if addedNew
                        then o1\<lparr>col_uniqClients := AList.update (UCC_ResourceName ucc) ucc (col_uniqClients o1)\<rparr>
                        else o1);
                  o3 = o2\<lparr>col_uniqClientCount :=
                         AList.update (UCC_ResourceName ucc) (currentUnique + 1) (col_uniqClientCount o2)\<rparr>
              in (Inr (CC_uniqueClientName cc, addedNew), o3))))"

definition add ::
  "(string \<Rightarrow> string \<Rightarrow> string) \<Rightarrow> (string \<Rightarrow> LocalityPod option) \<Rightarrow> int64 \<Rightarrow> DiscoveryRequest
     \<Rightarrow> callbacksCollection \<Rightarrow> (go_error + string \<times> bool) \<times> callbacksCollection" where
  "add named podsGet streamId r o' = add_locked streamId r (add_pod named podsGet r o') o'"

text \<open>
  The update of the node metadata that \<open>OnStreamRequest\<close> and \<open>OnFetchRequest\<close> share: metadata
  and field map are created when nil, and the role field is set to the resource name.
\<close>

definition augmentRole :: "string \<Rightarrow> Node \<Rightarrow> Node" where
  "augmentRole resourceName node =
     (let nodeMetadata = (case Node_GetMetadata (Some node) of
              None \<Rightarrow> \<lparr>Struct_Fields = None\<rparr> | Some m \<Rightarrow> m);
          fields = (case Struct_GetFields (Some nodeMetadata) of None \<Rightarrow> [] | Some fs \<Rightarrow> fs)
      in node\<lparr>Node_Metadata := Some (nodeMetadata\<lparr>
           Struct_Fields := Some (AList.update RoleKey (Some (StringValue resourceName)) fields)\<rparr>)\<rparr>)"

text \<open>Result: the error returned, the request as mutated, the new state.\<close>

definition collection_OnStreamRequest ::
  "(string \<Rightarrow> string \<Rightarrow> string) \<Rightarrow> (string \<Rightarrow> LocalityPod option) \<Rightarrow> int64 \<Rightarrow> DiscoveryRequest
     \<Rightarrow> callbacksCollection \<Rightarrow> (go_error option \<times> DiscoveryRequest \<times> callbacksCollection) exec" where
  "collection_OnStreamRequest named podsGet streamId r o' =
     (case add named podsGet streamId r o' of
        (Inl err, o1) \<Rightarrow> Ret (Some err, r, o1)
      | (Inr (uccResourceName, isNew), o1) \<Rightarrow>
          (if uccResourceName \<noteq> ''''
           then (case Request_Node r of
                   None \<Rightarrow> Panic ''nil pointer dereference''
                 | Some node \<Rightarrow>
                     Ret (None, r\<lparr>Request_Node := Some (augmentRole uccResourceName node)\<rparr>,
                          if isNew then TriggerRecomputation o1 else o1))
           else Ret (None, r, o1)))"

definition collection_OnFetchRequest ::
  "(string \<Rightarrow> string \<Rightarrow> string) \<Rightarrow> (string \<Rightarrow> LocalityPod option) \<Rightarrow> DiscoveryRequest
     \<Rightarrow> callbacksCollection \<Rightarrow> (go_error option \<times> DiscoveryRequest) exec" where
  "collection_OnFetchRequest named podsGet r o' =
     (if \<not> col_augmentedPods o' then Ret (None, r)
      else case Request_Node r of
             None \<Rightarrow> Ret (Some (ErrNew ''get node error''), r)
           | Some node \<Rightarrow>
               (let podRef = getRef (Some node)
                in case podsGet (named (NN_Name podRef) (NN_Namespace podRef)) of
                     None \<Rightarrow> Panic ''nil pointer dereference''
                   | Some pod \<Rightarrow>
                       (let ucc = NewUniqlyConnectedClient (GetRoleFromRequest r)
                              (Named_Namespace (LocalityPod_Named pod)) (LocalityPod_AugmentedLabels pod)
                              (LocalityPod_Locality pod)
                        in Ret (None, r\<lparr>Request_Node := Some (augmentRole (UCC_ResourceName ucc) node)\<rparr>))))"

section \<open>The callbacks installed in the xDS server\<close>

record callbacks =
  cb_collection :: "callbacksCollection option"

text \<open>\<open>NewUniquelyConnectedClients\<close> starts with no collection; \<open>buildCollection\<close> stores a fresh one.\<close>

definition NewUniquelyConnectedClients :: callbacks where
  "NewUniquelyConnectedClients = \<lparr>cb_collection = None\<rparr>"

definition new_collection :: "bool \<Rightarrow> callbacksCollection" where
  "new_collection augmentPods = \<lparr>col_augmentedPods = augmentPods, col_clients = [],
     col_uniqClientCount = [], col_uniqClients = [], col_trigger = 0\<rparr>"

definition buildCollection :: "callbacks \<Rightarrow> bool \<Rightarrow> callbacks" where
  "buildCollection cb augmentPods = cb\<lparr>cb_collection := Some (new_collection augmentPods)\<rparr>"

definition callbacks_OnStreamClosed :: "int64 \<Rightarrow> callbacks \<Rightarrow> callbacks" where
  "callbacks_OnStreamClosed streamId o' =
     (case cb_collection o' of None \<Rightarrow> o'
      | Some c \<Rightarrow> o'\<lparr>cb_collection := Some (collection_OnStreamClosed streamId c)\<rparr>)"

definition callbacks_OnStreamRequest ::
  "(string \<Rightarrow> string \<Rightarrow> string) \<Rightarrow> (string \<Rightarrow> LocalityPod option) \<Rightarrow> int64 \<Rightarrow> DiscoveryRequest
     \<Rightarrow> callbacks \<Rightarrow> (go_error option \<times> DiscoveryRequest \<times> callbacks) exec" where
  "callbacks_OnStreamRequest named podsGet streamId r o' =
     (if \<not> IsKubeGatewayCacheKey (GetRoleFromRequest r) then Ret (None, r, o')
      else case cb_collection o' of
             None \<Rightarrow> Ret (Some (ErrNew ''fgateway not initialized''), r, o')
           | Some c \<Rightarrow>
               exec_bind (collection_OnStreamRequest named podsGet streamId r c)
                 (\<lambda>(err, r', c'). Ret (err, r', o'\<lparr>cb_collection := Some c'\<rparr>)))"

definition callbacks_OnFetchRequests ::
  "(string \<Rightarrow> string \<Rightarrow> string) \<Rightarrow> (string \<Rightarrow> LocalityPod option) \<Rightarrow> DiscoveryRequest
     \<Rightarrow> callbacks \<Rightarrow> (go_error option \<times> DiscoveryRequest) exec" where
  "callbacks_OnFetchRequests named podsGet r o' =
     (if \<not> IsKubeGatewayCacheKey (GetRoleFromRequest r) then Ret (None, r)
      else case cb_collection o' of
             None \<Rightarrow> Ret (Some (ErrNew ''fgateway not initialized''), r)
           | Some c \<Rightarrow> collection_OnFetchRequest named podsGet r c)"

section \<open>The invariant of the registry\<close>

definition open_name :: "callbacksCollection \<Rightarrow> int64 \<Rightarrow> string option" where
  "open_name c sid = map_option CC_uniqueClientName (map_of (col_clients c) sid)"

definition streams_of :: "callbacksCollection \<Rightarrow> string \<Rightarrow> int64 set" where
  "streams_of c n = {sid. open_name c sid = Some n}"

text \<open>
  A count is stored exactly for the names of open streams and is the number of them, and the
  unique clients are stored under exactly the same names. Stream ids are never zero:
  go-control-plane numbers streams from one. That leaves at most \<open>2 ^ 64 - 1\<close> of them, so the
  \<open>uint64\<close> counts never wrap.
\<close>

definition registry_inv :: "callbacksCollection \<Rightarrow> bool" where
  "registry_inv c \<longleftrightarrow>
     distinct (map fst (col_clients c)) \<and> distinct (map fst (col_uniqClientCount c)) \<and>
     distinct (map fst (col_uniqClients c)) \<and>
     open_name c 0 = None \<and>
     (\<forall>n. map_of (col_uniqClientCount c) n =
        (if streams_of c n = {} then None else Some (of_nat (card (streams_of c n))))) \<and>
     (\<forall>n. (map_of (col_uniqClients c) n = None) = (streams_of c n = {})) \<and>
     (\<forall>n u. map_of (col_uniqClients c) n = Some u \<longrightarrow> UCC_ResourceName u = n)"

lemma finite_streams_of [simp]: "finite (streams_of c n)"
proof -
  have "streams_of c n \<subseteq> dom (map_of (col_clients c))"
    by (auto simp: streams_of_def open_name_def)
  then show ?thesis by (rule finite_subset) (rule finite_dom_map_of)
qed

lemma card_streams_bound:
  assumes "open_name c 0 = None"
  shows "card (streams_of c n) < 2 ^ 64"
proof -
  have "0 \<notin> streams_of c n" using assms by (simp add: streams_of_def)
  then have "streams_of c n \<subset> UNIV" by blast
  then have "card (streams_of c n) < card (UNIV :: int64 set)" by (rule psubset_card_mono [OF finite])
  then show ?thesis by (simp add: card_word)
qed

lemma of_nat_card_eq:
  assumes "open_name c 0 = None" and "k < 2 ^ 64"
  shows "(of_nat (card (streams_of c n)) :: uint64) = of_nat k \<longleftrightarrow> card (streams_of c n) = k"
  using card_streams_bound [OF assms(1)] assms(2)
  by (auto dest!: arg_cong [where f = unat] simp: unat_of_nat)

lemma count_at:
  assumes "registry_inv c"
  shows "map_index 0 (Some (col_uniqClientCount c)) n = (of_nat (card (streams_of c n)) :: uint64)"
  using assms by (simp add: registry_inv_def map_index_def)

lemma count_is:
  assumes "registry_inv c" and "k < 2 ^ 64"
  shows "map_index 0 (Some (col_uniqClientCount c)) n = (of_nat k :: uint64) \<longleftrightarrow> card (streams_of c n) = k"
  using assms by (simp add: count_at of_nat_card_eq registry_inv_def)

lemmas count_is_0 = count_is [where k = 0, simplified]
lemmas count_is_1 = count_is [where k = 1, simplified]

text \<open>The client a request asks for: the one \<open>add\<close> registers a fresh stream under.\<close>

definition requested_client :: "bool \<Rightarrow> LocalityPod option \<Rightarrow> DiscoveryRequest \<Rightarrow> UniqlyConnectedClient" where
  "requested_client usePod pod r =
     (case pod of
        Some p \<Rightarrow> if usePod then NewUniqlyConnectedClient (GetRoleFromRequest r)
            (Named_Namespace (LocalityPod_Named p)) (LocalityPod_AugmentedLabels p) (LocalityPod_Locality p)
          else NewUniqlyConnectedClient (GetRoleFromRequest r) '''' None Locality_zero
      | None \<Rightarrow> NewUniqlyConnectedClient (GetRoleFromRequest r) '''' None Locality_zero)"

lemma requested_client_gateway:
  "IsKubeGatewayCacheKey (GetRoleFromRequest r) \<Longrightarrow>
     IsKubeGatewayCacheKey (UCC_ResourceName (requested_client usePod pod r))"
  by (auto simp: requested_client_def NewUCC_name_eq intro: IsKubeGatewayCacheKey_append split: option.split)

section \<open>The locked operations on the invariant\<close>

lemma streams_of_open:
  assumes "open_name c' = (open_name c)(sid \<mapsto> n)" and "open_name c sid = None"
  shows "streams_of c' m = (if m = n then insert sid (streams_of c m) else streams_of c m)"
  using assms by (auto simp: streams_of_def split: if_splits)

lemma streams_of_close:
  assumes "open_name c' = (open_name c)(sid := None)"
  shows "streams_of c' m = streams_of c m - {sid}"
  using assms by (auto simp: streams_of_def split: if_splits)

text \<open>The four outcomes of \<open>add\<close> under the lock.\<close>

lemma add_locked_known:
  "open_name c sid = Some n \<Longrightarrow> add_locked sid r pod c = (Inr (n, False), c)"
  by (auto simp: add_locked_def open_name_def)

lemma add_locked_no_pod:
  assumes "open_name c sid = None" and "col_augmentedPods c" and "pod = None"
  shows "add_locked sid r pod c = (Inl (ErrNew ''pod not found for node %v''), c)"
  using assms by (auto simp: add_locked_def open_name_def)

lemma add_locked_stutter:
  assumes "\<not> (open_name c sid = None \<and> (col_augmentedPods c \<longrightarrow> pod \<noteq> None))"
    and "add_locked sid r pod c = (res, c')"
  shows "c' = c"
  using assms add_locked_known add_locked_no_pod by (cases "open_name c sid") auto

lemma add_locked_fresh:
  fixes r :: DiscoveryRequest
  assumes "registry_inv c" and "open_name c sid = None" and "col_augmentedPods c \<longrightarrow> pod \<noteq> None"
  defines "u \<equiv> requested_client (col_augmentedPods c) pod r"
  shows "add_locked sid r pod c =
    (Inr (UCC_ResourceName u, streams_of c (UCC_ResourceName u) = {}),
     c\<lparr>col_clients := AList.update sid \<lparr>CC_uniqueClientName = UCC_ResourceName u\<rparr> (col_clients c),
       col_uniqClients := (if streams_of c (UCC_ResourceName u) = {}
          then AList.update (UCC_ResourceName u) u (col_uniqClients c) else col_uniqClients c),
       col_uniqClientCount := AList.update (UCC_ResourceName u)
          (of_nat (card (streams_of c (UCC_ResourceName u))) + 1) (col_uniqClientCount c)\<rparr>)"
proof -
  have none: "map_of (col_clients c) sid = None" using assms(2) by (simp add: open_name_def)
  have z: "(of_nat (card (streams_of c n)) :: uint64) = 0 \<longleftrightarrow> streams_of c n = {}" for n
    using count_is_0 [OF assms(1), of n] by (simp add: count_at [OF assms(1)])
  show ?thesis
    using assms(3) none
    by (cases "col_augmentedPods c"; cases pod)
      (simp_all add: add_locked_def u_def requested_client_def NewConnectedClient_def Let_def
        count_at [OF assms(1)] z)
qed

lemma registry_inv_add:
  assumes inv: "registry_inv c" and sid: "sid \<noteq> 0" and r: "add_locked sid r pod c = (res, c')"
  shows "registry_inv c'"
proof (cases "open_name c sid = None \<and> (col_augmentedPods c \<longrightarrow> pod \<noteq> None)")
  case False
  then have "c' = c" using r by (rule add_locked_stutter)
  then show ?thesis using inv by simp
next
  case True
  define u where "u = requested_client (col_augmentedPods c) pod r"
  define n where "n = UCC_ResourceName u"
  have c': "c' = c\<lparr>col_clients := AList.update sid \<lparr>CC_uniqueClientName = n\<rparr> (col_clients c),
       col_uniqClients := (if streams_of c n = {} then AList.update n u (col_uniqClients c) else col_uniqClients c),
       col_uniqClientCount := AList.update n (of_nat (card (streams_of c n)) + 1) (col_uniqClientCount c)\<rparr>"
    using add_locked_fresh [OF inv, of sid pod r] True r by (simp add: u_def n_def)
  have open': "open_name c' = (open_name c)(sid \<mapsto> n)"
    by (auto simp: c' open_name_def entries.lookup_put fun_eq_iff)
  note str = streams_of_open [OF open'] 
  have fresh: "sid \<notin> streams_of c n" using True by (simp add: streams_of_def)
  have s: "streams_of c' m = (if m = n then insert sid (streams_of c m) else streams_of c m)" for m
    using str True by simp
  show ?thesis
    using inv sid fresh
    unfolding registry_inv_def s open'
    by (auto simp: c' entries.lookup_put distinct_update n_def add.commute
        simp del: map_of_eq_Some_iff split: if_splits)
qed

lemma cleanup_unknown:
  assumes "open_name c sid = None"
  shows "cleanup sid c = (None, c\<lparr>col_clients := AList.delete sid (col_clients c)\<rparr>)"
  using assms by (simp add: cleanup_def open_name_def)

lemma cleanup_known:
  assumes "registry_inv c" and "open_name c sid = Some n"
  shows "cleanup sid c =
    (if streams_of c n = {sid}
     then (map_of (col_uniqClients c) n,
           c\<lparr>col_clients := AList.delete sid (col_clients c),
             col_uniqClientCount := AList.delete n (AList.update n 0 (col_uniqClientCount c)),
             col_uniqClients := AList.delete n (col_uniqClients c)\<rparr>)
     else (None, c\<lparr>col_clients := AList.delete sid (col_clients c),
             col_uniqClientCount := AList.update n (of_nat (card (streams_of c n)) - 1) (col_uniqClientCount c)\<rparr>))"
proof -
  obtain cc where cc: "map_of (col_clients c) sid = Some cc" "CC_uniqueClientName cc = n"
    using assms(2) by (auto simp: open_name_def)
  have mem: "sid \<in> streams_of c n" using assms(2) by (simp add: streams_of_def)
  then have one: "(of_nat (card (streams_of c n)) :: uint64) = 1 \<longleftrightarrow> streams_of c n = {sid}"
    using count_is_1 [OF assms(1), of n] by (auto simp: count_at [OF assms(1)] card_1_singleton_iff)
  obtain u where u: "map_of (col_uniqClients c) n = Some u"
    using assms(1) mem by (cases "map_of (col_uniqClients c) n") (auto simp: registry_inv_def)
  have "map_index UCC_zero (Some (col_uniqClients c)) n = u" using u by (simp add: map_index_def)
  then show ?thesis
    using cc one u mem by (auto simp: cleanup_def Let_def count_at [OF assms(1)])
qed

lemma open_name_cleanup: "open_name (snd (cleanup sid c)) = (open_name c)(sid := None)"
  by (auto simp: cleanup_def open_name_def Let_def entries.lookup_remove fun_eq_iff split: option.split)

lemma open_name_add:
  assumes "registry_inv c" and "open_name c sid = None" and "col_augmentedPods c \<longrightarrow> pod \<noteq> None"
  shows "open_name (snd (add_locked sid r pod c)) =
    (open_name c)(sid \<mapsto> UCC_ResourceName (requested_client (col_augmentedPods c) pod r))"
  using add_locked_fresh [OF assms, of r] by (auto simp: open_name_def entries.lookup_put fun_eq_iff)

lemma registry_inv_cleanup:
  assumes inv: "registry_inv c" and r: "cleanup sid c = (res, c')"
  shows "registry_inv c'"
proof -
  have open': "open_name c' = (open_name c)(sid := None)" using open_name_cleanup [of sid c] r by simp
  note s = streams_of_close [OF open']
  show ?thesis
  proof (cases "open_name c sid")
    case None
    then have c': "c' = c\<lparr>col_clients := AList.delete sid (col_clients c)\<rparr>"
      using r by (simp add: cleanup_unknown)
    have "streams_of c' m = streams_of c m" for m
      using None unfolding s by (auto simp: streams_of_def)
    then show ?thesis
      using inv unfolding registry_inv_def open' by (simp add: c' distinct_delete)
  next
    case (Some n)
    have mem: "sid \<in> streams_of c n" using Some by (simp add: streams_of_def)
    then have "Suc 0 \<le> card (streams_of c n)" by (auto simp: Suc_le_eq card_gt_0_iff)
    then have dec: "(of_nat (card (streams_of c n) - Suc 0) :: uint64) = of_nat (card (streams_of c n)) - 1"
      by (simp add: of_nat_diff)
    have s': "streams_of c' m = (if m = n then streams_of c n - {sid} else streams_of c m)" for m
      using Some unfolding s by (auto simp: streams_of_def)
    show ?thesis
    proof (cases "streams_of c n = {sid}")
      case True
      then show ?thesis
        using inv r unfolding registry_inv_def open' s'
        by (auto simp: cleanup_known [OF inv Some] entries.lookup_put entries.lookup_remove
            distinct_update distinct_delete simp del: map_of_eq_Some_iff split: if_splits)
    next
      case False
      then have ne: "streams_of c n - {sid} \<noteq> {}" using mem by blast
      show ?thesis
        using inv r False ne mem unfolding registry_inv_def open' s'
        by (auto simp: cleanup_known [OF inv Some] entries.lookup_put dec
            distinct_update distinct_delete simp del: map_of_eq_Some_iff split: if_splits)
    qed
  qed
qed

text \<open>What the collection publishes: the unique clients, one for each name of an open stream.\<close>

lemma getClients_names:
  assumes "registry_inv c"
  shows "map UCC_ResourceName (getClients c) = map fst (col_uniqClients c)"
  using assms by (auto simp: getClients_def registry_inv_def)

lemma listed_names:
  assumes "registry_inv c"
  shows "UCC_ResourceName ` set (getClients c) = ran (open_name c)"
proof -
  have "UCC_ResourceName ` set (getClients c) = {n. map_of (col_uniqClients c) n \<noteq> None}"
    using arg_cong [OF getClients_names [OF assms], of set]
    by (simp add: map_of_eq_None_iff)
  also have "\<dots> = {n. streams_of c n \<noteq> {}}" using assms by (simp add: registry_inv_def)
  finally show ?thesis by (auto simp: streams_of_def ran_def)
qed

lemma getClients_add:
  assumes "registry_inv c" and "add_locked sid r pod c = (Inr (n, False), c')"
  shows "set (getClients c') = set (getClients c)"
  using assms(2)
proof (cases "open_name c sid = None \<and> (col_augmentedPods c \<longrightarrow> pod \<noteq> None)")
  case True
  then have "col_uniqClients c' = col_uniqClients c"
    using assms add_locked_fresh [OF assms(1), of sid pod r] by (auto split: if_splits)
  then show ?thesis by (simp add: getClients_def)
next
  case False
  then have "c' = c" using assms(2) by (rule add_locked_stutter)
  then show ?thesis by simp
qed

lemma add_error_unchanged: "add_locked sid r pod c = (Inl e, c') \<Longrightarrow> c' = c"
  by (auto simp: add_locked_def Let_def split: option.splits bool.splits prod.splits)

lemma getClients_cleanup:
  assumes "registry_inv c" and "cleanup sid c = (None, c')"
  shows "set (getClients c') = set (getClients c)"
proof (cases "open_name c sid")
  case None
  then show ?thesis using assms by (auto simp: cleanup_unknown getClients_def)
next
  case (Some n)
  then have "map_of (col_uniqClients c) n \<noteq> None"
    using assms(1) by (auto simp: registry_inv_def streams_of_def)
  then show ?thesis
    using assms(2) Some by (auto simp: cleanup_known [OF assms(1) Some] getClients_def split: if_splits)
qed

lemma col_augmentedPods_add: "col_augmentedPods (snd (add_locked sid r pod c)) = col_augmentedPods c"
  by (auto simp: add_locked_def Let_def split: option.splits bool.splits prod.splits)

lemma col_augmentedPods_cleanup: "col_augmentedPods (snd (cleanup sid c)) = col_augmentedPods c"
  by (auto simp: cleanup_def Let_def split: option.splits)

end
