(* ===== verification/Transition_Systems.thy ===== *)
theory Transition_Systems
  imports Prelude
begin

text \<open>
  Two contracts of transition systems that the concurrent parts of the program are shown to
  meet: a system that implements an abstract machine (\<open>simulation\<close>), and a system that comes to
  rest by its own steps (\<open>settling\<close>).
\<close>

section \<open>Simulation\<close>

text \<open>
  A simulation maps every state of the concrete system that satisfies an invariant to a state
  of the abstract one, and every concrete step to an abstract step.
\<close>

locale simulation =
  fixes cinit :: "'c \<Rightarrow> bool" and cstep :: "'c \<Rightarrow> 'e \<Rightarrow> 'c \<Rightarrow> bool"
    and ainit :: "'a \<Rightarrow> bool" and astep :: "'a \<Rightarrow> 'l \<Rightarrow> 'a \<Rightarrow> bool"
    and inv :: "'c \<Rightarrow> bool" and abs :: "'c \<Rightarrow> 'a" and label :: "'c \<Rightarrow> 'e \<Rightarrow> 'l"
  assumes inv_init: "cinit s \<Longrightarrow> inv s"
    and inv_step: "inv s \<Longrightarrow> cstep s e s' \<Longrightarrow> inv s'"
    and abs_init: "cinit s \<Longrightarrow> ainit (abs s)"
    and abs_step: "inv s \<Longrightarrow> cstep s e s' \<Longrightarrow> astep (abs s) (label s e) (abs s')"
begin

inductive crun :: "'c \<Rightarrow> 'e list \<Rightarrow> 'c \<Rightarrow> bool" where
  crun_start: "cinit s \<Longrightarrow> crun s [] s"
| crun_step: "crun s es s' \<Longrightarrow> cstep s' e s'' \<Longrightarrow> crun s (es @ [e]) s''"

inductive arun :: "'a \<Rightarrow> 'l list \<Rightarrow> 'a \<Rightarrow> bool" where
  arun_start: "ainit a \<Longrightarrow> arun a [] a"
| arun_step: "arun a ls a' \<Longrightarrow> astep a' l a'' \<Longrightarrow> arun a (ls @ [l]) a''"

lemma crun_inv: "crun s es s' \<Longrightarrow> inv s'"
  by (induction rule: crun.induct) (auto intro: inv_init inv_step)

lemma crun_simulated: "crun s es s' \<Longrightarrow> \<exists>ls. length ls = length es \<and> arun (abs s) ls (abs s')"
proof (induction rule: crun.induct)
  case (crun_start s)
  then show ?case by (auto intro: arun_start abs_init)
next
  case (crun_step s es s' e s'')
  then obtain ls where ls: "length ls = length es" "arun (abs s) ls (abs s')" by blast
  have "astep (abs s') (label s' e) (abs s'')"
    using abs_step crun_inv [OF crun_step.hyps(1)] crun_step.hyps(2) by blast
  then show ?case using arun.arun_step [OF ls(2)] ls(1) by (metis length_append_singleton)
qed

lemma crun_safe:
  assumes "\<And>a. ainit a \<Longrightarrow> P a" and "\<And>a l a'. P a \<Longrightarrow> astep a l a' \<Longrightarrow> P a'" and "crun s es s'"
  shows "P (abs s')"
proof -
  have "arun a ls a' \<Longrightarrow> P a'" for a ls a'
    by (induction rule: arun.induct) (auto intro: assms(1,2))
  then show ?thesis using crun_simulated [OF assms(3)] by blast
qed

end

section \<open>Coming to rest\<close>

text \<open>
  A system settles if in every good state that is not at rest one of its own steps is possible
  and every such step keeps the state good and lowers its rank.
\<close>

locale settling =
  fixes good :: "'s \<Rightarrow> bool" and own :: "'s \<Rightarrow> 's \<Rightarrow> bool" and rank :: "'s \<Rightarrow> nat" and rest :: "'s \<Rightarrow> bool"
  assumes progress: "good s \<Longrightarrow> \<not> rest s \<Longrightarrow> \<exists>s'. own s s'"
    and good_own: "good s \<Longrightarrow> own s s' \<Longrightarrow> good s'"
    and rank_own: "good s \<Longrightarrow> own s s' \<Longrightarrow> rank s' < rank s"
begin

lemma run_bounded: "good s \<Longrightarrow> (own ^^ n) s s' \<Longrightarrow> good s' \<and> n + rank s' \<le> rank s"
proof (induction n arbitrary: s')
  case (Suc n)
  then obtain t where "(own ^^ n) s t" "own t s'" by auto
  with Suc show ?case using good_own rank_own by fastforce
qed simp

lemma stopped_at_rest: "good s \<Longrightarrow> (own ^^ n) s s' \<Longrightarrow> \<nexists>s''. own s' s'' \<Longrightarrow> rest s'"
  using run_bounded progress by blast

lemma settles: "good s \<Longrightarrow> \<exists>n \<le> rank s. \<exists>s'. (own ^^ n) s s' \<and> rest s'"
proof (induction "rank s" arbitrary: s rule: less_induct)
  case less
  show ?case
  proof (cases "rest s")
    case True
    then show ?thesis by (intro exI [of _ 0]) auto
  next
    case False
    then obtain t where t: "own s t" using progress less.prems by blast
    then have "good t" and lt: "rank t < rank s" using good_own rank_own less.prems by blast+
    then obtain n s' where "n \<le> rank t" "(own ^^ n) t s'" "rest s'" using less.hyps by blast
    then have "Suc n \<le> rank s" "(own ^^ Suc n) s s'" using lt relpowp_Suc_I2 [of own s t n s'] t by auto
    then show ?thesis using \<open>rest s'\<close> by blast
  qed
qed

end

end
