(* ===== verification/Stream_System.thy ===== *)
theory Stream_System
  imports Unique_Clients Transition_Systems
begin

text \<open>
  The registry of connected clients as a concurrent system, and the contracts of the xDS
  callbacks.

  Callbacks of different streams interleave with each other and with the recomputation of the
  published collection. What is atomic is what the mutex protects: the locked part of \<open>add\<close>,
  \<open>cleanup\<close> and \<open>getClients\<close>. \<open>TriggerRecomputation\<close> runs after the lock is released, so a
  callback that must still trigger is a step of its own (\<open>sys_pending\<close> counts them). The function
  of the published collection registers for the trigger first (\<open>MarkDependant\<close>: it has then seen
  every trigger so far) and reads the clients in a later step.

  When krt runs that function is not the program's choice, so a run may start in any state in
  which none is going on, and what is shown of the reachable states holds for every scheduler.
  What krt promises, one run at first and another after each trigger that was not yet seen, is
  used for progress only (\<open>sys_stale\<close>, \<open>owed_step\<close>).
\<close>

section \<open>The contract of a stream registry\<close>

locale stream_registry =
  fixes ok :: "'s \<Rightarrow> bool"
    and streams :: "'s \<Rightarrow> 'k \<Rightarrow> 'n option"
    and listed :: "'s \<Rightarrow> 'n set"
    and leave :: "'k \<Rightarrow> 's \<Rightarrow> 's"
  assumes ok_leave: "ok s \<Longrightarrow> ok (leave k s)"
    and streams_leave: "streams (leave k s) = (streams s)(k := None)"
    and listed_ran: "ok s \<Longrightarrow> listed s = ran (streams s)"
begin

lemma ok_leave_all: "ok s \<Longrightarrow> ok (fold leave ks s)"
  by (induction ks arbitrary: s) (auto simp: ok_leave)

lemma streams_leave_all: "streams (fold leave ks s) = (streams s) |` (- set ks)"
  by (induction ks arbitrary: s) (auto simp: streams_leave restrict_map_def fun_eq_iff)

lemma listed_leave_all: "ok s \<Longrightarrow> listed (fold leave ks s) = ran ((streams s) |` (- set ks))"
  by (simp add: listed_ran ok_leave_all streams_leave_all)

lemma drained: "ok s \<Longrightarrow> dom (streams s) \<subseteq> set ks \<Longrightarrow> listed (fold leave ks s) = {}"
  by (auto simp: listed_leave_all ran_def restrict_map_def dom_def split: if_splits)

lemma still_listed:
  "ok s \<Longrightarrow> streams s k = Some n \<Longrightarrow> k \<notin> set ks \<Longrightarrow> n \<in> listed (fold leave ks s)"
  by (auto simp: listed_leave_all ran_def restrict_map_def)

end

locale joining_registry = stream_registry ok streams listed leave
  for ok :: "'s \<Rightarrow> bool" and streams :: "'s \<Rightarrow> 'k \<Rightarrow> 'n option" and listed and leave +
  fixes accepts :: "'k \<Rightarrow> 'r \<Rightarrow> 's \<Rightarrow> bool"
    and join :: "'k \<Rightarrow> 'r \<Rightarrow> 's \<Rightarrow> 's"
    and name_of :: "'r \<Rightarrow> 's \<Rightarrow> 'n"
  assumes ok_join: "ok s \<Longrightarrow> accepts k r s \<Longrightarrow> ok (join k r s)"
    and streams_join: "ok s \<Longrightarrow> accepts k r s \<Longrightarrow>
      streams (join k r s) = (if streams s k = None then (streams s)(k \<mapsto> name_of r s) else streams s)"
begin

lemma listed_join:
  "ok s \<Longrightarrow> accepts k r s \<Longrightarrow> streams s k = None \<Longrightarrow>
     listed (join k r s) = insert (name_of r s) (listed s)"
  by (simp add: listed_ran ok_join streams_join ran_map_upd)

lemma join_leave:
  assumes "ok s" and "accepts k r s" and "streams s k = None"
  shows "listed (leave k (join k r s)) = listed s"
proof -
  have "streams (leave k (join k r s)) = streams s"
    using assms by (auto simp: streams_leave streams_join)
  then show ?thesis using assms by (simp add: listed_ran ok_leave ok_join)
qed

lemma join_sticky:
  "ok s \<Longrightarrow> accepts k r s \<Longrightarrow> streams s k' = Some n \<Longrightarrow> streams (join k r s) k' = Some n"
  by (auto simp: streams_join)

end

lemma registry_trigger [simp]:
  "open_name (TriggerRecomputation c) = open_name c"
  "getClients (TriggerRecomputation c) = getClients c"
  "streams_of (TriggerRecomputation c) = streams_of c"
  "registry_inv (TriggerRecomputation c) = registry_inv c"
  "col_augmentedPods (TriggerRecomputation c) = col_augmentedPods c"
  by (auto simp: TriggerRecomputation_def open_name_def getClients_def streams_of_def registry_inv_def fun_eq_iff)

lemma OnStreamClosed_effect:
  "open_name (collection_OnStreamClosed sid c) = (open_name c)(sid := None)"
  "registry_inv c \<Longrightarrow> registry_inv (collection_OnStreamClosed sid c)"
  "col_augmentedPods (collection_OnStreamClosed sid c) = col_augmentedPods c"
  using open_name_cleanup [of sid c] registry_inv_cleanup [of c sid] col_augmentedPods_cleanup [of sid c]
  by (auto simp: collection_OnStreamClosed_def split: prod.splits)

text \<open>The registry of \<^verbatim>\<open>callbackscollections.go\<close> keeps the contract.\<close>

definition listed_clients :: "callbacksCollection \<Rightarrow> string set" where
  "listed_clients c = UCC_ResourceName ` set (getClients c)"

text \<open>A request that joins: the request itself and the pod found for it.\<close>

definition registry_accepts :: "int64 \<Rightarrow> DiscoveryRequest \<times> LocalityPod option \<Rightarrow> callbacksCollection \<Rightarrow> bool" where
  "registry_accepts sid q c \<longleftrightarrow> sid \<noteq> 0 \<and> (open_name c sid = None \<and> col_augmentedPods c \<longrightarrow> snd q \<noteq> None)"

definition registry_join :: "int64 \<Rightarrow> DiscoveryRequest \<times> LocalityPod option \<Rightarrow> callbacksCollection \<Rightarrow> callbacksCollection" where
  "registry_join sid q c = snd (add_locked sid (fst q) (snd q) c)"

definition registry_name :: "DiscoveryRequest \<times> LocalityPod option \<Rightarrow> callbacksCollection \<Rightarrow> string" where
  "registry_name q c = UCC_ResourceName (requested_client (col_augmentedPods c) (snd q) (fst q))"

lemma registry_inv_join: "registry_inv c \<Longrightarrow> sid \<noteq> 0 \<Longrightarrow> registry_inv (registry_join sid q c)"
  unfolding registry_join_def by (rule registry_inv_add) (auto simp: prod_eq_iff)

interpretation registry: joining_registry registry_inv open_name listed_clients collection_OnStreamClosed
  registry_accepts registry_join registry_name
proof unfold_locales
  show "registry_inv s \<Longrightarrow> listed_clients s = ran (open_name s)" for s
    by (simp add: listed_clients_def listed_names)
  show "registry_inv s \<Longrightarrow> registry_accepts k r s \<Longrightarrow> registry_inv (registry_join k r s)" for s k r
    by (simp add: registry_accepts_def registry_inv_join)
  show "registry_inv s \<Longrightarrow> registry_accepts k r s \<Longrightarrow> open_name (registry_join k r s) =
      (if open_name s k = None then (open_name s)(k \<mapsto> registry_name r s) else open_name s)" for s k r
    by (auto simp: registry_accepts_def registry_join_def registry_name_def open_name_add add_locked_known)
qed (simp_all add: OnStreamClosed_effect)

section \<open>The concurrent system\<close>

record system =
  sys_col :: callbacksCollection
  sys_pending :: nat \<comment> \<open>callbacks that have left the lock and must still trigger\<close>
  sys_seen :: "nat option" \<comment> \<open>triggers the last recomputation registered for, \<open>None\<close> before the first\<close>
  sys_running :: bool \<comment> \<open>a recomputation has registered and not yet read\<close>
  sys_published :: "UniqlyConnectedClient set"

datatype event = Request int64 DiscoveryRequest "LocalityPod option" | Closed int64 | Trigger | Mark | Read

inductive step :: "system \<Rightarrow> event \<Rightarrow> system \<Rightarrow> bool" where
  request: "\<lbrakk>IsKubeGatewayCacheKey (GetRoleFromRequest r); sid \<noteq> 0;
      add_locked sid r pod (sys_col s) = (res, c')\<rbrakk> \<Longrightarrow>
    step s (Request sid r pod)
      (s\<lparr>sys_col := c', sys_pending := (if \<exists>n. res = Inr (n, True) then Suc (sys_pending s) else sys_pending s)\<rparr>)"
| closed: "cleanup sid (sys_col s) = (ucc, c') \<Longrightarrow>
    step s (Closed sid)
      (s\<lparr>sys_col := c', sys_pending := (if ucc \<noteq> None then Suc (sys_pending s) else sys_pending s)\<rparr>)"
| trigger: "sys_pending s = Suc k \<Longrightarrow>
    step s Trigger (s\<lparr>sys_col := TriggerRecomputation (sys_col s), sys_pending := k\<rparr>)"
| mark: "\<not> sys_running s \<Longrightarrow>
    step s Mark (s\<lparr>sys_seen := Some (col_trigger (sys_col s)), sys_running := True\<rparr>)"
| read: "sys_running s \<Longrightarrow>
    step s Read (s\<lparr>sys_published := set (getClients (sys_col s)), sys_running := False\<rparr>)"

inductive_cases step_requestE: "step s (Request sid r pod) s'"
inductive_cases step_closedE: "step s (Closed sid) s'"
inductive_cases step_triggerE: "step s Trigger s'"
inductive_cases step_markE: "step s Mark s'"
inductive_cases step_readE: "step s Read s'"

lemmas step_cases = step_requestE step_closedE step_triggerE step_markE step_readE

definition system_init :: "bool \<Rightarrow> system" where
  "system_init augmentPods = \<lparr>sys_col = new_collection augmentPods, sys_pending = 0, sys_seen = None,
     sys_running = False, sys_published = {}\<rparr>"

inductive reachable :: "bool \<Rightarrow> system \<Rightarrow> bool" for augmentPods where
  init: "reachable augmentPods (system_init augmentPods)"
| next_state: "reachable augmentPods s \<Longrightarrow> step s e s' \<Longrightarrow> reachable augmentPods s'"

text \<open>A run is due: there was none, or a trigger since the last one registered.\<close>

definition sys_stale :: "system \<Rightarrow> bool" where
  "sys_stale s \<longleftrightarrow> sys_seen s \<noteq> Some (col_trigger (sys_col s))"

definition quiescent :: "system \<Rightarrow> bool" where
  "quiescent s \<longleftrightarrow> sys_pending s = 0 \<and> \<not> sys_stale s \<and> \<not> sys_running s"

definition system_inv :: "system \<Rightarrow> bool" where
  "system_inv s \<longleftrightarrow> registry_inv (sys_col s) \<and> (\<forall>n. sys_seen s = Some n \<longrightarrow> n \<le> col_trigger (sys_col s)) \<and>
     (\<forall>sid n. open_name (sys_col s) sid = Some n \<longrightarrow> IsKubeGatewayCacheKey n) \<and>
     (sys_published s = set (getClients (sys_col s)) \<or> sys_pending s > 0 \<or>
      sys_stale s \<or> sys_running s)"

lemma registry_inv_new [simp]: "registry_inv (new_collection a)"
  by (simp add: registry_inv_def new_collection_def open_name_def streams_of_def)

lemma system_inv_init: "system_inv (system_init a)"
  by (auto simp: system_inv_def system_init_def)
    (simp_all add: new_collection_def open_name_def getClients_def)

lemma col_trigger_locked:
  "col_trigger (snd (add_locked sid r pod c)) = col_trigger c"
  "col_trigger (snd (cleanup sid c)) = col_trigger c"
  by (auto simp: add_locked_def cleanup_def Let_def split: option.splits bool.splits prod.splits)

lemma add_gateway_names:
  assumes "registry_inv c" and "add_locked sid r pod c = (res, c')"
    and "IsKubeGatewayCacheKey (GetRoleFromRequest r)"
    and "\<forall>sid n. open_name c sid = Some n \<longrightarrow> IsKubeGatewayCacheKey n"
  shows "\<forall>sid n. open_name c' sid = Some n \<longrightarrow> IsKubeGatewayCacheKey n"
proof (cases "open_name c sid = None \<and> (col_augmentedPods c \<longrightarrow> pod \<noteq> None)")
  case True
  then have "open_name c' = (open_name c)(sid \<mapsto> UCC_ResourceName (requested_client (col_augmentedPods c) pod r))"
    using open_name_add [OF assms(1), of sid pod r] assms(2) by simp
  then show ?thesis using assms(3,4) requested_client_gateway by auto
next
  case False
  then have "c' = c" using assms(2) by (rule add_locked_stutter)
  then show ?thesis using assms(4) by simp
qed

lemma system_inv_request:
  assumes inv: "system_inv s" and role: "IsKubeGatewayCacheKey (GetRoleFromRequest r)" and sid: "sid \<noteq> 0"
    and add: "add_locked sid r pod (sys_col s) = (res, c')"
  shows "system_inv (s\<lparr>sys_col := c',
     sys_pending := (if \<exists>n. res = Inr (n, True) then Suc (sys_pending s) else sys_pending s)\<rparr>)"
proof -
  have reg: "registry_inv (sys_col s)" using inv by (simp add: system_inv_def)
  have "col_trigger c' = col_trigger (sys_col s)"
    using col_trigger_locked(1) [of sid r pod "sys_col s"] add by simp
  moreover have "set (getClients c') = set (getClients (sys_col s))" if "\<nexists>n. res = Inr (n, True)"
  proof (cases res)
    case (Inl e)
    then have "c' = sys_col s" using add by (simp add: add_error_unchanged)
    then show ?thesis by simp
  next
    case (Inr p)
    then have "res = Inr (fst p, False)" using that by (cases p) auto
    then show ?thesis using add getClients_add [OF reg] by simp
  qed
  moreover have "registry_inv c'" using reg sid add by (rule registry_inv_add)
  moreover have "\<forall>sid n. open_name c' sid = Some n \<longrightarrow> IsKubeGatewayCacheKey n"
    using add_gateway_names [OF reg add role] inv by (simp add: system_inv_def)
  ultimately show ?thesis using inv by (auto simp: system_inv_def sys_stale_def)
qed

lemma system_inv_closed:
  assumes inv: "system_inv s" and cl: "cleanup sid (sys_col s) = (ucc, c')"
  shows "system_inv (s\<lparr>sys_col := c',
     sys_pending := (if ucc \<noteq> None then Suc (sys_pending s) else sys_pending s)\<rparr>)"
proof -
  have reg: "registry_inv (sys_col s)" using inv by (simp add: system_inv_def)
  have "col_trigger c' = col_trigger (sys_col s)"
    using col_trigger_locked(2) [of sid "sys_col s"] cl by simp
  moreover have "set (getClients c') = set (getClients (sys_col s))" if "ucc = None"
    using getClients_cleanup [OF reg] cl that by simp
  moreover have "registry_inv c'" using reg cl by (rule registry_inv_cleanup)
  moreover have "open_name c' = (open_name (sys_col s))(sid := None)"
    using open_name_cleanup [of sid "sys_col s"] cl by simp
  ultimately show ?thesis using inv by (auto simp: system_inv_def sys_stale_def split: if_splits)
qed

lemma system_inv_step:
  assumes "system_inv s" and "step s e s'"
  shows "system_inv s'"
  using assms(2,1)
proof cases
  case (request r sid pod res c')
  then show ?thesis using system_inv_request [OF assms(1)] by simp
next
  case (closed sid ucc c')
  then show ?thesis using system_inv_closed [OF assms(1)] by simp
next
  case (trigger k)
  then show ?thesis using assms(1) by (auto simp: system_inv_def sys_stale_def) (auto simp: TriggerRecomputation_def)
qed (auto simp: system_inv_def sys_stale_def)

lemma reachable_inv: "reachable a s \<Longrightarrow> system_inv s"
  by (induction rule: reachable.induct) (auto intro: system_inv_init system_inv_step)

section \<open>An example run\<close>

definition example_request :: DiscoveryRequest where
  "example_request = \<lparr>Request_Node = Some \<lparr>Node_Id = ''gw-1.default'',
      Node_Metadata = Some \<lparr>Struct_Fields = Some [(RoleKey, Some (StringValue (GatewayApiProxyValue @ ''~ns~gw'')))]\<rparr>,
      Node_rest = Opaque ''''\<rparr>, Request_rest = Opaque ''''\<rparr>"

definition example_joined :: system where
  "example_joined = (system_init False)\<lparr>sys_col := snd (add_locked 1 example_request None (new_collection False)),
     sys_pending := 1\<rparr>"

definition example_settled :: system where
  "example_settled = example_joined\<lparr>sys_col := TriggerRecomputation (sys_col example_joined), sys_pending := 0,
     sys_seen := Some 1, sys_running := False, sys_published := set (getClients (sys_col example_joined))\<rparr>"

lemma example_role [simp]: "GetRoleFromRequest example_request = GatewayApiProxyValue @ ''~ns~gw''"
  by (simp add: GetRoleFromRequest_def example_request_def)

lemma example_role_gateway [simp]: "IsKubeGatewayCacheKey (GetRoleFromRequest example_request)"
  by (auto simp: IsKubeGatewayCacheKey_def HasPrefix_iff)

lemma example_add:
  "add_locked 1 example_request None (new_collection False) =
     (Inr (GatewayApiProxyValue @ ''~ns~gw'', True), sys_col example_joined)"
  by (simp add: add_locked_def new_collection_def example_joined_def NewUCC_name_eq NewConnectedClient_def Let_def)

lemma reachable_joined: "reachable False example_joined"
proof -
  have "add_locked 1 example_request None (sys_col (system_init False)) =
      (Inr (GatewayApiProxyValue @ ''~ns~gw'', True), sys_col example_joined)"
    unfolding example_add [symmetric] by (simp add: system_init_def)
  from step.request [OF example_role_gateway _ this]
  have "step (system_init False) (Request 1 example_request None)
      ((system_init False)\<lparr>sys_col := sys_col example_joined, sys_pending := Suc 0\<rparr>)"
    by (simp add: system_init_def)
  moreover have "(system_init False)\<lparr>sys_col := sys_col example_joined, sys_pending := Suc 0\<rparr> = example_joined"
    by (simp add: example_joined_def)
  ultimately show ?thesis using reachable.next_state [OF reachable.init] by simp
qed

lemma reachable_settled: "reachable False example_settled"
proof -
  define s1 where "s1 = example_joined\<lparr>sys_col := TriggerRecomputation (sys_col example_joined), sys_pending := 0\<rparr>"
  define s2 where "s2 = s1\<lparr>sys_seen := Some (col_trigger (sys_col s1)), sys_running := True\<rparr>"
  have t: "col_trigger (sys_col example_joined) = 0" "sys_pending example_joined = Suc 0"
      "sys_seen example_joined = None" "\<not> sys_running example_joined"
    by (simp_all add: example_joined_def col_trigger_locked new_collection_def system_init_def)
  have "reachable False s1"
    unfolding s1_def by (rule reachable.next_state [OF reachable_joined step.trigger]) (simp add: t)
  moreover have "step s1 Mark s2"
    unfolding s2_def by (rule step.mark) (simp_all add: s1_def t TriggerRecomputation_def)
  moreover have "step s2 Read example_settled"
  proof -
    have "example_settled = s2\<lparr>sys_published := set (getClients (sys_col s2)), sys_running := False\<rparr>"
      by (simp add: example_settled_def s2_def s1_def t) (simp add: TriggerRecomputation_def t)
    then show ?thesis using step.read [of s2] by (simp add: s2_def)
  qed
  ultimately show ?thesis by (blast intro: reachable.next_state)
qed

section \<open>Properties of the concurrent system\<close>

text \<open>
  C2. In every reachable state, however the callbacks interleave, the clients that
  \<open>getClients\<close> returns have distinct resource names, they are exactly the names of the open
  streams, and the \<open>uint64\<close> stored for a name is the number of its open streams: the counts
  never wrap.
\<close>

theorem registry_counts_streams:
  assumes "reachable augmentPods s"
  shows "distinct (map UCC_ResourceName (getClients (sys_col s))) \<and>
    UCC_ResourceName ` set (getClients (sys_col s)) = {n. \<exists>sid. open_name (sys_col s) sid = Some n} \<and>
    (\<forall>n. unat (map_index 0 (Some (col_uniqClientCount (sys_col s))) n) =
       card {sid. open_name (sys_col s) sid = Some n})"
proof -
  have inv: "registry_inv (sys_col s)" using reachable_inv [OF assms] by (simp add: system_inv_def)
  have "unat (map_index 0 (Some (col_uniqClientCount (sys_col s))) n) = card (streams_of (sys_col s) n)" for n
    using card_streams_bound [of "sys_col s" n] inv
    by (simp add: count_at [OF inv] unat_of_nat registry_inv_def)
  moreover have "distinct (map UCC_ResourceName (getClients (sys_col s)))"
    using inv by (simp add: getClients_names registry_inv_def)
  ultimately show ?thesis using listed_names [OF inv] by (simp add: streams_of_def ran_def)
qed

theorem registry_counts_streams_witness:
  "reachable False example_joined \<and>
   UCC_ResourceName ` set (getClients (sys_col example_joined)) =
     {n. \<exists>sid. open_name (sys_col example_joined) sid = Some n}"
  using registry_counts_streams [OF reachable_joined] reachable_joined by blast

text \<open>
  C4. No update is lost: once every callback that had to trigger has done so and no
  recomputation is outstanding, the published collection is the set of registered clients.
\<close>

theorem published_up_to_date:
  assumes "reachable augmentPods s" and "quiescent s"
  shows "sys_published s = set (getClients (sys_col s)) \<and>
    UCC_ResourceName ` sys_published s = {n. \<exists>sid. open_name (sys_col s) sid = Some n}"
proof -
  have inv: "system_inv s" by (rule reachable_inv [OF assms(1)])
  then have "sys_published s = set (getClients (sys_col s))"
    using assms(2) by (auto simp: system_inv_def quiescent_def)
  moreover have "registry_inv (sys_col s)" using inv by (simp add: system_inv_def)
  ultimately show ?thesis using listed_names [of "sys_col s"] by (simp add: ran_def)
qed

theorem published_up_to_date_witness:
  "sys_published example_settled = set (getClients (sys_col example_settled)) \<and> sys_published example_settled \<noteq> {}"
proof -
  have "quiescent example_settled"
    by (simp add: quiescent_def sys_stale_def example_settled_def example_joined_def TriggerRecomputation_def
        col_trigger_locked new_collection_def system_init_def)
  moreover have "sys_published example_settled \<noteq> {}"
    by (simp add: example_settled_def example_joined_def getClients_def add_locked_def new_collection_def Let_def)
  ultimately show ?thesis using published_up_to_date [OF reachable_settled] by blast
qed

text \<open>Work left for the trigger and the recomputation; no step of theirs leaves it as it is.\<close>

definition work_left :: "system \<Rightarrow> nat" where
  "work_left s = 3 * sys_pending s + (if sys_stale s then 2 else 0) +
     (if sys_running s then 1 else 0)"

text \<open>
  The steps that are owed: the trigger of a callback that left the lock, the run krt promises, and
  its read.
\<close>

definition owed_step :: "system \<Rightarrow> system \<Rightarrow> bool" where
  "owed_step s s' \<longleftrightarrow> step s Trigger s' \<or> sys_stale s \<and> step s Mark s' \<or> step s Read s'"

lemma owed_step_enabled:
  assumes "\<not> quiescent s"
  shows "\<exists>s'. owed_step s s'"
proof -
  consider k where "sys_pending s = Suc k" | "sys_running s" | "\<not> sys_running s" "sys_stale s"
    using assms by (cases "sys_pending s") (auto simp: quiescent_def)
  then show ?thesis unfolding owed_step_def by cases (blast intro: step.intros)+
qed

lemma owed_step_effect:
  assumes "owed_step s s'"
  shows "work_left s' < work_left s" and "open_name (sys_col s') = open_name (sys_col s)"
    and "getClients (sys_col s') = getClients (sys_col s)"
  using assms by (auto simp: owed_step_def work_left_def sys_stale_def TriggerRecomputation_def elim!: step_cases)
    (auto simp: open_name_def getClients_def)

interpretation recomputation: settling "reachable augmentPods" owed_step work_left quiescent for augmentPods
proof unfold_locales
  show "reachable augmentPods s \<Longrightarrow> owed_step s s' \<Longrightarrow> reachable augmentPods s'" for s s'
    by (auto simp: owed_step_def intro: reachable.next_state)
qed (auto simp: owed_step_enabled owed_step_effect)

lemma owed_run_keeps:
  "(owed_step ^^ n) s s' \<Longrightarrow> open_name (sys_col s') = open_name (sys_col s) \<and> getClients (sys_col s') = getClients (sys_col s)"
  by (induction n arbitrary: s') (auto simp: owed_step_effect)

lemma quiescent_published: "reachable augmentPods s \<Longrightarrow> quiescent s \<Longrightarrow> sys_published s = set (getClients (sys_col s))"
  using reachable_inv [of augmentPods s] by (auto simp: system_inv_def quiescent_def)

text \<open>
  C6. What is owed gets published: from every reachable state, provided only that krt runs the
  collection's function once at first and again after each trigger it has not seen, the triggers
  and runs still owed lead, in at most as many steps as there is work left, to a state where
  nothing is owed, and a sequence of them stops nowhere else. They change neither which streams
  are open nor which clients are registered, and where they stop the published collection is
  exactly the clients that were registered when they began.
\<close>

theorem recomputation_progress:
  assumes "reachable augmentPods s"
  shows "(\<exists>n \<le> work_left s. \<exists>s'. (owed_step ^^ n) s s' \<and> quiescent s' \<and> sys_published s' = set (getClients (sys_col s))) \<and>
    (\<forall>n s'. (owed_step ^^ n) s s' \<longrightarrow> n + work_left s' \<le> work_left s \<and>
       open_name (sys_col s') = open_name (sys_col s) \<and> getClients (sys_col s') = getClients (sys_col s) \<and>
       ((\<nexists>s''. owed_step s' s'') \<longrightarrow> quiescent s' \<and> sys_published s' = set (getClients (sys_col s))))"
proof -
  have "sys_published s' = set (getClients (sys_col s))" if "(owed_step ^^ n) s s'" "quiescent s'" for n s'
    using recomputation.run_bounded [OF assms that(1)] quiescent_published [of augmentPods s'] that(2)
      owed_run_keeps [OF that(1)] by simp
  then show ?thesis
    using recomputation.settles [OF assms] recomputation.run_bounded [OF assms]
      recomputation.stopped_at_rest [OF assms] owed_run_keeps by metis
qed

theorem recomputation_progress_witness:
  "sys_published example_joined \<noteq> set (getClients (sys_col example_joined)) \<and>
   (\<exists>n s'. (owed_step ^^ n) example_joined s' \<and> sys_published s' = set (getClients (sys_col example_joined)))"
proof
  show "sys_published example_joined \<noteq> set (getClients (sys_col example_joined))"
    by (simp add: example_joined_def system_init_def getClients_def add_locked_def new_collection_def Let_def)
  show "\<exists>n s'. (owed_step ^^ n) example_joined s' \<and> sys_published s' = set (getClients (sys_col example_joined))"
    using recomputation_progress [OF reachable_joined] by blast
qed

end
