(* ===== verification/Callbacks.thy ===== *)
theory Callbacks
  imports Stream_System
begin

text \<open>
  Contracts of the callbacks go-control-plane calls (\<^verbatim>\<open>callbacks.go\<close> over
  \<^verbatim>\<open>callbackscollections.go\<close>): what a stream request, a fetch request and a closed stream do
  to the registry and to the request, on every branch.
\<close>

section \<open>The role in the node metadata\<close>

lemma augmentRole_role [simp]:
  "nodeRoleHasher_ID (Some (augmentRole n node)) = n"
  "GetRoleFromRequest (r\<lparr>Request_Node := Some (augmentRole n node)\<rparr>) = n"
  by (simp_all add: nodeRoleHasher_ID_def GetRoleFromRequest_def augmentRole_def Let_def role_key_set)

lemma augmentRole_idem [simp]: "augmentRole n (augmentRole m node) = augmentRole n node"
  by (simp add: augmentRole_def Let_def)

lemma augmentRole_Id [simp]: "Node_Id (augmentRole n node) = Node_Id node"
  by (simp add: augmentRole_def Let_def)

section \<open>Stream requests\<close>

definition collection_ok :: "callbacksCollection \<Rightarrow> bool" where
  "collection_ok c \<longleftrightarrow> registry_inv c \<and> (\<forall>n \<in> ran (open_name c). IsKubeGatewayCacheKey n)"

lemma reachable_collection_ok: "reachable a s \<Longrightarrow> collection_ok (sys_col s)"
  using reachable_inv [of a s] by (auto simp: system_inv_def collection_ok_def ran_def)

lemma collection_ok_trigger [simp]: "collection_ok (TriggerRecomputation c) = collection_ok c"
  by (simp add: collection_ok_def)



definition stream_accepted ::
  "(string \<Rightarrow> string \<Rightarrow> string) \<Rightarrow> (string \<Rightarrow> LocalityPod option) \<Rightarrow> int64 \<Rightarrow> DiscoveryRequest
     \<Rightarrow> callbacksCollection \<Rightarrow> bool" where
  "stream_accepted named podsGet sid r c \<longleftrightarrow>
     open_name c sid \<noteq> None \<or> \<not> col_augmentedPods c \<or> add_pod named podsGet r c \<noteq> None"

text \<open>
  What an accepted request makes of the collection, by everything that can be looked up in it:
  the stream is open under the name, the client is listed under the name if it is new, the count
  of the name goes up by one if the stream is new, and nothing else changes.
\<close>

definition joins ::
  "int64 \<Rightarrow> string \<Rightarrow> UniqlyConnectedClient \<Rightarrow> callbacksCollection \<Rightarrow> callbacksCollection \<Rightarrow> bool" where
  "joins sid n u c c' \<longleftrightarrow>
     open_name c' = (open_name c)(sid \<mapsto> n) \<and>
     (\<forall>m. map_of (col_uniqClients c') m = (if m = n \<and> n \<notin> ran (open_name c) then Some u else map_of (col_uniqClients c) m)) \<and>
     (\<forall>m. map_index 0 (Some (col_uniqClientCount c')) m = map_index 0 (Some (col_uniqClientCount c)) m +
        (if m = n \<and> open_name c sid = None then 1 else 0)) \<and>
     col_augmentedPods c' = col_augmentedPods c"


lemma joins_trigger [simp]: "joins sid n u c (TriggerRecomputation c') = joins sid n u c c'"
  by (simp add: joins_def) (simp add: TriggerRecomputation_def)





lemma collection_ok_new [simp]: "collection_ok (new_collection a)"
proof -
  have "open_name (new_collection a) = Map.empty" by (simp add: new_collection_def open_name_def fun_eq_iff)
  then show ?thesis by (simp add: collection_ok_def)
qed


text \<open>
  C29. Repeating is harmless: once a request on a stream was accepted, the same request with its
  augmented node (go-control-plane keeps sending that node on the stream) changes neither
  the callbacks' state nor the request, whatever has become of the pod meanwhile.
\<close>

theorem OnStreamRequest_idempotent:
  assumes "cb_collection cb = Some c" and "collection_ok c" and "open_name c sid = Some n"
    and "Request_Node r = Some node"
  shows "callbacks_OnStreamRequest named podsGet sid (r\<lparr>Request_Node := Some (augmentRole n node)\<rparr>) cb =
    Ret (None, r\<lparr>Request_Node := Some (augmentRole n node)\<rparr>, cb)"
proof -
  have "IsKubeGatewayCacheKey n" using assms(2,3) by (auto simp: collection_ok_def ran_def)
  moreover from this have "n \<noteq> ''''" by (rule IsKubeGatewayCacheKey_nonempty)
  ultimately show ?thesis
    using assms by (simp add: callbacks_OnStreamRequest_def collection_OnStreamRequest_def add_def
        add_locked_known)
qed

theorem OnStreamRequest_idempotent_witness:
  "\<exists>r. callbacks_OnStreamRequest (\<lambda>n ns. ns @ ''/'' @ n) (\<lambda>_. None) 1 r
       \<lparr>cb_collection = Some (sys_col example_joined)\<rparr> =
     Ret (None, r, \<lparr>cb_collection = Some (sys_col example_joined)\<rparr>)"
proof -
  have ok: "collection_ok (sys_col example_joined)" by (rule reachable_collection_ok [OF reachable_joined])
  have nm: "open_name (sys_col example_joined) 1 = Some (GatewayApiProxyValue @ ''~ns~gw'')"
    by (simp add: open_name_def example_joined_def add_locked_def new_collection_def Let_def
        NewUCC_name_eq NewConnectedClient_def)
  obtain node where node: "Request_Node example_request = Some node" by (simp add: example_request_def)
  show ?thesis
    by (rule exI) (rule OnStreamRequest_idempotent [OF _ ok nm node], simp)
qed

text \<open>
  C30. Every other stream request leaves state and request alone: requests of other proxies are
  passed through, a gateway request before the collection is built is refused, and so is one
  on a fresh stream whose pod is unknown when pods are used.
\<close>

theorem OnStreamRequest_refused:
  "(\<not> IsKubeGatewayCacheKey (GetRoleFromRequest r) \<longrightarrow>
     callbacks_OnStreamRequest named podsGet sid r cb = Ret (None, r, cb)) \<and>
   (IsKubeGatewayCacheKey (GetRoleFromRequest r) \<and> cb_collection cb = None \<longrightarrow>
     callbacks_OnStreamRequest named podsGet sid r cb = Ret (Some (ErrNew ''fgateway not initialized''), r, cb)) \<and>
   (IsKubeGatewayCacheKey (GetRoleFromRequest r) \<and> cb_collection cb = Some c \<and>
      \<not> stream_accepted named podsGet sid r c \<longrightarrow>
     callbacks_OnStreamRequest named podsGet sid r cb =
       Ret (Some (ErrNew ''pod not found for node %v''), r, cb))"
  by (auto simp: callbacks_OnStreamRequest_def collection_OnStreamRequest_def stream_accepted_def
      add_def add_locked_no_pod)

theorem OnStreamRequest_refused_witness:
  "callbacks_OnStreamRequest (\<lambda>n ns. ns @ ''/'' @ n) (\<lambda>_. None) 1 example_request
       \<lparr>cb_collection = Some (new_collection True)\<rparr> =
     Ret (Some (ErrNew ''pod not found for node %v''), example_request, \<lparr>cb_collection = Some (new_collection True)\<rparr>) \<and>
   callbacks_OnStreamRequest (\<lambda>n ns. ns @ ''/'' @ n) (\<lambda>_. None) 1 example_request NewUniquelyConnectedClients =
     Ret (Some (ErrNew ''fgateway not initialized''), example_request, NewUniquelyConnectedClients)"
proof -
  have "\<not> stream_accepted (\<lambda>n ns. ns @ ''/'' @ n) (\<lambda>_. None) 1 example_request (new_collection True)"
    by (simp add: stream_accepted_def open_name_def new_collection_def add_pod_def Let_def)
  then show ?thesis
    using OnStreamRequest_refused [of example_request "\<lambda>n ns. ns @ ''/'' @ n" "\<lambda>_. None" 1
        "\<lparr>cb_collection = Some (new_collection True)\<rparr>" "new_collection True"]
      OnStreamRequest_refused [of example_request "\<lambda>n ns. ns @ ''/'' @ n" "\<lambda>_. None" 1
        NewUniquelyConnectedClients]
    by (simp add: NewUniquelyConnectedClients_def)
qed

section \<open>Closed streams\<close>

text \<open>
  C11. When all streams are closed, in whatever order and with whatever repetitions, no client is
  left; a client of a stream that is not among the closed ones is still there.
\<close>

theorem registry_drains:
  assumes "registry_inv c"
  shows "(dom (open_name c) \<subseteq> set sids \<longrightarrow> getClients (fold collection_OnStreamClosed sids c) = []) \<and>
    (\<forall>sid n. open_name c sid = Some n \<and> sid \<notin> set sids \<longrightarrow>
       n \<in> UCC_ResourceName ` set (getClients (fold collection_OnStreamClosed sids c)))"
  using registry.drained [OF assms, of sids] registry.still_listed [OF assms, of _ _ sids]
  by (auto simp: listed_clients_def)

theorem registry_drains_witness:
  "getClients (sys_col example_joined) \<noteq> [] \<and>
   getClients (fold collection_OnStreamClosed [1] (sys_col example_joined)) = []"
proof -
  have inv: "registry_inv (sys_col example_joined)"
    using reachable_inv [OF reachable_joined] by (simp add: system_inv_def)
  have "dom (open_name (sys_col example_joined)) \<subseteq> set [1]"
    by (auto simp: open_name_def example_joined_def add_locked_def new_collection_def Let_def split: if_splits)
  then have "getClients (fold collection_OnStreamClosed [1] (sys_col example_joined)) = []"
    using registry_drains [OF inv, of "[1]"] by blast
  moreover have "getClients (sys_col example_joined) \<noteq> []"
    by (simp add: example_joined_def getClients_def add_locked_def new_collection_def Let_def)
  ultimately show ?thesis by blast
qed

section \<open>Fetch requests\<close>

text \<open>
  C31. A fetch request of a gateway whose pod is known gets the role a stream request of the same
  node would get; without pods it is left alone; and the registry is not needed.
\<close>

theorem OnFetchRequests_correct:
  assumes "IsKubeGatewayCacheKey (GetRoleFromRequest r)" and "cb_collection cb = Some c"
  shows "(\<not> col_augmentedPods c \<longrightarrow> callbacks_OnFetchRequests named podsGet r cb = Ret (None, r)) \<and>
    (\<forall>pod. col_augmentedPods c \<and> add_pod named podsGet r c = Some pod \<longrightarrow>
      (\<exists>node. Request_Node r = Some node \<and> callbacks_OnFetchRequests named podsGet r cb =
        Ret (None, r\<lparr>Request_Node := Some (augmentRole (UCC_ResourceName (requested_client True (Some pod) r)) node)\<rparr>)))"
  using assms gateway_request_has_node [OF assms(1)]
  by (auto simp: callbacks_OnFetchRequests_def collection_OnFetchRequest_def add_pod_def
      requested_client_def Let_def)

definition example_locality_pod :: LocalityPod where
  "example_locality_pod = \<lparr>LocalityPod_Named = \<lparr>Named_Name = ''gw-1'', Named_Namespace = ''default''\<rparr>,
     LocalityPod_Locality = Locality_zero, LocalityPod_AugmentedLabels = Some [],
     LocalityPod_Addresses = None\<rparr>"

theorem OnFetchRequests_correct_witness:
  "\<exists>r'. callbacks_OnFetchRequests (\<lambda>n ns. ns @ ''/'' @ n) (\<lambda>_. Some example_locality_pod) example_request
      \<lparr>cb_collection = Some (new_collection True)\<rparr> = Ret (None, r')"
proof -
  have "add_pod (\<lambda>n ns. ns @ ''/'' @ n) (\<lambda>_. Some example_locality_pod) example_request (new_collection True) =
      Some example_locality_pod"
    by (simp add: add_pod_def new_collection_def example_request_def Let_def)
  moreover have "col_augmentedPods (new_collection True)" by (simp add: new_collection_def)
  ultimately show ?thesis
    using OnFetchRequests_correct [OF example_role_gateway, of "\<lparr>cb_collection = Some (new_collection True)\<rparr>"
        "new_collection True" "\<lambda>n ns. ns @ ''/'' @ n" "\<lambda>_. Some example_locality_pod"]
    by fastforce
qed

section \<open>Suppressed pod events\<close>

text \<open>
  krt drops an event of a pod when \<open>Equals\<close> holds of the old and the new version. Two such
  versions give a request the same resource name, in the registry and in the node hash.
\<close>

definition pods_agree :: "LocalityPod option \<Rightarrow> LocalityPod option \<Rightarrow> bool" where
  "pods_agree = rel_option (\<lambda>p p'. map_wf (LocalityPod_AugmentedLabels p) \<and>
     map_wf (LocalityPod_AugmentedLabels p') \<and> LocalityPod_Equals p p')"

lemma pods_agree_None: "pods_agree None None"
  by (simp add: pods_agree_def)

lemma pods_agree_name:
  assumes "map_wf (LocalityPod_AugmentedLabels p)" and "map_wf (LocalityPod_AugmentedLabels p')"
    and "LocalityPod_Equals p p'"
  shows "Named_Namespace (LocalityPod_Named p) = Named_Namespace (LocalityPod_Named p') \<and>
    UCC_ResourceName (NewUniqlyConnectedClient role (Named_Namespace (LocalityPod_Named p'))
        (LocalityPod_AugmentedLabels p) loc) =
      UCC_ResourceName (NewUniqlyConnectedClient role (Named_Namespace (LocalityPod_Named p'))
        (LocalityPod_AugmentedLabels p') loc')"
  using assms HashLables_maps_Equal [OF assms(1,2)] by (simp add: LocalityPod_Equals_def NewUCC_name_eq)

text \<open>What streams and snapshots see of the collection: everything but the stored labels.\<close>

definition registry_view ::
  "callbacksCollection \<Rightarrow> (int64 \<times> ConnectedClient) list \<times> (string \<times> uint64) list \<times> string list \<times> bool \<times> nat" where
  "registry_view c = (col_clients c, col_uniqClientCount c, map fst (col_uniqClients c),
     col_augmentedPods c, col_trigger c)"

lemma add_locked_agree:
  assumes "pods_agree pod pod'"
  shows "fst (add_locked sid r pod c) = fst (add_locked sid r pod' c) \<and>
    registry_view (snd (add_locked sid r pod c)) = registry_view (snd (add_locked sid r pod' c))"
  using assms
proof (cases pod pod' rule: option.exhaust [case_product option.exhaust])
  case (Some_Some p p')
  with assms have *: "Named_Namespace (LocalityPod_Named p) = Named_Namespace (LocalityPod_Named p')"
      "UCC_ResourceName (NewUniqlyConnectedClient role (Named_Namespace (LocalityPod_Named p'))
          (LocalityPod_AugmentedLabels p) loc) =
        UCC_ResourceName (NewUniqlyConnectedClient role (Named_Namespace (LocalityPod_Named p'))
          (LocalityPod_AugmentedLabels p') loc')" for role loc loc'
    using pods_agree_name by (auto simp: pods_agree_def)
  show ?thesis
    by (cases "col_augmentedPods c"; cases "map_of (col_clients c) sid")
      (simp_all add: add_locked_def Some_Some Let_def *(1)
         *(2) [of _ "LocalityPod_Locality p" "LocalityPod_Locality p'"] registry_view_def update_keys)
qed (simp_all add: pods_agree_def)

lemma registry_view_trigger:
  "registry_view c = registry_view c' \<Longrightarrow>
     registry_view (TriggerRecomputation c) = registry_view (TriggerRecomputation c')"
  by (simp add: registry_view_def TriggerRecomputation_def)

text \<open>
  C36. Suppressing an event of a pod changes no answer. If every pod of one version of the pod
  collection is \<open>Equals\<close> to the pod of the other version under the same key (labels as Go maps, in
  any order), then every stream request gets the same error or the same node hash in both, opens
  the same stream under the same name, leaves the same names registered with the same counts and
  triggers the same recomputations; and every fetch request gets exactly the same answer, a
  panic included.
\<close>

theorem Equals_pods_interchangeable:
  assumes "\<And>k. pods_agree (podsGet k) (podsGet' k)"
  shows "exec_bind (callbacks_OnStreamRequest named podsGet sid r cb)
      (\<lambda>(err, r', cb'). Ret (err, r', map_option registry_view (cb_collection cb'))) =
    exec_bind (callbacks_OnStreamRequest named podsGet' sid r cb)
      (\<lambda>(err, r', cb'). Ret (err, r', map_option registry_view (cb_collection cb'))) \<and>
    callbacks_OnFetchRequests named podsGet r cb = callbacks_OnFetchRequests named podsGet' r cb"
proof
  have pod: "pods_agree (add_pod named podsGet r c) (add_pod named podsGet' r c)" for c
    using assms by (auto simp add: add_pod_def Let_def pods_agree_None split: option.split)
  have stream: "exec_bind (collection_OnStreamRequest named podsGet sid r c)
      (\<lambda>(err, r', c'). Ret (err, r', registry_view c')) =
    exec_bind (collection_OnStreamRequest named podsGet' sid r c)
      (\<lambda>(err, r', c'). Ret (err, r', registry_view c'))" for c
    using add_locked_agree [OF pod [of c], of sid r c]
    by (cases "add named podsGet sid r c"; cases "add named podsGet' sid r c")
      (auto simp: collection_OnStreamRequest_def add_def intro: registry_view_trigger
        split: sum.split option.split)
  show "exec_bind (callbacks_OnStreamRequest named podsGet sid r cb)
      (\<lambda>(err, r', cb'). Ret (err, r', map_option registry_view (cb_collection cb'))) =
    exec_bind (callbacks_OnStreamRequest named podsGet' sid r cb)
      (\<lambda>(err, r', cb'). Ret (err, r', map_option registry_view (cb_collection cb')))"
  proof (cases "cb_collection cb")
    case (Some c)
    show ?thesis
      using stream [of c]
      by (cases "collection_OnStreamRequest named podsGet sid r c";
          cases "collection_OnStreamRequest named podsGet' sid r c")
        (auto simp: callbacks_OnStreamRequest_def Some)
  qed (simp add: callbacks_OnStreamRequest_def)
  have agree: "podsGet k = None \<and> podsGet' k = None \<or> (\<exists>p p'. podsGet k = Some p \<and> podsGet' k = Some p' \<and>
      map_wf (LocalityPod_AugmentedLabels p) \<and> map_wf (LocalityPod_AugmentedLabels p') \<and> LocalityPod_Equals p p')" for k
    using assms [of k] by (cases "podsGet k"; cases "podsGet' k") (auto simp: pods_agree_def)
  have "collection_OnFetchRequest named podsGet r c = collection_OnFetchRequest named podsGet' r c" for c
  proof (cases "Request_Node r")
    case (Some node)
    let ?k = "named (NN_Name (getRef (Some node))) (NN_Namespace (getRef (Some node)))"
    show ?thesis
      using agree [of ?k] pods_agree_name
      by (auto simp: collection_OnFetchRequest_def Some Let_def) metis
  qed (simp add: collection_OnFetchRequest_def)
  then show "callbacks_OnFetchRequests named podsGet r cb = callbacks_OnFetchRequests named podsGet' r cb"
    by (simp add: callbacks_OnFetchRequests_def split: option.split)
qed

definition example_relabelled_pod :: "(string, string) gomap \<Rightarrow> LocalityPod" where
  "example_relabelled_pod labels = example_locality_pod\<lparr>LocalityPod_AugmentedLabels := labels\<rparr>"

theorem Equals_pods_interchangeable_witness:
  "callbacks_OnFetchRequests (\<lambda>n ns. ns @ ''/'' @ n)
      (\<lambda>_. Some (example_relabelled_pod (Some [(''a'', ''1''), (''b'', ''2'')]))) example_request
      \<lparr>cb_collection = Some (new_collection True)\<rparr> =
    callbacks_OnFetchRequests (\<lambda>n ns. ns @ ''/'' @ n)
      (\<lambda>_. Some (example_relabelled_pod (Some [(''b'', ''2''), (''a'', ''1'')]))) example_request
      \<lparr>cb_collection = Some (new_collection True)\<rparr>"
  by (rule Equals_pods_interchangeable [THEN conjunct2])
    (simp add: pods_agree_def example_relabelled_pod_def LocalityPod_Equals_def maps_Equal_def)

text \<open>
  A fetch request of a gateway whose pod is not known panics, where a stream request is
  refused with an error: \<open>OnFetchRequest\<close> dereferences the pod without a nil check.
\<close>

theorem OnFetchRequests_unknown_pod_panics:
  assumes "IsKubeGatewayCacheKey (GetRoleFromRequest r)" and "cb_collection cb = Some c"
    and "col_augmentedPods c" and "add_pod named podsGet r c = None"
  shows "callbacks_OnFetchRequests named podsGet r cb = Panic ''nil pointer dereference''"
  using assms gateway_request_has_node [OF assms(1)]
  by (auto simp: callbacks_OnFetchRequests_def collection_OnFetchRequest_def add_pod_def Let_def)

theorem OnFetchRequests_unknown_pod_panics_witness:
  "callbacks_OnFetchRequests (\<lambda>n ns. ns @ ''/'' @ n) (\<lambda>_. None) example_request
     \<lparr>cb_collection = Some (new_collection True)\<rparr> = Panic ''nil pointer dereference''"
  by (rule OnFetchRequests_unknown_pod_panics [where c = "new_collection True"])
    (simp_all add: new_collection_def add_pod_def Let_def)

end
