(* ===== verification/Registry_Spec.thy ===== *)
theory Registry_Spec
  imports Stream_System
begin

text \<open>
  What the registry of connected clients promises, as an abstract machine, and the proof that
  the concurrent system of \<open>Stream_System\<close> implements it.

  The abstract machine knows nothing of stored clients, reference counts, locks, triggers and
  dependency marks. It keeps which stream is open under which name, the names last published
  and whether an update of the published names is owed. A stream joins under a gateway name,
  a stream leaves, and the published names are brought up to date; an update is owed at first, as
  soon as a name appears or disappears, and whenever the framework asks for one unprompted.
\<close>

section \<open>The abstract registry\<close>

record registry_spec =
  sp_streams :: "int64 \<rightharpoonup> string" \<comment> \<open>the open streams and the names they joined under\<close>
  sp_published :: "string set"
  sp_owed :: bool \<comment> \<open>an update of the published names is owed\<close>

datatype spec_event = Join int64 string | Leave int64 | Refresh | Publish | Silent

inductive spec_step :: "registry_spec \<Rightarrow> spec_event \<Rightarrow> registry_spec \<Rightarrow> bool" where
  join: "\<lbrakk>sp_streams a sid = None; IsKubeGatewayCacheKey n\<rbrakk> \<Longrightarrow>
    spec_step a (Join sid n) (a\<lparr>sp_streams := (sp_streams a)(sid \<mapsto> n),
      sp_owed := (sp_owed a \<or> n \<notin> ran (sp_streams a))\<rparr>)"
| leave: "sp_streams a sid = Some n \<Longrightarrow>
    spec_step a (Leave sid) (a\<lparr>sp_streams := (sp_streams a)(sid := None),
      sp_owed := (sp_owed a \<or> n \<notin> ran ((sp_streams a)(sid := None)))\<rparr>)"
| refresh: "spec_step a Refresh (a\<lparr>sp_owed := True\<rparr>)"
| publish: "sp_owed a \<Longrightarrow>
    spec_step a Publish (a\<lparr>sp_published := ran (sp_streams a), sp_owed := owed\<rparr>)"
| silent: "spec_step a Silent a"

definition spec_init :: registry_spec where
  "spec_init = \<lparr>sp_streams = Map.empty, sp_published = {}, sp_owed = True\<rparr>"

inductive spec_reachable :: "registry_spec \<Rightarrow> bool" where
  spec_reachable_init: "spec_reachable spec_init"
| spec_reachable_step: "spec_reachable a \<Longrightarrow> spec_step a l a' \<Longrightarrow> spec_reachable a'"

text \<open>The abstract machine keeps its promise: what is published is right unless an update is owed.\<close>

definition spec_inv :: "registry_spec \<Rightarrow> bool" where
  "spec_inv a \<longleftrightarrow> (\<forall>n \<in> ran (sp_streams a). IsKubeGatewayCacheKey n) \<and>
     (sp_owed a \<or> sp_published a = ran (sp_streams a))"

lemma spec_inv_init: "spec_inv spec_init"
  by (simp add: spec_inv_def spec_init_def)

lemma ran_leave_insert: "m k = Some n \<Longrightarrow> ran m = insert n (ran (m(k := None)))"
  by (metis fun_upd_same fun_upd_triv fun_upd_upd ran_map_upd)

lemma spec_inv_step: "spec_inv a \<Longrightarrow> spec_step a l a' \<Longrightarrow> spec_inv a'"
proof (cases a l a' rule: spec_step.cases, assumption)
  fix sid n
  assume inv: "spec_inv a" and "a' = a\<lparr>sp_streams := (sp_streams a)(sid := None),
      sp_owed := (sp_owed a \<or> n \<notin> ran ((sp_streams a)(sid := None)))\<rparr>" and "sp_streams a sid = Some n"
  then show "spec_inv a'"
    using ran_leave_insert [of "sp_streams a" sid n] by (auto simp: spec_inv_def)
qed (auto simp: spec_inv_def ran_map_upd insert_absorb)

lemma spec_reachable_inv: "spec_reachable a \<Longrightarrow> spec_inv a"
  by (induction rule: spec_reachable.induct) (auto intro: spec_inv_init spec_inv_step)

section \<open>The concurrent system implements it\<close>

text \<open>
  The names of the open streams are what the abstract machine keeps of the collection. An
  update is owed while a callback must still trigger, a run of the collection's function is due,
  or one has not read the clients yet.
\<close>

definition system_abs :: "system \<Rightarrow> registry_spec" where
  "system_abs s = \<lparr>sp_streams = open_name (sys_col s), sp_published = UCC_ResourceName ` sys_published s,
     sp_owed = (sys_pending s > 0 \<or> sys_stale s \<or> sys_running s)\<rparr>"

text \<open>
  A request joins when its stream is new and, where pods are augmented, its pod is found. A run
  that starts although none is due is the framework's own demand.
\<close>

fun system_label :: "system \<Rightarrow> event \<Rightarrow> spec_event" where
  "system_label s (Request sid r pod) =
     (if open_name (sys_col s) sid = None \<and> (col_augmentedPods (sys_col s) \<longrightarrow> pod \<noteq> None)
      then Join sid (UCC_ResourceName (requested_client (col_augmentedPods (sys_col s)) pod r)) else Silent)"
| "system_label s (Closed sid) = (if open_name (sys_col s) sid = None then Silent else Leave sid)"
| "system_label s Read = Publish"
| "system_label s Trigger = Silent"
| "system_label s Mark = (if sys_pending s > 0 \<or> sys_stale s then Silent else Refresh)"

lemma streams_of_ran: "streams_of c n = {} \<longleftrightarrow> n \<notin> ran (open_name c)"
  by (auto simp: streams_of_def ran_def)

lemma last_stream_reported:
  assumes "registry_inv c" and "open_name c sid = Some n"
  shows "fst (cleanup sid c) \<noteq> None \<longleftrightarrow> n \<notin> ran ((open_name c)(sid := None))"
proof -
  have "map_of (col_uniqClients c) n \<noteq> None"
    using assms by (auto simp: registry_inv_def streams_of_def)
  moreover have "streams_of c n = {sid} \<longleftrightarrow> n \<notin> ran ((open_name c)(sid := None))"
    using assms(2) by (auto simp: streams_of_def ran_def)
  ultimately show ?thesis using cleanup_known [OF assms] by auto
qed

lemma request_simulated:
  assumes inv: "system_inv s" and st: "step s (Request sid r pod) s'"
  shows "spec_step (system_abs s) (system_label s (Request sid r pod)) (system_abs s')"
proof (cases "open_name (sys_col s) sid = None \<and> (col_augmentedPods (sys_col s) \<longrightarrow> pod \<noteq> None)")
  case True
  define n where "n = UCC_ResourceName (requested_client (col_augmentedPods (sys_col s)) pod r)"
  have reg: "registry_inv (sys_col s)" using inv by (simp add: system_inv_def)
  obtain res c' where add: "add_locked sid r pod (sys_col s) = (res, c')"
    and role: "IsKubeGatewayCacheKey (GetRoleFromRequest r)"
    and s': "s' = s\<lparr>sys_col := c', sys_pending := (if \<exists>m. res = Inr (m, True) then Suc (sys_pending s) else sys_pending s)\<rparr>"
    using st by (auto elim!: step_requestE)
  have "res = Inr (n, n \<notin> ran (open_name (sys_col s)))"
    using add_locked_fresh [OF reg, of sid pod r] True add by (simp add: n_def streams_of_ran)
  moreover have "open_name c' = (open_name (sys_col s))(sid \<mapsto> n)"
    using open_name_add [OF reg, of sid pod r] True add by (simp add: n_def)
  moreover have "col_trigger c' = col_trigger (sys_col s)"
    using col_trigger_locked(1) [of sid r pod "sys_col s"] add by simp
  ultimately have "system_abs s' = (system_abs s)\<lparr>sp_streams := (sp_streams (system_abs s))(sid \<mapsto> n),
      sp_owed := (sp_owed (system_abs s) \<or> n \<notin> ran (sp_streams (system_abs s)))\<rparr>"
    by (auto simp: s' system_abs_def sys_stale_def)
  moreover have "IsKubeGatewayCacheKey n" using role requested_client_gateway by (simp add: n_def)
  ultimately show ?thesis
    using True spec_step.join [of "system_abs s" sid n] by (simp add: n_def system_abs_def)
next
  case False
  then have "s' = s"
    using st add_locked_stutter [OF False] add_locked_known [of "sys_col s" sid] add_locked_no_pod [of "sys_col s" sid pod]
    by (cases "open_name (sys_col s) sid") (auto elim!: step_requestE)
  then show ?thesis using False spec_step.silent by auto
qed

lemma closed_simulated:
  assumes inv: "system_inv s" and st: "step s (Closed sid) s'"
  shows "spec_step (system_abs s) (system_label s (Closed sid)) (system_abs s')"
proof -
  have reg: "registry_inv (sys_col s)" using inv by (simp add: system_inv_def)
  obtain ucc c' where cl: "cleanup sid (sys_col s) = (ucc, c')"
    and s': "s' = s\<lparr>sys_col := c', sys_pending := (if ucc \<noteq> None then Suc (sys_pending s) else sys_pending s)\<rparr>"
    using st by (auto elim!: step_closedE)
  have tr: "col_trigger c' = col_trigger (sys_col s)" and nm: "open_name c' = (open_name (sys_col s))(sid := None)"
    using col_trigger_locked(2) [of sid "sys_col s"] open_name_cleanup [of sid "sys_col s"] cl by simp_all
  show ?thesis
  proof (cases "open_name (sys_col s) sid")
    case None
    then have "system_abs s' = system_abs s"
      using cl tr nm by (simp add: s' system_abs_def sys_stale_def cleanup_unknown fun_upd_idem)
    then show ?thesis using None spec_step.silent by simp
  next
    case (Some n)
    then have "ucc \<noteq> None \<longleftrightarrow> n \<notin> ran ((open_name (sys_col s))(sid := None))"
      using cl last_stream_reported [OF reg Some] by simp
    then have "system_abs s' = (system_abs s)\<lparr>sp_streams := (sp_streams (system_abs s))(sid := None),
        sp_owed := (sp_owed (system_abs s) \<or> n \<notin> ran ((sp_streams (system_abs s))(sid := None)))\<rparr>"
      using tr nm by (auto simp: s' system_abs_def sys_stale_def)
    then show ?thesis using Some spec_step.leave [of "system_abs s" sid n] by (simp add: system_abs_def)
  qed
qed

lemma system_simulated:
  assumes inv: "system_inv s" and st: "step s e s'"
  shows "spec_step (system_abs s) (system_label s e) (system_abs s')"
proof (cases e)
  case (Request sid r pod)
  then show ?thesis using request_simulated inv st by blast
next
  case (Closed sid)
  then show ?thesis using closed_simulated inv st by blast
next
  case Trigger
  then have "system_abs s' = system_abs s"
    using st inv by (auto elim!: step_triggerE simp: system_abs_def system_inv_def sys_stale_def) (auto simp: TriggerRecomputation_def)
  then show ?thesis using Trigger spec_step.silent by simp
next
  case Mark
  then have "system_abs s' = (system_abs s)\<lparr>sp_owed := True\<rparr>"
    using st by (auto elim!: step_markE simp: system_abs_def)
  moreover from this have "sys_pending s > 0 \<or> sys_stale s \<Longrightarrow> system_abs s' = system_abs s"
    by (auto simp: system_abs_def)
  ultimately show ?thesis using Mark spec_step.silent spec_step.refresh by (metis system_label.simps(5))
next
  case Read
  have "UCC_ResourceName ` set (getClients (sys_col s)) = ran (open_name (sys_col s))"
    using inv by (simp add: system_inv_def listed_names)
  then have "system_abs s' = (system_abs s)\<lparr>sp_published := ran (sp_streams (system_abs s)),
      sp_owed := sp_owed (system_abs s')\<rparr>"
    using st Read by (auto elim!: step_readE simp: system_abs_def)
  moreover have "sp_owed (system_abs s)" using st Read by (auto elim!: step_readE simp: system_abs_def)
  ultimately show ?thesis using Read spec_step.publish by (metis system_label.simps(3))
qed

lemma system_abs_init: "system_abs (system_init augmentPods) = spec_init"
  by (simp add: system_abs_def sys_stale_def system_init_def spec_init_def new_collection_def open_name_def fun_eq_iff)

interpretation registry_sim: simulation "\<lambda>s. s = system_init augmentPods" step "\<lambda>a. a = spec_init" spec_step
  system_inv system_abs system_label for augmentPods
  by unfold_locales (auto intro: system_inv_init system_inv_step system_abs_init system_simulated)

lemma reachable_run: "reachable augmentPods s \<Longrightarrow> \<exists>es. registry_sim.crun augmentPods (system_init augmentPods) es s"
  by (induction rule: reachable.induct) (blast intro: registry_sim.crun.intros)+

text \<open>
  C3. Refinement of the abstract registry: in every reachable state of the concurrent system,
  however the locked parts of the callbacks, the triggers and the recomputations interleave,
  each step is one step of the abstract machine. A request of a new stream (whose pod is found
  where pods are augmented) joins under its gateway name, the end of an open stream leaves, a
  read of the clients publishes exactly the names of the open streams, a run that no trigger asked
  for is a refresh, and everything else, triggers and due runs included, is invisible. So the state is one the abstract machine reaches,
  and the published names are those of the open streams unless an update is owed.
\<close>

theorem registry_refines_spec:
  assumes "reachable augmentPods s"
  shows "spec_reachable (system_abs s) \<and>
    (sp_owed (system_abs s) \<or> sp_published (system_abs s) = ran (sp_streams (system_abs s))) \<and>
    (\<forall>e s'. step s e s' \<longrightarrow> spec_step (system_abs s) (system_label s e) (system_abs s'))"
proof -
  obtain es where run: "registry_sim.crun augmentPods (system_init augmentPods) es s"
    using reachable_run [OF assms] by blast
  have "spec_reachable (system_abs s)"
    by (rule registry_sim.crun_safe [OF _ _ run]) (auto intro: spec_reachable.intros)
  then show ?thesis
    using spec_reachable_inv [of "system_abs s"] system_simulated [OF registry_sim.crun_inv [OF run]]
    by (simp add: spec_inv_def)
qed

theorem registry_refines_spec_witness:
  "spec_reachable (system_abs example_joined) \<and> sp_streams (system_abs example_joined) 1 = Some (GatewayApiProxyValue @ ''~ns~gw'')"
proof -
  have "open_name (sys_col example_joined) = [1 \<mapsto> GatewayApiProxyValue @ ''~ns~gw'']"
    by (auto simp: example_joined_def open_name_def add_locked_def new_collection_def NewUCC_name_eq
        NewConnectedClient_def Let_def fun_eq_iff)
  then show ?thesis using registry_refines_spec [OF reachable_joined] by (simp add: system_abs_def)
qed

end
