(* ===== verification/Environment.thy ===== *)
theory Environment
  imports Prelude
begin

text \<open>
  Process environment and build information: \<^verbatim>\<open>pkg/utils/envutil\<close>, \<^verbatim>\<open>pkg/utils/kubeutil\<close>,
  \<^verbatim>\<open>internal/version/version.go\<close> and the constants of
  \<^verbatim>\<open>internal/fgateway/wellknown\<close>. The environment is a map from names to values, as
  \<open>os.LookupEnv\<close> sees it; \<open>network.GetServiceHostname\<close> of knative is a parameter.
\<close>

section \<open>\<open>envutil\<close>\<close>

type_synonym env = "string \<Rightarrow> string option"

definition Getenv :: "env \<Rightarrow> string \<Rightarrow> string" where
  "Getenv env k = (case env k of None \<Rightarrow> '''' | Some v \<Rightarrow> v)"

text \<open>\<open>strconv.ParseBool\<close>; \<open>None\<close> is its syntax error.\<close>

definition ParseBool :: "string \<Rightarrow> bool option" where
  "ParseBool s =
     (if s \<in> {''1'', ''t'', ''T'', ''TRUE'', ''true'', ''True''} then Some True
      else if s \<in> {''0'', ''f'', ''F'', ''FALSE'', ''false'', ''False''} then Some False
      else None)"

definition IsTruthyValue :: "string \<Rightarrow> bool" where
  "IsTruthyValue v = (case ParseBool v of Some b \<Rightarrow> b | None \<Rightarrow> False)"

definition IsEnvTruthy :: "env \<Rightarrow> string \<Rightarrow> bool" where
  "IsEnvTruthy env envVarName = IsTruthyValue (Getenv env envVarName)"

definition IsEnvDefined :: "env \<Rightarrow> string \<Rightarrow> bool" where
  "IsEnvDefined env envVarName \<longleftrightarrow> length (Getenv env envVarName) > 0"

definition GetOrDefault :: "env \<Rightarrow> string \<Rightarrow> string \<Rightarrow> bool \<Rightarrow> string" where
  "GetOrDefault env key fallback allowEmpty =
     (case env key of
        Some v \<Rightarrow> if allowEmpty \<or> length v > 0 then v else fallback
      | None \<Rightarrow> fallback)"

definition LookupOrDefault :: "env \<Rightarrow> string \<Rightarrow> string \<Rightarrow> string \<times> bool" where
  "LookupOrDefault env key fallback = (case env key of Some v \<Rightarrow> (v, True) | None \<Rightarrow> (fallback, False))"

section \<open>\<open>kubeutil\<close>\<close>

definition GetClusterID :: "env \<Rightarrow> string" where
  "GetClusterID env = (let clusterID = Getenv env ''CLUSTER_ID''
     in if clusterID \<noteq> '''' then clusterID else ''fgateway-cluster'')"

definition GetPodNamespace :: "env \<Rightarrow> string" where
  "GetPodNamespace env = (let podNamespace = Getenv env ''POD_NAMESPACE''
     in if podNamespace \<noteq> '''' then podNamespace else ''fleezesd-system'')"

definition GetServiceFQDN :: "(string \<Rightarrow> string \<Rightarrow> string) \<Rightarrow> string \<Rightarrow> string \<Rightarrow> string" where
  "GetServiceFQDN GetServiceHostname name ns = GetServiceHostname name ns"

definition FgatewayServiceName :: string where
  "FgatewayServiceName = ''fgateway''"

definition FgatewayComponentName :: string where
  "FgatewayComponentName = ''fgateway''"

definition FgatewayDeploymentName :: string where
  "FgatewayDeploymentName = ''fgateway''"

definition FgatewayContainerName :: string where
  "FgatewayContainerName = ''fgateway''"

definition FgatewayXdsPortName :: string where
  "FgatewayXdsPortName = ''grpc-xds''"

definition DiscoveryDeploymentName :: string where
  "DiscoveryDeploymentName = ''discovery''"

section \<open>Names\<close>

definition GatewayClassName :: string where
  "GatewayClassName = ''fgateway''"

definition DefaultGatewayParametersName :: string where
  "DefaultGatewayParametersName = ''fgateway''"

definition GatewayControllerName :: string where
  "GatewayControllerName = ''fgateway.dev/fgateway''"

definition GatewayParametersAnnonationName :: string where
  "GatewayParametersAnnonationName = ''gateway.fgateway.dev/gateway-parameters-name''"

section \<open>Version\<close>

definition UndefinedVersion :: string where
  "UndefinedVersion = ''undefined''"

record version =
  version_controller :: string
  version_commit :: string
  version_date :: string

record BuildSetting =
  BuildSetting_Key :: string
  BuildSetting_Value :: string

record BuildInfo =
  BuildInfo_MainVersion :: string
  BuildInfo_Settings :: "BuildSetting slice"

text \<open>The package variables \<open>Version\<close> and \<open>ref\<close>.\<close>

record version_vars =
  var_Version :: string
  var_ref :: "version option"

fun version_setting :: "BuildSetting \<Rightarrow> version \<Rightarrow> version" where
  "version_setting s ref =
     (if BuildSetting_Key s = ''vcs.revision'' then ref\<lparr>version_commit := BuildSetting_Value s\<rparr>
      else if BuildSetting_Key s = ''vcs.time'' then ref\<lparr>version_date := BuildSetting_Value s\<rparr>
      else ref)"

text \<open>\<open>init\<close>, from the value the linker set and what \<open>debug.ReadBuildInfo\<close> returns.\<close>

definition version_init :: "string \<Rightarrow> BuildInfo option \<Rightarrow> version_vars" where
  "version_init linked buildInfo =
     (case buildInfo of
        None \<Rightarrow> \<lparr>var_Version = UndefinedVersion, var_ref = None\<rparr>
      | Some info \<Rightarrow>
         (let v = (if linked = '''' then BuildInfo_MainVersion info else linked);
              ref = \<lparr>version_controller = v, version_commit = '''', version_date = ''''\<rparr>
          in \<lparr>var_Version = linked,
              var_ref = Some (fold version_setting (slice_elems (BuildInfo_Settings info)) ref)\<rparr>))"

definition version_String :: "version_vars \<Rightarrow> string exec" where
  "version_String vars =
     (case var_ref vars of
        None \<Rightarrow> Panic ''nil pointer dereference''
      | Some ref \<Rightarrow> Ret (''controller version '' @ version_controller ref @ '', commit '' @ version_commit ref @
          '', built at '' @ version_date ref))"

section \<open>Facts\<close>

lemma version_setting_other:
  "version_controller (fold version_setting ss ref) = version_controller ref"
  by (induction ss arbitrary: ref) auto

lemma version_setting_absent:
  "\<forall>s \<in> set ss. BuildSetting_Key s \<noteq> ''vcs.revision'' \<Longrightarrow>
     version_commit (fold version_setting ss ref) = version_commit ref"
  "\<forall>s \<in> set ss. BuildSetting_Key s \<noteq> ''vcs.time'' \<Longrightarrow>
     version_date (fold version_setting ss ref) = version_date ref"
  by (induction ss arbitrary: ref) auto

text \<open>
  The version report names the linked version, or the module's version when none was linked,
  and the last revision recorded in the build; without build information it panics, since
  \<open>init\<close> then leaves \<open>ref\<close> nil.
\<close>

theorem version_report:
  assumes "BuildInfo_Settings info = Some (ss @ \<lparr>BuildSetting_Key = ''vcs.revision'', BuildSetting_Value = commit\<rparr> # ts)"
    and "\<forall>s \<in> set ts. BuildSetting_Key s \<noteq> ''vcs.revision''"
  shows "(\<exists>d. version_String (version_init linked (Some info)) =
      Ret (''controller version '' @ (if linked = '''' then BuildInfo_MainVersion info else linked) @
        '', commit '' @ commit @ '', built at '' @ d)) \<and>
    version_String (version_init linked None) = Panic ''nil pointer dereference''"
  using assms
  by (simp add: version_String_def version_init_def Let_def version_setting_other version_setting_absent)

theorem version_report_witness:
  "\<exists>d. version_String (version_init ''v1.2.3'' (Some \<lparr>BuildInfo_MainVersion = ''(devel)'',
       BuildInfo_Settings = Some [\<lparr>BuildSetting_Key = ''vcs.revision'', BuildSetting_Value = ''abc''\<rparr>]\<rparr>)) =
     Ret (''controller version '' @ ''v1.2.3'' @ '', commit '' @ ''abc'' @ '', built at '' @ d)"
  using version_report [where info = "\<lparr>BuildInfo_MainVersion = ''(devel)'',
       BuildInfo_Settings = Some [\<lparr>BuildSetting_Key = ''vcs.revision'', BuildSetting_Value = ''abc''\<rparr>]\<rparr>"
      and ss = "[]" and ts = "[]" and commit = "''abc''" and linked = "''v1.2.3''"]
  by simp

end
