(* ===== verification/Yaml.thy ===== *)
theory Yaml
  imports Kube_Types
begin

text \<open>
  From a rendered manifest to objects, \<^verbatim>\<open>pkg/utils/helmutil/yaml.go\<close>.

  The decoder of the YAML library is a parameter, a state of any type \<open>'d\<close> with \<open>Decode\<close>, which
  answers with the end of the file, an error or a document and moves on. The loop of the code has
  no bound of its own: it is a partial function, whose value \<open>None\<close> stands for not returning, and
  it is shown to return for every decoder that consumes input with each document it gives.
\<close>

section \<open>Documents and schemes\<close>

text \<open>A decoded document: the object, and whether its content map is empty.\<close>

record Unstructured =
  Unstructured_obj :: KObject
  Unstructured_empty :: bool

text \<open>
  The scheme: \<open>New\<close> (\<open>None\<close> where the new value is not a \<open>client.Object\<close>) and the converter's
  \<open>FromUnstructured\<close>.
\<close>

record Scheme =
  Scheme_New :: "GroupVersionKind \<Rightarrow> go_error + KObject option"
  Scheme_FromUnstructured :: "Unstructured \<Rightarrow> KObject \<Rightarrow> go_error + KObject"

text \<open>What \<open>Decode\<close> returns: \<open>io.EOF\<close>, another error, or a document.\<close>

datatype decoded = EndOfFile | DecodeError go_error | Decoded Unstructured

record 'd yaml_decoder =
  NewYAMLOrJSONDecoder :: "string \<Rightarrow> 'd"
  Decode :: "'d \<Rightarrow> decoded \<times> 'd"

section \<open>The conversion\<close>

text \<open>The body of the loop after a document was decoded.\<close>

definition convert_object :: "Scheme \<Rightarrow> Unstructured \<Rightarrow> KObject list \<Rightarrow> KObject list" where
  "convert_object scheme obj objs =
     (case Scheme_New scheme (KObject_GVK (Unstructured_obj obj)) of
        Inr (Some realObj) \<Rightarrow>
          (case Scheme_FromUnstructured scheme obj realObj of
             Inr filled \<Rightarrow> objs @ [filled]
           | Inl _ \<Rightarrow> objs @ [Unstructured_obj obj])
      | Inr None \<Rightarrow> objs @ [Unstructured_obj obj]
      | Inl _ \<Rightarrow> if Unstructured_empty obj then objs else objs @ [Unstructured_obj obj])"

partial_function (option) convert_loop ::
  "'d yaml_decoder \<Rightarrow> Scheme \<Rightarrow> 'd \<Rightarrow> KObject list \<Rightarrow> (go_error + KObject list) option" where
  "convert_loop lib scheme decoder objs =
     (case Decode lib decoder of
        (EndOfFile, _) \<Rightarrow> Some (Inr objs)
      | (DecodeError err, _) \<Rightarrow> Some (Inl err)
      | (Decoded obj, decoder') \<Rightarrow> convert_loop lib scheme decoder' (convert_object scheme obj objs))"

definition ConvertYAMLToObjects ::
  "'d yaml_decoder \<Rightarrow> Scheme \<Rightarrow> string \<Rightarrow> (go_error + KObject list) option" where
  "ConvertYAMLToObjects lib scheme yamlData = convert_loop lib scheme (NewYAMLOrJSONDecoder lib yamlData) []"

section \<open>What it computes\<close>

text \<open>A document that leaves no object: an empty one of no registered kind.\<close>

definition doc_skipped :: "Scheme \<Rightarrow> Unstructured \<Rightarrow> bool" where
  "doc_skipped scheme u \<longleftrightarrow> Unstructured_empty u \<and>
     (case Scheme_New scheme (KObject_GVK (Unstructured_obj u)) of Inl _ \<Rightarrow> True | Inr _ \<Rightarrow> False)"

text \<open>The typed object where the scheme knows the kind and the conversion works, the document itself otherwise.\<close>

definition doc_object :: "Scheme \<Rightarrow> Unstructured \<Rightarrow> KObject" where
  "doc_object scheme u =
     (case Scheme_New scheme (KObject_GVK (Unstructured_obj u)) of
        Inr (Some realObj) \<Rightarrow>
          (case Scheme_FromUnstructured scheme u realObj of Inr filled \<Rightarrow> filled | Inl _ \<Rightarrow> Unstructured_obj u)
      | _ \<Rightarrow> Unstructured_obj u)"

definition convert_documents :: "Scheme \<Rightarrow> Unstructured list \<Rightarrow> KObject list" where
  "convert_documents scheme us = map (doc_object scheme) (filter (\<lambda>u. \<not> doc_skipped scheme u) us)"

lemma convert_object_docs: "convert_object scheme u objs = objs @ convert_documents scheme [u]"
  by (auto simp: convert_object_def convert_documents_def doc_object_def doc_skipped_def split: sum.split option.split)

text \<open>The documents a decoder gives before it stops, and the error it stops with, if any.\<close>

inductive decodes :: "'d yaml_decoder \<Rightarrow> 'd \<Rightarrow> Unstructured list \<Rightarrow> go_error option \<Rightarrow> bool" for lib where
  eof: "Decode lib d = (EndOfFile, d') \<Longrightarrow> decodes lib d [] None"
| error: "Decode lib d = (DecodeError err, d') \<Longrightarrow> decodes lib d [] (Some err)"
| document: "Decode lib d = (Decoded u, d') \<Longrightarrow> decodes lib d' us stop \<Longrightarrow> decodes lib d (u # us) stop"

inductive_cases decodes_NilE: "decodes lib d [] stop"
inductive_cases decodes_ConsE: "decodes lib d (u # us) stop"

lemma decodes_determ:
  "decodes lib d us stop \<Longrightarrow> decodes lib d us' stop' \<Longrightarrow> us' = us \<and> stop' = stop"
proof (induction arbitrary: us' rule: decodes.induct)
  case (document d u d' us stop)
  then show ?case by (cases us') (auto elim!: decodes_NilE decodes_ConsE)
qed (auto elim: decodes.cases)

lemma decodes_loop:
  "decodes lib d us stop \<Longrightarrow> convert_loop lib scheme d objs =
     Some (case stop of Some err \<Rightarrow> Inl err | None \<Rightarrow> Inr (objs @ convert_documents scheme us))"
proof (induction arbitrary: objs rule: decodes.induct)
  case (document d u d' us stop)
  then show ?case
    by (subst convert_loop.simps) (simp add: convert_object_docs convert_documents_def split: option.split)
qed (subst convert_loop.simps, simp add: convert_documents_def)+

text \<open>
  The contract of a decoder over a finite input: what is left of the input shrinks with every
  document.
\<close>

locale consuming_decoder =
  fixes lib :: "'d yaml_decoder" and remaining :: "'d \<Rightarrow> nat"
  assumes consumes: "Decode lib d = (Decoded u, d') \<Longrightarrow> remaining d' < remaining d"
begin

lemma decodes_total: "\<exists>us stop. decodes lib d us stop"
proof (induction "remaining d" arbitrary: d rule: less_induct)
  case less
  obtain r d' where step: "Decode lib d = (r, d')" by fastforce
  show ?case
  proof (cases r)
    case (Decoded u)
    with step have "Decode lib d = (Decoded u, d')" by simp
    then show ?thesis using less.hyps [OF consumes] by (metis decodes.document)
  qed (use step in \<open>blast intro: decodes.intros\<close>)+
qed

lemma returns_documents:
  "\<exists>us stop. decodes lib (NewYAMLOrJSONDecoder lib y) us stop \<and>
     ConvertYAMLToObjects lib scheme y =
       Some (case stop of Some err \<Rightarrow> Inl err | None \<Rightarrow> Inr (convert_documents scheme us))"
proof -
  obtain us stop where d: "decodes lib (NewYAMLOrJSONDecoder lib y) us stop" using decodes_total by blast
  with decodes_loop [OF d, of scheme "[]"] show ?thesis
    by (intro exI [of _ us] exI [of _ stop]) (simp add: ConvertYAMLToObjects_def cong: option.case_cong)
qed

end

text \<open>A decoder given by the results it will return before the end of the file.\<close>

type_synonym documents = "(go_error + Unstructured) list"

fun next_document :: "documents \<Rightarrow> decoded \<times> documents" where
  "next_document [] = (EndOfFile, [])"
| "next_document (Inl err # rest) = (DecodeError err, rest)"
| "next_document (Inr u # rest) = (Decoded u, rest)"

definition documents_decoder :: "(string \<Rightarrow> documents) \<Rightarrow> documents yaml_decoder" where
  "documents_decoder decode = \<lparr>NewYAMLOrJSONDecoder = decode, Decode = next_document\<rparr>"

interpretation documents: consuming_decoder "documents_decoder decode" length for decode
proof
  fix d u d' assume "Decode (documents_decoder decode) d = (Decoded u, d')"
  then show "length d' < length d" by (cases d rule: next_document.cases) (auto simp: documents_decoder_def)
qed

lemma decodes_documents:
  "decodes (documents_decoder decode) (map Inr us) us None"
  "decodes (documents_decoder decode) (map Inr us @ Inl err # rest) us (Some err)"
  by (induction us) (auto intro!: decodes.intros simp: documents_decoder_def)

text \<open>The loop on such a decoder, by its equations.\<close>

lemma convert_loop_documents [simp]:
  "convert_loop (documents_decoder decode) scheme [] objs = Some (Inr objs)"
  "convert_loop (documents_decoder decode) scheme (Inl err # rest) objs = Some (Inl err)"
  "convert_loop (documents_decoder decode) scheme (Inr u # rest) objs =
     convert_loop (documents_decoder decode) scheme rest (convert_object scheme u objs)"
  by (subst convert_loop.simps, simp add: documents_decoder_def)+

lemma ConvertYAMLToObjects_list:
  "ConvertYAMLToObjects (documents_decoder decode) scheme y =
     convert_loop (documents_decoder decode) scheme (decode y) []"
  by (simp add: ConvertYAMLToObjects_def documents_decoder_def)

lemma ConvertYAMLToObjects_documents: "\<exists>r. ConvertYAMLToObjects (documents_decoder decode) scheme y = Some r"
  using documents.returns_documents by blast

text \<open>
  C38. The conversion always returns, for every decoder that consumes input with each
  document: the loop ends after finitely many documents. If the decoder reached the end of the
  file there is one object per document, in their order, leaving out only empty documents of no
  registered kind; if it failed on a document its error is returned, whatever came before.
\<close>

theorem ConvertYAMLToObjects_correct:
  assumes "\<And>d u d'. Decode lib d = (Decoded u, d') \<Longrightarrow> remaining d' < (remaining d :: nat)"
  shows "\<exists>us stop. decodes lib (NewYAMLOrJSONDecoder lib y) us stop \<and>
     ConvertYAMLToObjects lib scheme y = Some (case stop of
        Some err \<Rightarrow> Inl err
      | None \<Rightarrow> Inr (map (doc_object scheme) (filter (\<lambda>u. \<not> doc_skipped scheme u) us)))"
proof -
  have "consuming_decoder lib remaining" by unfold_locales (rule assms)
  from consuming_decoder.returns_documents [OF this] show ?thesis unfolding convert_documents_def .
qed

definition example_object :: "string \<Rightarrow> string \<Rightarrow> KObject" where
  "example_object kind name = \<lparr>KObject_GoType = ''*unstructured.Unstructured'',
     KObject_GVK = \<lparr>GVK_Group = '''', GVK_Version = ''v1'', GVK_Kind = kind\<rparr>,
     KObject_Meta = ObjectMeta_zero\<lparr>ObjectMeta_Name := name\<rparr>, KObject_rest = Opaque ''''\<rparr>"

definition example_scheme :: Scheme where
  "example_scheme = \<lparr>
     Scheme_New = (\<lambda>gvk. if GVK_Kind gvk = ''Service''
       then Inr (Some ((example_object ''Service'' '''')\<lparr>KObject_GoType := ''*v1.Service''\<rparr>)) else Inl (ErrNew ''not registered'')),
     Scheme_FromUnstructured = (\<lambda>u real. Inr ((Unstructured_obj u)\<lparr>KObject_GoType := KObject_GoType real\<rparr>))\<rparr>"

definition example_docs :: "Unstructured list" where
  "example_docs = [\<lparr>Unstructured_obj = example_object ''Service'' ''gw'', Unstructured_empty = False\<rparr>,
     \<lparr>Unstructured_obj = example_object '''' '''', Unstructured_empty = True\<rparr>,
     \<lparr>Unstructured_obj = example_object ''Deployment'' ''gw'', Unstructured_empty = False\<rparr>]"

theorem ConvertYAMLToObjects_correct_witness:
  "\<exists>us. decodes (documents_decoder (\<lambda>_. map Inr example_docs)) (map Inr example_docs) us None \<and>
     ConvertYAMLToObjects (documents_decoder (\<lambda>_. map Inr example_docs)) example_scheme ''manifest'' =
       Some (Inr [(example_object ''Service'' ''gw'')\<lparr>KObject_GoType := ''*v1.Service''\<rparr>, example_object ''Deployment'' ''gw''])"
proof -
  let ?lib = "documents_decoder (\<lambda>_. map Inr example_docs)"
  obtain us stop where d: "decodes ?lib (NewYAMLOrJSONDecoder ?lib ''manifest'') us stop"
      and r: "ConvertYAMLToObjects ?lib example_scheme ''manifest'' = Some (case stop of Some err \<Rightarrow> Inl err
      | None \<Rightarrow> Inr (map (doc_object example_scheme) (filter (\<lambda>u. \<not> doc_skipped example_scheme u) us)))"
    using ConvertYAMLToObjects_correct [of ?lib length "''manifest''" example_scheme] documents.consumes by blast
  have "NewYAMLOrJSONDecoder ?lib ''manifest'' = map Inr example_docs" by (simp add: documents_decoder_def)
  then have docs: "us = example_docs" "stop = None" using d decodes_documents(1) decodes_determ by metis+
  have "decodes ?lib (map Inr example_docs) example_docs None" by (rule decodes_documents)
  moreover have "map (doc_object example_scheme) (filter (\<lambda>u. \<not> doc_skipped example_scheme u) example_docs) =
      [(example_object ''Service'' ''gw'')\<lparr>KObject_GoType := ''*v1.Service''\<rparr>, example_object ''Deployment'' ''gw'']"
    by (simp add: example_docs_def example_scheme_def doc_skipped_def doc_object_def example_object_def)
  ultimately show ?thesis using r unfolding docs by auto
qed

end
