(* ===== verification/Deployer.thy ===== *)
theory Deployer
  imports Merge_Properties Xds Environment Yaml
begin

text \<open>
  The gateway deployer, \<^verbatim>\<open>internal/fgateway/deployer/deployer.go\<close> and \<^verbatim>\<open>values.go\<close>, with
  the embedded chart of \<^verbatim>\<open>manifests/helm/embed.go\<close>.

  Code outside the repository is a parameter: the reads of the Kubernetes client
  (\<open>kube_client\<close>), the chart loader \<open>LoadFiles\<close>, Helm's \<open>RunWithContext\<close> (the manifest it
  renders, an error, or a panic: it is given the deployer's chart, a pointer that may be nil), the YAML decoder, here one that is given by the list of results \<open>Decode\<close> returns before
  the end of the file, and the scheme. Error messages keep the constant text and the arguments; logging is
  left out.
\<close>

section \<open>Reads of the cluster\<close>

record kube_client =
  cli_GetGatewayParameters :: "NamespacedName \<Rightarrow> go_error + GatewayParameters"
  cli_GetGatewayClass :: "NamespacedName \<Rightarrow> go_error + GatewayClass"

section \<open>The deployer's own types\<close>

record ControlPlaneInfo =
  CP_XdsHost :: string
  CP_XdsPort :: int32

record AwsInfo =
  Aws_EnableServiceAccountCredentials :: bool
  Aws_StsClusterName :: string
  Aws_StsUri :: string

record Inputs =
  Inputs_ControllerName :: string
  Inputs_Dev :: bool
  Inputs_IstioIntegrationEnabled :: bool
  Inputs_ControlPlane :: "ControlPlaneInfo option"
  Inputs_Aws :: "AwsInfo option"

record Chart =
  Chart_AppVersion :: string
  Chart_Version :: string
  Chart_rest :: opaque

record Deployer =
  Deployer_chart :: "Chart option"
  Deployer_inputs :: Inputs

datatype helmGateway = HelmGateway

record helmConfig =
  helmConfig_Gateway :: "helmGateway option"

text \<open>Helm values, \<open>map[string]any\<close>, as far as the program builds them.\<close>

datatype helm_value = BoolVal bool | MapVal "(string \<times> helm_value) list"

type_synonym helm_values = "(string \<times> helm_value) list"

section \<open>Loading the chart\<close>

text \<open>
  A file system below its root: what \<open>ReadDir\<close> lists of a directory, in its order, and what
  \<open>ReadFile\<close> gives for a file. Reading either may fail.
\<close>

datatype fs_node =
    FileNode "go_error + string"
  | DirNode fs_entries
  | UnreadableDir go_error
and fs_entries =
    NoEntry
  | Entry string fs_node fs_entries

fun entry_list :: "fs_entries \<Rightarrow> (string \<times> fs_node) list" where
  "entry_list NoEntry = []"
| "entry_list (Entry n t es) = (n, t) # entry_list es"

record BufferedFile =
  BufferedFile_Name :: string
  BufferedFile_Data :: string

text \<open>\<open>filepath.Rel\<close> of a path at or below \<open>root\<close>.\<close>

definition Rel :: "string \<Rightarrow> string \<Rightarrow> string" where
  "Rel root path = (if path = root then ''.'' else drop (length root + 1) path)"

text \<open>
  \<open>fs.WalkDir\<close> from the path \<open>path\<close>, with the function literal of \<open>loadFs\<close>: files read so
  far are passed along and the first error ends the walk.
\<close>

primrec walkDir :: "string \<Rightarrow> string \<Rightarrow> fs_node \<Rightarrow> BufferedFile list \<Rightarrow> go_error + BufferedFile list"
  and walkEntries :: "string \<Rightarrow> string \<Rightarrow> fs_entries \<Rightarrow> BufferedFile list \<Rightarrow> go_error + BufferedFile list" where
  "walkDir root path (FileNode content) acc =
     (case content of
        Inl readErr \<Rightarrow> Inl readErr
      | Inr data \<Rightarrow> Inr (acc @ [\<lparr>BufferedFile_Name = Rel root path, BufferedFile_Data = data\<rparr>]))"
| "walkDir root path (DirNode es) acc = walkEntries root path es acc"
| "walkDir root path (UnreadableDir err) acc = Inl err"
| "walkEntries root path NoEntry acc = Inr acc"
| "walkEntries root path (Entry n t es) acc =
     (case walkDir root (path @ ''/'' @ n) t acc of
        Inl err \<Rightarrow> Inl err
      | Inr acc' \<Rightarrow> walkEntries root path es acc')"

text \<open>A file system is what \<open>fs.ReadDir(filesystem, ".")\<close> gives: an error or the entries of its root.\<close>

type_synonym filesystem = "go_error + fs_entries"

definition loadFs :: "(BufferedFile list \<Rightarrow> go_error + Chart) \<Rightarrow> filesystem \<Rightarrow> go_error + Chart" where
  "loadFs LoadFiles fsys =
     (case fsys of
        Inl err \<Rightarrow> Inl err
      | Inr es \<Rightarrow>
          (case entry_list es of
             [(root, t)] \<Rightarrow>
               (case walkDir root root t [] of
                  Inl err \<Rightarrow> Inl err
                | Inr bufferedFiles \<Rightarrow> LoadFiles bufferedFiles)
           | _ \<Rightarrow> Inl (ErrNew ''expected exactly one entry in the chart folder, got %v'')))"

text \<open>
  \<open>FGatewayHelmChart\<close>. The comment above the variable reads \<^verbatim>\<open>//gp:embed all:fgateway\<close>, which
  is not the \<^verbatim>\<open>//go:embed\<close> directive, so the variable has the zero value of \<open>embed.FS\<close>: a
  root directory with no entries.
\<close>

definition FGatewayHelmChart :: filesystem where
  "FGatewayHelmChart = Inr NoEntry"

definition NilDeployerInputsErr :: go_error where
  "NilDeployerInputsErr = ErrNew ''nil inputs to NewDeployer''"

text \<open>The package variables \<open>helm.FGatewayHelmChart\<close> and \<open>version.Version\<close> are arguments.\<close>

definition NewDeployer ::
  "(BufferedFile list \<Rightarrow> go_error + Chart) \<Rightarrow> filesystem \<Rightarrow> string \<Rightarrow> Inputs option \<Rightarrow> go_error + Deployer" where
  "NewDeployer LoadFiles chartFs version inputs =
     (case inputs of
        None \<Rightarrow> Inl NilDeployerInputsErr
      | Some i \<Rightarrow>
         (case loadFs LoadFiles chartFs of
            Inl err \<Rightarrow> Inl err
          | Inr helmChart \<Rightarrow>
             (let helmChart = (if version \<noteq> UndefinedVersion
                    then helmChart\<lparr>Chart_AppVersion := version, Chart_Version := version\<rparr> else helmChart)
              in Inr \<lparr>Deployer_chart = None, Deployer_inputs = i\<rparr>)))"

section \<open>Rendering\<close>

record Configuration =
  Configuration_ReleasesNamespace :: string

record Install =
  Install_cfg :: Configuration
  Install_Namespace :: string
  Install_ReleaseName :: string
  Install_ClientOnly :: bool

definition setupHelmStorage :: "string \<Rightarrow> Configuration" where
  "setupHelmStorage ns = \<lparr>Configuration_ReleasesNamespace = ns\<rparr>"

definition prepareInstallAction :: "Configuration \<Rightarrow> string \<Rightarrow> string \<Rightarrow> Install" where
  "prepareInstallAction cfg name ns =
     \<lparr>Install_cfg = cfg, Install_Namespace = ns, Install_ReleaseName = name, Install_ClientOnly = True\<rparr>"

definition formatRenderError :: "go_error \<Rightarrow> string \<Rightarrow> string \<Rightarrow> go_error" where
  "formatRenderError err ns name =
     ErrFmt (''failed to render helm chart for gateway '' @ ns @ ''.'' @ name @ '': '') err"

definition formatConversionError :: "go_error \<Rightarrow> string \<Rightarrow> string \<Rightarrow> go_error" where
  "formatConversionError err ns name =
     ErrFmt (''failed to convert helm manifest yaml to objects for gateway '' @ ns @ ''.'' @ name @ '': '') err"

text \<open>The Helm and YAML libraries the rendering calls.\<close>

record render_lib =
  lib_RunWithContext :: "Install \<Rightarrow> Chart option \<Rightarrow> helm_values \<Rightarrow> (go_error + string) exec"
  lib_decode :: "string \<Rightarrow> documents"
  lib_scheme :: Scheme

text \<open>The conversion returns for this decoder (\<open>ConvertYAMLToObjects_documents\<close>), so \<open>the\<close> reads its result.\<close>

definition Render :: "render_lib \<Rightarrow> Deployer \<Rightarrow> string \<Rightarrow> string \<Rightarrow> helm_values \<Rightarrow> (go_error + KObject list) exec" where
  "Render lib d name ns vals =
     (let storage = setupHelmStorage ns; install = prepareInstallAction storage name ns
      in exec_bind (lib_RunWithContext lib install (Deployer_chart d) vals)
        (\<lambda>r. Ret (case r of
           Inl err \<Rightarrow> Inl (formatRenderError err ns name)
         | Inr manifest \<Rightarrow>
             (case the (ConvertYAMLToObjects (documents_decoder (lib_decode lib)) (lib_scheme lib) manifest) of
                Inl err \<Rightarrow> Inl (formatConversionError err ns name)
              | Inr objects \<Rightarrow> Inr objects))))"

definition SetNamespace :: "string \<Rightarrow> KObject \<Rightarrow> KObject" where
  "SetNamespace ns obj = obj\<lparr>KObject_Meta := (KObject_Meta obj)\<lparr>ObjectMeta_Namespace := ns\<rparr>\<rparr>"

definition SetOwnerReferences :: "OwnerReference slice \<Rightarrow> KObject \<Rightarrow> KObject" where
  "SetOwnerReferences refs obj = obj\<lparr>KObject_Meta := (KObject_Meta obj)\<lparr>ObjectMeta_OwnerReferences := refs\<rparr>\<rparr>"

definition renderChartToObjects :: "render_lib \<Rightarrow> Deployer \<Rightarrow> Gateway \<Rightarrow> helm_values \<Rightarrow> (go_error + KObject list) exec" where
  "renderChartToObjects lib d gw vals =
     (let m = Gateway_ObjectMeta gw
      in exec_bind (Render lib d (ObjectMeta_Name m) (ObjectMeta_Namespace m) vals)
        (\<lambda>r. Ret (case r of
           Inl err \<Rightarrow> Inl (ErrFmt ''failed to render chart: '' err)
         | Inr objects \<Rightarrow> Inr (map (SetNamespace (ObjectMeta_Namespace m)) objects))))"

definition defaultGateway :: Gateway where
  "defaultGateway = \<lparr>Gateway_TypeMeta = \<lparr>TypeMeta_Kind = '''', TypeMeta_APIVersion = ''''\<rparr>,
     Gateway_ObjectMeta = ObjectMeta_zero\<lparr>ObjectMeta_Namespace := ''default'', ObjectMeta_Name := ''default''\<rparr>,
     Gateway_GatewayClassName = '''', Gateway_StatusAddresses = None, Gateway_rest = Opaque ''''\<rparr>"

definition watch_values :: helm_values where
  "watch_values = [(''gateway'', MapVal [(''istio'', MapVal [(''enabled'', BoolVal False)]), (''image'', MapVal [])])]"

text \<open>The loop that collects the kinds in \<open>GetGvksToWatch\<close>.\<close>

fun unique_gvks :: "KObject list \<Rightarrow> GroupVersionKind list \<Rightarrow> GroupVersionKind list" where
  "unique_gvks [] uniqueGVKs = uniqueGVKs"
| "unique_gvks (obj # objects) uniqueGVKs =
     (let gvk = KObject_GVK obj
      in unique_gvks objects (if \<not> gvk \<in> set uniqueGVKs then uniqueGVKs @ [gvk] else uniqueGVKs))"

definition GetGvksToWatch :: "render_lib \<Rightarrow> Deployer \<Rightarrow> (go_error + GroupVersionKind list) exec" where
  "GetGvksToWatch lib d =
     exec_bind (renderChartToObjects lib d defaultGateway watch_values)
       (\<lambda>r. Ret (case r of
          Inl err \<Rightarrow> Inl err
        | Inr objects \<Rightarrow> Inr (unique_gvks objects [])))"

section \<open>Parameters of a Gateway\<close>

definition getGatewayParametersError ::
  "go_error \<Rightarrow> string \<Rightarrow> string \<Rightarrow> string \<Rightarrow> string \<Rightarrow> string \<Rightarrow> go_error" where
  "getGatewayParametersError err gwpNamespace gwpName gwNamespace gwName resourceType =
     (let wrapped = ErrWrap err ''could not retrieve GatewayParameters''
      in ErrWrap wrapped (''('' @ gwpNamespace @ ''.'' @ gwpName @ '') for '' @ resourceType @ '' ('' @
           gwNamespace @ ''.'' @ gwName @ '')''))"

definition getGatewayClassFromGateway :: "kube_client \<Rightarrow> Gateway option \<Rightarrow> go_error + GatewayClass" where
  "getGatewayClassFromGateway cli gw =
     (case gw of
        None \<Rightarrow> Inl (ErrNew ''nil gateway'')
      | Some gw \<Rightarrow>
         (if Gateway_GatewayClassName gw = '''' then Inl (ErrNew ''GatewayClassName must not be empty'')
          else case cli_GetGatewayClass cli \<lparr>NN_Namespace = '''', NN_Name = Gateway_GatewayClassName gw\<rparr> of
                 Inl err \<Rightarrow> Inl (ErrNew (''failed to get GatewayClass for Gateway '' @
                    ObjectMeta_Name (Gateway_ObjectMeta gw) @ ''/'' @ ObjectMeta_Namespace (Gateway_ObjectMeta gw)))
               | Inr gwc \<Rightarrow> Inr gwc))"

definition getGatewayParametersForGatewayClass :: "kube_client \<Rightarrow> GatewayClass \<Rightarrow> go_error + GatewayParameters" where
  "getGatewayParametersForGatewayClass cli gwc =
     (let m = GatewayClass_ObjectMeta gwc
      in case GatewayClass_ParametersRef gwc of
           None \<Rightarrow> Inl (ErrNew (''no default GatewayParameters associated with GatewayClass '' @
                     ObjectMeta_Namespace m @ ''/'' @ ObjectMeta_Name m))
         | Some paramRef \<Rightarrow>
            (let gwpName = ParametersRef_Name paramRef
             in if gwpName = '''' then Inl (ErrNew ''no GatewayParameters found for GatewayClass'')
                else (let gwpNamespace = (case ParametersRef_Namespace paramRef of None \<Rightarrow> '''' | Some ns \<Rightarrow> ns)
                      in case cli_GetGatewayParameters cli \<lparr>NN_Namespace = gwpNamespace, NN_Name = gwpName\<rparr> of
                           Inl err \<Rightarrow> Inl (getGatewayParametersError err gwpNamespace gwpName
                                         (ObjectMeta_Namespace m) (ObjectMeta_Name m) ''GatewayClass'')
                         | Inr gwp \<Rightarrow> Inr gwp)))"

definition getDefaultGatewayParameters :: "kube_client \<Rightarrow> Gateway \<Rightarrow> go_error + GatewayParameters" where
  "getDefaultGatewayParameters cli gw =
     (case getGatewayClassFromGateway cli (Some gw) of
        Inl err \<Rightarrow> Inl err
      | Inr gwc \<Rightarrow> getGatewayParametersForGatewayClass cli gwc)"

text \<open>
  The merge writes into the object \<open>mergedGwp\<close> points to and its result is not used, so what is
  returned is that object after the call.
\<close>

definition getGatewayParametersForGateway ::
  "kube_client \<Rightarrow> Gateway \<Rightarrow> (go_error + GatewayParameters option) exec" where
  "getGatewayParametersForGateway cli gw =
     (let m = Gateway_ObjectMeta gw;
          gwpName = map_index '''' (ObjectMeta_Annotations m) GatewayParametersAnnonationName
      in if gwpName = ''''
         then Ret (case getDefaultGatewayParameters cli gw of Inl err \<Rightarrow> Inl err | Inr p \<Rightarrow> Inr (Some p))
         else
          (let gwpNamespace = ObjectMeta_Namespace m
           in case cli_GetGatewayParameters cli \<lparr>NN_Namespace = gwpNamespace, NN_Name = gwpName\<rparr> of
                Inl err \<Rightarrow> Ret (Inl (getGatewayParametersError err gwpNamespace gwpName
                              (ObjectMeta_Namespace m) (ObjectMeta_Name m) ''Gateway''))
              | Inr gwp \<Rightarrow>
                 (case getDefaultGatewayParameters cli gw of
                    Inl err \<Rightarrow> Ret (Inl err)
                  | Inr defaultGwp \<Rightarrow>
                      exec_bind (deepMergeGatewayParameters (Some defaultGwp) (Some gwp))
                        (\<lambda>(mergedGwp, _). Ret (Inr mergedGwp)))))"

section \<open>Objects to deploy\<close>

definition getValues :: "Gateway \<Rightarrow> GatewayParameters option \<Rightarrow> go_error + helmConfig" where
  "getValues gw gwParam = Inr \<lparr>helmConfig_Gateway = None\<rparr>"

text \<open>
  \<open>jsonConvert\<close> into a values map: \<open>gateway\<close> is left out when nil (\<open>omitempty\<close>), and
  \<open>helmGateway\<close> has no fields. Marshalling these types cannot fail.
\<close>

definition jsonConvert :: "helmConfig \<Rightarrow> go_error + helm_values" where
  "jsonConvert in' = Inr (case helmConfig_Gateway in' of None \<Rightarrow> [] | Some HelmGateway \<Rightarrow> [(''gateway'', MapVal [])])"

definition gateway_owner :: "Gateway \<Rightarrow> OwnerReference" where
  "gateway_owner gw = \<lparr>
     OwnerReference_APIVersion = TypeMeta_APIVersion (Gateway_TypeMeta gw),
     OwnerReference_Kind = TypeMeta_Kind (Gateway_TypeMeta gw),
     OwnerReference_Name = ObjectMeta_Name (Gateway_ObjectMeta gw),
     OwnerReference_UID = ObjectMeta_UID (Gateway_ObjectMeta gw),
     OwnerReference_Controller = Some True\<rparr>"

definition for_gateway :: "string \<Rightarrow> Gateway \<Rightarrow> go_error \<Rightarrow> go_error" where
  "for_gateway what gw err = ErrFmt (what @ '' for gateway '' @ ObjectMeta_Namespace (Gateway_ObjectMeta gw) @ ''.'' @
     ObjectMeta_Name (Gateway_ObjectMeta gw) @ '': '') err"

definition GetObjsToDeploy :: "kube_client \<Rightarrow> render_lib \<Rightarrow> Deployer \<Rightarrow> Gateway \<Rightarrow> (go_error + KObject list) exec" where
  "GetObjsToDeploy cli lib d gw =
     exec_bind (getGatewayParametersForGateway cli gw)
       (\<lambda>r. case r of
          Inl err \<Rightarrow> Ret (Inl err)
        | Inr gwParam \<Rightarrow>
           (if (case gwParam of None \<Rightarrow> False
                | Some p \<Rightarrow> GatewayParametersSpec_SelfManaged (GatewayParameters_Spec p) \<noteq> None)
            then Ret (Inr [])
            else case getValues gw gwParam of
                   Inl err \<Rightarrow> Ret (Inl (for_gateway ''failed to get values to render objects'' gw err))
                 | Inr vals \<Rightarrow>
                    (case jsonConvert vals of
                       Inl err \<Rightarrow> Ret (Inl (for_gateway ''failed to convert helm values'' gw err))
                     | Inr convertedVals \<Rightarrow>
                        exec_bind (renderChartToObjects lib d gw convertedVals)
                          (\<lambda>r. Ret (case r of
                             Inl err \<Rightarrow> Inl (for_gateway ''failed to get objects to deploy'' gw err)
                           | Inr objs \<Rightarrow> Inr (map (SetOwnerReferences (Some [gateway_owner gw])) objs))))))"

end
