(* ===== verification/Deployer_Properties.thy ===== *)
theory Deployer_Properties
  imports Deployer
begin

text \<open>
  What the deployer guarantees: which files the chart is loaded from, which objects a manifest
  gives, which kinds are watched, which parameters a Gateway gets, and what is deployed for it.
\<close>

section \<open>Loading the chart\<close>

text \<open>
  Specification of the walk: the files of a tree with their paths relative to its root, and the
  first read error a depth-first traversal meets.
\<close>

definition below :: "string \<Rightarrow> string \<Rightarrow> string" where
  "below rel n = (if rel = '''' then n else rel @ ''/'' @ n)"

primrec node_files :: "string \<Rightarrow> fs_node \<Rightarrow> BufferedFile list"
  and entries_files :: "string \<Rightarrow> fs_entries \<Rightarrow> BufferedFile list" where
  "node_files rel (FileNode content) =
     (case content of Inl _ \<Rightarrow> []
      | Inr data \<Rightarrow> [\<lparr>BufferedFile_Name = (if rel = '''' then ''.'' else rel), BufferedFile_Data = data\<rparr>])"
| "node_files rel (DirNode es) = entries_files rel es"
| "node_files rel (UnreadableDir e) = []"
| "entries_files rel NoEntry = []"
| "entries_files rel (Entry n t es) = node_files (below rel n) t @ entries_files rel es"

primrec node_error :: "fs_node \<Rightarrow> go_error option"
  and entries_error :: "fs_entries \<Rightarrow> go_error option" where
  "node_error (FileNode content) = (case content of Inl e \<Rightarrow> Some e | Inr _ \<Rightarrow> None)"
| "node_error (DirNode es) = entries_error es"
| "node_error (UnreadableDir e) = Some e"
| "entries_error NoEntry = None"
| "entries_error (Entry n t es) = (case node_error t of Some e \<Rightarrow> Some e | None \<Rightarrow> entries_error es)"

text \<open>Names a directory can have: not empty, without a slash, distinct among siblings.\<close>

primrec names_ok :: "fs_node \<Rightarrow> bool"
  and entries_names_ok :: "fs_entries \<Rightarrow> bool" where
  "names_ok (FileNode content) = True"
| "names_ok (DirNode es) = entries_names_ok es"
| "names_ok (UnreadableDir e) = True"
| "entries_names_ok NoEntry = True"
| "entries_names_ok (Entry n t es) = (n \<noteq> '''' \<and> CHR ''/'' \<notin> set n \<and> n \<notin> fst ` set (entry_list es) \<and>
     names_ok t \<and> entries_names_ok es)"

definition under :: "string \<Rightarrow> string \<Rightarrow> string" where
  "under root rel = (if rel = '''' then root else root @ ''/'' @ rel)"

lemma Rel_under: "Rel root (under root rel) = (if rel = '''' then ''.'' else rel)"
  by (simp add: Rel_def under_def)

lemma under_below: "n \<noteq> '''' \<Longrightarrow> under root rel @ ''/'' @ n = under root (below rel n)"
  by (simp add: under_def below_def)

lemma walk_spec:
  "names_ok t \<Longrightarrow> walkDir root (under root rel) t acc =
     (case node_error t of Some e \<Rightarrow> Inl e | None \<Rightarrow> Inr (acc @ node_files rel t))"
  "entries_names_ok es \<Longrightarrow> walkEntries root (under root rel) es acc =
     (case entries_error es of Some e \<Rightarrow> Inl e | None \<Rightarrow> Inr (acc @ entries_files rel es))"
  by (induction t and es arbitrary: rel acc and rel acc rule: fs_node.induct fs_entries.induct)
    (auto simp: Rel_under under_below [simplified] split: sum.split option.split)

lemma files_below:
  "f \<in> set (node_files rel t) \<Longrightarrow> rel \<noteq> '''' \<Longrightarrow>
     BufferedFile_Name f = rel \<or> (\<exists>y. BufferedFile_Name f = rel @ ''/'' @ y)"
  "f \<in> set (entries_files rel es) \<Longrightarrow> rel \<noteq> '''' \<Longrightarrow> (\<exists>y. BufferedFile_Name f = rel @ ''/'' @ y)"
proof (induction t and es arbitrary: rel and rel rule: fs_node.induct fs_entries.induct)
  case (Entry n t es)
  then show ?case by (fastforce simp: below_def)
qed (auto split: sum.splits)

definition starts_sub :: "string \<Rightarrow> bool" where
  "starts_sub u \<longleftrightarrow> u = '''' \<or> hd u = CHR ''/''"

lemma below_head:
  assumes "below rel n @ u = below rel n' @ u'" and "CHR ''/'' \<notin> set n" and "CHR ''/'' \<notin> set n'"
    and "starts_sub u" and "starts_sub u'"
  shows "n = n'"
proof -
  have "n @ u = n' @ u'" using assms(1) by (auto simp: below_def split: if_splits)
  moreover have head: "takeWhile (\<lambda>c. c \<noteq> CHR ''/'') (m @ v) = m" if "CHR ''/'' \<notin> set m" "starts_sub v" for m v
  proof -
    have "takeWhile (\<lambda>c. c \<noteq> CHR ''/'') v = []" using that(2) by (cases v) (auto simp: starts_sub_def)
    moreover have "\<forall>x \<in> set m. x \<noteq> CHR ''/''" using that(1) by auto
    ultimately show ?thesis by (simp add: takeWhile_append2)
  qed
  ultimately show ?thesis using head [OF assms(2,4)] head [OF assms(3,5)] by simp
qed

lemma node_files_head:
  assumes "f \<in> set (node_files (below rel n) t)" and "n \<noteq> ''''"
  shows "\<exists>u. BufferedFile_Name f = below rel n @ u \<and> starts_sub u"
proof -
  have "below rel n \<noteq> ''''" using assms(2) by (simp add: below_def)
  from files_below(1) [OF assms(1) this] show ?thesis by (auto simp: starts_sub_def)
qed

lemma entries_files_head:
  "entries_names_ok es \<Longrightarrow> f \<in> set (entries_files rel es) \<Longrightarrow>
     \<exists>n u. n \<in> fst ` set (entry_list es) \<and> CHR ''/'' \<notin> set n \<and> BufferedFile_Name f = below rel n @ u \<and> starts_sub u"
proof (induction es rule: entry_list.induct)
  case (2 n t es)
  show ?case
  proof (cases "f \<in> set (node_files (below rel n) t)")
    case True
    then show ?thesis using node_files_head [OF True] 2(2) by auto
  next
    case False
    then have "f \<in> set (entries_files rel es)" using 2(3) by simp
    then show ?thesis using 2(1,2) by auto
  qed
qed simp

lemma distinct_files:
  "names_ok t \<Longrightarrow> distinct (map BufferedFile_Name (node_files rel t))"
  "entries_names_ok es \<Longrightarrow> distinct (map BufferedFile_Name (entries_files rel es))"
proof (induction t and es arbitrary: rel and rel rule: fs_node.induct fs_entries.induct)
  case (Entry n t es)
  have "BufferedFile_Name f \<noteq> BufferedFile_Name g"
    if f: "f \<in> set (node_files (below rel n) t)" and g: "g \<in> set (entries_files rel es)" for f g
  proof
    assume eq: "BufferedFile_Name f = BufferedFile_Name g"
    obtain u where u: "BufferedFile_Name f = below rel n @ u" "starts_sub u"
      using node_files_head [OF f] Entry.prems by auto
    obtain n' u' where n': "n' \<in> fst ` set (entry_list es)" "CHR ''/'' \<notin> set n'"
        "BufferedFile_Name g = below rel n' @ u'" "starts_sub u'"
      using entries_files_head [OF _ g] Entry.prems by auto
    have "n = n'" using below_head [of rel n u n' u'] u n' eq Entry.prems by simp
    then show False using n'(1) Entry.prems by simp
  qed
  then show ?case using Entry by auto
qed (auto split: sum.split)

text \<open>
  C10. Loading a chart from a file system with one root entry: the loader gets every file below
  that entry exactly once, under its path relative to the entry, and in directory order; if
  some file or directory cannot be read the first such error is returned. With no entry, or
  more than one, loading is refused.
\<close>

theorem loadFs_correct:
  assumes "entries_names_ok es"
  shows "(\<forall>root t. es = Entry root t NoEntry \<longrightarrow>
      loadFs LoadFiles (Inr es) = (case node_error t of Some e \<Rightarrow> Inl e | None \<Rightarrow> LoadFiles (node_files '''' t)) \<and>
      distinct (map BufferedFile_Name (node_files '''' t))) \<and>
    (length (entry_list es) \<noteq> 1 \<longrightarrow>
      loadFs LoadFiles (Inr es) = Inl (ErrNew ''expected exactly one entry in the chart folder, got %v''))"
proof (intro conjI allI impI)
  fix root t assume es: "es = Entry root t NoEntry"
  then have "names_ok t" using assms by simp
  then show "loadFs LoadFiles (Inr es) =
      (case node_error t of Some e \<Rightarrow> Inl e | None \<Rightarrow> LoadFiles (node_files '''' t))"
    using walk_spec(1) [of t root "''''" "[]"] by (simp add: es loadFs_def under_def split: option.split)
  show "distinct (map BufferedFile_Name (node_files '''' t))" using \<open>names_ok t\<close> by (rule distinct_files)
next
  assume "length (entry_list es) \<noteq> 1"
  then show "loadFs LoadFiles (Inr es) = Inl (ErrNew ''expected exactly one entry in the chart folder, got %v'')"
    by (auto simp: loadFs_def split: list.split)
qed

definition example_chart_fs :: fs_entries where
  "example_chart_fs = Entry ''fgateway'' (DirNode (Entry ''Chart.yaml'' (FileNode (Inr ''name: fgateway''))
     (Entry ''templates'' (DirNode (Entry ''service.yaml'' (FileNode (Inr ''kind: Service'')) NoEntry))
     (Entry ''values.yaml'' (FileNode (Inr '''')) NoEntry)))) NoEntry"

theorem loadFs_correct_witness:
  "loadFs (\<lambda>fs. Inr \<lparr>Chart_AppVersion = '''', Chart_Version = '''', Chart_rest = Opaque (concat (map BufferedFile_Name fs))\<rparr>)
     (Inr example_chart_fs) =
   Inr \<lparr>Chart_AppVersion = '''', Chart_Version = '''', Chart_rest = Opaque ''Chart.yamltemplates/service.yamlvalues.yaml''\<rparr>"
  using loadFs_correct [of example_chart_fs
      "\<lambda>fs. Inr \<lparr>Chart_AppVersion = '''', Chart_Version = '''', Chart_rest = Opaque (concat (map BufferedFile_Name fs))\<rparr>"]
  by (simp add: example_chart_fs_def below_def)

text \<open>
  As built from the repository, no deployer can be created: the embed directive of the chart
  is misspelt, so the chart file system is empty and \<open>NewDeployer\<close> fails for all inputs. Even
  with a chart that loads, the deployer returned does not hold it.
\<close>

theorem NewDeployer_no_chart:
  "NewDeployer LoadFiles FGatewayHelmChart version (Some inputs) =
     Inl (ErrNew ''expected exactly one entry in the chart folder, got %v'') \<and>
   (NewDeployer LoadFiles fsys version (Some inputs) = Inr d \<longrightarrow>
     Deployer_chart d = None \<and> Deployer_inputs d = inputs)"
  by (auto simp: NewDeployer_def loadFs_def FGatewayHelmChart_def split: sum.splits)

theorem NewDeployer_no_chart_witness:
  "\<exists>d. NewDeployer (\<lambda>fs. Inr \<lparr>Chart_AppVersion = '''', Chart_Version = '''', Chart_rest = Opaque ''''\<rparr>)
       (Inr example_chart_fs) ''v1'' (Some \<lparr>Inputs_ControllerName = ''c'', Inputs_Dev = False,
         Inputs_IstioIntegrationEnabled = False, Inputs_ControlPlane = None, Inputs_Aws = None\<rparr>) = Inr d \<and>
     Deployer_chart d = None"
proof -
  let ?L = "\<lambda>fs. Inr \<lparr>Chart_AppVersion = '''', Chart_Version = '''', Chart_rest = Opaque ''''\<rparr>"
  let ?i = "\<lparr>Inputs_ControllerName = ''c'', Inputs_Dev = False,
         Inputs_IstioIntegrationEnabled = False, Inputs_ControlPlane = None, Inputs_Aws = None\<rparr>"
  obtain d where "NewDeployer ?L (Inr example_chart_fs) ''v1'' (Some ?i) = Inr d"
    by (simp add: NewDeployer_def loadFs_def example_chart_fs_def)
  then show ?thesis using NewDeployer_no_chart [of ?L "''v1''" ?i "Inr example_chart_fs" d] by blast
qed

section \<open>Kinds\<close>

lemma unique_gvks_snoc:
  "unique_gvks (objs @ [x]) acc =
     (let r = unique_gvks objs acc in if KObject_GVK x \<in> set r then r else r @ [KObject_GVK x])"
  by (induction objs arbitrary: acc) (auto simp: Let_def)

lemma unique_gvks_remdups: "unique_gvks objs [] = rev (remdups (rev (map KObject_GVK objs)))"
  by (induction objs rule: rev_induct) (auto simp: unique_gvks_snoc Let_def)

lemma GetGvksToWatch_distinct:
  assumes "GetGvksToWatch lib d = Ret (Inr gvks)"
  shows "distinct gvks"
proof -
  obtain r where "renderChartToObjects lib d defaultGateway watch_values = Ret r"
      and "(case r of Inl err \<Rightarrow> Inl err | Inr objects \<Rightarrow> Inr (unique_gvks objects [])) = Inr gvks"
    using assms by (auto simp: GetGvksToWatch_def exec_bind_eq_Ret)
  then show ?thesis by (cases r) (auto simp: unique_gvks_remdups)
qed

text \<open>
  The kinds to watch are those of the rendered objects, each once, in the order of first
  occurrence; errors and panics of the rendering are passed on.
\<close>

theorem GetGvksToWatch_correct:
  "(renderChartToObjects lib d defaultGateway watch_values = Ret (Inr objects) \<longrightarrow>
      (\<exists>gvks. GetGvksToWatch lib d = Ret (Inr gvks) \<and> distinct gvks \<and> set gvks = KObject_GVK ` set objects \<and>
        gvks = rev (remdups (rev (map KObject_GVK objects))))) \<and>
   (renderChartToObjects lib d defaultGateway watch_values = Ret (Inl err) \<longrightarrow> GetGvksToWatch lib d = Ret (Inl err)) \<and>
   (renderChartToObjects lib d defaultGateway watch_values = Panic msg \<longrightarrow> GetGvksToWatch lib d = Panic msg)"
  by (simp add: GetGvksToWatch_def unique_gvks_remdups)

text \<open>A Helm that dereferences the chart it is given, and a deployer with a chart.\<close>

definition example_Helm :: "Install \<Rightarrow> Chart option \<Rightarrow> helm_values \<Rightarrow> (go_error + string) exec" where
  "example_Helm install chart vals =
     (case chart of None \<Rightarrow> Panic ''nil pointer dereference'' | Some _ \<Rightarrow> Ret (Inr ''manifest''))"

definition example_lib :: render_lib where
  "example_lib = \<lparr>lib_RunWithContext = example_Helm, lib_decode = (\<lambda>_. map Inr example_docs),
     lib_scheme = example_scheme\<rparr>"

definition example_deployer :: Deployer where
  "example_deployer = \<lparr>Deployer_chart = Some \<lparr>Chart_AppVersion = '''', Chart_Version = '''', Chart_rest = Opaque ''''\<rparr>,
     Deployer_inputs = \<lparr>Inputs_ControllerName = ''c'', Inputs_Dev = False,
     Inputs_IstioIntegrationEnabled = False, Inputs_ControlPlane = None, Inputs_Aws = None\<rparr>\<rparr>"

theorem GetGvksToWatch_correct_witness:
  "\<exists>gvks. GetGvksToWatch example_lib example_deployer = Ret (Inr gvks) \<and> distinct gvks \<and> map GVK_Kind gvks = [''Service'', ''Deployment'']"
proof -
  obtain objects where r: "renderChartToObjects example_lib example_deployer defaultGateway watch_values = Ret (Inr objects)"
      and k: "map KObject_GVK objects = map KObject_GVK [example_object ''Service'' ''gw'', example_object ''Deployment'' ''gw'']"
    by (simp add: renderChartToObjects_def Render_def ConvertYAMLToObjects_list convert_object_def example_lib_def
        example_Helm_def example_deployer_def example_docs_def example_scheme_def example_object_def SetNamespace_def Let_def)
  then show ?thesis
    using GetGvksToWatch_correct [of example_lib example_deployer objects] by (auto simp: example_object_def)
qed

section \<open>Parameters of a Gateway\<close>

text \<open>What the deployer relies on when it merges two parameter objects.\<close>

locale parameters_merge =
  fixes merge :: "'p option \<Rightarrow> 'p option \<Rightarrow> ('p option \<times> 'p option) exec"
    and valid :: "'p \<Rightarrow> bool"
  assumes total: "\<exists>d' r. merge (Some d) (Some s) = Ret (Some d', Some r)"
    and preserves: "valid d \<Longrightarrow> valid s \<Longrightarrow> merge (Some d) (Some s) = Ret (Some d', Some r) \<Longrightarrow> valid d'"
begin

definition merged :: "'p \<Rightarrow> 'p \<Rightarrow> 'p" where
  "merged d s = (case merge (Some d) (Some s) of Ret (Some d', _) \<Rightarrow> d' | _ \<Rightarrow> d)"

lemma bind_merge: "exec_bind (merge (Some d) (Some s)) (\<lambda>(m, _). Ret (f m)) = Ret (f (Some (merged d s)))"
  using total [of d s] by (auto simp: merged_def)

lemma merged_valid: "valid d \<Longrightarrow> valid s \<Longrightarrow> valid (merged d s)"
  using total [of d s] preserves [of d s] by (auto simp: merged_def)

end

definition params_valid :: "GatewayParameters \<Rightarrow> bool" where
  "params_valid p = GatewayParametersSpec_valid (spec_of p)"

interpretation gwp: parameters_merge deepMergeGatewayParameters params_valid
proof
  show "\<exists>d' r. deepMergeGatewayParameters (Some d) (Some s) = Ret (Some d', Some r)" for d s
    by (rule merge_total)
  show "params_valid d'" if "params_valid d" "params_valid s"
      "deepMergeGatewayParameters (Some d) (Some s) = Ret (Some d', Some r)" for d s d' r
    using merge_valid_result [OF that [unfolded params_valid_def]] by (simp add: params_valid_def)
qed

definition annotated_params :: "Gateway \<Rightarrow> string" where
  "annotated_params gw =
     map_index '''' (ObjectMeta_Annotations (Gateway_ObjectMeta gw)) GatewayParametersAnnonationName"

lemma params_default:
  "annotated_params gw = '''' \<Longrightarrow> getGatewayParametersForGateway cli gw =
     Ret (case getDefaultGatewayParameters cli gw of Inl err \<Rightarrow> Inl err | Inr p \<Rightarrow> Inr (Some p))"
  by (simp add: getGatewayParametersForGateway_def annotated_params_def)

lemma params_merged:
  assumes "annotated_params gw \<noteq> ''''"
    and "cli_GetGatewayParameters cli \<lparr>NN_Namespace = ObjectMeta_Namespace (Gateway_ObjectMeta gw),
           NN_Name = annotated_params gw\<rparr> = Inr gwp"
    and "getDefaultGatewayParameters cli gw = Inr def"
  shows "getGatewayParametersForGateway cli gw = Ret (Inr (Some (gwp.merged def gwp)))"
  using assms by (simp add: getGatewayParametersForGateway_def annotated_params_def Let_def gwp.bind_merge)

lemma params_missing:
  assumes "annotated_params gw \<noteq> ''''"
    and "cli_GetGatewayParameters cli \<lparr>NN_Namespace = ObjectMeta_Namespace (Gateway_ObjectMeta gw),
           NN_Name = annotated_params gw\<rparr> = Inl err"
  shows "\<exists>e. getGatewayParametersForGateway cli gw = Ret (Inl e) \<and> last (error_chain e) = last (error_chain err)"
proof -
  have "error_chain err \<noteq> []" by (cases err) auto
  then show ?thesis
    using assms by (simp add: getGatewayParametersForGateway_def annotated_params_def Let_def
        getGatewayParametersError_def)
qed

lemma params_no_default:
  assumes "annotated_params gw \<noteq> ''''"
    and "cli_GetGatewayParameters cli \<lparr>NN_Namespace = ObjectMeta_Namespace (Gateway_ObjectMeta gw),
           NN_Name = annotated_params gw\<rparr> = Inr gwp"
    and "getDefaultGatewayParameters cli gw = Inl err"
  shows "getGatewayParametersForGateway cli gw = Ret (Inl err)"
  using assms by (simp add: getGatewayParametersForGateway_def annotated_params_def Let_def)

lemma default_params_found:
  assumes "getDefaultGatewayParameters cli gw = Inr p"
  shows "\<exists>key. cli_GetGatewayParameters cli key = Inr p"
  using assms
  by (auto simp: getDefaultGatewayParameters_def getGatewayParametersForGatewayClass_def Let_def
      split: sum.splits option.splits if_splits)

lemma params_returns:
  "\<exists>r. getGatewayParametersForGateway cli gw = Ret r"
proof (cases "annotated_params gw = ''''")
  case False
  then show ?thesis
    using params_missing [OF False, of cli] params_no_default [OF False, of cli] params_merged [OF False, of cli]
    by (cases "cli_GetGatewayParameters cli \<lparr>NN_Namespace = ObjectMeta_Namespace (Gateway_ObjectMeta gw),
           NN_Name = annotated_params gw\<rparr>"; cases "getDefaultGatewayParameters cli gw") auto
qed (simp add: params_default)

abbreviation override_key :: "Gateway \<Rightarrow> NamespacedName" where
  "override_key gw \<equiv> \<lparr>NN_Namespace = ObjectMeta_Namespace (Gateway_ObjectMeta gw), NN_Name = annotated_params gw\<rparr>"

lemma params_safe:
  assumes "\<forall>key p. cli_GetGatewayParameters cli key = Inr p \<longrightarrow> params_valid p"
  shows "(\<exists>e. getGatewayParametersForGateway cli gw = Ret (Inl e)) \<or>
     (\<exists>p. getGatewayParametersForGateway cli gw = Ret (Inr (Some p)) \<and> params_valid p)"
proof (cases "getDefaultGatewayParameters cli gw")
  case (Inl e)
  then show ?thesis
    using params_default [of gw cli] params_missing [of gw cli] params_no_default [of gw cli]
    by (cases "annotated_params gw = ''''"; cases "cli_GetGatewayParameters cli (override_key gw)") auto
next
  case (Inr p)
  then have "params_valid p" using default_params_found [OF Inr] assms by blast
  then show ?thesis
    using Inr params_default [of gw cli] params_missing [of gw cli] params_merged [of gw cli]
      gwp.merged_valid [of p] assms
    by (cases "annotated_params gw = ''''"; cases "cli_GetGatewayParameters cli (override_key gw)") fastforce+
qed

text \<open>Where the parameters of a class are, if it names any, and whether the lookup gets to the class.\<close>

definition class_params_key :: "GatewayClass \<Rightarrow> NamespacedName option" where
  "class_params_key gwc =
     (case GatewayClass_ParametersRef gwc of None \<Rightarrow> None
      | Some ref \<Rightarrow> if ParametersRef_Name ref = '''' then None
          else Some \<lparr>NN_Namespace = (case ParametersRef_Namespace ref of None \<Rightarrow> '''' | Some ns \<Rightarrow> ns),
                     NN_Name = ParametersRef_Name ref\<rparr>)"

definition looks_at_class :: "kube_client \<Rightarrow> Gateway \<Rightarrow> bool" where
  "looks_at_class cli gw \<longleftrightarrow> annotated_params gw = '''' \<or> (\<exists>p. cli_GetGatewayParameters cli (override_key gw) = Inr p)"

lemma params_default_error:
  assumes "looks_at_class cli gw" and "getDefaultGatewayParameters cli gw = Inl e"
  shows "getGatewayParametersForGateway cli gw = Ret (Inl e)"
  using assms params_default [of gw cli] params_no_default [of gw cli]
  by (cases "annotated_params gw = ''''") (auto simp: looks_at_class_def)

lemma class_params_missing:
  assumes "getGatewayClassFromGateway cli (Some gw) = Inr gwc" and "class_params_key gwc = Some k"
    and "cli_GetGatewayParameters cli k = Inl err"
  shows "\<exists>e. getDefaultGatewayParameters cli gw = Inl e \<and> last (error_chain e) = last (error_chain err)"
proof -
  have "error_chain err \<noteq> []" by (cases err) auto
  then show ?thesis
    using assms by (auto simp: getDefaultGatewayParameters_def getGatewayParametersForGatewayClass_def Let_def
        class_params_key_def getGatewayParametersError_def split: option.splits if_splits)
qed

text \<open>
  C9. Looking up a Gateway's parameters never panics, and if every GatewayParameters object in the
  cluster satisfies the CRD's rule then so do the parameters it returns. An annotation with
  no object behind it, and a class whose parameters cannot be read, are errors that still carry
  the API server's error; when it is the class that cannot be read, the error only names the
  Gateway and the API server's error is lost.
\<close>

theorem getGatewayParameters_safe:
  assumes "\<forall>key p. cli_GetGatewayParameters cli key = Inr p \<longrightarrow> GatewayParametersSpec_valid (GatewayParameters_Spec p)"
  shows "((\<exists>e. getGatewayParametersForGateway cli gw = Ret (Inl e)) \<or>
     (\<exists>p. getGatewayParametersForGateway cli gw = Ret (Inr (Some p)) \<and>
        GatewayParametersSpec_valid (GatewayParameters_Spec p))) \<and>
    (annotated_params gw \<noteq> '''' \<and> cli_GetGatewayParameters cli (override_key gw) = Inl err \<longrightarrow>
     (\<exists>e. getGatewayParametersForGateway cli gw = Ret (Inl e) \<and> last (error_chain e) = last (error_chain err))) \<and>
    (\<forall>gwc k. looks_at_class cli gw \<and> getGatewayClassFromGateway cli (Some gw) = Inr gwc \<and>
        class_params_key gwc = Some k \<and> cli_GetGatewayParameters cli k = Inl err \<longrightarrow>
     (\<exists>e. getGatewayParametersForGateway cli gw = Ret (Inl e) \<and> last (error_chain e) = last (error_chain err))) \<and>
    (looks_at_class cli gw \<and> Gateway_GatewayClassName gw \<noteq> '''' \<and>
        cli_GetGatewayClass cli \<lparr>NN_Namespace = '''', NN_Name = Gateway_GatewayClassName gw\<rparr> = Inl err \<longrightarrow>
     getGatewayParametersForGateway cli gw = Ret (Inl (ErrNew (''failed to get GatewayClass for Gateway '' @
       ObjectMeta_Name (Gateway_ObjectMeta gw) @ ''/'' @ ObjectMeta_Namespace (Gateway_ObjectMeta gw)))))"
proof (intro conjI impI allI)
  show "(\<exists>e. getGatewayParametersForGateway cli gw = Ret (Inl e)) \<or>
     (\<exists>p. getGatewayParametersForGateway cli gw = Ret (Inr (Some p)) \<and>
        GatewayParametersSpec_valid (GatewayParameters_Spec p))"
    using params_safe [of cli gw] assms by (simp add: params_valid_def)
  show "\<exists>e. getGatewayParametersForGateway cli gw = Ret (Inl e) \<and> last (error_chain e) = last (error_chain err)"
    if "annotated_params gw \<noteq> '''' \<and> cli_GetGatewayParameters cli (override_key gw) = Inl err"
    using params_missing that by simp
  show "\<exists>e. getGatewayParametersForGateway cli gw = Ret (Inl e) \<and> last (error_chain e) = last (error_chain err)"
    if "looks_at_class cli gw \<and> getGatewayClassFromGateway cli (Some gw) = Inr gwc \<and>
        class_params_key gwc = Some k \<and> cli_GetGatewayParameters cli k = Inl err" for gwc k
    using that class_params_missing params_default_error by meson
  show "getGatewayParametersForGateway cli gw = Ret (Inl (ErrNew (''failed to get GatewayClass for Gateway '' @
       ObjectMeta_Name (Gateway_ObjectMeta gw) @ ''/'' @ ObjectMeta_Namespace (Gateway_ObjectMeta gw))))"
    if "looks_at_class cli gw \<and> Gateway_GatewayClassName gw \<noteq> '''' \<and>
        cli_GetGatewayClass cli \<lparr>NN_Namespace = '''', NN_Name = Gateway_GatewayClassName gw\<rparr> = Inl err"
    using that by (intro params_default_error) (simp_all add: getDefaultGatewayParameters_def getGatewayClassFromGateway_def)
qed

text \<open>
  Which objects the lookup reads: its answer can only depend on what the client gives for the key
  of the annotation and for the key the class names.
\<close>

definition with_params :: "kube_client \<Rightarrow> NamespacedName \<Rightarrow> go_error + GatewayParameters \<Rightarrow> kube_client" where
  "with_params cli k answer = cli\<lparr>cli_GetGatewayParameters := (cli_GetGatewayParameters cli)(k := answer)\<rparr>"

definition lookup_reads :: "kube_client \<Rightarrow> Gateway \<Rightarrow> NamespacedName \<Rightarrow> bool" where
  "lookup_reads cli gw k \<longleftrightarrow> (\<exists>answer.
     getGatewayParametersForGateway (with_params cli k answer) gw \<noteq> getGatewayParametersForGateway cli gw)"

lemma with_params_simps [simp]:
  "cli_GetGatewayParameters (with_params cli k answer) = (cli_GetGatewayParameters cli)(k := answer)"
  "cli_GetGatewayClass (with_params cli k answer) = cli_GetGatewayClass cli"
  by (simp_all add: with_params_def)

lemma with_params_class [simp]:
  "getGatewayClassFromGateway (with_params cli k answer) gw = getGatewayClassFromGateway cli gw"
  by (cases gw) (simp_all add: getGatewayClassFromGateway_def)

lemma default_params_frame:
  assumes "\<And>gwc. getGatewayClassFromGateway cli (Some gw) = Inr gwc \<Longrightarrow> class_params_key gwc \<noteq> Some k"
  shows "getDefaultGatewayParameters (with_params cli k answer) gw = getDefaultGatewayParameters cli gw"
proof (cases "getGatewayClassFromGateway cli (Some gw)")
  case (Inr gwc)
  then have "class_params_key gwc \<noteq> Some k" by (rule assms)
  then show ?thesis
    using Inr by (auto simp: getDefaultGatewayParameters_def getGatewayParametersForGatewayClass_def
        class_params_key_def Let_def split: option.split)
qed (simp add: getDefaultGatewayParameters_def)

lemma lookup_reads_only:
  assumes "lookup_reads cli gw k"
  shows "annotated_params gw \<noteq> '''' \<and> override_key gw = k \<or>
    (\<exists>gwc. getGatewayClassFromGateway cli (Some gw) = Inr gwc \<and> class_params_key gwc = Some k)"
proof (rule ccontr)
  assume *: "\<not> ?thesis"
  then have def: "getDefaultGatewayParameters (with_params cli k answer) gw = getDefaultGatewayParameters cli gw" for answer
    by (intro default_params_frame) auto
  have "getGatewayParametersForGateway (with_params cli k answer) gw = getGatewayParametersForGateway cli gw" for answer
  proof (cases "annotated_params gw = ''''")
    case True
    then show ?thesis by (simp add: params_default def)
  next
    case False
    then have "cli_GetGatewayParameters (with_params cli k answer) (override_key gw) =
        cli_GetGatewayParameters cli (override_key gw)" using * by auto
    then show ?thesis
      by (cases "cli_GetGatewayParameters cli (override_key gw)")
        (simp_all add: getGatewayParametersForGateway_def def Let_def flip: annotated_params_def)
  qed
  then show False using assms by (simp add: lookup_reads_def)
qed

text \<open>Two different errors behind a key give two different results.\<close>

lemma lookup_reads_override:
  assumes "annotated_params gw \<noteq> ''''" and "override_key gw = k"
  shows "lookup_reads cli gw k"
proof -
  define looked where "looked = (\<lambda>msg. getGatewayParametersForGateway (with_params cli k (Inl (ErrNew msg))) gw)"
  have "looked ''a'' \<noteq> looked ''b''"
    using assms by (auto simp: looked_def getGatewayParametersForGateway_def Let_def
        getGatewayParametersError_def simp flip: annotated_params_def)
  then show ?thesis unfolding looked_def lookup_reads_def by metis
qed

lemma lookup_reads_class:
  assumes "annotated_params gw = ''''" and "getGatewayClassFromGateway cli (Some gw) = Inr gwc"
    and "class_params_key gwc = Some k"
  shows "lookup_reads cli gw k"
proof -
  define looked where "looked = (\<lambda>msg. getGatewayParametersForGateway (with_params cli k (Inl (ErrNew msg))) gw)"
  have "looked ''a'' \<noteq> looked ''b''"
    using assms by (auto simp: looked_def params_default getDefaultGatewayParameters_def
        getGatewayParametersForGatewayClass_def class_params_key_def Let_def
        getGatewayParametersError_def split: option.splits if_splits)
  then show ?thesis unfolding looked_def lookup_reads_def by metis
qed

definition example_class :: GatewayClass where
  "example_class = \<lparr>GatewayClass_ObjectMeta = ObjectMeta_zero\<lparr>ObjectMeta_Name := ''fgateway''\<rparr>,
     GatewayClass_ControllerName = GatewayControllerName,
     GatewayClass_ParametersRef = Some \<lparr>ParametersRef_Name = ''default'', ParametersRef_Namespace = Some ''sys''\<rparr>\<rparr>"

definition example_client :: "GatewayParameters \<Rightarrow> GatewayParameters \<Rightarrow> kube_client" where
  "example_client def override = \<lparr>
     cli_GetGatewayParameters = (\<lambda>key. if NN_Name key = ''default'' then Inr def
        else if NN_Name key = ''mine'' then Inr override else Inl (ErrApi True ''not found'')),
     cli_GetGatewayClass = (\<lambda>_. Inr example_class)\<rparr>"

definition example_gateway :: "string \<Rightarrow> Gateway" where
  "example_gateway annotation = \<lparr>
     Gateway_TypeMeta = \<lparr>TypeMeta_Kind = ''Gateway'', TypeMeta_APIVersion = ''gateway.networking.k8s.io/v1''\<rparr>,
     Gateway_ObjectMeta = ObjectMeta_zero\<lparr>ObjectMeta_Name := ''gw'', ObjectMeta_Namespace := ''ns'', ObjectMeta_UID := ''u1'',
       ObjectMeta_Annotations := Some [(GatewayParametersAnnonationName, annotation)]\<rparr>,
     Gateway_GatewayClassName = ''fgateway'', Gateway_StatusAddresses = None, Gateway_rest = Opaque ''''\<rparr>"

lemma example_lookup [simp]:
  "annotated_params (example_gateway a) = a"
  "getDefaultGatewayParameters (example_client d s) (example_gateway a) = Inr d"
  "cli_GetGatewayParameters (example_client d s) (\<lparr>NN_Namespace = ns, NN_Name = ''mine''\<rparr>) = Inr s"
  by (simp_all add: annotated_params_def example_gateway_def example_client_def example_class_def
      getDefaultGatewayParameters_def getGatewayClassFromGateway_def getGatewayParametersForGatewayClass_def)

text \<open>An annotation without an object; a class that cannot be read.\<close>

theorem getGatewayParameters_safe_witness:
  "(\<exists>e. getGatewayParametersForGateway
        (example_client (params_of (Some kube_zero) None) (params_of (Some kube_zero) None)) (example_gateway ''gone'') =
      Ret (Inl e) \<and> last (error_chain e) = ErrApi True ''not found'') \<and>
   getGatewayParametersForGateway ((example_client (params_of (Some kube_zero) None) (params_of (Some kube_zero) None))
        \<lparr>cli_GetGatewayClass := (\<lambda>_. Inl (ErrApi False ''forbidden''))\<rparr>) (example_gateway '''') =
      Ret (Inl (ErrNew ''failed to get GatewayClass for Gateway gw/ns''))"
proof -
  let ?c = "example_client (params_of (Some kube_zero) None) (params_of (Some kube_zero) None)"
  have v: "\<forall>key p. cli_GetGatewayParameters ?c key = Inr p \<longrightarrow> GatewayParametersSpec_valid (GatewayParameters_Spec p)"
    by (auto simp: example_client_def split: if_splits)
  have "cli_GetGatewayParameters ?c (override_key (example_gateway ''gone'')) = Inl (ErrApi True ''not found'')"
    by (simp add: example_client_def)
  then have 1: "\<exists>e. getGatewayParametersForGateway ?c (example_gateway ''gone'') = Ret (Inl e) \<and>
      last (error_chain e) = ErrApi True ''not found''"
    using getGatewayParameters_safe [OF v, of "example_gateway ''gone''" "ErrApi True ''not found''"] by simp
  let ?d = "?c\<lparr>cli_GetGatewayClass := (\<lambda>_. Inl (ErrApi False ''forbidden''))\<rparr>"
  have "\<forall>key p. cli_GetGatewayParameters ?d key = Inr p \<longrightarrow> GatewayParametersSpec_valid (GatewayParameters_Spec p)"
    using v by simp
  from getGatewayParameters_safe [OF this, of "example_gateway ''''" "ErrApi False ''forbidden''"]
  have "getGatewayParametersForGateway ?d (example_gateway '''') =
      Ret (Inl (ErrNew (''failed to get GatewayClass for Gateway '' @
        ObjectMeta_Name (Gateway_ObjectMeta (example_gateway '''')) @ ''/'' @
        ObjectMeta_Namespace (Gateway_ObjectMeta (example_gateway '''')))))"
    by (simp add: looks_at_class_def) (simp add: example_gateway_def)
  with 1 show ?thesis by (simp add: example_gateway_def)
qed

text \<open>
  A Gateway's own Kubernetes parameters over Kubernetes defaults of its class: the result is
  the default object, with its identity, whose Kubernetes configuration is the field-by-field
  merge; the objects in the cluster are only read.
\<close>

theorem getGatewayParameters_merges:
  assumes "annotated_params gw \<noteq> ''''"
    and "cli_GetGatewayParameters cli (override_key gw) = Inr s"
    and "getDefaultGatewayParameters cli gw = Inr d"
    and "GatewayParametersSpec_SelfManaged (GatewayParameters_Spec s) = None"
    and "GatewayParametersSpec_Kube (GatewayParameters_Spec s) = Some sk"
    and "GatewayParametersSpec_Kube (GatewayParameters_Spec d) = Some dk"
  shows "\<exists>p. getGatewayParametersForGateway cli gw = Ret (Inr (Some p)) \<and>
    GatewayParametersSpec_Kube (GatewayParameters_Spec p) = Some (mergeKube dk sk) \<and>
    GatewayParametersSpec_SelfManaged (GatewayParameters_Spec p) = GatewayParametersSpec_SelfManaged (GatewayParameters_Spec d) \<and>
    GatewayParameters_ObjectMeta p = GatewayParameters_ObjectMeta d"
  using params_merged [OF assms(1-3)] merge_kube [OF assms(4-6)] by (simp add: gwp.merged_def Let_def)

theorem getGatewayParameters_merges_witness:
  "\<exists>p. getGatewayParametersForGateway
        (example_client (params_of (Some (istio_example (Some ''istiod''))) None) (params_of (Some kube_zero) None))
        (example_gateway ''mine'') = Ret (Inr (Some p)) \<and>
      GatewayParametersSpec_Kube (GatewayParameters_Spec p) = Some (mergeKube (istio_example (Some ''istiod'')) kube_zero)"
  using getGatewayParameters_merges [of "example_gateway ''mine''"
      "example_client (params_of (Some (istio_example (Some ''istiod''))) None) (params_of (Some kube_zero) None)"
      "params_of (Some kube_zero) None" "params_of (Some (istio_example (Some ''istiod''))) None" kube_zero
      "istio_example (Some ''istiod'')"]
  by auto

section \<open>Objects to deploy\<close>

lemma GetObjsToDeploy_params:
  "getGatewayParametersForGateway cli gw = Ret (Inl e) \<Longrightarrow> GetObjsToDeploy cli lib d gw = Ret (Inl e)"
  "getGatewayParametersForGateway cli gw = Ret (Inr (Some p)) \<Longrightarrow>
     GatewayParametersSpec_SelfManaged (GatewayParameters_Spec p) \<noteq> None \<Longrightarrow> GetObjsToDeploy cli lib d gw = Ret (Inr [])"
  "getGatewayParametersForGateway cli gw = Ret (Inr (Some p)) \<Longrightarrow>
     GatewayParametersSpec_SelfManaged (GatewayParameters_Spec p) = None \<Longrightarrow>
     GetObjsToDeploy cli lib d gw = exec_bind (renderChartToObjects lib d gw []) (\<lambda>r. Ret (case r of
        Inl err \<Rightarrow> Inl (for_gateway ''failed to get objects to deploy'' gw err)
      | Inr objs \<Rightarrow> Inr (map (SetOwnerReferences (Some [gateway_owner gw])) objs)))"
  by (simp_all add: GetObjsToDeploy_def getValues_def jsonConvert_def)



text \<open>
  A Gateway cannot opt back into provisioning: when its class defaults to self-managed and
  its own parameters ask for Kubernetes, the merge returns the Gateway's parameters, but that
  result is dropped and the self-managed defaults are used, so nothing is deployed.
\<close>

theorem kube_override_dropped:
  assumes "annotated_params gw \<noteq> ''''"
    and "cli_GetGatewayParameters cli (override_key gw) = Inr s"
    and "getDefaultGatewayParameters cli gw = Inr d"
    and "GatewayParametersSpec_SelfManaged (GatewayParameters_Spec s) = None"
    and "GatewayParametersSpec_Kube (GatewayParameters_Spec s) = Some sk"
    and "GatewayParametersSpec_SelfManaged (GatewayParameters_Spec d) = Some sm"
    and "GatewayParametersSpec_Kube (GatewayParameters_Spec d) = None"
  shows "deepMergeGatewayParameters (Some d) (Some s) = Ret (Some d, Some s) \<and>
    getGatewayParametersForGateway cli gw = Ret (Inr (Some d)) \<and>
    GetObjsToDeploy cli lib dep gw = Ret (Inr [])"
proof -
  have m: "deepMergeGatewayParameters (Some d) (Some s) = Ret (Some d, Some s)"
    using assms(4,5,7) by (rule merge_kube_missing)
  then have "getGatewayParametersForGateway cli gw = Ret (Inr (Some d))"
    using params_merged [OF assms(1-3)] by (simp add: gwp.merged_def)
  with m show ?thesis using GetObjsToDeploy_params(2) assms(6) by simp
qed

theorem kube_override_dropped_witness:
  "GetObjsToDeploy (example_client (params_of None (Some SelfManagedGateway)) (params_of (Some kube_zero) None))
      example_lib example_deployer (example_gateway ''mine'') = Ret (Inr [])"
  using kube_override_dropped [of "example_gateway ''mine''"
      "example_client (params_of None (Some SelfManagedGateway)) (params_of (Some kube_zero) None)"
      "params_of (Some kube_zero) None" "params_of None (Some SelfManagedGateway)" kube_zero SelfManagedGateway
      example_lib example_deployer]
  by simp

end
