(* ===== verification/Gateway_Status.thy ===== *)
theory Gateway_Status
  imports Deployer_Properties
begin

text \<open>
  The Gateway reconciler, \<^verbatim>\<open>internal/fgateway/controller/gw_controller.go\<close>.

  The address type of a status address is a pointer, and \<open>slices.Equal\<close> compares pointers, so
  address types live in an explicit store: a list, whose positions are the locations, and
  taking the address of a new variable appends to it. The Kubernetes client is a parameter:
  its reads, and what a status patch leaves in the object it was given. The patches sent are
  recorded in the order they are sent.
\<close>

section \<open>Services and namespaces\<close>

record LoadBalancerIngress =
  Ingress_IP :: string
  Ingress_Hostname :: string

record CoreService =
  CoreService_ObjectMeta :: ObjectMeta
  CoreService_Type :: string
  CoreService_ClusterIP :: string
  CoreService_ClusterIPs :: "string slice"
  CoreService_Ingress :: "LoadBalancerIngress slice"

record CoreNamespace =
  CoreNamespace_ObjectMeta :: ObjectMeta

type_synonym store = "string list"

definition IPAddressType :: string where
  "IPAddressType = ''IPAddress''"

definition HostnameAddressType :: string where
  "HostnameAddressType = ''Hostname''"

definition ServiceTypeLoadBalancer :: string where
  "ServiceTypeLoadBalancer = ''LoadBalancer''"

section \<open>Addresses\<close>

text \<open>\<open>t := v; append(ret, GatewayStatusAddress{Type: &t, Value: value})\<close>.\<close>

definition append_address ::
  "string \<Rightarrow> string \<Rightarrow> GatewayStatusAddress list \<times> store \<Rightarrow> GatewayStatusAddress list \<times> store" where
  "append_address v val = (\<lambda>(ret, st).
     (ret @ [\<lparr>Address_Type = Some (length st), Address_Value = val\<rparr>], st @ [v]))"

fun ingress_loop ::
  "LoadBalancerIngress list \<Rightarrow> GatewayStatusAddress list \<times> store \<Rightarrow> GatewayStatusAddress list \<times> store" where
  "ingress_loop [] ret = ret"
| "ingress_loop (ing # ings) ret =
     (let ret = (if Ingress_Hostname ing \<noteq> '''' then append_address HostnameAddressType (Ingress_Hostname ing) ret else ret);
          ret = (if Ingress_IP ing \<noteq> '''' then append_address IPAddressType (Ingress_IP ing) ret else ret)
      in ingress_loop ings ret)"

text \<open>An empty result is a nil slice: it was never appended to.\<close>

definition getDesiredAddresses :: "CoreService \<Rightarrow> store \<Rightarrow> GatewayStatusAddress list \<times> store" where
  "getDesiredAddresses svc st =
     (if CoreService_Type svc = ServiceTypeLoadBalancer
      then (if slice_len (CoreService_Ingress svc) = 0 then ([], st)
            else ingress_loop (slice_elems (CoreService_Ingress svc)) ([], st))
      else let t = length st; st = st @ [IPAddressType]
           in if slice_len (CoreService_ClusterIPs svc) \<noteq> 0
              then (map (\<lambda>ip. \<lparr>Address_Type = Some t, Address_Value = ip\<rparr>) (slice_elems (CoreService_ClusterIPs svc)), st)
              else if CoreService_ClusterIP svc \<noteq> ''''
              then ([\<lparr>Address_Type = Some t, Address_Value = CoreService_ClusterIP svc\<rparr>], st)
              else ([], st))"

section \<open>\<open>updateStatus\<close>\<close>

text \<open>\<open>apierrors.IsNotFound\<close>, which looks through \<open>errors.Wrap\<close>, and \<open>client.IgnoreNotFound\<close>.\<close>

fun IsNotFound :: "go_error \<Rightarrow> bool" where
  "IsNotFound (ErrApi b _) = b"
| "IsNotFound (ErrWrap e _) = IsNotFound e"
| "IsNotFound _ = False"

definition IgnoreNotFound :: "go_error \<Rightarrow> go_error option" where
  "IgnoreNotFound err = (if IsNotFound err then None else Some err)"

text \<open>\<open>metav1.GetControllerOf\<close>: the first owner reference marked as the controller.\<close>

definition GetControllerOf :: "ObjectMeta \<Rightarrow> OwnerReference option" where
  "GetControllerOf m = find (\<lambda>o'. OwnerReference_Controller o' = Some True) (slice_elems (ObjectMeta_OwnerReferences m))"

record gw_client =
  gwc_kube :: kube_client
  gwc_GetNamespace :: "NamespacedName \<Rightarrow> go_error + CoreNamespace"
  gwc_GetGateway :: "NamespacedName \<Rightarrow> go_error + Gateway"
  gwc_GetService :: "NamespacedName \<Rightarrow> go_error + CoreService"
  gwc_StatusPatch :: "Gateway \<Rightarrow> go_error option \<times> Gateway"

record gw_state =
  gs_gw :: Gateway
  gs_store :: store
  gs_patches :: "Gateway list"

definition updateStatus :: "gw_client \<Rightarrow> ObjectMeta \<Rightarrow> gw_state \<Rightarrow> go_error option \<times> gw_state" where
  "updateStatus cli svcmd s =
     (case gwc_GetService cli \<lparr>NN_Namespace = ObjectMeta_Namespace svcmd, NN_Name = ObjectMeta_Name svcmd\<rparr> of
        Inl err \<Rightarrow> (IgnoreNotFound err, s)
      | Inr svc \<Rightarrow>
         (case GetControllerOf (CoreService_ObjectMeta svc) of
            None \<Rightarrow> (None, s)
          | Some controller \<Rightarrow>
             (if ObjectMeta_UID (Gateway_ObjectMeta (gs_gw s)) \<noteq> OwnerReference_UID controller then (None, s)
              else let (desiredAddresses, st) = getDesiredAddresses svc (gs_store s);
                       s1 = s\<lparr>gs_store := st\<rparr>;
                       actualAddresses = Gateway_StatusAddresses (gs_gw s)
                   in if desiredAddresses = slice_elems actualAddresses then (None, s1)
                      else let gw = (gs_gw s1)\<lparr>Gateway_StatusAddresses :=
                                 (if desiredAddresses = [] then None else Some desiredAddresses)\<rparr>;
                               (err, gw') = gwc_StatusPatch cli gw
                           in (err, s1\<lparr>gs_gw := gw', gs_patches := gs_patches s1 @ [gw]\<rparr>))))"

section \<open>\<open>Reconcile\<close>\<close>

definition GatewayAutoDeployAnnotationKey :: string where
  "GatewayAutoDeployAnnotationKey = ''gateway.fgateway.dev/auto-deploy''"

record gatewayReconciler =
  rec_autoProvision :: bool
  rec_deployer :: Deployer

record ctrl_Result =
  Result_Requeue :: bool

definition Result_zero :: ctrl_Result where
  "Result_zero = \<lparr>Result_Requeue = False\<rparr>"

fun status_loop :: "gw_client \<Rightarrow> KObject list \<Rightarrow> ctrl_Result \<times> gw_state \<Rightarrow> ctrl_Result \<times> gw_state" where
  "status_loop cli [] (result, s) = (result, s)"
| "status_loop cli (obj # objs) (result, s) =
     (if KObject_GoType obj = ''*v1.Service''
      then (case updateStatus cli (KObject_Meta obj) s of
              (None, s') \<Rightarrow> status_loop cli objs (result, s')
            | (Some err, s') \<Rightarrow> status_loop cli objs (result\<lparr>Result_Requeue := True\<rparr>, s'))
      else status_loop cli objs (result, s))"

text \<open>Result: what is returned, and the patches that were sent, from the store \<open>st\<close>.\<close>

definition Reconcile ::
  "gw_client \<Rightarrow> render_lib \<Rightarrow> gatewayReconciler \<Rightarrow> store \<Rightarrow> NamespacedName
     \<Rightarrow> ((ctrl_Result \<times> go_error option) \<times> Gateway list) exec" where
  "Reconcile cli lib r st req =
     (let ns = NN_Namespace req
      in case gwc_GetNamespace cli \<lparr>NN_Namespace = ns, NN_Name = ''''\<rparr> of
           Inl err \<Rightarrow> Ret ((Result_zero, Some err), [])
         | Inr namespace \<Rightarrow>
            (if \<not> rec_autoProvision r \<and>
                map_index '''' (ObjectMeta_Annotations (CoreNamespace_ObjectMeta namespace)) GatewayAutoDeployAnnotationKey \<noteq> ''true''
             then Ret ((Result_zero, None), [])
             else case gwc_GetGateway cli req of
                    Inl err \<Rightarrow> Ret ((Result_zero, IgnoreNotFound err), [])
                  | Inr gw \<Rightarrow>
                     (if ObjectMeta_DeletionTimestamp (Gateway_ObjectMeta gw) \<noteq> None then Ret ((Result_zero, None), [])
                      else exec_bind (GetObjsToDeploy (gwc_kube cli) lib (rec_deployer r) gw)
                        (\<lambda>res. case res of
                           Inl err \<Rightarrow> Ret ((Result_zero, Some err), [])
                         | Inr objs \<Rightarrow>
                            (let (result, s) = status_loop cli objs
                                   (Result_zero, \<lparr>gs_gw = gw, gs_store = st, gs_patches = []\<rparr>)
                             in Ret ((Result_zero, None), gs_patches s))))))"

section \<open>Addresses: specification\<close>

definition ingress_addresses :: "LoadBalancerIngress \<Rightarrow> (string option \<times> string) list" where
  "ingress_addresses ing =
     (if Ingress_Hostname ing \<noteq> '''' then [(Some HostnameAddressType, Ingress_Hostname ing)] else []) @
     (if Ingress_IP ing \<noteq> '''' then [(Some IPAddressType, Ingress_IP ing)] else [])"

definition service_addresses :: "CoreService \<Rightarrow> (string option \<times> string) list" where
  "service_addresses svc =
     (if CoreService_Type svc = ServiceTypeLoadBalancer
      then concat (map ingress_addresses (slice_elems (CoreService_Ingress svc)))
      else map (Pair (Some IPAddressType))
        (if slice_elems (CoreService_ClusterIPs svc) \<noteq> [] then slice_elems (CoreService_ClusterIPs svc)
         else if CoreService_ClusterIP svc \<noteq> '''' then [CoreService_ClusterIP svc] else []))"

text \<open>An address with its type pointer followed.\<close>

definition resolve :: "store \<Rightarrow> GatewayStatusAddress \<Rightarrow> string option \<times> string" where
  "resolve st a = (map_option (\<lambda>l. st ! l) (Address_Type a), Address_Value a)"

definition located :: "nat \<Rightarrow> store \<Rightarrow> GatewayStatusAddress \<Rightarrow> bool" where
  "located lo st a \<longleftrightarrow> (\<exists>l. Address_Type a = Some l \<and> lo \<le> l \<and> l < length st)"

lemma resolve_append: "located lo st a \<Longrightarrow> resolve (st @ ext) a = resolve st a"
  by (auto simp: located_def resolve_def nth_append)

lemma located_mono: "located hi st a \<Longrightarrow> lo \<le> hi \<Longrightarrow> located lo (st @ ext) a"
  by (auto simp: located_def)

text \<open>One pass of the loop body, then the loop.\<close>

lemma ingress_body:
  "\<exists>new ext. (let ret = (if Ingress_Hostname ing \<noteq> '''' then append_address HostnameAddressType (Ingress_Hostname ing) (ret, st) else (ret, st));
          ret = (if Ingress_IP ing \<noteq> '''' then append_address IPAddressType (Ingress_IP ing) ret else ret)
      in ret) = (ret @ new, st @ ext) \<and>
     map (resolve (st @ ext)) new = ingress_addresses ing \<and> (\<forall>a \<in> set new. located (length st) (st @ ext) a)"
  by (simp add: append_address_def ingress_addresses_def resolve_def located_def nth_append)

lemma ingress_loop_spec:
  "\<exists>new ext. ingress_loop ings (ret, st) = (ret @ new, st @ ext) \<and>
     map (resolve (st @ ext)) new = concat (map ingress_addresses ings) \<and>
     (\<forall>a \<in> set new. located (length st) (st @ ext) a)"
proof (induction ings arbitrary: ret st)
  case Nil
  then show ?case by simp
next
  case (Cons ing ings)
  obtain n1 e1 where b: "(let ret = (if Ingress_Hostname ing \<noteq> '''' then append_address HostnameAddressType (Ingress_Hostname ing) (ret, st) else (ret, st));
          ret = (if Ingress_IP ing \<noteq> '''' then append_address IPAddressType (Ingress_IP ing) ret else ret)
      in ret) = (ret @ n1, st @ e1)"
    and r1: "map (resolve (st @ e1)) n1 = ingress_addresses ing" "\<forall>a \<in> set n1. located (length st) (st @ e1) a"
    using ingress_body [of ing ret st] by blast
  obtain n2 e2 where l: "ingress_loop ings (ret @ n1, st @ e1) = ((ret @ n1) @ n2, (st @ e1) @ e2)"
    and r2: "map (resolve ((st @ e1) @ e2)) n2 = concat (map ingress_addresses ings)"
      "\<forall>a \<in> set n2. located (length (st @ e1)) ((st @ e1) @ e2) a"
    using Cons.IH [of "ret @ n1" "st @ e1"] by blast
  have "ingress_loop (ing # ings) (ret, st) = (ret @ n1 @ n2, st @ e1 @ e2)"
    using b l by (simp add: Let_def)
  moreover have "map (resolve ((st @ e1) @ e2)) n1 = ingress_addresses ing"
    using r1 resolve_append [of _ "st @ e1" _ e2] by (metis (no_types, lifting) list.map_cong0)
  moreover have "\<forall>a \<in> set (n1 @ n2). located (length st) (st @ e1 @ e2) a"
    using r1(2) r2(2) located_mono [of "length st" "st @ e1" _ "length st" e2]
      located_mono [of "length (st @ e1)" "(st @ e1) @ e2" _ "length st" "[]"] by auto
  ultimately show ?case using r2(1) by (intro exI [of _ "n1 @ n2"] exI [of _ "e1 @ e2"]) simp
qed

lemma desired_spec:
  "\<exists>addrs ext. getDesiredAddresses svc st = (addrs, st @ ext) \<and>
     map (resolve (st @ ext)) addrs = service_addresses svc \<and> (\<forall>a \<in> set addrs. located (length st) (st @ ext) a)"
proof (cases "CoreService_Type svc = ServiceTypeLoadBalancer")
  case True
  then show ?thesis
    using ingress_loop_spec [of "slice_elems (CoreService_Ingress svc)" "[]" st]
    by (cases "slice_elems (CoreService_Ingress svc) = []")
      (simp_all add: getDesiredAddresses_def service_addresses_def slice_len_def)
next
  case False
  then show ?thesis
    by (auto simp: getDesiredAddresses_def service_addresses_def slice_len_def Let_def resolve_def located_def)
qed

text \<open>
  C39. The addresses computed for a service are, in order, those of its load balancer's ingress
  points (host name before IP, empty ones left out), or else its cluster IPs, or else its
  cluster IP, each with the right address type; nothing already stored changes.
\<close>

theorem getDesiredAddresses_correct:
  "\<exists>addrs ext. getDesiredAddresses svc st = (addrs, st @ ext) \<and>
     map (resolve (st @ ext)) addrs = service_addresses svc"
  using desired_spec by blast

section \<open>Status updates\<close>

lemma desired_empty_iff:
  assumes "getDesiredAddresses svc st = (addrs, st')"
  shows "addrs = [] \<longleftrightarrow> service_addresses svc = []"
  using desired_spec [of svc st] assms by (auto simp flip: length_0_conv dest: arg_cong [where f = length])

text \<open>The type pointers a Gateway holds point into the store.\<close>

definition addresses_stored :: "gw_state \<Rightarrow> bool" where
  "addresses_stored s \<longleftrightarrow>
     (\<forall>a \<in> set (slice_elems (Gateway_StatusAddresses (gs_gw s))). \<forall>l. Address_Type a = Some l \<longrightarrow> l < length (gs_store s))"

lemma desired_fresh:
  assumes "addresses_stored s" and "getDesiredAddresses svc (gs_store s) = (addrs, st')"
  shows "addrs = slice_elems (Gateway_StatusAddresses (gs_gw s)) \<longleftrightarrow>
    addrs = [] \<and> slice_elems (Gateway_StatusAddresses (gs_gw s)) = []"
proof -
  have loc: "\<forall>a \<in> set addrs. located (length (gs_store s)) st' a"
    using desired_spec [of svc "gs_store s"] assms(2) by auto
  have "a \<notin> set (slice_elems (Gateway_StatusAddresses (gs_gw s)))" if "a \<in> set addrs" for a
    using loc that assms(1) by (force simp: addresses_stored_def located_def)
  then show ?thesis by (metis list.set_intros(1) neq_Nil_conv)
qed

definition owned_service :: "gw_client \<Rightarrow> ObjectMeta \<Rightarrow> Gateway \<Rightarrow> CoreService option" where
  "owned_service cli md gw =
     (case gwc_GetService cli \<lparr>NN_Namespace = ObjectMeta_Namespace md, NN_Name = ObjectMeta_Name md\<rparr> of
        Inl _ \<Rightarrow> None
      | Inr svc \<Rightarrow>
         (case GetControllerOf (CoreService_ObjectMeta svc) of
            None \<Rightarrow> None
          | Some c \<Rightarrow> if OwnerReference_UID c = ObjectMeta_UID (Gateway_ObjectMeta gw) then Some svc else None))"

lemma updateStatus_not_owned:
  "owned_service cli md (gs_gw s) = None \<Longrightarrow> snd (updateStatus cli md s) = s"
  by (auto simp: owned_service_def updateStatus_def split: sum.splits option.splits if_splits)

lemma updateStatus_owned:
  assumes "owned_service cli md (gs_gw s) = Some svc"
  shows "updateStatus cli md s =
    (let (desired, st) = getDesiredAddresses svc (gs_store s); s1 = s\<lparr>gs_store := st\<rparr>
     in if desired = slice_elems (Gateway_StatusAddresses (gs_gw s)) then (None, s1)
        else let gw = (gs_gw s)\<lparr>Gateway_StatusAddresses := (if desired = [] then None else Some desired)\<rparr>;
                 (err, gw') = gwc_StatusPatch cli gw
             in (err, s1\<lparr>gs_gw := gw', gs_patches := gs_patches s1 @ [gw]\<rparr>))"
  using assms
  by (auto simp: owned_service_def updateStatus_def Let_def split: sum.splits option.splits if_splits prod.splits)

text \<open>
  C12. The status of a Gateway is only ever written from a service the Gateway controls: without
  one nothing is sent and nothing changes; with one, at most one patch is sent, of the
  Gateway with exactly its status addresses replaced by those of the service.
\<close>

theorem updateStatus_owned_only:
  "(owned_service cli md (gs_gw s) = None \<longrightarrow> snd (updateStatus cli md s) = s) \<and>
   (\<forall>svc. owned_service cli md (gs_gw s) = Some svc \<longrightarrow>
      gs_patches (snd (updateStatus cli md s)) = gs_patches s \<or>
      (\<exists>gw. gs_patches (snd (updateStatus cli md s)) = gs_patches s @ [gw] \<and>
         gw = (gs_gw s)\<lparr>Gateway_StatusAddresses := Gateway_StatusAddresses gw\<rparr> \<and>
         map (resolve (gs_store (snd (updateStatus cli md s)))) (slice_elems (Gateway_StatusAddresses gw)) =
           service_addresses svc))"
proof (intro conjI impI allI)
  fix svc assume svc: "owned_service cli md (gs_gw s) = Some svc"
  obtain addrs ext where d: "getDesiredAddresses svc (gs_store s) = (addrs, gs_store s @ ext)"
      "map (resolve (gs_store s @ ext)) addrs = service_addresses svc"
    using desired_spec by blast
  show "gs_patches (snd (updateStatus cli md s)) = gs_patches s \<or>
      (\<exists>gw. gs_patches (snd (updateStatus cli md s)) = gs_patches s @ [gw] \<and>
         gw = (gs_gw s)\<lparr>Gateway_StatusAddresses := Gateway_StatusAddresses gw\<rparr> \<and>
         map (resolve (gs_store (snd (updateStatus cli md s)))) (slice_elems (Gateway_StatusAddresses gw)) =
           service_addresses svc)"
    using d by (cases "addrs = slice_elems (Gateway_StatusAddresses (gs_gw s))"; cases "addrs = []")
      (auto simp: updateStatus_owned [OF svc] Let_def split: prod.split)
qed (rule updateStatus_not_owned)

definition example_service :: CoreService where
  "example_service = \<lparr>
     CoreService_ObjectMeta = ObjectMeta_zero\<lparr>ObjectMeta_Name := ''gw'', ObjectMeta_Namespace := ''ns'',
       ObjectMeta_OwnerReferences := Some [gateway_owner (example_gateway '''')]\<rparr>,
     CoreService_Type = ServiceTypeLoadBalancer, CoreService_ClusterIP = ''10.0.0.1'', CoreService_ClusterIPs = None,
     CoreService_Ingress = Some [\<lparr>Ingress_IP = ''192.0.2.1'', Ingress_Hostname = ''lb.example''\<rparr>]\<rparr>"

text \<open>A client whose status patches all fail.\<close>

definition example_gw_client :: gw_client where
  "example_gw_client = \<lparr>gwc_kube = example_client (params_of (Some kube_zero) None) (params_of None (Some SelfManagedGateway)),
     gwc_GetNamespace = (\<lambda>_. Inr \<lparr>CoreNamespace_ObjectMeta = ObjectMeta_zero\<rparr>),
     gwc_GetGateway = (\<lambda>key. if NN_Name key = ''gw'' then Inr (example_gateway '''') else Inl (ErrApi True ''not found'')),
     gwc_GetService = (\<lambda>_. Inr example_service),
     gwc_StatusPatch = (\<lambda>gw. (Some (ErrApi False ''conflict''), gw))\<rparr>"

definition example_gw_state :: gw_state where
  "example_gw_state = \<lparr>gs_gw = (example_gateway '''')\<lparr>Gateway_StatusAddresses :=
       Some [\<lparr>Address_Type = Some 0, Address_Value = ''lb.example''\<rparr>, \<lparr>Address_Type = Some 1, Address_Value = ''192.0.2.1''\<rparr>]\<rparr>,
     gs_store = [HostnameAddressType, IPAddressType], gs_patches = []\<rparr>"

lemma example_owned: "owned_service example_gw_client ObjectMeta_zero (gs_gw example_gw_state) = Some example_service"
  by (simp add: owned_service_def example_gw_client_def example_gw_state_def example_service_def GetControllerOf_def
      gateway_owner_def example_gateway_def)

theorem updateStatus_owned_only_witness:
  "gs_patches (snd (updateStatus example_gw_client ObjectMeta_zero example_gw_state)) = [] \<or>
   (\<exists>gw. gs_patches (snd (updateStatus example_gw_client ObjectMeta_zero example_gw_state)) = [gw])"
proof -
  have "gs_patches example_gw_state = []" by (simp add: example_gw_state_def)
  then show ?thesis
    using updateStatus_owned_only [of example_gw_client ObjectMeta_zero example_gw_state] example_owned by auto
qed

text \<open>
  The test that should avoid needless writes never succeeds on a non-empty status: addresses
  are compared with their type pointers, and those of the computed addresses are fresh. So a
  patch is sent whenever the service or the status has an address, even if they agree.
\<close>

theorem updateStatus_always_patches:
  assumes "owned_service cli md (gs_gw s) = Some svc" and "addresses_stored s"
  shows "length (gs_patches (snd (updateStatus cli md s))) = length (gs_patches s) +
    (if service_addresses svc = [] \<and> slice_elems (Gateway_StatusAddresses (gs_gw s)) = [] then 0 else 1)"
proof -
  obtain addrs st where d: "getDesiredAddresses svc (gs_store s) = (addrs, st)" by fastforce
  show ?thesis
    using desired_fresh [OF assms(2) d] desired_empty_iff [OF d]
    by (auto simp: updateStatus_owned [OF assms(1)] d Let_def split: prod.split)
qed

theorem updateStatus_always_patches_witness:
  "map (resolve (gs_store example_gw_state)) (slice_elems (Gateway_StatusAddresses (gs_gw example_gw_state))) =
     service_addresses example_service \<and>
   length (gs_patches (snd (updateStatus example_gw_client ObjectMeta_zero example_gw_state))) = 1"
proof -
  have a: "service_addresses example_service = [(Some HostnameAddressType, ''lb.example''), (Some IPAddressType, ''192.0.2.1'')]"
    by (simp add: service_addresses_def example_service_def ingress_addresses_def)
  have "addresses_stored example_gw_state" by (simp add: addresses_stored_def example_gw_state_def)
  from updateStatus_always_patches [OF example_owned this]
  show ?thesis by (simp add: a) (simp add: example_gw_state_def resolve_def)
qed

section \<open>Reconciling\<close>

lemma params_never_nil: "getGatewayParametersForGateway cli gw \<noteq> Ret (Inr None)"
proof (cases "annotated_params gw = ''''")
  case False
  then show ?thesis
    using params_missing [OF False, of cli] params_no_default [OF False, of cli] params_merged [OF False, of cli]
    by (cases "cli_GetGatewayParameters cli (override_key gw)"; cases "getDefaultGatewayParameters cli gw") auto
qed (simp add: params_default split: sum.split)

text \<open>The Gateway a request is about, if the request gets as far as computing its objects.\<close>

definition reconciled_gateway :: "gw_client \<Rightarrow> gatewayReconciler \<Rightarrow> NamespacedName \<Rightarrow> Gateway option" where
  "reconciled_gateway cli r req =
     (case gwc_GetNamespace cli \<lparr>NN_Namespace = NN_Namespace req, NN_Name = ''''\<rparr> of
        Inl _ \<Rightarrow> None
      | Inr n \<Rightarrow>
         (if rec_autoProvision r \<or>
             map_index '''' (ObjectMeta_Annotations (CoreNamespace_ObjectMeta n)) GatewayAutoDeployAnnotationKey = ''true''
          then (case gwc_GetGateway cli req of
                  Inl _ \<Rightarrow> None
                | Inr gw \<Rightarrow> if ObjectMeta_DeletionTimestamp (Gateway_ObjectMeta gw) = None then Some gw else None)
          else None))"

lemma Reconcile_none:
  "reconciled_gateway cli r req = None \<Longrightarrow> \<exists>err. Reconcile cli lib r st req = Ret ((Result_zero, err), [])"
  by (auto simp: reconciled_gateway_def Reconcile_def Let_def split: sum.splits if_splits)

lemma Reconcile_some:
  "reconciled_gateway cli r req = Some gw \<Longrightarrow>
     Reconcile cli lib r st req =
       exec_bind (GetObjsToDeploy (gwc_kube cli) lib (rec_deployer r) gw)
         (\<lambda>res. case res of Inl err \<Rightarrow> Ret ((Result_zero, Some err), [])
          | Inr objs \<Rightarrow> Ret ((Result_zero, None),
              gs_patches (snd (status_loop cli objs (Result_zero, \<lparr>gs_gw = gw, gs_store = st, gs_patches = []\<rparr>)))))"
  by (auto simp: reconciled_gateway_def Reconcile_def Let_def split: sum.splits if_splits prod.splits
      intro!: arg_cong [where f = "exec_bind _"])

lemma status_loop_no_service:
  "\<forall>x \<in> set objs. KObject_GoType x \<noteq> ''*v1.Service'' \<Longrightarrow> status_loop cli objs p = p"
  by (induction objs arbitrary: p) (auto simp: split_paired_all)

definition example_reconciler :: gatewayReconciler where
  "example_reconciler = \<lparr>rec_autoProvision = True, rec_deployer = example_deployer\<rparr>"

abbreviation example_req :: NamespacedName where
  "example_req \<equiv> \<lparr>NN_Namespace = ''ns'', NN_Name = ''gw''\<rparr>"

definition example_objs :: "KObject list" where
  "example_objs = map (SetOwnerReferences (Some [gateway_owner (example_gateway '''')])) (map (SetNamespace ''ns'')
     [(example_object ''Service'' ''gw'')\<lparr>KObject_GoType := ''*v1.Service''\<rparr>, example_object ''Deployment'' ''gw''])"

lemma example_reconciled: "reconciled_gateway example_gw_client example_reconciler example_req = Some (example_gateway '''')"
  by (simp add: reconciled_gateway_def example_gw_client_def example_reconciler_def example_gateway_def ObjectMeta_zero_def)

lemma example_deployed:
  "GetObjsToDeploy (gwc_kube example_gw_client) example_lib (rec_deployer example_reconciler) (example_gateway '''') =
     Ret (Inr example_objs)"
proof -
  have 1: "getGatewayParametersForGateway (gwc_kube example_gw_client) (example_gateway '''') =
      Ret (Inr (Some (params_of (Some kube_zero) None)))"
    by (simp add: params_default example_gw_client_def)
  have "renderChartToObjects example_lib example_deployer (example_gateway '''') [] = Ret (Inr (map (SetNamespace ''ns'')
     [(example_object ''Service'' ''gw'')\<lparr>KObject_GoType := ''*v1.Service''\<rparr>, example_object ''Deployment'' ''gw'']))"
    by (simp add: renderChartToObjects_def Render_def ConvertYAMLToObjects_list convert_object_def example_lib_def
        example_Helm_def example_deployer_def example_docs_def example_scheme_def example_object_def example_gateway_def Let_def)
  then show ?thesis
    using GetObjsToDeploy_params(3) [OF 1] by (simp add: example_objs_def example_reconciler_def)
qed

lemma example_status_loop:
  "gs_patches (snd (status_loop example_gw_client example_objs
     (Result_zero, \<lparr>gs_gw = example_gateway '''', gs_store = [], gs_patches = []\<rparr>))) \<noteq> []"
proof -
  have "owned_service example_gw_client md (example_gateway '''') = Some example_service" for md
    by (simp add: owned_service_def example_gw_client_def example_service_def GetControllerOf_def gateway_owner_def
        example_gateway_def)
  then show ?thesis
    by (simp add: example_objs_def SetOwnerReferences_def SetNamespace_def example_object_def updateStatus_owned)
      (simp add: example_service_def getDesiredAddresses_def append_address_def example_gateway_def
        example_gw_client_def Let_def slice_len_def)
qed

lemma NewDeployer_chart: "NewDeployer LoadFiles chartFs version inputs = Inr d \<Longrightarrow> Deployer_chart d = None"
  by (auto simp: NewDeployer_def Let_def split: option.splits sum.splits)

text \<open>The call of Helm that reconciling a Gateway makes.\<close>

definition helm_run :: "render_lib \<Rightarrow> Deployer \<Rightarrow> Gateway \<Rightarrow> (go_error + string) exec" where
  "helm_run lib d gw =
     lib_RunWithContext lib (prepareInstallAction (setupHelmStorage (ObjectMeta_Namespace (Gateway_ObjectMeta gw)))
       (ObjectMeta_Name (Gateway_ObjectMeta gw)) (ObjectMeta_Namespace (Gateway_ObjectMeta gw))) (Deployer_chart d) []"

lemma GetObjsToDeploy_panics:
  "GetObjsToDeploy cli lib d gw = Panic msg \<longleftrightarrow>
     (\<exists>p. getGatewayParametersForGateway cli gw = Ret (Inr (Some p)) \<and>
       GatewayParametersSpec_SelfManaged (GatewayParameters_Spec p) = None \<and> helm_run lib d gw = Panic msg)"
proof -
  obtain r where r: "getGatewayParametersForGateway cli gw = Ret r" using params_returns by blast
  show ?thesis
  proof (cases "\<exists>p. r = Inr (Some p)")
    case True
    then obtain p where p: "getGatewayParametersForGateway cli gw = Ret (Inr (Some p))" using r by blast
    have "renderChartToObjects lib d gw [] = Panic msg \<longleftrightarrow> helm_run lib d gw = Panic msg"
      by (cases "helm_run lib d gw") (simp_all add: renderChartToObjects_def Render_def helm_run_def Let_def)
    then show ?thesis
      using p by (cases "GatewayParametersSpec_SelfManaged (GatewayParameters_Spec p)"; cases "renderChartToObjects lib d gw []")
        (auto simp: GetObjsToDeploy_params(2,3) [OF p])
  next
    case False
    obtain e where "r = Inl e"
      using False r params_never_nil [of cli gw] by (cases r) auto
    then show ?thesis using r GetObjsToDeploy_params(1) by simp
  qed
qed

text \<open>
  C17. What reconciling a Gateway may do is confined. A status patch is only sent for a Gateway
  that exists, is not being deleted, lives in a namespace that allows provisioning, is not
  self-managed, and whose rendered objects include a service. It panics exactly when Helm panics
  on the chart of the deployer for such a Gateway; and a deployer that \<open>NewDeployer\<close> made never has
  a chart, so with a Helm that dereferences the chart every such Gateway makes it panic.
\<close>

theorem Reconcile_patches_guarded:
  "(\<forall>res err patches. Reconcile cli lib r st req = Ret ((res, err), patches) \<and> patches \<noteq> [] \<longrightarrow>
     (\<exists>gw objs. reconciled_gateway cli r req = Some gw \<and>
        GetObjsToDeploy (gwc_kube cli) lib (rec_deployer r) gw = Ret (Inr objs) \<and>
        (\<exists>x \<in> set objs. KObject_GoType x = ''*v1.Service'') \<and> err = None)) \<and>
   (\<forall>msg. Reconcile cli lib r st req = Panic msg \<longleftrightarrow>
     (\<exists>gw p. reconciled_gateway cli r req = Some gw \<and>
        getGatewayParametersForGateway (gwc_kube cli) gw = Ret (Inr (Some p)) \<and>
        GatewayParametersSpec_SelfManaged (GatewayParameters_Spec p) = None \<and>
        helm_run lib (rec_deployer r) gw = Panic msg)) \<and>
   (\<forall>LoadFiles chartFs version inputs gw p. NewDeployer LoadFiles chartFs version inputs = Inr (rec_deployer r) \<and>
      (\<forall>install vals. \<exists>msg. lib_RunWithContext lib install None vals = Panic msg) \<and>
      reconciled_gateway cli r req = Some gw \<and>
      getGatewayParametersForGateway (gwc_kube cli) gw = Ret (Inr (Some p)) \<and>
      GatewayParametersSpec_SelfManaged (GatewayParameters_Spec p) = None \<longrightarrow>
     (\<exists>msg. Reconcile cli lib r st req = Panic msg))"
proof (intro conjI allI impI)
  show "\<exists>gw objs. reconciled_gateway cli r req = Some gw \<and>
        GetObjsToDeploy (gwc_kube cli) lib (rec_deployer r) gw = Ret (Inr objs) \<and>
        (\<exists>x \<in> set objs. KObject_GoType x = ''*v1.Service'') \<and> err = None"
    if sent: "Reconcile cli lib r st req = Ret ((res, err), patches) \<and> patches \<noteq> []" for res err patches
  proof (cases "reconciled_gateway cli r req")
    case None
    then show ?thesis using sent Reconcile_none [of cli r req lib st] by auto
  next
    case (Some gw)
    have "status_loop cli objs p = p" if "\<not> (\<exists>x \<in> set objs. KObject_GoType x = ''*v1.Service'')" for objs p
      using status_loop_no_service that by blast
    then show ?thesis
      using sent by (cases "GetObjsToDeploy (gwc_kube cli) lib (rec_deployer r) gw")
        (fastforce simp: Reconcile_some [OF Some] Some split: sum.splits)+
  qed
  show panics: "Reconcile cli lib r st req = Panic msg \<longleftrightarrow>
     (\<exists>gw p. reconciled_gateway cli r req = Some gw \<and>
        getGatewayParametersForGateway (gwc_kube cli) gw = Ret (Inr (Some p)) \<and>
        GatewayParametersSpec_SelfManaged (GatewayParameters_Spec p) = None \<and>
        helm_run lib (rec_deployer r) gw = Panic msg)" for msg
  proof (cases "reconciled_gateway cli r req")
    case None
    then show ?thesis using Reconcile_none [of cli r req lib st] by auto
  next
    case (Some gw)
    have "Reconcile cli lib r st req = Panic msg \<longleftrightarrow> GetObjsToDeploy (gwc_kube cli) lib (rec_deployer r) gw = Panic msg"
      by (cases "GetObjsToDeploy (gwc_kube cli) lib (rec_deployer r) gw")
        (auto simp: Reconcile_some [OF Some] split: sum.split)
    then show ?thesis using Some by (simp add: GetObjsToDeploy_panics)
  qed
  show "\<exists>msg. Reconcile cli lib r st req = Panic msg"
    if "NewDeployer LoadFiles chartFs version inputs = Inr (rec_deployer r) \<and>
      (\<forall>install vals. \<exists>msg. lib_RunWithContext lib install None vals = Panic msg) \<and>
      reconciled_gateway cli r req = Some gw \<and>
      getGatewayParametersForGateway (gwc_kube cli) gw = Ret (Inr (Some p)) \<and>
      GatewayParametersSpec_SelfManaged (GatewayParameters_Spec p) = None"
    for LoadFiles chartFs version inputs gw p
  proof -
    have "Deployer_chart (rec_deployer r) = None" using that NewDeployer_chart by blast
    then have "\<exists>msg. helm_run lib (rec_deployer r) gw = Panic msg" using that by (simp add: helm_run_def)
    then show ?thesis using that panics by blast
  qed
qed

text \<open>A run that patches, with a deployer that has a chart; and a panic with the one \<open>NewDeployer\<close> makes.\<close>

theorem Reconcile_patches_guarded_witness:
  "(\<exists>patches. Reconcile example_gw_client example_lib example_reconciler [] example_req = Ret ((Result_zero, None), patches) \<and>
     patches \<noteq> []) \<and>
   (\<exists>d. NewDeployer (\<lambda>fs. Inr \<lparr>Chart_AppVersion = '''', Chart_Version = '''', Chart_rest = Opaque ''''\<rparr>)
       (Inr example_chart_fs) ''v1'' (Some (Deployer_inputs example_deployer)) = Inr d \<and>
     Reconcile example_gw_client example_lib \<lparr>rec_autoProvision = True, rec_deployer = d\<rparr> [] example_req =
       Panic ''nil pointer dereference'')"
proof -
  have 1: "Reconcile example_gw_client example_lib example_reconciler [] example_req =
      Ret ((Result_zero, None), gs_patches (snd (status_loop example_gw_client example_objs
        (Result_zero, \<lparr>gs_gw = example_gateway '''', gs_store = [], gs_patches = []\<rparr>))))"
    using Reconcile_some [OF example_reconciled, of example_lib "[]"] example_deployed by simp
  let ?L = "\<lambda>fs. Inr \<lparr>Chart_AppVersion = '''', Chart_Version = '''', Chart_rest = Opaque ''''\<rparr>"
  obtain d where d: "NewDeployer ?L (Inr example_chart_fs) ''v1'' (Some (Deployer_inputs example_deployer)) = Inr d"
    by (simp add: NewDeployer_def loadFs_def example_chart_fs_def)
  let ?r = "\<lparr>rec_autoProvision = True, rec_deployer = d\<rparr>"
  note guarded = Reconcile_patches_guarded [of example_gw_client example_lib ?r "[]" example_req]
  have gw: "reconciled_gateway example_gw_client ?r example_req = Some (example_gateway '''')"
    by (simp add: reconciled_gateway_def example_gw_client_def example_gateway_def ObjectMeta_zero_def)
  have p: "getGatewayParametersForGateway (gwc_kube example_gw_client) (example_gateway '''') =
      Ret (Inr (Some (params_of (Some kube_zero) None)))"
    by (simp add: params_default example_gw_client_def)
  have "helm_run example_lib d (example_gateway '''') = Panic ''nil pointer dereference''"
    using NewDeployer_chart [OF d] by (simp add: helm_run_def example_lib_def example_Helm_def)
  with guarded gw p have "Reconcile example_gw_client example_lib ?r [] example_req = Panic ''nil pointer dereference''"
    by (simp add: params_of_def)
  with 1 d example_status_loop show ?thesis by blast
qed

text \<open>
  A failed status update is not retried: whatever the status patches answer, the reconciler
  returns no error and does not ask to be called again, since the result in which it notes the
  failure is not the one it returns.
\<close>

theorem Reconcile_never_requeues:
  assumes "reconciled_gateway cli r req = Some gw"
    and "GetObjsToDeploy (gwc_kube cli) lib (rec_deployer r) gw = Ret (Inr objs)"
  shows "\<exists>patches. Reconcile cli lib r st req = Ret ((\<lparr>Result_Requeue = False\<rparr>, None), patches) \<and>
    patches = gs_patches (snd (status_loop cli objs (Result_zero, \<lparr>gs_gw = gw, gs_store = st, gs_patches = []\<rparr>)))"
  using assms(2) by (simp add: Reconcile_some [OF assms(1)] Result_zero_def)

theorem Reconcile_never_requeues_witness:
  "\<exists>patches. Reconcile example_gw_client example_lib example_reconciler [] example_req =
       Ret ((\<lparr>Result_Requeue = False\<rparr>, None), patches) \<and> patches \<noteq> [] \<and>
     (\<forall>gw. fst (gwc_StatusPatch example_gw_client gw) = Some (ErrApi False ''conflict''))"
  using Reconcile_never_requeues [OF example_reconciled example_deployed, of "[]"] example_status_loop
  by (auto simp: example_gw_client_def)

text \<open>
  The namespace of a request is read with an empty object name. A client that refuses to get
  an object without a name, as the Kubernetes API does, makes every request fail there, before
  any guard is evaluated.
\<close>

theorem Reconcile_namespace_without_name:
  assumes "\<forall>key. NN_Name key = '''' \<longrightarrow> gwc_GetNamespace cli key = Inl e"
  shows "Reconcile cli lib r st req = Ret ((Result_zero, Some e), [])"
  using assms by (simp add: Reconcile_def Let_def)

theorem Reconcile_namespace_without_name_witness:
  "Reconcile (example_gw_client\<lparr>gwc_GetNamespace := (\<lambda>key. if NN_Name key = '''' then Inl (ErrNew ''resource name may not be empty'')
        else Inr \<lparr>CoreNamespace_ObjectMeta = ObjectMeta_zero\<rparr>)\<rparr>)
     example_lib \<lparr>rec_autoProvision = True, rec_deployer = example_deployer\<rparr> [] \<lparr>NN_Namespace = ''ns'', NN_Name = ''gw''\<rparr> =
   Ret ((Result_zero, Some (ErrNew ''resource name may not be empty'')), [])"
  by (rule Reconcile_namespace_without_name) simp

end
