(* ===== verification/Schemes.thy ===== *)
theory Schemes
  imports Kube_Types
begin

text \<open>
  The API group and the registration of its types: \<^verbatim>\<open>groupversion_info.go\<close> of
  \<^verbatim>\<open>apis/fgateway/v1alpha1\<close>, \<^verbatim>\<open>scheme/register.go\<close> and \<^verbatim>\<open>fake/register.go\<close> of the generated
  clientset, and \<^verbatim>\<open>internal/fgateway/controller/scheme.go\<close>.

  A \<open>runtime.Scheme\<close> is represented by the kinds registered with it, in order. A
  \<open>runtime.SchemeBuilder\<close> is a list of functions on schemes, which \<open>AddToScheme\<close> calls in order up
  to the first error; a \<open>scheme.Builder\<close> of controller-runtime is a group and version with such a
  list, to which \<open>Register\<close> adds. \<open>metav1.AddToGroupVersion\<close> is a parameter.
\<close>

section \<open>The API group\<close>

record GroupVersion =
  GV_Group :: string
  GV_Version :: string

record GroupResource =
  GR_Group :: string
  GR_Resource :: string

record GroupVersionResource =
  GVR_Group :: string
  GVR_Version :: string
  GVR_Resource :: string

text \<open>\<open>schema.GroupVersion.WithResource\<close> and \<open>schema.GroupVersionResource.GroupResource\<close>.\<close>

definition WithResource :: "GroupVersion \<Rightarrow> string \<Rightarrow> GroupVersionResource" where
  "WithResource gv resource =
     \<lparr>GVR_Group = GV_Group gv, GVR_Version = GV_Version gv, GVR_Resource = resource\<rparr>"

definition GVR_GroupResource :: "GroupVersionResource \<Rightarrow> GroupResource" where
  "GVR_GroupResource gvr = \<lparr>GR_Group = GVR_Group gvr, GR_Resource = GVR_Resource gvr\<rparr>"

definition SchemeGroupVersion :: GroupVersion where
  "SchemeGroupVersion = \<lparr>GV_Group = ''fgateway.fleezesd.io'', GV_Version = ''v1alpha1''\<rparr>"

definition Resource :: "string \<Rightarrow> GroupResource" where
  "Resource resource = GVR_GroupResource (WithResource SchemeGroupVersion resource)"

section \<open>Schemes\<close>

type_synonym scheme_kinds = "GroupVersionKind list"
type_synonym scheme_func = "scheme_kinds \<Rightarrow> go_error option \<times> scheme_kinds"

fun SchemeBuilder_AddToScheme :: "scheme_func list \<Rightarrow> scheme_func" where
  "SchemeBuilder_AddToScheme [] s = (None, s)"
| "SchemeBuilder_AddToScheme (fn # fns) s =
     (case fn s of (Some err, s') \<Rightarrow> (Some err, s') | (None, s') \<Rightarrow> SchemeBuilder_AddToScheme fns s')"

record scheme_Builder =
  Builder_GroupVersion :: GroupVersion
  Builder_SchemeBuilder :: "scheme_func list"

text \<open>
  The package's \<open>SchemeBuilder\<close>: the literal sets the group and version only, and no file of the
  package calls \<open>Register\<close> on it.
\<close>

definition v1alpha1_SchemeBuilder :: scheme_Builder where
  "v1alpha1_SchemeBuilder = \<lparr>Builder_GroupVersion = SchemeGroupVersion, Builder_SchemeBuilder = []\<rparr>"

definition v1alpha1_AddToScheme :: scheme_func where
  "v1alpha1_AddToScheme = SchemeBuilder_AddToScheme (Builder_SchemeBuilder v1alpha1_SchemeBuilder)"

text \<open>\<open>utilruntime.Must\<close>\<close>

definition Must :: "go_error option \<times> 'a \<Rightarrow> 'a exec" where
  "Must r = (case r of (Some err, _) \<Rightarrow> Panic ''Must'' | (None, x) \<Rightarrow> Ret x)"

subsection \<open>The scheme of the generated clientset\<close>

definition client_localSchemeBuilder :: "scheme_func list" where
  "client_localSchemeBuilder = [v1alpha1_AddToScheme]"

definition client_AddToScheme :: scheme_func where
  "client_AddToScheme = SchemeBuilder_AddToScheme client_localSchemeBuilder"

text \<open>\<open>init\<close>: the package variable \<open>Scheme\<close> after it, from the new scheme.\<close>

definition client_scheme_init :: "(GroupVersion \<Rightarrow> scheme_kinds \<Rightarrow> scheme_kinds) \<Rightarrow> scheme_kinds exec" where
  "client_scheme_init AddToGroupVersion =
     Must (client_AddToScheme (AddToGroupVersion \<lparr>GV_Group = '''', GV_Version = ''v1''\<rparr> []))"

subsection \<open>The scheme of the fake clientset\<close>

definition fake_localSchemeBuilder :: "scheme_func list" where
  "fake_localSchemeBuilder = [v1alpha1_AddToScheme]"

definition fake_AddToScheme :: scheme_func where
  "fake_AddToScheme = SchemeBuilder_AddToScheme fake_localSchemeBuilder"

definition fake_scheme_init :: "(GroupVersion \<Rightarrow> scheme_kinds \<Rightarrow> scheme_kinds) \<Rightarrow> scheme_kinds exec" where
  "fake_scheme_init AddToGroupVersion =
     Must (fake_AddToScheme (AddToGroupVersion \<lparr>GV_Group = '''', GV_Version = ''v1''\<rparr> []))"

subsection \<open>The scheme of the manager\<close>

definition SchemeBuilder :: "scheme_func list" where
  "SchemeBuilder = []"

definition controller_AddToScheme :: scheme_func where
  "controller_AddToScheme s = SchemeBuilder_AddToScheme SchemeBuilder s"

text \<open>The error of \<open>AddToScheme\<close> is dropped.\<close>

definition DefaultScheme :: scheme_kinds where
  "DefaultScheme = snd (controller_AddToScheme [])"

section \<open>What the schemes know\<close>

text \<open>
  A function that registers the kinds \<open>ks\<close>: it does not fail, and afterwards the scheme knows
  these beside those it knew. Builders compose such functions.
\<close>

definition registers :: "GroupVersionKind list \<Rightarrow> scheme_func \<Rightarrow> bool" where
  "registers ks fn \<longleftrightarrow> (\<forall>s. fst (fn s) = None \<and> set (snd (fn s)) = set ks \<union> set s)"

lemma registers_Nil: "registers [] (SchemeBuilder_AddToScheme [])"
  by (simp add: registers_def)

lemma registers_Cons:
  assumes "registers ks fn" and "registers ks' (SchemeBuilder_AddToScheme fns)"
  shows "registers (ks @ ks') (SchemeBuilder_AddToScheme (fn # fns))"
proof (unfold registers_def, intro allI)
  fix s
  obtain s' where s': "fn s = (None, s')" "set s' = set ks \<union> set s"
    using assms(1) by (metis registers_def prod.collapse)
  then show "fst (SchemeBuilder_AddToScheme (fn # fns) s) = None \<and>
      set (snd (SchemeBuilder_AddToScheme (fn # fns) s)) = set (ks @ ks') \<union> set s"
    using assms(2) by (auto simp: registers_def)
qed

lemma v1alpha1_registers: "registers [] v1alpha1_AddToScheme"
  unfolding v1alpha1_AddToScheme_def v1alpha1_SchemeBuilder_def by (simp add: registers_Nil)

lemma local_registers:
  "registers [] client_AddToScheme" "registers [] fake_AddToScheme" "registers [] controller_AddToScheme"
  using registers_Cons [OF v1alpha1_registers registers_Nil]
  by (simp_all add: client_AddToScheme_def client_localSchemeBuilder_def fake_AddToScheme_def
      fake_localSchemeBuilder_def controller_AddToScheme_def SchemeBuilder_def registers_def)

lemma Must_registers:
  assumes "registers ks fn"
  shows "\<exists>s'. Must (fn s) = Ret s' \<and> set s' = set ks \<union> set s"
proof -
  obtain s' where "fn s = (None, s')" "set s' = set ks \<union> set s"
    using assms by (metis registers_def prod.collapse)
  then show ?thesis by (simp add: Must_def)
qed

lemma DefaultScheme_empty: "DefaultScheme = []"
  by (simp add: DefaultScheme_def controller_AddToScheme_def SchemeBuilder_def)

lemma scheme_foreign:
  assumes "\<And>gv s. set (AddToGroupVersion gv s) \<subseteq> set s \<union> {k. GVK_Group k \<in> {GV_Group gv, ''''}}"
    and "registers [] fn" and "Must (fn (AddToGroupVersion \<lparr>GV_Group = '''', GV_Version = ''v1''\<rparr> [])) = Ret s"
  shows "\<forall>k \<in> set s. GVK_Group k \<noteq> GV_Group SchemeGroupVersion"
  using Must_registers [OF assms(2), of "AddToGroupVersion \<lparr>GV_Group = '''', GV_Version = ''v1''\<rparr> []"] assms(3)
    assms(1) [of "\<lparr>GV_Group = '''', GV_Version = ''v1''\<rparr>" "[]"]
  by (auto simp: SchemeGroupVersion_def)

lemmas client_scheme_foreign = scheme_foreign [OF _ local_registers(1), folded client_scheme_init_def]
  and fake_scheme_foreign = scheme_foreign [OF _ local_registers(2), folded fake_scheme_init_def]

text \<open>
  The package initialisers return, and no scheme the program builds knows a kind of its own
  API group: the types of \<^verbatim>\<open>fgateway.fleezesd.io\<close> are never registered, so the clientset's schemes
  hold only what \<open>metav1.AddToGroupVersion\<close> put there for the core group and the manager's holds
  nothing.
\<close>

theorem schemes_without_own_kinds:
  assumes "\<And>gv s. set (AddToGroupVersion gv s) \<subseteq> set s \<union> {k. GVK_Group k \<in> {GV_Group gv, ''''}}"
  shows "(\<exists>s. client_scheme_init AddToGroupVersion = Ret s \<and> (\<forall>k \<in> set s. GVK_Group k \<noteq> GV_Group SchemeGroupVersion)) \<and>
    (\<exists>s. fake_scheme_init AddToGroupVersion = Ret s \<and> (\<forall>k \<in> set s. GVK_Group k \<noteq> GV_Group SchemeGroupVersion)) \<and>
    DefaultScheme = []"
  using client_scheme_foreign [OF assms] fake_scheme_foreign [OF assms]
    Must_registers [OF local_registers(1)] Must_registers [OF local_registers(2)]
  by (metis DefaultScheme_empty client_scheme_init_def fake_scheme_init_def)

definition example_AddToGroupVersion :: "GroupVersion \<Rightarrow> scheme_kinds \<Rightarrow> scheme_kinds" where
  "example_AddToGroupVersion gv s = s @ [\<lparr>GVK_Group = GV_Group gv, GVK_Version = GV_Version gv, GVK_Kind = ''WatchEvent''\<rparr>]"

theorem schemes_without_own_kinds_witness:
  "\<exists>s. client_scheme_init example_AddToGroupVersion = Ret s \<and> s \<noteq> [] \<and>
     (\<forall>k \<in> set s. GVK_Group k \<noteq> ''fgateway.fleezesd.io'')"
proof -
  have "set (example_AddToGroupVersion gv s) \<subseteq> set s \<union> {k. GVK_Group k \<in> {GV_Group gv, ''''}}" for gv s
    by (simp add: example_AddToGroupVersion_def)
  from schemes_without_own_kinds [of example_AddToGroupVersion, OF this] show ?thesis
    by (auto simp: client_scheme_init_def client_AddToScheme_def client_localSchemeBuilder_def v1alpha1_AddToScheme_def
        v1alpha1_SchemeBuilder_def Must_def example_AddToGroupVersion_def SchemeGroupVersion_def)
qed

end
