(* ===== verification/Controller.thy ===== *)
theory Controller
  imports Gateway_Status Schemes
begin

text \<open>
  Registration of the controllers: \<^verbatim>\<open>controller.go\<close>, \<^verbatim>\<open>reconciler.go\<close>, \<^verbatim>\<open>options.go\<close> and
  \<^verbatim>\<open>start.go\<close> of \<^verbatim>\<open>internal/fgateway/controller\<close>.

  The controller-runtime manager is modelled by the options it was made with and what is registered
  with it: health checks, the controllers completed and the field indexes added. Whether it accepts a registration is a parameter, as
  are the cached list of Gateways an index lookup reads and \<open>mgr.Start\<close>.
\<close>

section \<open>Watched objects and predicates\<close>

text \<open>A \<open>client.Object\<close>, by the dynamic types the program tests for.\<close>

datatype watched = WatchedGatewayClass GatewayClass | WatchedGateway Gateway | WatchedOther KObject

text \<open>
  The library's predicates by name, and those the program builds from a function; a nil function
  panics when it is called.
\<close>

datatype predicate =
    GenerationChangedPredicate
  | AnnotationChangedPredicate
  | Predicate_Or "predicate list"
  | NewPredicateFuncs "watched \<Rightarrow> bool exec"

datatype watched_type = TGatewayClass | TGateway | TGatewayParameters

datatype handler_func = ReconcileGatewayClassFunc | GatewayReconcilerFunc gatewayReconciler

record registration =
  reg_For :: watched_type
  reg_EventFilters :: "predicate list"
  reg_ForPredicates :: "predicate list"
  reg_Watches :: "watched_type list"
  reg_Owns :: "(KObject \<times> predicate list) list"
  reg_Reconciler :: handler_func

text \<open>The fields of \<open>ctrl.Options\<close> the program sets, beside the base context.\<close>

record ManagerOptions =
  mo_Scheme :: scheme_kinds
  mo_PprofBindAddress :: string
  mo_HealthProbeBindAddress :: string
  mo_MetricsBindAddress :: string
  mo_SkipNameValidation :: "bool option"

record manager =
  mgr_options :: ManagerOptions
  mgr_healthz :: "string list"
  mgr_controllers :: "registration list"
  mgr_indexes :: "(watched_type \<times> string) list"

record manager_lib =
  mgrlib_Complete :: "registration \<Rightarrow> manager \<Rightarrow> go_error option"
  mgrlib_IndexField :: "manager \<Rightarrow> go_error option"
  mgrlib_Start :: "manager \<Rightarrow> go_error option"

record GatewayConfig =
  cfg_OurGateway :: "(Gateway \<Rightarrow> bool) option"
  cfg_ControllerName :: string
  cfg_Dev :: bool
  cfg_AutoProvision :: bool
  cfg_EnableIstioIntegration :: bool
  cfg_ControlPlane :: "ControlPlaneInfo option"
  cfg_Aws :: "AwsInfo option"

section \<open>Controller registration\<close>

text \<open>\<open>run\<close>: the functions in order, up to the first error.\<close>

fun run :: "('s \<Rightarrow> (go_error option \<times> 's) exec) list \<Rightarrow> 's \<Rightarrow> (go_error option \<times> 's) exec" where
  "run [] s = Ret (None, s)"
| "run (fn # funcs) s = exec_bind (fn s) (\<lambda>(err, s'). if err \<noteq> None then Ret (err, s') else run funcs s')"

definition Complete :: "manager_lib \<Rightarrow> registration \<Rightarrow> manager \<Rightarrow> go_error option \<times> manager" where
  "Complete lib reg mgr =
     (case mgrlib_Complete lib reg mgr of
        Some err \<Rightarrow> (Some err, mgr)
      | None \<Rightarrow> (None, mgr\<lparr>mgr_controllers := mgr_controllers mgr @ [reg]\<rparr>))"

definition ReconcileGatewayClass :: "NamespacedName \<Rightarrow> ctrl_Result \<times> go_error option" where
  "ReconcileGatewayClass req = (Result_zero, None)"

definition gatewayClass_filter :: "GatewayConfig \<Rightarrow> watched \<Rightarrow> bool exec" where
  "gatewayClass_filter cfg object =
     (case object of
        WatchedGatewayClass gatewayClass \<Rightarrow> Ret (GatewayClass_ControllerName gatewayClass = cfg_ControllerName cfg)
      | _ \<Rightarrow> Ret False)"

definition watchGatewayClass :: "manager_lib \<Rightarrow> GatewayConfig \<Rightarrow> manager \<Rightarrow> (go_error option \<times> manager) exec" where
  "watchGatewayClass lib cfg mgr =
     Ret (Complete lib \<lparr>reg_For = TGatewayClass,
       reg_EventFilters = [GenerationChangedPredicate, NewPredicateFuncs (gatewayClass_filter cfg)],
       reg_ForPredicates = [], reg_Watches = [], reg_Owns = [], reg_Reconciler = ReconcileGatewayClassFunc\<rparr> mgr)"

definition GatewayParamsField :: string where
  "GatewayParamsField = ''gateway-params''"

definition gatewayToParams :: "watched \<Rightarrow> string list exec" where
  "gatewayToParams obj =
     (case obj of
        WatchedGateway gw \<Rightarrow>
          (let gwpName = map_index '''' (ObjectMeta_Annotations (Gateway_ObjectMeta gw)) GatewayParametersAnnonationName
           in if gwpName \<noteq> '''' then Ret [gwpName] else Ret [])
      | _ \<Rightarrow> Panic ''wrong type %T provided to indexer, expected Gateway'')"

definition addGatewayParamsIndex :: "manager_lib \<Rightarrow> manager \<Rightarrow> (go_error option \<times> manager) exec" where
  "addGatewayParamsIndex lib mgr =
     (case mgrlib_IndexField lib mgr of
        Some err \<Rightarrow> Ret (Some err, mgr)
      | None \<Rightarrow> Ret (None, mgr\<lparr>mgr_indexes := mgr_indexes mgr @ [(TGateway, GatewayParamsField)]\<rparr>))"

definition NewBaseGatewayController ::
  "manager_lib \<Rightarrow> GatewayConfig \<Rightarrow> manager \<Rightarrow> (go_error option \<times> manager) exec" where
  "NewBaseGatewayController lib cfg = run [watchGatewayClass lib cfg, addGatewayParamsIndex lib]"

section \<open>\<open>watchGateway\<close>\<close>

definition shouldIgnoreStatusChild :: "GroupVersionKind \<Rightarrow> bool" where
  "shouldIgnoreStatusChild gvk \<longleftrightarrow> GVK_Kind gvk = ''Deployment''"

definition gateway_filter :: "GatewayConfig \<Rightarrow> watched \<Rightarrow> bool exec" where
  "gateway_filter cfg object =
     (case object of
        WatchedGateway gw \<Rightarrow>
          (case cfg_OurGateway cfg of None \<Rightarrow> Panic ''nil pointer dereference'' | Some f \<Rightarrow> Ret (f gw))
      | _ \<Rightarrow> Ret False)"

definition request_of :: "Gateway \<Rightarrow> NamespacedName" where
  "request_of gw = \<lparr>NN_Namespace = ObjectMeta_Namespace (Gateway_ObjectMeta gw), NN_Name = ObjectMeta_Name (Gateway_ObjectMeta gw)\<rparr>"

definition object_key :: "ObjectMeta \<Rightarrow> NamespacedName" where
  "object_key obj = \<lparr>NN_Namespace = ObjectMeta_Namespace obj, NN_Name = ObjectMeta_Name obj\<rparr>"

text \<open>
  The function that maps an event of a GatewayParameters object to requests; \<open>listed\<close> is the
  result of \<open>cli.List\<close> for its namespace and the index key \<open>gwpName\<close>.
\<close>

definition params_requests ::
  "(string \<Rightarrow> string \<Rightarrow> go_error + Gateway list) \<Rightarrow> ObjectMeta \<Rightarrow> NamespacedName list" where
  "params_requests listed obj =
     (let gwpName = ObjectMeta_Name obj; gwpNamespace = ObjectMeta_Namespace obj
      in case listed gwpNamespace gwpName of
           Inl err \<Rightarrow> []
         | Inr items \<Rightarrow> map request_of items)"

fun owns_loop ::
  "Scheme \<Rightarrow> GroupVersionKind list \<Rightarrow> (KObject \<times> predicate list) list \<Rightarrow> go_error + (KObject \<times> predicate list) list" where
  "owns_loop scheme [] owns = Inr owns"
| "owns_loop scheme (gvk # gvks) owns =
     (case Scheme_New scheme gvk of
        Inl err \<Rightarrow> Inl err
      | Inr None \<Rightarrow> Inl (ErrNew ''object %T is not a client.Object'')
      | Inr (Some clientObj) \<Rightarrow>
          owns_loop scheme gvks (owns @ [(clientObj, if shouldIgnoreStatusChild gvk then [GenerationChangedPredicate] else [])]))"

text \<open>What the builder of \<open>watchGateway\<close> has when it is completed.\<close>

definition gateway_registration :: "GatewayConfig \<Rightarrow> Deployer \<Rightarrow> (KObject \<times> predicate list) list \<Rightarrow> registration" where
  "gateway_registration cfg deployer owns = \<lparr>reg_For = TGateway, reg_EventFilters = [],
     reg_ForPredicates = [NewPredicateFuncs (gateway_filter cfg),
       Predicate_Or [AnnotationChangedPredicate, GenerationChangedPredicate]],
     reg_Watches = [TGatewayParameters], reg_Owns = owns,
     reg_Reconciler = GatewayReconcilerFunc \<lparr>rec_autoProvision = cfg_AutoProvision cfg, rec_deployer = deployer\<rparr>\<rparr>"

definition watchGateway ::
  "manager_lib \<Rightarrow> (BufferedFile list \<Rightarrow> go_error + Chart) \<Rightarrow> filesystem \<Rightarrow> string \<Rightarrow> render_lib
     \<Rightarrow> GatewayConfig \<Rightarrow> manager \<Rightarrow> (go_error option \<times> manager) exec" where
  "watchGateway lib LoadFiles chartFs version rlib cfg mgr =
     (if cfg_ControlPlane cfg = None then Panic ''nil pointer dereference''
      else
       (case NewDeployer LoadFiles chartFs version (Some \<lparr>Inputs_ControllerName = cfg_ControllerName cfg,
               Inputs_Dev = cfg_Dev cfg, Inputs_IstioIntegrationEnabled = cfg_EnableIstioIntegration cfg,
               Inputs_ControlPlane = cfg_ControlPlane cfg, Inputs_Aws = cfg_Aws cfg\<rparr>) of
          Inl err \<Rightarrow> Ret (Some err, mgr)
        | Inr deployer \<Rightarrow>
           exec_bind (GetGvksToWatch rlib deployer)
             (\<lambda>r. Ret (case r of
                Inl err \<Rightarrow> (Some err, mgr)
              | Inr gvks \<Rightarrow>
                 (case owns_loop (lib_scheme rlib) gvks [] of
                    Inl err \<Rightarrow> (Some err, mgr)
                  | Inr owns \<Rightarrow>
                      Complete lib (gateway_registration cfg deployer owns) mgr)))))"

section \<open>Starting\<close>

definition AutoProvision :: bool where
  "AutoProvision = True"

record StartOptions =
  StartOptions_Cache :: opaque
  StartOptions_KrtDebugger :: "opaque option"
  StartOptions_XdsHost :: string
  StartOptions_XdsPort :: int32

text \<open>The clients, collections and krt options a configuration carries are passed on as they are.\<close>

record StartConfig =
  StartConfig_Dev :: bool
  StartConfig_StartOpts :: "StartOptions option"
  StartConfig_RestConfig :: opaque
  StartConfig_rest :: opaque

text \<open>\<open>SetupOptions\<close> is declared and not used.\<close>

record SetupOptions =
  SetupOptions_Cache :: opaque
  SetupOptions_ExtraGatewayClasses :: "string slice"
  SetupOptions_krtDebugger :: "opaque option"
  SetupOptions_XdsHost :: string
  SetupOptions_XdsPort :: int32

record ControllerBuilder =
  cb_cfg :: StartConfig
  cb_mgr :: manager
  cb_isOurGateway :: "(Gateway \<Rightarrow> bool) option"

definition manager_options :: ManagerOptions where
  "manager_options = \<lparr>mo_Scheme = DefaultScheme, mo_PprofBindAddress = '':9099'',
     mo_HealthProbeBindAddress = '':9093'', mo_MetricsBindAddress = '':9092'', mo_SkipNameValidation = Some True\<rparr>"

text \<open>
  \<open>NewControllerBuilder\<close>, without the logging it sets up: \<open>NewManager\<close> is the error
  \<open>ctrl.NewManager\<close> returns for a configuration and options, if any; a new manager has nothing
  registered. The result of \<open>AddHealthzCheck\<close> is dropped. \<open>isOurGateway\<close> is not among the fields
  set.
\<close>

definition NewControllerBuilder ::
  "(opaque \<Rightarrow> ManagerOptions \<Rightarrow> go_error option) \<Rightarrow> StartConfig \<Rightarrow> go_error + ControllerBuilder" where
  "NewControllerBuilder NewManager cfg =
     (let mgrOpts = manager_options
      in case NewManager (StartConfig_RestConfig cfg) mgrOpts of
           Some err \<Rightarrow> Inl err
         | None \<Rightarrow>
            (let mgr = \<lparr>mgr_options = mgrOpts, mgr_healthz = [], mgr_controllers = [], mgr_indexes = []\<rparr>;
                 mgr = mgr\<lparr>mgr_healthz := mgr_healthz mgr @ [''ping-ready'']\<rparr>
             in Inr \<lparr>cb_cfg = cfg, cb_mgr = mgr, cb_isOurGateway = None\<rparr>))"

text \<open>
  \<open>Start\<close>, which reads through the pointer \<open>StartOpts\<close>; \<open>ctxErr\<close> is \<open>ctx.Err()\<close>. Also returned: the
  manager as it was when started, if it was.
\<close>

definition Start :: "manager_lib \<Rightarrow> go_error option \<Rightarrow> ControllerBuilder \<Rightarrow> (go_error option \<times> manager option) exec" where
  "Start lib ctxErr c =
     (case StartConfig_StartOpts (cb_cfg c) of
        None \<Rightarrow> Panic ''nil pointer dereference''
      | Some opts \<Rightarrow>
         (let xdsHost = StartOptions_XdsHost opts; xdsPort = StartOptions_XdsPort opts
          in if xdsHost = '''' then Ret (ctxErr, None)
             else let gwCfg = \<lparr>cfg_OurGateway = cb_isOurGateway c, cfg_ControllerName = GatewayControllerName,
                        cfg_Dev = False, cfg_AutoProvision = AutoProvision, cfg_EnableIstioIntegration = False,
                        cfg_ControlPlane = Some \<lparr>CP_XdsHost = xdsHost, CP_XdsPort = xdsPort\<rparr>, cfg_Aws = None\<rparr>
                  in exec_bind (NewBaseGatewayController lib gwCfg (cb_mgr c))
                       (\<lambda>(err, mgr). if err \<noteq> None then Ret (err, None) else Ret (mgrlib_Start lib mgr, Some mgr))))"

section \<open>Properties\<close>

text \<open>What an indexed list returns: the Gateways of the namespace whose index keys include the name.\<close>

definition indexed_list :: "Gateway list \<Rightarrow> string \<Rightarrow> string \<Rightarrow> Gateway list" where
  "indexed_list gws ns name = filter (\<lambda>gw. ObjectMeta_Namespace (Gateway_ObjectMeta gw) = ns \<and>
     (case gatewayToParams (WatchedGateway gw) of Ret ks \<Rightarrow> name \<in> set ks | Panic _ \<Rightarrow> False)) gws"

lemma gatewayToParams_keys:
  "gatewayToParams (WatchedGateway gw) = Ret (if annotated_params gw = '''' then [] else [annotated_params gw])"
  by (simp add: gatewayToParams_def annotated_params_def Let_def)

lemma indexed_list_iff:
  "gw \<in> set (indexed_list gws ns name) \<longleftrightarrow> gw \<in> set gws \<and> ObjectMeta_Namespace (Gateway_ObjectMeta gw) = ns \<and>
     annotated_params gw \<noteq> '''' \<and> annotated_params gw = name"
  by (auto simp: indexed_list_def gatewayToParams_keys)

lemma params_requests_indexed:
  assumes "\<And>ns name. listed ns name = Inr (indexed_list gws ns name)"
  shows "req \<in> set (params_requests listed obj) \<longleftrightarrow>
    (\<exists>gw \<in> set gws. req = request_of gw \<and> annotated_params gw \<noteq> '''' \<and> override_key gw = object_key obj)"
proof -
  have "params_requests listed obj = map request_of (indexed_list gws (ObjectMeta_Namespace obj) (ObjectMeta_Name obj))"
    by (simp add: params_requests_def assms)
  then have "req \<in> set (params_requests listed obj) \<longleftrightarrow>
      (\<exists>gw \<in> set (indexed_list gws (ObjectMeta_Namespace obj) (ObjectMeta_Name obj)). req = request_of gw)"
    by (simp only: set_map image_iff)
  then show ?thesis unfolding Bex_def indexed_list_iff by (simp add: conj_ac eq_commute object_key_def)
qed

text \<open>
  C18. Which Gateways an event of a GatewayParameters object enqueues, given that the cached list
  answers with the index the controller registered: exactly those whose annotation names the
  object in their own namespace, and the parameter lookup of each of these does read the object. A
  Gateway whose lookup reads the object for another reason is one whose GatewayClass names it as
  the parameters of the class; such a Gateway is not enqueued if it has no annotation, so a
  change of the parameters of a class does not reach the Gateways of the class.
\<close>

theorem params_event_enqueues:
  assumes "\<And>ns name. listed ns name = Inr (indexed_list gws ns name)"
  shows "(req \<in> set (params_requests listed obj) \<longleftrightarrow>
      (\<exists>gw \<in> set gws. req = request_of gw \<and> annotated_params gw \<noteq> '''' \<and> override_key gw = object_key obj)) \<and>
    (\<forall>gw. annotated_params gw \<noteq> '''' \<and> override_key gw = object_key obj \<longrightarrow> lookup_reads cli gw (object_key obj)) \<and>
    (\<forall>gw \<in> set gws. lookup_reads cli gw (object_key obj) \<longrightarrow>
      request_of gw \<in> set (params_requests listed obj) \<or>
      (\<exists>gwc. getGatewayClassFromGateway cli (Some gw) = Inr gwc \<and> class_params_key gwc = Some (object_key obj))) \<and>
    (\<forall>gw gwc. annotated_params gw = '''' \<and> getGatewayClassFromGateway cli (Some gw) = Inr gwc \<and>
        class_params_key gwc = Some (object_key obj) \<longrightarrow>
      lookup_reads cli gw (object_key obj) \<and>
      (inj_on request_of (insert gw (set gws)) \<longrightarrow> request_of gw \<notin> set (params_requests listed obj)))"
proof (intro conjI ballI allI impI)
  note enqueued = params_requests_indexed [OF assms]
  show "req \<in> set (params_requests listed obj) \<longleftrightarrow>
      (\<exists>gw \<in> set gws. req = request_of gw \<and> annotated_params gw \<noteq> '''' \<and> override_key gw = object_key obj)"
    by (rule enqueued)
  show "lookup_reads cli gw (object_key obj)" if "annotated_params gw \<noteq> '''' \<and> override_key gw = object_key obj" for gw
    using that lookup_reads_override by blast
  show "request_of gw \<in> set (params_requests listed obj) \<or>
      (\<exists>gwc. getGatewayClassFromGateway cli (Some gw) = Inr gwc \<and> class_params_key gwc = Some (object_key obj))"
    if "gw \<in> set gws" "lookup_reads cli gw (object_key obj)" for gw
    using lookup_reads_only [OF that(2)] that(1) enqueued by blast
  fix gw gwc
  assume ofclass: "annotated_params gw = '''' \<and> getGatewayClassFromGateway cli (Some gw) = Inr gwc \<and>
        class_params_key gwc = Some (object_key obj)"
  then show "lookup_reads cli gw (object_key obj)" using lookup_reads_class by blast
  show "request_of gw \<notin> set (params_requests listed obj)" if "inj_on request_of (insert gw (set gws))"
    using ofclass that unfolding enqueued by (metis inj_onD insertCI)
qed

text \<open>An annotated Gateway is enqueued; one that uses the same object through its class is not.\<close>

theorem params_event_enqueues_witness:
  "request_of (example_gateway ''mine'') \<in> set (params_requests
     (\<lambda>ns name. Inr (indexed_list [example_gateway ''mine'', example_gateway ''''] ns name))
     (ObjectMeta_zero\<lparr>ObjectMeta_Namespace := ''ns'', ObjectMeta_Name := ''mine''\<rparr>)) \<and>
   lookup_reads (example_client (params_of (Some kube_zero) None) (params_of (Some kube_zero) None)) (example_gateway '''') (object_key
     (ObjectMeta_zero\<lparr>ObjectMeta_Namespace := ''sys'', ObjectMeta_Name := ''default''\<rparr>)) \<and>
   request_of (example_gateway '''') \<notin> set (params_requests (\<lambda>ns name. Inr (indexed_list [example_gateway ''''] ns name))
     (ObjectMeta_zero\<lparr>ObjectMeta_Namespace := ''sys'', ObjectMeta_Name := ''default''\<rparr>))"
proof -
  let ?o = "ObjectMeta_zero\<lparr>ObjectMeta_Namespace := ''sys'', ObjectMeta_Name := ''default''\<rparr>"
  have cls: "getGatewayClassFromGateway (example_client (params_of (Some kube_zero) None) (params_of (Some kube_zero) None)) (Some (example_gateway '''')) = Inr example_class"
    by (simp add: getGatewayClassFromGateway_def example_gateway_def example_client_def)
  have "class_params_key example_class = Some (object_key ?o)"
    by (simp add: class_params_key_def example_class_def object_key_def)
  with cls have 1: "lookup_reads (example_client (params_of (Some kube_zero) None) (params_of (Some kube_zero) None)) (example_gateway '''') (object_key ?o) \<and>
      request_of (example_gateway '''') \<notin> set (params_requests (\<lambda>ns name. Inr (indexed_list [example_gateway ''''] ns name)) ?o)"
    using params_event_enqueues [of "\<lambda>ns name. Inr (indexed_list [example_gateway ''''] ns name)" "[example_gateway '''']"
        undefined ?o "example_client (params_of (Some kube_zero) None) (params_of (Some kube_zero) None)"]
    by simp
  have "override_key (example_gateway ''mine'') =
      object_key (ObjectMeta_zero\<lparr>ObjectMeta_Namespace := ''ns'', ObjectMeta_Name := ''mine''\<rparr>)"
    unfolding example_lookup object_key_def by (simp add: example_gateway_def)
  then show ?thesis
    using 1 params_event_enqueues [of "\<lambda>ns name. Inr (indexed_list [example_gateway ''mine'', example_gateway ''''] ns name)"
        "[example_gateway ''mine'', example_gateway '''']" "request_of (example_gateway ''mine'')"
        "ObjectMeta_zero\<lparr>ObjectMeta_Namespace := ''ns'', ObjectMeta_Name := ''mine''\<rparr>"]
    by auto
qed

text \<open>The \<open>Owns\<close> registration of one kind.\<close>

definition owns_entry :: "Scheme \<Rightarrow> GroupVersionKind \<Rightarrow> KObject \<times> predicate list \<Rightarrow> bool" where
  "owns_entry scheme gvk e \<longleftrightarrow> Scheme_New scheme gvk = Inr (Some (fst e)) \<and>
     snd e = (if GVK_Kind gvk = ''Deployment'' then [GenerationChangedPredicate] else [])"

lemma owns_loop_spec:
  "owns_loop scheme gvks owns = Inr owns' \<Longrightarrow>
     \<exists>new. owns' = owns @ new \<and> list_all2 (owns_entry scheme) gvks new"
proof (induction gvks arbitrary: owns)
  case Nil
  then show ?case by simp
next
  case (Cons gvk gvks)
  then obtain obj where obj: "Scheme_New scheme gvk = Inr (Some obj)"
    by (auto split: sum.splits option.splits)
  let ?e = "(obj, if shouldIgnoreStatusChild gvk then [GenerationChangedPredicate] else [])"
  have "owns_loop scheme gvks (owns @ [?e]) = Inr owns'" using Cons.prems obj by simp
  then obtain new where new: "owns' = (owns @ [?e]) @ new" "list_all2 (owns_entry scheme) gvks new"
    using Cons.IH by blast
  moreover have "owns_entry scheme gvk ?e" using obj by (simp add: owns_entry_def shouldIgnoreStatusChild_def)
  ultimately show ?case by (intro exI [of _ "?e # new"]) simp
qed

text \<open>
  Whatever the libraries answer, when the manager is started the only controller added is the one for GatewayClasses, filtered by this
  controller's name, and the Gateway controller is not among them; and the scheme it was made with
  knows no kind at all.
\<close>

theorem Start_registers_no_gateway_controller:
  assumes "NewControllerBuilder NewManager cfg = Inr c" and "Start lib ctxErr c = Ret (err, Some mgr)"
  shows "map reg_For (mgr_controllers mgr) = [TGatewayClass] \<and>
    map reg_Reconciler (mgr_controllers mgr) = [ReconcileGatewayClassFunc] \<and>
    mgr_indexes mgr = [(TGateway, GatewayParamsField)] \<and>
    mo_Scheme (mgr_options mgr) = [] \<and> mgr_healthz mgr = [''ping-ready''] \<and>
    err = mgrlib_Start lib mgr \<and> (\<exists>opts. StartConfig_StartOpts cfg = Some opts \<and> StartOptions_XdsHost opts \<noteq> '''')"
  using assms
  by (auto simp: NewControllerBuilder_def manager_options_def DefaultScheme_empty Start_def NewBaseGatewayController_def
      watchGatewayClass_def addGatewayParamsIndex_def Complete_def Let_def split: option.splits if_splits)

definition example_manager_lib :: manager_lib where
  "example_manager_lib = \<lparr>mgrlib_Complete = (\<lambda>_ _. None), mgrlib_IndexField = (\<lambda>_. None), mgrlib_Start = (\<lambda>_. None)\<rparr>"

definition example_start_config :: StartConfig where
  "example_start_config = \<lparr>StartConfig_Dev = False,
     StartConfig_StartOpts = Some \<lparr>StartOptions_Cache = Opaque '''', StartOptions_KrtDebugger = None,
       StartOptions_XdsHost = ''fgateway.ns.svc'', StartOptions_XdsPort = 9000\<rparr>,
     StartConfig_RestConfig = Opaque '''', StartConfig_rest = Opaque ''''\<rparr>"

theorem Start_registers_no_gateway_controller_witness:
  "\<exists>c mgr. NewControllerBuilder (\<lambda>_ _. None) example_start_config = Inr c \<and>
     Start example_manager_lib None c = Ret (None, Some mgr) \<and> map reg_For (mgr_controllers mgr) = [TGatewayClass]"
proof -
  obtain c where c: "NewControllerBuilder (\<lambda>_ _. None) example_start_config = Inr c"
    by (simp add: NewControllerBuilder_def)
  moreover obtain mgr where "Start example_manager_lib None c = Ret (None, Some mgr)"
    using c by (auto simp: NewControllerBuilder_def Start_def NewBaseGatewayController_def watchGatewayClass_def
      addGatewayParamsIndex_def Complete_def Let_def example_manager_lib_def example_start_config_def)
  ultimately show ?thesis using Start_registers_no_gateway_controller by blast
qed

lemma watchGateway_result:
  assumes "watchGateway lib LoadFiles chartFs version rlib cfg mgr = Ret (err, mgr')"
  shows "err \<noteq> None \<and> mgr' = mgr \<or> (\<exists>dep gvks owns. err = None \<and> GetGvksToWatch rlib dep = Ret (Inr gvks) \<and>
    owns_loop (lib_scheme rlib) gvks [] = Inr owns \<and>
    mgr' = mgr\<lparr>mgr_controllers := mgr_controllers mgr @ [gateway_registration cfg dep owns]\<rparr>)"
proof -
  obtain r where new: "NewDeployer LoadFiles chartFs version (Some \<lparr>Inputs_ControllerName = cfg_ControllerName cfg,
               Inputs_Dev = cfg_Dev cfg, Inputs_IstioIntegrationEnabled = cfg_EnableIstioIntegration cfg,
               Inputs_ControlPlane = cfg_ControlPlane cfg, Inputs_Aws = cfg_Aws cfg\<rparr>) = r" by blast
  show ?thesis
  proof (cases r)
    case (Inl e)
    then show ?thesis using assms new by (auto simp: watchGateway_def split: if_splits)
  next
    case (Inr dep)
    obtain g where g: "GetGvksToWatch rlib dep = Ret g"
      using assms new Inr by (auto simp: watchGateway_def exec_bind_eq_Ret split: if_splits)
    have "cfg_ControlPlane cfg \<noteq> None" using assms by (cases "cfg_ControlPlane cfg") (simp_all add: watchGateway_def)
    then show ?thesis
      using assms new Inr g
      by (auto simp: watchGateway_def Complete_def split: sum.splits option.splits)
  qed
qed

text \<open>
  When the Gateway controller is set up, it owns one object per kind the chart renders, each
  kind once and of the type the scheme has for it, and it ignores status changes of exactly
  the Deployments; a kind unknown to the scheme makes the setup fail and registers nothing.
\<close>

theorem watchGateway_owns_kinds:
  assumes "watchGateway lib LoadFiles chartFs version rlib cfg mgr = Ret (err, mgr')"
  shows "(err \<noteq> None \<longrightarrow> mgr' = mgr) \<and>
    (err = None \<longrightarrow> (\<exists>reg gvks dep. mgr_controllers mgr' = mgr_controllers mgr @ [reg] \<and> reg_For reg = TGateway \<and>
       GetGvksToWatch rlib dep = Ret (Inr gvks) \<and> distinct gvks \<and>
       list_all2 (owns_entry (lib_scheme rlib)) gvks (reg_Owns reg)))"
proof (cases err)
  case (Some e)
  then show ?thesis using watchGateway_result [OF assms] by auto
next
  case None
  then obtain dep gvks owns where dep: "GetGvksToWatch rlib dep = Ret (Inr gvks)"
      and owns: "owns_loop (lib_scheme rlib) gvks [] = Inr owns"
      and mgr': "mgr' = mgr\<lparr>mgr_controllers := mgr_controllers mgr @ [gateway_registration cfg dep owns]\<rparr>"
    using watchGateway_result [OF assms] by auto
  have "distinct gvks" using dep by (rule GetGvksToWatch_distinct)
  moreover have "list_all2 (owns_entry (lib_scheme rlib)) gvks owns" using owns_loop_spec [OF owns] by simp
  ultimately show ?thesis
    using None dep mgr' by (intro conjI impI exI [of _ "gateway_registration cfg dep owns"] exI [of _ gvks] exI [of _ dep])
      (simp_all add: gateway_registration_def)
qed

definition example_full_lib :: render_lib where
  "example_full_lib = \<lparr>lib_RunWithContext = (\<lambda>_ _ _. Ret (Inr ''manifest'')), lib_decode = (\<lambda>_. map Inr example_docs),
     lib_scheme = \<lparr>Scheme_New = (\<lambda>gvk. Inr (Some (example_object (GVK_Kind gvk) ''''))),
       Scheme_FromUnstructured = (\<lambda>u real. Inr (Unstructured_obj u))\<rparr>\<rparr>"

definition example_config :: GatewayConfig where
  "example_config = \<lparr>cfg_OurGateway = None, cfg_ControllerName = GatewayControllerName, cfg_Dev = False,
     cfg_AutoProvision = True, cfg_EnableIstioIntegration = False,
     cfg_ControlPlane = Some \<lparr>CP_XdsHost = ''h'', CP_XdsPort = 9000\<rparr>, cfg_Aws = None\<rparr>"

definition example_manager :: manager where
  "example_manager = \<lparr>mgr_options = manager_options, mgr_healthz = [], mgr_controllers = [], mgr_indexes = []\<rparr>"

theorem watchGateway_owns_kinds_witness:
  "\<exists>mgr' reg gvks. watchGateway example_manager_lib (\<lambda>fs. Inr \<lparr>Chart_AppVersion = '''', Chart_Version = '''', Chart_rest = Opaque ''''\<rparr>)
       (Inr example_chart_fs) ''v1'' example_full_lib example_config example_manager = Ret (None, mgr') \<and>
     mgr_controllers mgr' = [reg] \<and> list_all2 (owns_entry (lib_scheme example_full_lib)) gvks (reg_Owns reg)"
proof -
  let ?L = "\<lambda>fs. Inr \<lparr>Chart_AppVersion = '''', Chart_Version = '''', Chart_rest = Opaque ''''\<rparr>"
  obtain mgr' where w: "watchGateway example_manager_lib ?L (Inr example_chart_fs) ''v1'' example_full_lib example_config
      example_manager = Ret (None, mgr')"
    by (simp add: watchGateway_def example_config_def NewDeployer_def loadFs_def example_chart_fs_def GetGvksToWatch_def
        renderChartToObjects_def Render_def ConvertYAMLToObjects_list convert_object_def example_full_lib_def example_docs_def
        example_object_def SetNamespace_def Complete_def example_manager_lib_def Let_def)
  from watchGateway_owns_kinds [OF w] w show ?thesis by (auto simp: example_manager_def)
qed

end
