(* ===== verification/Probe_Server.thy ===== *)
theory Probe_Server
  imports Transition_Systems
begin

text \<open>
  The liveness probe: \<^verbatim>\<open>pkg/utils/probes\<close>. \<open>StartProbeServer\<close> starts two goroutines and
  returns. One makes an HTTP server, assigns it to a variable they share and serves; the other
  waits for the end of the context and shuts down the server the variable then holds. The model
  is the state the two goroutines share and a step relation whose steps are the atomic actions
  of each, with the context's end as a step of the environment.

  Of \<open>net/http\<close> the model has what its documentation says: \<open>Shutdown\<close> makes \<open>ListenAndServe\<close>
  return \<open>ErrServerClosed\<close>, before or while it listens, \<open>ListenAndServe\<close> may also fail otherwise,
  and \<open>Shutdown\<close> returns, with an error at the latest when its own context times out.
\<close>

section \<open>Contexts\<close>

text \<open>
  A \<open>context.Context\<close> as the program uses it: whether it can end at all and, once it has ended,
  its error. \<open>context.Background()\<close> never ends.
\<close>

datatype go_context = Background | Cancellable "go_error option"

fun ctx_Err :: "go_context \<Rightarrow> go_error option" where
  "ctx_Err Background = None"
| "ctx_Err (Cancellable err) = err"

section \<open>Options and the server\<close>

record ServerOptions =
  ServerOptions_Port :: int
  ServerOptions_Path :: string
  ServerOptions_ResponseCode :: int
  ServerOptions_ResponseBody :: string

definition DefaultProbeServerOptions :: ServerOptions where
  "DefaultProbeServerOptions = \<lparr>ServerOptions_Port = 8080, ServerOptions_Path = ''/healthz'',
     ServerOptions_ResponseCode = 200, ServerOptions_ResponseBody = ''OK''\<rparr>"

text \<open>
  A handler is given as the calls it makes on the \<open>ResponseWriter\<close>. A plain pattern of a
  \<open>ServeMux\<close> (one with no method, host or wildcard) matches a path equal to it and, when it
  ends in a slash, every path below it.
\<close>

datatype writer_call = WriteHeader int | WriteBody string

definition probe_handler :: "ServerOptions \<Rightarrow> writer_call list" where
  "probe_handler o' = [WriteHeader (ServerOptions_ResponseCode o'), WriteBody (ServerOptions_ResponseBody o')]"

definition mux_matches :: "string \<Rightarrow> string \<Rightarrow> bool" where
  "mux_matches pattern path \<longleftrightarrow> path = pattern \<or> suffix ''/'' pattern \<and> prefix pattern path"

record http_server =
  srv_Addr :: string
  srv_Handler :: "string \<Rightarrow> writer_call list option" \<comment> \<open>\<open>None\<close> where the mux has no handler\<close>
  srv_closing :: bool \<comment> \<open>\<open>Shutdown\<close> has been called\<close>

definition show_int :: "int \<Rightarrow> string" where
  "show_int i = (if i < 0 then ''-'' @ show_nat (nat (- i)) else show_nat (nat i))"

text \<open>\<open>HandleFunc\<close> panics on an empty pattern.\<close>

definition probe_http_server :: "ServerOptions \<Rightarrow> http_server exec" where
  "probe_http_server o' =
     (if ServerOptions_Path o' = '''' then Panic ''http: invalid pattern''
      else Ret \<lparr>srv_Addr = '':'' @ show_int (ServerOptions_Port o'),
        srv_Handler = (\<lambda>path. if mux_matches (ServerOptions_Path o') path then Some (probe_handler o') else None),
        srv_closing = False\<rparr>)"

section \<open>The two goroutines\<close>

datatype probe_log = ProbeStarting string string | ProbeClosed | ProbeFailed go_error | ShutdownFailed go_error

text \<open>Where each goroutine is. \<open>Listening\<close>: in \<open>ListenAndServe\<close>, not accepting connections yet.\<close>

datatype run_pc = MakingServer | Listening | Serving | RunReturned | RunPanicked
datatype stop_pc = AwaitingDone | ShuttingDown | StopReturned

record probe_state =
  ps_options :: ServerOptions
  ps_server :: "http_server option" \<comment> \<open>the variable the goroutines share\<close>
  ps_run :: run_pc
  ps_stop :: stop_pc
  ps_ctx :: go_context
  ps_log :: "probe_log list"

definition StartProbeServer :: "go_context \<Rightarrow> ServerOptions \<Rightarrow> probe_state" where
  "StartProbeServer ctx o' = \<lparr>ps_options = o', ps_server = None, ps_run = MakingServer, ps_stop = AwaitingDone,
     ps_ctx = ctx, ps_log = []\<rparr>"

definition StartLivenessProbeServer :: "go_context \<Rightarrow> probe_state" where
  "StartLivenessProbeServer ctx = StartProbeServer ctx DefaultProbeServerOptions"

text \<open>The channel \<open>ctx.Done()\<close> is closed.\<close>

abbreviation ps_done :: "probe_state \<Rightarrow> bool" where
  "ps_done s \<equiv> ctx_Err (ps_ctx s) \<noteq> None"

definition ErrServerClosed :: go_error where
  "ErrServerClosed = ErrNew ''http: Server closed''"

text \<open>What the first goroutine logs when \<open>ListenAndServe\<close> returns.\<close>

definition probe_ended :: "go_error option \<Rightarrow> probe_log list" where
  "probe_ended err = (case err of
     None \<Rightarrow> []
   | Some e \<Rightarrow> if ErrServerClosed \<in> set (error_chain e) then [ProbeClosed] else [ProbeFailed e])"

definition probe_closing :: "probe_state \<Rightarrow> bool" where
  "probe_closing s \<longleftrightarrow> (\<exists>srv. ps_server s = Some srv \<and> srv_closing srv)"

text \<open>
  One step of the program. In \<open>run_fails\<close> the error is any other than \<open>ErrServerClosed\<close>: the
  port is taken, or accepting fails. A panic in a goroutine ends the process, so that no step
  follows it.
\<close>

inductive probe_step :: "probe_state \<Rightarrow> probe_state \<Rightarrow> bool" where
  run_panics: "\<lbrakk>ps_run s = MakingServer; probe_http_server (ps_options s) = Panic m\<rbrakk> \<Longrightarrow>
    probe_step s (s\<lparr>ps_run := RunPanicked\<rparr>)"
| run_starts: "\<lbrakk>ps_run s = MakingServer; probe_http_server (ps_options s) = Ret srv\<rbrakk> \<Longrightarrow>
    probe_step s (s\<lparr>ps_server := Some srv, ps_run := Listening,
      ps_log := ps_log s @ [ProbeStarting (srv_Addr srv) (ServerOptions_Path (ps_options s))]\<rparr>)"
| run_serves: "\<lbrakk>ps_run s = Listening; \<not> probe_closing s\<rbrakk> \<Longrightarrow> probe_step s (s\<lparr>ps_run := Serving\<rparr>)"
| run_fails: "\<lbrakk>ps_run s = Listening \<or> ps_run s = Serving \<and> \<not> probe_closing s; ErrServerClosed \<notin> set (error_chain e)\<rbrakk> \<Longrightarrow>
    probe_step s (s\<lparr>ps_run := RunReturned, ps_log := ps_log s @ probe_ended (Some e)\<rparr>)"
| run_closed: "\<lbrakk>ps_run s = Listening \<or> ps_run s = Serving; probe_closing s\<rbrakk> \<Longrightarrow>
    probe_step s (s\<lparr>ps_run := RunReturned, ps_log := ps_log s @ probe_ended (Some ErrServerClosed)\<rparr>)"
| stop_skips: "\<lbrakk>ps_run s \<noteq> RunPanicked; ps_stop s = AwaitingDone; ps_done s; ps_server s = None\<rbrakk> \<Longrightarrow>
    probe_step s (s\<lparr>ps_stop := StopReturned\<rparr>)"
| stop_shuts: "\<lbrakk>ps_run s \<noteq> RunPanicked; ps_stop s = AwaitingDone; ps_done s; ps_server s = Some srv\<rbrakk> \<Longrightarrow>
    probe_step s (s\<lparr>ps_stop := ShuttingDown, ps_server := Some (srv\<lparr>srv_closing := True\<rparr>)\<rparr>)"
| stop_returns: "\<lbrakk>ps_run s \<noteq> RunPanicked; ps_stop s = ShuttingDown\<rbrakk> \<Longrightarrow>
    probe_step s (s\<lparr>ps_stop := StopReturned,
      ps_log := ps_log s @ (case err of None \<Rightarrow> [] | Some e \<Rightarrow> [ShutdownFailed e])\<rparr>)"

text \<open>A context that can end may do so at any time, once, with any error.\<close>

inductive probe_env :: "probe_state \<Rightarrow> probe_state \<Rightarrow> bool" where
  context_ends: "ps_run s \<noteq> RunPanicked \<Longrightarrow> ps_ctx s = Cancellable None \<Longrightarrow>
    probe_env s (s\<lparr>ps_ctx := Cancellable (Some err)\<rparr>)"

inductive probe_reachable :: "ServerOptions \<Rightarrow> probe_state \<Rightarrow> bool" for o' where
  probe_init: "probe_reachable o' (StartProbeServer ctx o')"
| probe_own: "probe_reachable o' s \<Longrightarrow> probe_step s s' \<Longrightarrow> probe_reachable o' s'"
| probe_done: "probe_reachable o' s \<Longrightarrow> probe_env s s' \<Longrightarrow> probe_reachable o' s'"

inductive_cases probe_stepE: "probe_step s s'"
inductive_cases probe_envE: "probe_env s s'"

section \<open>Invariant\<close>

definition probe_inv :: "ServerOptions \<Rightarrow> probe_state \<Rightarrow> bool" where
  "probe_inv o' s \<longleftrightarrow> ps_options s = o' \<and>
     (ps_server s = None \<longleftrightarrow> ps_run s = MakingServer \<or> ps_run s = RunPanicked) \<and>
     (\<forall>srv. ps_server s = Some srv \<longrightarrow> probe_http_server o' = Ret (srv\<lparr>srv_closing := False\<rparr>)) \<and>
     (ps_stop s \<noteq> AwaitingDone \<longrightarrow> ps_done s) \<and>
     (ps_stop s = ShuttingDown \<longrightarrow> probe_closing s) \<and>
     (probe_closing s \<longrightarrow> ps_stop s \<noteq> AwaitingDone) \<and>
     (ProbeClosed \<in> set (ps_log s) \<longrightarrow> probe_closing s)"

lemma probe_http_server_open: "probe_http_server o' = Ret srv \<Longrightarrow> srv\<lparr>srv_closing := False\<rparr> = srv"
  by (auto simp: probe_http_server_def split: if_splits)

lemma probe_http_server_closing: "probe_http_server o' = Ret srv \<Longrightarrow> \<not> srv_closing srv"
  by (auto simp: probe_http_server_def split: if_splits)

lemma probe_inv_init: "probe_inv o' (StartProbeServer ctx o')"
  by (simp add: probe_inv_def StartProbeServer_def probe_closing_def)

lemma probe_inv_step: "probe_inv o' s \<Longrightarrow> probe_step s s' \<Longrightarrow> probe_inv o' s'"
  by (erule probe_stepE)
    (auto simp: probe_inv_def probe_closing_def probe_http_server_open probe_ended_def
      dest: probe_http_server_closing split: option.splits if_splits)

lemma probe_inv_env: "probe_inv o' s \<Longrightarrow> probe_env s s' \<Longrightarrow> probe_inv o' s'"
  by (erule probe_envE) (auto simp: probe_inv_def probe_closing_def)

lemma probe_reachable_inv: "probe_reachable o' s \<Longrightarrow> probe_inv o' s"
  by (induction rule: probe_reachable.induct) (auto intro: probe_inv_init probe_inv_step probe_inv_env)

text \<open>What a client of the probe gets, at any time while there is a server.\<close>

lemma probe_answers:
  assumes "probe_reachable o' s" and "ps_server s = Some srv"
  shows "srv_Addr srv = '':'' @ show_int (ServerOptions_Port o')"
    and "mux_matches (ServerOptions_Path o') path \<Longrightarrow> srv_Handler srv path =
      Some [WriteHeader (ServerOptions_ResponseCode o'), WriteBody (ServerOptions_ResponseBody o')]"
    and "\<not> mux_matches (ServerOptions_Path o') path \<Longrightarrow> srv_Handler srv path = None"
proof -
  have "probe_http_server o' = Ret (srv\<lparr>srv_closing := False\<rparr>)"
    using probe_reachable_inv [OF assms(1)] assms(2) by (simp add: probe_inv_def)
  then show "srv_Addr srv = '':'' @ show_int (ServerOptions_Port o')"
    and "mux_matches (ServerOptions_Path o') path \<Longrightarrow> srv_Handler srv path =
      Some [WriteHeader (ServerOptions_ResponseCode o'), WriteBody (ServerOptions_ResponseBody o')]"
    and "\<not> mux_matches (ServerOptions_Path o') path \<Longrightarrow> srv_Handler srv path = None"
    by (cases srv; auto simp: probe_http_server_def probe_handler_def split: if_splits)+
qed

section \<open>Shutdown\<close>

text \<open>A state from which the server is shut down: the context has ended and the server is or will be found.\<close>

definition probe_will_stop :: "probe_state \<Rightarrow> bool" where
  "probe_will_stop s \<longleftrightarrow> probe_inv (ps_options s) s \<and> ps_done s \<and> ps_server s \<noteq> None \<and>
     (ps_stop s = StopReturned \<longrightarrow> probe_closing s)"

definition probe_rank :: "probe_state \<Rightarrow> nat" where
  "probe_rank s = (case ps_run s of Listening \<Rightarrow> 2 | Serving \<Rightarrow> 1 | _ \<Rightarrow> 0) +
     (case ps_stop s of AwaitingDone \<Rightarrow> 2 | ShuttingDown \<Rightarrow> 1 | StopReturned \<Rightarrow> 0)"

definition probe_stopped :: "probe_state \<Rightarrow> bool" where
  "probe_stopped s \<longleftrightarrow> ps_run s = RunReturned \<and> ps_stop s = StopReturned"

lemma probe_progress:
  assumes "probe_will_stop s" and "\<not> probe_stopped s"
  shows "\<exists>s'. probe_step s s'"
proof -
  obtain srv where srv: "ps_server s = Some srv" using assms(1) by (auto simp: probe_will_stop_def)
  have run: "ps_run s \<in> {Listening, Serving, RunReturned}"
    using assms(1) srv by (cases "ps_run s") (auto simp: probe_will_stop_def probe_inv_def)
  show ?thesis
  proof (cases "ps_stop s")
    case AwaitingDone
    then show ?thesis using run srv assms(1) probe_step.stop_shuts [of s srv] by (auto simp: probe_will_stop_def)
  next
    case ShuttingDown
    moreover have "ps_run s \<noteq> RunPanicked" using run by auto
    ultimately show ?thesis using probe_step.stop_returns by blast
  next
    case StopReturned
    then have "probe_closing s" "ps_run s = Listening \<or> ps_run s = Serving"
      using assms run by (auto simp: probe_will_stop_def probe_stopped_def)
    then show ?thesis using probe_step.run_closed by blast
  qed
qed

lemma probe_will_stop_facts:
  assumes "probe_will_stop s"
  shows "ps_run s \<noteq> MakingServer" and "ps_run s \<noteq> RunPanicked" and "probe_closing s \<Longrightarrow> ps_stop s \<noteq> AwaitingDone"
  using assms by (auto simp: probe_will_stop_def probe_inv_def)

lemma probe_will_stop_rank: "probe_will_stop s \<Longrightarrow> probe_step s s' \<Longrightarrow> probe_rank s' < probe_rank s"
  by (drule probe_will_stop_facts, erule probe_stepE) (auto simp: probe_rank_def)

lemma probe_will_stop_step: "probe_will_stop s \<Longrightarrow> probe_step s s' \<Longrightarrow> probe_will_stop s'"
proof -
  assume good: "probe_will_stop s" and st: "probe_step s s'"
  have "ps_options s' = ps_options s" using st by (auto elim!: probe_stepE)
  then have "probe_inv (ps_options s') s'" using good st probe_inv_step by (auto simp: probe_will_stop_def)
  moreover have "ps_done s' \<and> ps_server s' \<noteq> None \<and> (ps_stop s' = StopReturned \<longrightarrow> probe_closing s')"
  proof -
    have "ps_done s" "ps_server s \<noteq> None" "ps_stop s \<noteq> AwaitingDone \<longrightarrow> probe_closing s"
      using good by (cases "ps_stop s"; auto simp: probe_will_stop_def probe_inv_def)+
    with st probe_will_stop_facts [OF good] show ?thesis by (elim probe_stepE) (auto simp: probe_closing_def)
  qed
  ultimately show ?thesis by (simp add: probe_will_stop_def)
qed

interpretation probe_shutdown: settling probe_will_stop probe_step probe_rank probe_stopped
  by unfold_locales (blast intro: probe_will_stop_step probe_will_stop_rank probe_progress)+

text \<open>
  C14. Shutdown of the liveness probe: if the context ends and the server has been assigned
  before the second goroutine looks for it, the two goroutines make at most four more steps,
  whatever the order, and wherever they can make no more both have returned. In particular
  \<open>ListenAndServe\<close> does not keep serving.
\<close>

theorem probe_server_stops:
  assumes "probe_reachable o' s" and "ps_done s" and "ps_server s \<noteq> None" and "ps_stop s = AwaitingDone"
  shows "(\<exists>n s'. (probe_step ^^ n) s s' \<and> probe_stopped s') \<and>
    (\<forall>n s'. (probe_step ^^ n) s s' \<longrightarrow> n \<le> 4 \<and> ((\<nexists>s''. probe_step s' s'') \<longrightarrow> probe_stopped s'))"
proof -
  have inv: "probe_inv o' s" using probe_reachable_inv assms(1) .
  then have good: "probe_will_stop s" using assms by (auto simp: probe_will_stop_def probe_inv_def)
  have "probe_rank s \<le> 4" by (auto simp: probe_rank_def split: run_pc.split stop_pc.split)
  then show ?thesis
    using probe_shutdown.settles [OF good] probe_shutdown.run_bounded [OF good] probe_shutdown.stopped_at_rest [OF good]
    by (meson add_leD1 le_trans)
qed

text \<open>The server of the default options, serving when the context ends.\<close>

definition example_probe_started :: "go_context \<Rightarrow> stop_pc \<Rightarrow> run_pc \<Rightarrow> probe_state" where
  "example_probe_started ctx stop run = (StartProbeServer ctx DefaultProbeServerOptions)\<lparr>
     ps_server := Some \<lparr>srv_Addr = '':8080'',
       srv_Handler = (\<lambda>path. if mux_matches ''/healthz'' path then Some (probe_handler DefaultProbeServerOptions) else None),
       srv_closing = False\<rparr>,
     ps_run := run, ps_stop := stop, ps_log := [ProbeStarting '':8080'' ''/healthz'']\<rparr>"

lemma DefaultProbeServerOptions_select [simp]:
  "ServerOptions_Port DefaultProbeServerOptions = 8080"
  "ServerOptions_Path DefaultProbeServerOptions = ''/healthz''"
  by (simp_all add: DefaultProbeServerOptions_def)

lemma default_probe_server:
  "probe_http_server DefaultProbeServerOptions = Ret \<lparr>srv_Addr = '':8080'',
     srv_Handler = (\<lambda>path. if mux_matches ''/healthz'' path then Some (probe_handler DefaultProbeServerOptions) else None),
     srv_closing = False\<rparr>"
proof -
  have "show_int 8080 = ''8080''"
    by (simp add: show_int_def show_nat.simps [of 8080] show_nat.simps [of 808] show_nat.simps [of 80]
        show_nat.simps [of 8] char_of_def bit_0)
  then show ?thesis by (simp add: probe_http_server_def)
qed

lemma example_probe_reachable: "probe_reachable DefaultProbeServerOptions (example_probe_started ctx AwaitingDone Serving)"
proof -
  have "probe_step (StartProbeServer ctx DefaultProbeServerOptions) (example_probe_started ctx AwaitingDone Listening)"
    using probe_step.run_starts [of "StartProbeServer ctx DefaultProbeServerOptions"]
    by (simp add: example_probe_started_def StartProbeServer_def default_probe_server)
  moreover have "probe_step (example_probe_started ctx AwaitingDone Listening) (example_probe_started ctx AwaitingDone Serving)"
    using probe_step.run_serves [of "example_probe_started ctx AwaitingDone Listening"]
    by (simp add: example_probe_started_def StartProbeServer_def probe_closing_def)
  ultimately show ?thesis by (blast intro: probe_reachable.intros)
qed

theorem probe_server_stops_witness:
  "\<exists>n s'. (probe_step ^^ n) (example_probe_started (Cancellable (Some (ErrNew ''context canceled''))) AwaitingDone Serving) s' \<and> probe_stopped s'"
  by (rule conjunct1 [OF probe_server_stops [OF example_probe_reachable]])
    (simp_all add: example_probe_started_def StartProbeServer_def)

section \<open>The server that is never shut down\<close>

text \<open>The second goroutine has returned without a server to shut down.\<close>

definition probe_leaked :: "probe_state \<Rightarrow> bool" where
  "probe_leaked s \<longleftrightarrow> ps_stop s = StopReturned \<and> \<not> probe_closing s"

lemma probe_leaked_step: "probe_leaked s \<Longrightarrow> probe_step s s' \<or> probe_env s s' \<Longrightarrow> probe_leaked s'"
  by (auto elim!: probe_stepE probe_envE simp: probe_leaked_def probe_closing_def dest: probe_http_server_closing)

lemma probe_reachable_steps:
  "(\<lambda>t t'. probe_step t t' \<or> probe_env t t')\<^sup>*\<^sup>* s s' \<Longrightarrow> probe_reachable o' s \<Longrightarrow> probe_reachable o' s'"
  by (induction rule: rtranclp_induct) (auto intro: probe_own probe_done)

lemma probe_never_panics:
  assumes "probe_reachable o' s" and "ServerOptions_Path o' \<noteq> ''''"
  shows "ps_run s \<noteq> RunPanicked"
  using assms
proof (induction rule: probe_reachable.induct)
  case (probe_own s s')
  then have "ps_options s = o'" using probe_reachable_inv by (auto simp: probe_inv_def)
  then show ?case
    using probe_own by (auto elim!: probe_stepE simp: probe_http_server_def)
qed (auto simp: StartProbeServer_def elim!: probe_envE)

text \<open>The first goroutine returns because its server was closed, or else after an unexpected error.\<close>

lemma probe_returned:
  "probe_reachable o' s \<Longrightarrow> ps_run s = RunReturned \<Longrightarrow> \<not> probe_closing s \<Longrightarrow> \<exists>e. ProbeFailed e \<in> set (ps_log s)"
proof (induction rule: probe_reachable.induct)
  case (probe_own s s')
  from probe_own.hyps(2) probe_own.prems show ?case
    using probe_own.IH
    by (elim probe_stepE) (auto simp: probe_ended_def probe_closing_def split: option.split)
next
  case (probe_done s s')
  then show ?case by (auto elim!: probe_envE simp: probe_closing_def)
qed (simp add: StartProbeServer_def)

text \<open>From where the server is being made, it can come to serve.\<close>

lemma probe_can_serve:
  assumes "probe_reachable o' s" and "ServerOptions_Path o' \<noteq> ''''" and "ps_server s = None"
  shows "\<exists>s'. (\<lambda>t t'. probe_step t t' \<or> probe_env t t')\<^sup>*\<^sup>* s s' \<and> ps_run s' = Serving"
proof -
  obtain srv where srv: "probe_http_server o' = Ret srv" using assms(2) by (simp add: probe_http_server_def)
  have "ps_options s = o'" "ps_run s = MakingServer"
    using probe_reachable_inv [OF assms(1)] assms(3) probe_never_panics [OF assms(1,2)] by (auto simp: probe_inv_def)
  then obtain s1 where s1: "probe_step s s1" "ps_run s1 = Listening" "ps_server s1 = Some srv"
    using probe_step.run_starts [of s srv] srv by force
  have "\<not> probe_closing s1" using s1(3) probe_http_server_closing [OF srv] by (simp add: probe_closing_def)
  then have "probe_step s1 (s1\<lparr>ps_run := Serving\<rparr>)" using s1(2) by (intro probe_step.run_serves)
  with s1(1) have "(\<lambda>t t'. probe_step t t' \<or> probe_env t t')\<^sup>*\<^sup>* s (s1\<lparr>ps_run := Serving\<rparr>)"
    by - (rule converse_rtranclp_into_rtranclp [where b = s1], simp, rule r_into_rtranclp, simp)
  then show ?thesis by (intro exI [of _ "s1\<lparr>ps_run := Serving\<rparr>"]) simp
qed

text \<open>Under a context that cannot end, the second goroutine waits whatever happens.\<close>

lemma probe_awaits:
  assumes "(\<lambda>t t'. probe_step t t' \<or> probe_env t t')\<^sup>*\<^sup>* (StartProbeServer Background o') s"
  shows "ps_stop s = AwaitingDone"
proof -
  have "ps_ctx s = Background"
    using assms by (induction rule: rtranclp_induct) (auto simp: StartProbeServer_def elim!: probe_stepE probe_envE)
  moreover have "probe_reachable o' s" using assms probe_reachable_steps probe_init by blast
  ultimately show ?thesis using probe_reachable_inv [of o' s] by (auto simp: probe_inv_def)
qed

text \<open>
  C15. The probe server can outlive the context. What decides is whether the first goroutine has
  assigned the server when the second one, woken by the end of the context, looks for it (if it
  has, C14 applies). If it has not, the second goroutine returns, and this can happen for every
  valid path. From then on the server is never shut down, whatever steps the program and its
  environment take: it is never closing, that it was closed is never logged, and its goroutine
  ends only after an unexpected error. And it is started all the same: from every such state one
  is reachable in which it serves.
\<close>

theorem probe_server_outlives_context:
  assumes "ServerOptions_Path o' \<noteq> ''''"
  shows "(\<exists>s. probe_reachable o' s \<and> ps_done s \<and> ps_stop s = StopReturned \<and> ps_server s = None) \<and>
    (\<forall>s s'. probe_reachable o' s \<and> ps_server s = None \<and> probe_step s s' \<and> ps_stop s' \<noteq> ps_stop s \<longrightarrow>
       ps_stop s' = StopReturned \<and> ps_server s' = None) \<and>
    (\<forall>s s'. probe_reachable o' s \<and> ps_stop s = StopReturned \<and> ps_server s = None \<and>
        (\<lambda>t t'. probe_step t t' \<or> probe_env t t')\<^sup>*\<^sup>* s s' \<longrightarrow>
       \<not> probe_closing s' \<and> ProbeClosed \<notin> set (ps_log s') \<and>
       (ps_run s' = RunReturned \<longrightarrow> (\<exists>e. ProbeFailed e \<in> set (ps_log s')))) \<and>
    (\<forall>s. probe_reachable o' s \<and> ps_stop s = StopReturned \<and> ps_server s = None \<longrightarrow>
       (\<exists>s'. (\<lambda>t t'. probe_step t t' \<or> probe_env t t')\<^sup>*\<^sup>* s s' \<and> ps_run s' = Serving))"
proof (intro conjI allI impI; (elim conjE)?)
  define s0 where "s0 = StartProbeServer (Cancellable (Some (ErrNew ''context canceled''))) o'"
  have "probe_step s0 (s0\<lparr>ps_stop := StopReturned\<rparr>)"
    by (rule probe_step.stop_skips) (simp_all add: s0_def StartProbeServer_def)
  then have "probe_reachable o' (s0\<lparr>ps_stop := StopReturned\<rparr>)"
    using probe_init probe_own unfolding s0_def by blast
  then show "\<exists>s. probe_reachable o' s \<and> ps_done s \<and> ps_stop s = StopReturned \<and> ps_server s = None"
    by (rule exI [where x = "s0\<lparr>ps_stop := StopReturned\<rparr>", OF conjI]) (simp add: s0_def StartProbeServer_def)
next
  fix s s' assume s: "probe_reachable o' s" "ps_server s = None" and "probe_step s s'" "ps_stop s' \<noteq> ps_stop s"
  moreover have "ps_stop s \<noteq> ShuttingDown"
    using probe_reachable_inv [OF s(1)] s(2) by (auto simp: probe_inv_def probe_closing_def)
  ultimately show "ps_stop s' = StopReturned" "ps_server s' = None" by (auto elim!: probe_stepE)
next
  fix s s' assume steps: "(\<lambda>t t'. probe_step t t' \<or> probe_env t t')\<^sup>*\<^sup>* s s'" and s: "probe_reachable o' s"
    and "ps_stop s = StopReturned" "ps_server s = None"
  then have "probe_leaked s" by (simp add: probe_leaked_def probe_closing_def)
  with steps have "probe_leaked s'"
    by (induction rule: rtranclp_induct) (auto dest: probe_leaked_step)
  moreover have r: "probe_reachable o' s'" using steps s by (rule probe_reachable_steps)
  ultimately show never: "\<not> probe_closing s'" and "ProbeClosed \<notin> set (ps_log s')"
    using probe_reachable_inv [OF r] by (auto simp: probe_inv_def probe_leaked_def)
  show "\<exists>e. ProbeFailed e \<in> set (ps_log s')" if "ps_run s' = RunReturned"
    using probe_returned [OF r that never] .
next
  show "\<exists>s'. (\<lambda>t t'. probe_step t t' \<or> probe_env t t')\<^sup>*\<^sup>* s s' \<and> ps_run s' = Serving"
    if "probe_reachable o' s" "ps_server s = None" for s
    using that assms by (intro probe_can_serve)
qed

theorem probe_server_outlives_context_witness:
  "\<exists>s s'. probe_reachable DefaultProbeServerOptions s \<and> ps_done s \<and>
     (\<lambda>t t'. probe_step t t' \<or> probe_env t t')\<^sup>*\<^sup>* s s' \<and> ps_run s' = Serving \<and> \<not> probe_closing s'"
proof -
  have "ServerOptions_Path DefaultProbeServerOptions \<noteq> ''''" by simp
  note outlives = probe_server_outlives_context [OF this]
  then obtain s where s: "probe_reachable DefaultProbeServerOptions s" "ps_done s" "ps_stop s = StopReturned" "ps_server s = None"
    by blast
  with outlives obtain s' where "(\<lambda>t t'. probe_step t t' \<or> probe_env t t')\<^sup>*\<^sup>* s s'" "ps_run s' = Serving" by blast
  moreover from this s outlives have "\<not> probe_closing s'" by blast
  ultimately show ?thesis using s by blast
qed

end
