(* ===== verification/Startup.thy ===== *)
theory Startup
  imports Controller Callbacks Probe_Server
begin

text \<open>
  From \<open>main\<close> to the running controller: \<^verbatim>\<open>cmd/fgateway/main.go\<close>,
  \<^verbatim>\<open>internal/cli/fgateway/cmd.go\<close>, \<^verbatim>\<open>run.go\<close>, \<^verbatim>\<open>controlplane.go\<close> and \<^verbatim>\<open>logging.go\<close> of
  \<^verbatim>\<open>internal/fgateway\<close>, \<^verbatim>\<open>krtutil/options.go\<close> and
  \<^verbatim>\<open>extension/settings/settings.go\<close>.

  Start-up is a sequence of calls into libraries, any of which may fail. The model records the
  calls made, in order (\<open>start_event\<close>), and keeps the state that later calls depend on; what the
  libraries answer is the parameter \<open>start_lib\<close>, and the context is passed
  along from the command to the manager's \<open>Start\<close>.
\<close>

section \<open>Options of krt collections, settings\<close>

record KrtOptions =
  KrtOptions_Stop :: opaque
  KrtOptions_Debugger :: "opaque option"

datatype CollectionOption = WithName string | WithDebugging "opaque option" | WithStop opaque

definition NewKrtOptions :: "opaque \<Rightarrow> opaque option \<Rightarrow> KrtOptions" where
  "NewKrtOptions stop debugger = \<lparr>KrtOptions_Stop = stop, KrtOptions_Debugger = debugger\<rparr>"

definition ApplyTo :: "KrtOptions \<Rightarrow> string \<Rightarrow> CollectionOption list" where
  "ApplyTo k name = [WithName name, WithDebugging (KrtOptions_Debugger k), WithStop (KrtOptions_Stop k)]"

record Settings =
  Settings_EnableIstioIntegration :: bool
  Settings_EnableAutoMTLS :: bool
  Settings_StsClusterName :: string
  Settings_StsUri :: string

definition Settings_zero :: Settings where
  "Settings_zero = \<lparr>Settings_EnableIstioIntegration = False, Settings_EnableAutoMTLS = False,
     Settings_StsClusterName = '''', Settings_StsUri = ''''\<rparr>"

text \<open>\<open>Process\<close> is \<open>envconfig.Process\<close>: the error, or the settings as it leaves them.\<close>

definition BuildSettings :: "(string \<Rightarrow> Settings \<Rightarrow> go_error + Settings) \<Rightarrow> go_error + Settings" where
  "BuildSettings Process = (case Process ''FGW'' Settings_zero of Inl err \<Rightarrow> Inl err | Inr settings \<Rightarrow> Inr settings)"

section \<open>Logging\<close>

text \<open>
  \<open>SetupLogging\<close>: the level the logger gets. \<open>LogLevelEnvName\<close> is a constant of a library and
  \<open>levelSet\<close> the level's \<open>Set\<close>, \<open>None\<close> where it fails and leaves the level as it was.
\<close>

definition SetupLogging :: "string \<Rightarrow> (string \<Rightarrow> string option) \<Rightarrow> env \<Rightarrow> string" where
  "SetupLogging LogLevelEnvName levelSet env =
     (let level = ''info''; envLogLevel = Getenv env LogLevelEnvName
      in if envLogLevel \<noteq> '''' then (case levelSet envLogLevel of Some l \<Rightarrow> l | None \<Rightarrow> level) else level)"

section \<open>Start-up\<close>

datatype xds_service = EDS | CDS | RDS | LDS | ADS

datatype start_event =
    EvSetupLogging string
  | EvProbeServer probe_state
  | EvGetConfig
  | EvNewSnapshotCache bool
  | EvReflection
  | EvListen int
  | EvRegister xds_service
  | EvServe
  | EvStopOnDone \<comment> \<open>the goroutine that stops the server when the context ends\<close>
  | EvCreateClient string
  | EvEnableCrdWatcher
  | EvNewPods
  | EvBuildCollection bool
  | EvNewManager bool
  | EvRunAndWait
  | EvStartManager manager

record start_lib =
  sl_LogLevelEnvName :: string
  sl_levelSet :: "string \<Rightarrow> string option"
  sl_GetServiceHostname :: "string \<Rightarrow> string \<Rightarrow> string"
  sl_GetConfig :: "opaque option" \<comment> \<open>\<open>None\<close> where \<open>GetConfigOrDie\<close> exits\<close>
  sl_Listen :: "int \<Rightarrow> go_error option"
  sl_NewClient :: "opaque \<Rightarrow> string \<Rightarrow> go_error + opaque"
  sl_NewManager :: "opaque \<Rightarrow> ManagerOptions \<Rightarrow> go_error option"
  sl_manager :: manager_lib

record process =
  proc_trace :: "start_event list"
  proc_callbacks :: callbacks

definition emit :: "start_event list \<Rightarrow> process \<Rightarrow> process" where
  "emit evs p = p\<lparr>proc_trace := proc_trace p @ evs\<rparr>"

definition createIstioClient :: "start_lib \<Rightarrow> opaque \<Rightarrow> string \<Rightarrow> process \<Rightarrow> (go_error + opaque) \<times> process" where
  "createIstioClient lib restConfig clusterId p =
     (case sl_NewClient lib restConfig clusterId of
        Inl err \<Rightarrow> (Inl err, emit [EvCreateClient clusterId] p)
      | Inr client \<Rightarrow> (Inr client, emit [EvCreateClient clusterId, EvEnableCrdWatcher] p))"

text \<open>The snapshot cache is made for aggregated discovery and is what both functions return.\<close>

definition NewControlPlaneWithListener :: "process \<Rightarrow> opaque \<times> process" where
  "NewControlPlaneWithListener p = (Opaque ''snapshotCache'',
     emit [EvNewSnapshotCache True, EvReflection, EvRegister EDS, EvRegister CDS, EvRegister RDS, EvRegister LDS,
       EvRegister ADS, EvServe, EvStopOnDone] p)"

definition NewControlPlane :: "start_lib \<Rightarrow> int \<Rightarrow> process \<Rightarrow> (go_error + opaque) \<times> process" where
  "NewControlPlane lib port p =
     (case sl_Listen lib port of
        Some err \<Rightarrow> (Inl err, emit [EvListen port] p)
      | None \<Rightarrow> (case NewControlPlaneWithListener (emit [EvListen port] p) of (cache, p) \<Rightarrow> (Inr cache, p)))"

definition startControlPlane :: "start_lib \<Rightarrow> process \<Rightarrow> (go_error + opaque) \<times> process" where
  "startControlPlane lib p = NewControlPlane lib 9000 p"

definition startFgatewayWithConfig ::
  "start_lib \<Rightarrow> env \<Rightarrow> go_context \<Rightarrow> opaque \<Rightarrow> StartOptions \<Rightarrow> process \<Rightarrow> (go_error option \<times> process) exec" where
  "startFgatewayWithConfig lib env ctx restConfig startOpts p =
     (case createIstioClient lib restConfig (GetClusterID env) p of
        (Inl err, p) \<Rightarrow> Ret (Some err, p)
      | (Inr istioClient, p) \<Rightarrow>
         (let usePods = (\<not> IsEnvTruthy env ''DISABLE_POD_LOCALITY_XDS'');
              p = emit [EvNewPods, EvBuildCollection usePods]
                    (p\<lparr>proc_callbacks := buildCollection (proc_callbacks p) usePods\<rparr>);
              dev = (Getenv env ''LOG_LEVL'' = ''debug'');
              p = emit [EvNewManager dev] p
          in case NewControllerBuilder (sl_NewManager lib) \<lparr>StartConfig_Dev = dev, StartConfig_StartOpts = Some startOpts,
                    StartConfig_RestConfig = restConfig, StartConfig_rest = istioClient\<rparr> of
               Inl err \<Rightarrow> Ret (Some err, p)
             | Inr c \<Rightarrow>
                exec_bind (Start (sl_manager lib) (ctx_Err ctx) c)
                  (\<lambda>(err, started). Ret (err,
                     emit (EvRunAndWait # (case started of None \<Rightarrow> [] | Some mgr \<Rightarrow> [EvStartManager mgr])) p))))"

text \<open>
  \<open>startFgateway\<close>. \<open>ctrl.GetConfigOrDie\<close> ends the process where there is no configuration; like a
  panic, nothing of the program runs after it.
\<close>

definition startFgateway :: "start_lib \<Rightarrow> env \<Rightarrow> go_context \<Rightarrow> process \<Rightarrow> (go_error option \<times> process) exec" where
  "startFgateway lib env ctx p =
     (case sl_GetConfig lib of
        None \<Rightarrow> Panic ''exit: unable to get kubeconfig''
      | Some restConfig \<Rightarrow>
         (let p = (emit [EvGetConfig] p)\<lparr>proc_callbacks := NewUniquelyConnectedClients\<rparr>
          in case startControlPlane lib p of
               (Inl err, p) \<Rightarrow> Ret (Some err, p)
             | (Inr cache, p) \<Rightarrow>
                 startFgatewayWithConfig lib env ctx restConfig
                   \<lparr>StartOptions_Cache = cache, StartOptions_KrtDebugger = Some (Opaque ''DebugHandler''),
                    StartOptions_XdsHost = GetServiceFQDN (sl_GetServiceHostname lib) FgatewayServiceName (GetPodNamespace env),
                    StartOptions_XdsPort = 9000\<rparr> p))"

definition Run :: "start_lib \<Rightarrow> env \<Rightarrow> go_context \<Rightarrow> process \<Rightarrow> (go_error option \<times> process) exec" where
  "Run lib env ctx p = startFgateway lib env ctx
     (emit [EvSetupLogging (SetupLogging (sl_LogLevelEnvName lib) (sl_levelSet lib) env)] p)"

text \<open>
  The command's \<open>RunE\<close>, with the version flag: what it prints, the error it returns, and the
  process. The context for the probe server and the rest is \<open>context.Background()\<close>.
\<close>

definition cmd_RunE ::
  "start_lib \<Rightarrow> env \<Rightarrow> version_vars \<Rightarrow> bool \<Rightarrow> process \<Rightarrow> (string option \<times> go_error option \<times> process) exec" where
  "cmd_RunE lib env vars fgatewayVersion p =
     (if fgatewayVersion then exec_bind (version_String vars) (\<lambda>v. Ret (Some v, None, p))
      else let ctx = Background
        in exec_bind (Run lib env ctx (emit [EvProbeServer (StartLivenessProbeServer ctx)] p))
          (\<lambda>(err, p). Ret (None, case err of None \<Rightarrow> None | Some e \<Rightarrow> Some (ErrFmt ''failed to run fgateway: '' e), p)))"

text \<open>
  \<open>main\<close>: the status the process exits with, with what was printed and the process. Cobra's
  reading of the command line is the parameter \<open>flags\<close>: its error, or the version flag.
\<close>

definition main_exit ::
  "start_lib \<Rightarrow> env \<Rightarrow> version_vars \<Rightarrow> go_error + bool \<Rightarrow> process \<Rightarrow> (int \<times> string option \<times> process) exec" where
  "main_exit lib env vars flags p =
     (case flags of
        Inl err \<Rightarrow> Ret (1, None, p)
      | Inr fgatewayVersion \<Rightarrow> exec_bind (cmd_RunE lib env vars fgatewayVersion p)
          (\<lambda>(out, err, p). Ret (if err = None then 0 else 1, out, p)))"

section \<open>Properties\<close>

definition pods_used :: "env \<Rightarrow> bool" where
  "pods_used env \<longleftrightarrow> Getenv env ''DISABLE_POD_LOCALITY_XDS'' \<notin> {''1'', ''t'', ''T'', ''TRUE'', ''true'', ''True''}"

lemma pods_used_iff: "(\<not> IsEnvTruthy env ''DISABLE_POD_LOCALITY_XDS'') = pods_used env"
  by (auto simp: pods_used_def IsEnvTruthy_def IsTruthyValue_def ParseBool_def)

text \<open>The calls of a complete start-up, up to the start of the manager.\<close>

definition startup_calls :: "start_lib \<Rightarrow> env \<Rightarrow> start_event list" where
  "startup_calls lib env =
     [EvSetupLogging (SetupLogging (sl_LogLevelEnvName lib) (sl_levelSet lib) env), EvGetConfig, EvListen 9000,
      EvNewSnapshotCache True, EvReflection, EvRegister EDS, EvRegister CDS, EvRegister RDS, EvRegister LDS, EvRegister ADS,
      EvServe, EvStopOnDone, EvCreateClient (GetClusterID env), EvEnableCrdWatcher, EvNewPods, EvBuildCollection (pods_used env),
      EvNewManager (Getenv env ''LOG_LEVL'' = ''debug''), EvRunAndWait]"

lemma Start_returns:
  assumes "StartConfig_StartOpts (cb_cfg c) = Some opts"
  shows "\<exists>err started. Start lib ctxErr c = Ret (err, started)"
  using assms by (auto simp: Start_def NewBaseGatewayController_def watchGatewayClass_def addGatewayParamsIndex_def
      Complete_def Let_def split: option.split)

text \<open>A manager that runs the GatewayClass controller alone, with an empty scheme.\<close>

definition serves_classes_only :: "manager \<Rightarrow> bool" where
  "serves_classes_only mgr \<longleftrightarrow> map reg_For (mgr_controllers mgr) = [TGatewayClass] \<and>
     map reg_Reconciler (mgr_controllers mgr) = [ReconcileGatewayClassFunc] \<and>
     mgr_indexes mgr = [(TGateway, GatewayParamsField)] \<and> mo_Scheme (mgr_options mgr) = []"

text \<open>What a start-up that made the calls \<open>evs\<close> and then \<open>started\<close> has done.\<close>

definition startup_outcome ::
  "start_lib \<Rightarrow> env \<Rightarrow> process \<Rightarrow> (go_error option \<times> process) exec \<Rightarrow> start_event list \<Rightarrow> start_event list \<Rightarrow> bool" where
  "startup_outcome lib env p r evs started \<longleftrightarrow>
     (\<exists>err p'. r = Ret (err, p') \<and> proc_trace p' = proc_trace p @ evs @ started \<and>
       prefix evs (startup_calls lib env) \<and>
       (started = [] \<or> evs = startup_calls lib env \<and>
          (\<exists>mgr. started = [EvStartManager mgr] \<and> serves_classes_only mgr \<and> err = mgrlib_Start (sl_manager lib) mgr)) \<and>
       cb_collection (proc_callbacks p') =
         (if EvBuildCollection (pods_used env) \<in> set evs then Some (new_collection (pods_used env)) else None))"

lemmas startup_defs = startup_outcome_def Run_def startFgateway_def startControlPlane_def NewControlPlane_def
  NewControlPlaneWithListener_def startFgatewayWithConfig_def createIstioClient_def emit_def Let_def
  NewUniquelyConnectedClients_def buildCollection_def NewControllerBuilder_def pods_used_iff startup_calls_def

lemma Run_outcome:
  assumes cfg: "sl_GetConfig lib = Some cfg"
  shows "\<exists>evs started. startup_outcome lib env p (Run lib env ctx p) evs started"
proof -
  consider e where "sl_Listen lib 9000 = Some e"
    | e where "sl_Listen lib 9000 = None" "sl_NewClient lib cfg (GetClusterID env) = Inl e"
    | e cl where "sl_Listen lib 9000 = None" "sl_NewClient lib cfg (GetClusterID env) = Inr cl"
        "sl_NewManager lib cfg manager_options = Some e"
    | cl where "sl_Listen lib 9000 = None" "sl_NewClient lib cfg (GetClusterID env) = Inr cl"
        "sl_NewManager lib cfg manager_options = None"
    by (metis not_None_eq sum.exhaust)
  then show ?thesis
  proof cases
    case 1
    then have "startup_outcome lib env p (Run lib env ctx p) (take 3 (startup_calls lib env)) []"
      by (simp add: startup_defs cfg)
    then show ?thesis by blast
  next
    case 2
    then have "startup_outcome lib env p (Run lib env ctx p) (take 13 (startup_calls lib env)) []"
      by (simp add: startup_defs cfg)
    then show ?thesis by blast
  next
    case 3
    then have "startup_outcome lib env p (Run lib env ctx p) (take 17 (startup_calls lib env)) []"
      by (simp add: startup_defs cfg)
    then show ?thesis by blast
  next
    case (4 cl)
    define c where "c = \<lparr>cb_cfg = \<lparr>StartConfig_Dev = (Getenv env ''LOG_LEVL'' = ''debug''),
        StartConfig_StartOpts = Some \<lparr>StartOptions_Cache = Opaque ''snapshotCache'', StartOptions_KrtDebugger = Some (Opaque ''DebugHandler''),
          StartOptions_XdsHost = GetServiceFQDN (sl_GetServiceHostname lib) FgatewayServiceName (GetPodNamespace env),
          StartOptions_XdsPort = 9000\<rparr>, StartConfig_RestConfig = cfg, StartConfig_rest = cl\<rparr>,
        cb_mgr = \<lparr>mgr_options = manager_options, mgr_healthz = [''ping-ready''], mgr_controllers = [], mgr_indexes = []\<rparr>,
        cb_isOurGateway = None\<rparr>"
    obtain err started where st: "Start (sl_manager lib) (ctx_Err ctx) c = Ret (err, started)"
      using Start_returns [of c] unfolding c_def by simp blast
    have "startup_outcome lib env p (Run lib env ctx p) (startup_calls lib env)
        (case started of None \<Rightarrow> [] | Some mgr \<Rightarrow> [EvStartManager mgr])"
    proof (cases started)
      case None
      then show ?thesis using 4 st [unfolded c_def] by (simp add: startup_defs cfg)
    next
      case (Some mgr)
      have "NewControllerBuilder (\<lambda>_ _. None) (cb_cfg c) = Inr c"
        by (simp add: NewControllerBuilder_def c_def Let_def)
      from Start_registers_no_gateway_controller [OF this st [unfolded Some]]
      have "serves_classes_only mgr" and "err = mgrlib_Start (sl_manager lib) mgr"
        by (simp_all add: serves_classes_only_def)
      then show ?thesis using 4 st [unfolded c_def] Some by (simp add: startup_defs cfg)
    qed
    then show ?thesis by blast
  qed
qed

text \<open>
  C40. Start-up ends the process where there is no configuration and otherwise always returns; the
  calls it makes are an initial part of the fixed sequence that ends with the cache sync, followed
  only after all of it by the start of the manager. The callbacks serve from a fresh registry
  exactly from the point where the collection is built, and it uses pods unless that is disabled
  in the environment.
\<close>

theorem Run_sequence:
  "case sl_GetConfig lib of
     None \<Rightarrow> \<not> returns (Run lib env ctx p)
   | Some cfg \<Rightarrow> \<exists>err p' evs started. Run lib env ctx p = Ret (err, p') \<and> proc_trace p' = proc_trace p @ evs @ started \<and>
       prefix evs (startup_calls lib env) \<and>
       (started = [] \<or> evs = startup_calls lib env \<and> (\<exists>mgr. started = [EvStartManager mgr])) \<and>
       cb_collection (proc_callbacks p') =
         (if EvBuildCollection (pods_used env) \<in> set evs then Some (new_collection (pods_used env)) else None)"
proof (cases "sl_GetConfig lib")
  case None
  then show ?thesis by (simp add: Run_def startFgateway_def)
next
  case (Some cfg)
  show ?thesis using Run_outcome [OF Some, of env p ctx] unfolding startup_outcome_def Some option.case by blast
qed

end
