(* ===== verification/Clientset.thy ===== *)
theory Clientset
  imports Schemes
begin

text \<open>
  The typed clients of \<^verbatim>\<open>pkg/fgateway/generated/clientset/versioned\<close>: how a \<open>rest.Config\<close> becomes the
  clients of the group and of discovery, and what the client of one namespace asks the server for.

  The REST, discovery and flow-control packages are the parameter \<open>rest_lib\<close>; an HTTP client, a
  codec and a rate limiter are values the code only passes on.
\<close>

section \<open>Client configuration\<close>

text \<open>A \<open>float32\<close>: the code compares it with zero only.\<close>

datatype float32 = Finite int int | PosInf | NegInf | NaN

fun float_positive :: "float32 \<Rightarrow> bool" where
  "float_positive (Finite mantissa _) \<longleftrightarrow> 0 < mantissa"
| "float_positive PosInf \<longleftrightarrow> True"
| "float_positive NegInf \<longleftrightarrow> False"
| "float_positive NaN \<longleftrightarrow> False"

text \<open>The fields of \<open>rest.Config\<close> the code reads or writes; \<open>Config_rest\<close> stands for the others.\<close>

record rest_Config =
  Config_UserAgent :: string
  Config_APIPath :: string
  Config_GroupVersion :: "GroupVersion option"
  Config_NegotiatedSerializer :: "opaque option"
  Config_RateLimiter :: "opaque option"
  Config_QPS :: float32
  Config_Burst :: int
  Config_rest :: opaque

text \<open>
  What the code calls in the client libraries. A REST client and a discovery client are values
  of the libraries, of the types \<open>'r\<close> and \<open>'d\<close>.
\<close>

record ('r, 'd) rest_lib =
  rl_DefaultKubernetesUserAgent :: string
  rl_codec :: opaque
  rl_HTTPClientFor :: "rest_Config \<Rightarrow> go_error + opaque"
  rl_RESTClientForConfigAndClient :: "rest_Config \<Rightarrow> opaque \<Rightarrow> go_error + 'r"
  rl_NewDiscoveryClientForConfigAndClient :: "rest_Config \<Rightarrow> opaque \<Rightarrow> go_error + 'd"
  rl_NewDiscoveryClient :: "'r \<Rightarrow> 'd"
  rl_NewTokenBucketRateLimiter :: "float32 \<Rightarrow> int \<Rightarrow> opaque"

section \<open>The client of the group\<close>

record 'r FgatewayV1alpha1Client =
  restClient :: 'r

definition setConfigDefaults :: "('r, 'd) rest_lib \<Rightarrow> rest_Config \<Rightarrow> go_error option \<times> rest_Config" where
  "setConfigDefaults lib config =
     (let gv = SchemeGroupVersion;
          config = config\<lparr>Config_GroupVersion := Some gv\<rparr>;
          config = config\<lparr>Config_APIPath := ''/apis''\<rparr>;
          config = config\<lparr>Config_NegotiatedSerializer := Some (rl_codec lib)\<rparr>;
          config = (if Config_UserAgent config = ''''
                    then config\<lparr>Config_UserAgent := rl_DefaultKubernetesUserAgent lib\<rparr> else config)
      in (None, config))"

definition v1alpha1_NewForConfigAndClient ::
  "('r, 'd) rest_lib \<Rightarrow> rest_Config \<Rightarrow> opaque \<Rightarrow> go_error + 'r FgatewayV1alpha1Client" where
  "v1alpha1_NewForConfigAndClient lib c h =
     (case setConfigDefaults lib c of
        (Some err, _) \<Rightarrow> Inl err
      | (None, config) \<Rightarrow>
         (case rl_RESTClientForConfigAndClient lib config h of
            Inl err \<Rightarrow> Inl err
          | Inr client \<Rightarrow> Inr \<lparr>restClient = client\<rparr>))"

definition v1alpha1_NewForConfig ::
  "('r, 'd) rest_lib \<Rightarrow> rest_Config \<Rightarrow> go_error + 'r FgatewayV1alpha1Client" where
  "v1alpha1_NewForConfig lib c =
     (case setConfigDefaults lib c of
        (Some err, _) \<Rightarrow> Inl err
      | (None, config) \<Rightarrow>
         (case rl_HTTPClientFor lib config of
            Inl err \<Rightarrow> Inl err
          | Inr httpClient \<Rightarrow> v1alpha1_NewForConfigAndClient lib config httpClient))"

definition v1alpha1_NewForConfigOrDie ::
  "('r, 'd) rest_lib \<Rightarrow> rest_Config \<Rightarrow> 'r FgatewayV1alpha1Client exec" where
  "v1alpha1_NewForConfigOrDie lib c =
     (case v1alpha1_NewForConfig lib c of Inl err \<Rightarrow> Panic ''NewForConfigOrDie'' | Inr client \<Rightarrow> Ret client)"

definition v1alpha1_New :: "'r \<Rightarrow> 'r FgatewayV1alpha1Client" where
  "v1alpha1_New c = \<lparr>restClient = c\<rparr>"

text \<open>The receiver may be nil, which the method answers with a nil interface.\<close>

definition RESTClient :: "'r FgatewayV1alpha1Client option \<Rightarrow> 'r option" where
  "RESTClient c = (case c of None \<Rightarrow> None | Some c \<Rightarrow> Some (restClient c))"

text \<open>
  The client of one namespace: what \<open>gentype.NewClientWithList\<close> is given, without the codec and
  the two constructors of empty objects.
\<close>

record 'r gatewayParameterses =
  gp_resource :: string
  gp_client :: "'r option"
  gp_namespace :: string

definition newGatewayParameterses :: "'r FgatewayV1alpha1Client option \<Rightarrow> string \<Rightarrow> 'r gatewayParameterses" where
  "newGatewayParameterses c namespace =
     \<lparr>gp_resource = ''gatewayparameterses'', gp_client = RESTClient c, gp_namespace = namespace\<rparr>"

definition GatewayParameterses :: "'r FgatewayV1alpha1Client option \<Rightarrow> string \<Rightarrow> 'r gatewayParameterses" where
  "GatewayParameterses c namespace = newGatewayParameterses c namespace"

section \<open>The clientset\<close>

record ('r, 'd) Clientset =
  DiscoveryClient :: 'd
  fgatewayV1alpha1 :: "'r FgatewayV1alpha1Client option"

definition FgatewayV1alpha1 :: "('r, 'd) Clientset \<Rightarrow> 'r FgatewayV1alpha1Client option" where
  "FgatewayV1alpha1 c = fgatewayV1alpha1 c"

definition Discovery :: "('r, 'd) Clientset option \<Rightarrow> 'd option" where
  "Discovery c = (case c of None \<Rightarrow> None | Some c \<Rightarrow> Some (DiscoveryClient c))"

definition burst_error :: go_error where
  "burst_error = ErrNew ''burst is required to be greater than 0 when RateLimiter is not set and QPS is set to greater than 0''"

text \<open>The token bucket both clients share when the configuration has no rate limiter.\<close>

definition set_RateLimiter :: "('r, 'd) rest_lib \<Rightarrow> rest_Config \<Rightarrow> go_error + rest_Config" where
  "set_RateLimiter lib c =
     (if Config_RateLimiter c = None \<and> float_positive (Config_QPS c)
      then if Config_Burst c \<le> 0 then Inl burst_error
           else Inr (c\<lparr>Config_RateLimiter :=
                  Some (rl_NewTokenBucketRateLimiter lib (Config_QPS c) (Config_Burst c))\<rparr>)
      else Inr c)"

definition Clientset_NewForConfigAndClient ::
  "('r, 'd) rest_lib \<Rightarrow> rest_Config \<Rightarrow> opaque \<Rightarrow> go_error + ('r, 'd) Clientset" where
  "Clientset_NewForConfigAndClient lib c httpClient =
     (case set_RateLimiter lib c of
        Inl err \<Rightarrow> Inl err
      | Inr configShallowCopy \<Rightarrow>
         (case v1alpha1_NewForConfigAndClient lib configShallowCopy httpClient of
            Inl err \<Rightarrow> Inl err
          | Inr fg \<Rightarrow>
             (case rl_NewDiscoveryClientForConfigAndClient lib configShallowCopy httpClient of
                Inl err \<Rightarrow> Inl err
              | Inr disc \<Rightarrow> Inr \<lparr>DiscoveryClient = disc, fgatewayV1alpha1 = Some fg\<rparr>)))"

definition Clientset_NewForConfig :: "('r, 'd) rest_lib \<Rightarrow> rest_Config \<Rightarrow> go_error + ('r, 'd) Clientset" where
  "Clientset_NewForConfig lib c =
     (let configShallowCopy = (if Config_UserAgent c = ''''
            then c\<lparr>Config_UserAgent := rl_DefaultKubernetesUserAgent lib\<rparr> else c)
      in case rl_HTTPClientFor lib configShallowCopy of
           Inl err \<Rightarrow> Inl err
         | Inr httpClient \<Rightarrow> Clientset_NewForConfigAndClient lib configShallowCopy httpClient)"

definition Clientset_NewForConfigOrDie :: "('r, 'd) rest_lib \<Rightarrow> rest_Config \<Rightarrow> ('r, 'd) Clientset exec" where
  "Clientset_NewForConfigOrDie lib c =
     (case Clientset_NewForConfig lib c of Inl err \<Rightarrow> Panic ''NewForConfigOrDie'' | Inr cs \<Rightarrow> Ret cs)"

definition Clientset_New :: "('r, 'd) rest_lib \<Rightarrow> 'r \<Rightarrow> ('r, 'd) Clientset" where
  "Clientset_New lib c = \<lparr>DiscoveryClient = rl_NewDiscoveryClient lib c, fgatewayV1alpha1 = Some (v1alpha1_New c)\<rparr>"

section \<open>What a clientset is built from\<close>

text \<open>
  The configuration the clients see: the user agent and the rate limiter are filled in where the
  caller left them empty, and nothing else changes.
\<close>

definition effective_config :: "('r, 'd) rest_lib \<Rightarrow> rest_Config \<Rightarrow> rest_Config" where
  "effective_config lib c = c\<lparr>
     Config_UserAgent := (if Config_UserAgent c = '''' then rl_DefaultKubernetesUserAgent lib else Config_UserAgent c),
     Config_RateLimiter := (if Config_RateLimiter c = None \<and> float_positive (Config_QPS c)
        then Some (rl_NewTokenBucketRateLimiter lib (Config_QPS c) (Config_Burst c)) else Config_RateLimiter c)\<rparr>"

definition group_config :: "('r, 'd) rest_lib \<Rightarrow> rest_Config \<Rightarrow> rest_Config" where
  "group_config lib c = (effective_config lib c)\<lparr>
     Config_GroupVersion := Some \<lparr>GV_Group = ''fgateway.fleezesd.io'', GV_Version = ''v1alpha1''\<rparr>,
     Config_APIPath := ''/apis'', Config_NegotiatedSerializer := Some (rl_codec lib)\<rparr>"

definition unlimited_burst :: "rest_Config \<Rightarrow> bool" where
  "unlimited_burst c \<longleftrightarrow> Config_RateLimiter c = None \<and> float_positive (Config_QPS c) \<and> Config_Burst c \<le> 0"

lemma set_RateLimiter_cases:
  "set_RateLimiter lib c = (if unlimited_burst c then Inl burst_error
     else Inr (c\<lparr>Config_RateLimiter := (if Config_RateLimiter c = None \<and> float_positive (Config_QPS c)
        then Some (rl_NewTokenBucketRateLimiter lib (Config_QPS c) (Config_Burst c)) else Config_RateLimiter c)\<rparr>))"
  by (auto simp: set_RateLimiter_def unlimited_burst_def)

lemma setConfigDefaults_group:
  assumes "Config_UserAgent c \<noteq> '''' \<or> rl_DefaultKubernetesUserAgent lib = ''''"
  shows "setConfigDefaults lib c = (None, c\<lparr>Config_GroupVersion := Some SchemeGroupVersion,
     Config_APIPath := ''/apis'', Config_NegotiatedSerializer := Some (rl_codec lib)\<rparr>)"
  using assms by (auto simp: setConfigDefaults_def Let_def)

lemma v1alpha1_NewForConfigAndClient_group:
  assumes "Config_UserAgent c \<noteq> '''' \<or> rl_DefaultKubernetesUserAgent lib = ''''"
  shows "v1alpha1_NewForConfigAndClient lib c h = case_sum Inl (\<lambda>r. Inr \<lparr>restClient = r\<rparr>)
     (rl_RESTClientForConfigAndClient lib (c\<lparr>Config_GroupVersion := Some SchemeGroupVersion,
        Config_APIPath := ''/apis'', Config_NegotiatedSerializer := Some (rl_codec lib)\<rparr>) h)"
  by (simp add: v1alpha1_NewForConfigAndClient_def setConfigDefaults_group [OF assms] split: sum.split)

text \<open>
  A clientset is built exactly when the HTTP client, the REST client of the group
  and the discovery client can all be built and the configuration does not ask for a rate limit
  with no burst. Both clients then share one HTTP client and one rate limiter, the group's client
  is configured for \<^verbatim>\<open>/apis/fgateway.fleezesd.io/v1alpha1\<close>, every other setting of the caller is
  kept, and a client of a namespace asks for \<^verbatim>\<open>gatewayparameterses\<close> through the group's client.
\<close>

theorem Clientset_NewForConfig_correct:
  "Clientset_NewForConfig lib c = Inr cs \<longleftrightarrow>
     \<not> unlimited_burst c \<and>
     (\<exists>h r d. rl_HTTPClientFor lib (c\<lparr>Config_UserAgent := Config_UserAgent (effective_config lib c)\<rparr>) = Inr h \<and>
        rl_RESTClientForConfigAndClient lib (group_config lib c) h = Inr r \<and>
        rl_NewDiscoveryClientForConfigAndClient lib (effective_config lib c) h = Inr d \<and>
        Discovery (Some cs) = Some d \<and>
        (\<forall>ns. GatewayParameterses (FgatewayV1alpha1 cs) ns =
           \<lparr>gp_resource = ''gatewayparameterses'', gp_client = Some r, gp_namespace = ns\<rparr>))"
proof -
  let ?ua = "c\<lparr>Config_UserAgent := Config_UserAgent (effective_config lib c)\<rparr>"
  have ua: "(if Config_UserAgent c = '''' then c\<lparr>Config_UserAgent := rl_DefaultKubernetesUserAgent lib\<rparr> else c) = ?ua"
    by (simp add: effective_config_def)
  have rate: "set_RateLimiter lib ?ua = (if unlimited_burst c then Inl burst_error else Inr (effective_config lib c))"
    by (simp add: set_RateLimiter_cases unlimited_burst_def effective_config_def)
  have agent: "Config_UserAgent (effective_config lib c) \<noteq> '''' \<or> rl_DefaultKubernetesUserAgent lib = ''''"
    by (simp add: effective_config_def)
  have group: "v1alpha1_NewForConfigAndClient lib (effective_config lib c) h =
      case_sum Inl (\<lambda>r. Inr \<lparr>restClient = r\<rparr>) (rl_RESTClientForConfigAndClient lib (group_config lib c) h)" for h
    by (simp add: v1alpha1_NewForConfigAndClient_group [OF agent] group_config_def SchemeGroupVersion_def)
  have clients: "Discovery (Some cs) = Some d \<and> (\<forall>ns. GatewayParameterses (FgatewayV1alpha1 cs) ns =
         \<lparr>gp_resource = ''gatewayparameterses'', gp_client = Some r, gp_namespace = ns\<rparr>) \<longleftrightarrow>
       cs = \<lparr>DiscoveryClient = d, fgatewayV1alpha1 = Some \<lparr>restClient = r\<rparr>\<rparr>" for r d
    by (cases cs, cases "fgatewayV1alpha1 cs")
      (auto simp: Discovery_def FgatewayV1alpha1_def GatewayParameterses_def newGatewayParameterses_def RESTClient_def)
  show ?thesis
    unfolding clients
    by (auto simp: Clientset_NewForConfig_def Clientset_NewForConfigAndClient_def Let_def ua rate group
        split: sum.splits if_splits)
qed

end
