(* ===== verification/Informers.thy ===== *)
theory Informers
  imports Clientset
begin

text \<open>
  The generated informers and listers, \<^verbatim>\<open>pkg/fgateway/generated/informers/externalversions\<close> and
  \<^verbatim>\<open>listers\<close>: the shared informer factory with its options, the typed and the generic access to
  its informers, and the goroutines it starts.

  An informer is an object with an identity: \<open>world\<close> keeps the informers created so far in
  \<open>w_informers\<close> and an informer value is its address there. \<open>Start\<close>, \<open>InformerFor\<close> and the flag
  of \<open>Shutdown\<close> run under the factory's lock, so each is one step; a goroutine ends without the
  lock, and \<open>Shutdown\<close> waits without it, so these are steps of their own. What
  \<^verbatim>\<open>k8s.io/client-go/tools/cache\<close> promises of \<open>Run\<close>, that it returns once its stop channel is
  closed, is the guard of the step \<open>ends\<close>.
\<close>

section \<open>Informers\<close>

type_synonym go_type = string
type_synonym informer = nat
type_synonym channel = nat

datatype 'r api_call =
    ListCall "'r gatewayParameterses" opaque
  | WatchCall "'r gatewayParameterses" opaque

record 'r informer_object =
  inf_ListFunc :: "opaque \<Rightarrow> 'r api_call"
  inf_WatchFunc :: "opaque \<Rightarrow> 'r api_call"
  inf_type :: go_type
  inf_resyncPeriod :: int64
  inf_indexers :: "string list"
  inf_transform :: "opaque option"

type_synonym TweakListOptionsFunc = "opaque \<Rightarrow> opaque"

definition GatewayParameters_type :: go_type where
  "GatewayParameters_type = ''*v1alpha1.GatewayParameters''"

text \<open>\<open>if tweakListOptions != nil { tweakListOptions(&options) }\<close>\<close>

definition tweak :: "TweakListOptionsFunc option \<Rightarrow> opaque \<Rightarrow> opaque" where
  "tweak tweakListOptions options = (case tweakListOptions of None \<Rightarrow> options | Some f \<Rightarrow> f options)"

definition NewFilteredGatewayParametersInformer ::
  "('r, 'd) Clientset \<Rightarrow> string \<Rightarrow> int64 \<Rightarrow> string list \<Rightarrow> TweakListOptionsFunc option \<Rightarrow> 'r informer_object" where
  "NewFilteredGatewayParametersInformer client namespace resyncPeriod indexers tweakListOptions =
     \<lparr>inf_ListFunc = (\<lambda>options. ListCall (GatewayParameterses (FgatewayV1alpha1 client) namespace) (tweak tweakListOptions options)),
      inf_WatchFunc = (\<lambda>options. WatchCall (GatewayParameterses (FgatewayV1alpha1 client) namespace) (tweak tweakListOptions options)),
      inf_type = GatewayParameters_type,
      inf_resyncPeriod = resyncPeriod,
      inf_indexers = indexers,
      inf_transform = None\<rparr>"

definition NewGatewayParametersInformer ::
  "('r, 'd) Clientset \<Rightarrow> string \<Rightarrow> int64 \<Rightarrow> string list \<Rightarrow> 'r informer_object" where
  "NewGatewayParametersInformer client namespace resyncPeriod indexers =
     NewFilteredGatewayParametersInformer client namespace resyncPeriod indexers None"

section \<open>The shared informer factory\<close>

text \<open>
  The lock is not a field: the steps below are the critical sections. The maps are never nil,
  the constructor makes them.
\<close>

record ('r, 'd) sharedInformerFactory =
  f_client :: "('r, 'd) Clientset"
  f_namespace :: string
  f_tweakListOptions :: "TweakListOptionsFunc option"
  f_defaultResync :: int64
  f_customResync :: "(go_type \<times> int64) list"
  f_transform :: "opaque option"
  f_informers :: "(go_type \<times> informer) list"
  f_startedInformers :: "(go_type \<times> bool) list"
  f_wg :: int
  f_shuttingDown :: bool

type_synonym ('r, 'd) SharedInformerOption = "('r, 'd) sharedInformerFactory \<Rightarrow> ('r, 'd) sharedInformerFactory"

text \<open>An object a caller passes, with what \<open>reflect.TypeOf\<close> says of it.\<close>

record go_object =
  TypeOf :: go_type
  obj_value :: opaque

definition WithCustomResyncConfig :: "(go_object \<times> int64) list \<Rightarrow> ('r, 'd) SharedInformerOption" where
  "WithCustomResyncConfig resyncConfig = (\<lambda>factory. factory\<lparr>f_customResync :=
     range_assign (map (\<lambda>(k, v). (TypeOf k, v)) resyncConfig) (f_customResync factory)\<rparr>)"

definition WithTweakListOptions :: "TweakListOptionsFunc option \<Rightarrow> ('r, 'd) SharedInformerOption" where
  "WithTweakListOptions tweakListOptions = (\<lambda>factory. factory\<lparr>f_tweakListOptions := tweakListOptions\<rparr>)"

definition WithNamespace :: "string \<Rightarrow> ('r, 'd) SharedInformerOption" where
  "WithNamespace namespace = (\<lambda>factory. factory\<lparr>f_namespace := namespace\<rparr>)"

definition WithTransform :: "opaque option \<Rightarrow> ('r, 'd) SharedInformerOption" where
  "WithTransform transform = (\<lambda>factory. factory\<lparr>f_transform := transform\<rparr>)"

definition NewSharedInformerFactoryWithOptions ::
  "('r, 'd) Clientset \<Rightarrow> int64 \<Rightarrow> ('r, 'd) SharedInformerOption list \<Rightarrow> ('r, 'd) sharedInformerFactory" where
  "NewSharedInformerFactoryWithOptions client defaultResync options =
     fold (\<lambda>opt factory. opt factory) options
       \<lparr>f_client = client, f_namespace = '''', f_tweakListOptions = None,
        f_defaultResync = defaultResync, f_customResync = [], f_transform = None,
        f_informers = [], f_startedInformers = [], f_wg = 0, f_shuttingDown = False\<rparr>"

definition NewSharedInformerFactory :: "('r, 'd) Clientset \<Rightarrow> int64 \<Rightarrow> ('r, 'd) sharedInformerFactory" where
  "NewSharedInformerFactory client defaultResync = NewSharedInformerFactoryWithOptions client defaultResync []"

definition NewFilteredSharedInformerFactory ::
  "('r, 'd) Clientset \<Rightarrow> int64 \<Rightarrow> string \<Rightarrow> TweakListOptionsFunc option \<Rightarrow> ('r, 'd) sharedInformerFactory" where
  "NewFilteredSharedInformerFactory client defaultResync namespace tweakListOptions =
     NewSharedInformerFactoryWithOptions client defaultResync
       [WithNamespace namespace, WithTweakListOptions tweakListOptions]"

text \<open>
  \<open>w_goroutines\<close> holds the goroutines that have been started and have not ended, each with the
  informer it runs and its stop channel, \<open>w_runs\<close> the informers whose \<open>Run\<close> was called, in
  order, \<open>w_closed\<close> the closed channels, \<open>w_waiting\<close> the calls of \<open>Shutdown\<close> that wait and
  \<open>w_shutdown\<close> whether one has returned.
\<close>

record ('r, 'd) world =
  w_factory :: "('r, 'd) sharedInformerFactory"
  w_informers :: "'r informer_object list"
  w_goroutines :: "(informer \<times> channel) list"
  w_runs :: "informer list"
  w_closed :: "channel list"
  w_waiting :: nat
  w_shutdown :: bool

text \<open>The loop of \<open>Start\<close>: the goroutines it starts and what it leaves of the factory.\<close>

fun start_loop ::
  "channel \<Rightarrow> (go_type \<times> informer) list \<Rightarrow> ('r, 'd) sharedInformerFactory \<Rightarrow> (informer \<times> channel) list \<Rightarrow>
     ('r, 'd) sharedInformerFactory \<times> (informer \<times> channel) list" where
  "start_loop stopCh [] f gs = (f, gs)"
| "start_loop stopCh ((informerType, i) # es) f gs =
     (if \<not> map_index False (Some (f_startedInformers f)) informerType
      then start_loop stopCh es
             (f\<lparr>f_wg := f_wg f + 1,
                f_startedInformers := AList.update informerType True (f_startedInformers f)\<rparr>)
             (gs @ [(i, stopCh)])
      else start_loop stopCh es f gs)"

definition factory_Start :: "channel \<Rightarrow> ('r, 'd) world \<Rightarrow> ('r, 'd) world" where
  "factory_Start stopCh w =
     (if f_shuttingDown (w_factory w) then w
      else case start_loop stopCh (f_informers (w_factory w)) (w_factory w) [] of
             (f, gs) \<Rightarrow> w\<lparr>w_factory := f, w_goroutines := w_goroutines w @ gs, w_runs := w_runs w @ map fst gs\<rparr>)"

text \<open>\<open>Shutdown\<close> before its wait.\<close>

definition factory_Shutdown :: "('r, 'd) world \<Rightarrow> ('r, 'd) world" where
  "factory_Shutdown w = w\<lparr>w_factory := (w_factory w)\<lparr>f_shuttingDown := True\<rparr>, w_waiting := w_waiting w + 1\<rparr>"

text \<open>The end of the \<open>i\<close>-th goroutine, with its deferred \<open>wg.Done()\<close>.\<close>

definition goroutine_done :: "nat \<Rightarrow> ('r, 'd) world \<Rightarrow> ('r, 'd) world" where
  "goroutine_done i w = w\<lparr>w_factory := (w_factory w)\<lparr>f_wg := f_wg (w_factory w) - 1\<rparr>,
     w_goroutines := take i (w_goroutines w) @ drop (Suc i) (w_goroutines w)\<rparr>"

text \<open>\<open>synced\<close> is what \<open>cache.WaitForCacheSync\<close> answers for an informer.\<close>

definition factory_WaitForCacheSync ::
  "(informer \<Rightarrow> bool) \<Rightarrow> ('r, 'd) world \<Rightarrow> (go_type \<times> bool) list" where
  "factory_WaitForCacheSync synced w =
     (let f = w_factory w;
          informers = range_assign (filter (\<lambda>(informerType, _).
             map_index False (Some (f_startedInformers f)) informerType) (f_informers f)) []
      in range_assign (map (\<lambda>(informType, i). (informType, synced i)) informers) [])"

text \<open>
  A \<open>NewInformerFunc\<close> is given the client and the resync period and returns some informer; it may
  create informers, so it maps the informers there are to its result and the informers there are
  afterwards. Nothing obliges it to return a new one: \<open>InformerFor\<close> takes what it gets.
\<close>

type_synonym ('r, 'd) NewInformerFunc =
  "('r, 'd) Clientset \<Rightarrow> int64 \<Rightarrow> 'r informer_object list \<Rightarrow> informer \<times> 'r informer_object list"

text \<open>client-go's \<open>SetTransform\<close> fails on an informer that was started; the code drops the error.\<close>

definition SetTransform :: "opaque option \<Rightarrow> informer \<Rightarrow> ('r, 'd) world \<Rightarrow> ('r, 'd) world" where
  "SetTransform transform i w =
     (if i \<in> set (w_runs w) then w
      else w\<lparr>w_informers := (w_informers w)[i := (w_informers w ! i)\<lparr>inf_transform := transform\<rparr>]\<rparr>)"

text \<open>\<open>InformerFor\<close>; of \<open>obj\<close> the code uses \<open>reflect.TypeOf(obj)\<close>, the argument \<open>informerType\<close>.\<close>

definition InformerFor ::
  "go_type \<Rightarrow> ('r, 'd) NewInformerFunc \<Rightarrow> ('r, 'd) world \<Rightarrow> informer \<times> ('r, 'd) world" where
  "InformerFor informerType newFunc w =
     (let f = w_factory w in
      case map_of (f_informers f) informerType of
        Some i \<Rightarrow> (i, w)
      | None \<Rightarrow>
         (let resyncPeriod = (case map_of (f_customResync f) informerType of
                                Some r \<Rightarrow> r | None \<Rightarrow> f_defaultResync f);
              (i, infs) = newFunc (f_client f) resyncPeriod (w_informers w);
              w' = SetTransform (f_transform f) i (w\<lparr>w_informers := infs\<rparr>)
          in (i, w'\<lparr>w_factory := f\<lparr>f_informers := AList.update informerType i (f_informers f)\<rparr>\<rparr>)))"

text \<open>
  \<open>cache.NewSharedIndexInformer\<close> allocates: a function that ends in it returns a fresh informer.
  \<open>constructs\<close> says of a \<open>NewInformerFunc\<close> that the informer it returns is one it created.
\<close>

definition fresh_informer ::
  "(('r, 'd) Clientset \<Rightarrow> int64 \<Rightarrow> 'r informer_object) \<Rightarrow> ('r, 'd) NewInformerFunc" where
  "fresh_informer mk = (\<lambda>client resyncPeriod infs. (length infs, infs @ [mk client resyncPeriod]))"

definition constructs :: "('r, 'd) NewInformerFunc \<Rightarrow> bool" where
  "constructs newFunc \<longleftrightarrow> (\<forall>client resyncPeriod infs. \<exists>objs.
     snd (newFunc client resyncPeriod infs) = infs @ objs \<and>
     length infs \<le> fst (newFunc client resyncPeriod infs) \<and>
     fst (newFunc client resyncPeriod infs) < length infs + length objs)"

lemma constructs_fresh [simp]: "constructs (fresh_informer mk)"
  by (simp add: constructs_def fresh_informer_def)

section \<open>Typed and generic access\<close>

text \<open>The factory a \<open>group\<close>, a \<open>version\<close> and an informer accessor hold is the one of \<open>world\<close>.\<close>

record accessor =
  acc_namespace :: string
  acc_tweakListOptions :: "TweakListOptionsFunc option"

definition fgateway_New :: "string \<Rightarrow> TweakListOptionsFunc option \<Rightarrow> accessor" where
  "fgateway_New namespace tweakListOptions = \<lparr>acc_namespace = namespace, acc_tweakListOptions = tweakListOptions\<rparr>"

definition v1alpha1_informers_New :: "string \<Rightarrow> TweakListOptionsFunc option \<Rightarrow> accessor" where
  "v1alpha1_informers_New namespace tweakListOptions =
     \<lparr>acc_namespace = namespace, acc_tweakListOptions = tweakListOptions\<rparr>"

definition V1alpha1 :: "accessor \<Rightarrow> accessor" where
  "V1alpha1 g = v1alpha1_informers_New (acc_namespace g) (acc_tweakListOptions g)"

definition version_GatewayParameterses :: "accessor \<Rightarrow> accessor" where
  "version_GatewayParameterses v = \<lparr>acc_namespace = acc_namespace v, acc_tweakListOptions = acc_tweakListOptions v\<rparr>"

definition factory_Fgateway :: "('r, 'd) world \<Rightarrow> accessor" where
  "factory_Fgateway w = fgateway_New (f_namespace (w_factory w)) (f_tweakListOptions (w_factory w))"

definition defaultInformer :: "accessor \<Rightarrow> ('r, 'd) Clientset \<Rightarrow> int64 \<Rightarrow> 'r informer_object" where
  "defaultInformer f client resyncPeriod =
     NewFilteredGatewayParametersInformer client (acc_namespace f) resyncPeriod [''namespace''] (acc_tweakListOptions f)"

definition accessor_Informer :: "accessor \<Rightarrow> ('r, 'd) world \<Rightarrow> informer \<times> ('r, 'd) world" where
  "accessor_Informer f w = InformerFor GatewayParameters_type (fresh_informer (defaultInformer f)) w"

text \<open>A lister reads the indexer of one informer; \<open>lister_namespace\<close> is set on the lister of a namespace.\<close>

record lister =
  lister_indexer :: informer
  lister_resource :: GroupResource
  lister_namespace :: "string option"

definition NewGatewayParametersLister :: "informer \<Rightarrow> lister" where
  "NewGatewayParametersLister indexer =
     \<lparr>lister_indexer = indexer, lister_resource = Resource ''gatewayparameters'', lister_namespace = None\<rparr>"

definition lister_GatewayParameterses :: "lister \<Rightarrow> string \<Rightarrow> lister" where
  "lister_GatewayParameterses s namespace = s\<lparr>lister_namespace := Some namespace\<rparr>"

definition accessor_Lister :: "accessor \<Rightarrow> ('r, 'd) world \<Rightarrow> lister \<times> ('r, 'd) world" where
  "accessor_Lister f w = (case accessor_Informer f w of (i, w) \<Rightarrow> (NewGatewayParametersLister i, w))"

record genericInformer =
  gi_informer :: informer
  gi_resource :: GroupResource

definition generic_Informer :: "genericInformer \<Rightarrow> informer" where
  "generic_Informer f = gi_informer f"

definition generic_Lister :: "genericInformer \<Rightarrow> lister" where
  "generic_Lister f =
     \<lparr>lister_indexer = generic_Informer f, lister_resource = gi_resource f, lister_namespace = None\<rparr>"

definition ForResource ::
  "GroupVersionResource \<Rightarrow> ('r, 'd) world \<Rightarrow> (go_error + genericInformer) \<times> ('r, 'd) world" where
  "ForResource resource w =
     (if resource = WithResource SchemeGroupVersion ''gatewayparameterses''
      then case accessor_Informer (version_GatewayParameterses (V1alpha1 (factory_Fgateway w))) w of
             (i, w) \<Rightarrow> (Inr \<lparr>gi_informer = i, gi_resource = GVR_GroupResource resource\<rparr>, w)
      else (Inl (ErrNew (''no informer found for '' @ GVR_Group resource @ ''/'' @ GVR_Version resource @
             '', Resource='' @ GVR_Resource resource)), w))"

section \<open>Executions\<close>

text \<open>
  One step of a program that uses the factory: a call of \<open>InformerFor\<close> (directly or through an
  accessor), of \<open>Start\<close>, of \<open>Shutdown\<close>, a stop channel closed, a goroutine that ends, and a
  \<open>Shutdown\<close> whose \<open>wg.Wait()\<close> finds the counter at zero. The program passes \<open>InformerFor\<close> only
  functions that construct the informer they return, as the accessors and the documentation of
  the factory do; one that returned an informer of another type would have it run twice.
\<close>

inductive factory_step :: "('r, 'd) world \<Rightarrow> ('r, 'd) world \<Rightarrow> bool" where
  informer_for: "constructs newFunc \<Longrightarrow> factory_step w (snd (InformerFor t newFunc w))"
| start: "factory_step w (factory_Start ch w)"
| close: "factory_step w (w\<lparr>w_closed := ch # w_closed w\<rparr>)"
| ends: "i < length (w_goroutines w) \<Longrightarrow> snd (w_goroutines w ! i) \<in> set (w_closed w) \<Longrightarrow>
    factory_step w (goroutine_done i w)"
| shutdown: "factory_step w (factory_Shutdown w)"
| shutdown_returns: "0 < w_waiting w \<Longrightarrow> f_wg (w_factory w) = 0 \<Longrightarrow>
    factory_step w (w\<lparr>w_waiting := w_waiting w - 1, w_shutdown := True\<rparr>)"

definition new_world :: "('r, 'd) sharedInformerFactory \<Rightarrow> ('r, 'd) world" where
  "new_world f = \<lparr>w_factory = f, w_informers = [], w_goroutines = [], w_runs = [], w_closed = [],
     w_waiting = 0, w_shutdown = False\<rparr>"

text \<open>The options a caller can give are the four of the package.\<close>

inductive is_option :: "('r, 'd) SharedInformerOption \<Rightarrow> bool" where
  "is_option (WithCustomResyncConfig rc)"
| "is_option (WithTweakListOptions tw)"
| "is_option (WithNamespace ns)"
| "is_option (WithTransform tr)"

inductive factory_reachable :: "('r, 'd) world \<Rightarrow> bool" where
  created: "\<forall>opt \<in> set options. is_option opt \<Longrightarrow>
    factory_reachable (new_world (NewSharedInformerFactoryWithOptions client resync options))"
| stepped: "factory_reachable w \<Longrightarrow> factory_step w w' \<Longrightarrow> factory_reachable w'"

section \<open>Sharing of informers\<close>

text \<open>
  The interface \<open>internalinterfaces.SharedInformerFactory\<close> as its clients use it: the informer of
  a type is created once and every later call gets that one, whatever happens between the calls.
\<close>

locale shared_informers =
  fixes informer_of :: "'s \<Rightarrow> go_type \<Rightarrow> informer option"
    and informer_for :: "go_type \<Rightarrow> 'new \<Rightarrow> 's \<Rightarrow> informer \<times> 's"
    and moves :: "'s \<Rightarrow> 's \<Rightarrow> bool"
  assumes known: "informer_of s t = Some a \<Longrightarrow> informer_for t new s = (a, s)"
    and registers: "informer_of (snd (informer_for t new s)) t = Some (fst (informer_for t new s))"
    and keeps: "moves s s' \<Longrightarrow> informer_of s t = Some a \<Longrightarrow> informer_of s' t = Some a"
begin

lemma keeps_star: "moves\<^sup>*\<^sup>* s s' \<Longrightarrow> informer_of s t = Some a \<Longrightarrow> informer_of s' t = Some a"
  by (induction rule: rtranclp_induct) (auto intro: keeps)

lemma shared:
  "moves\<^sup>*\<^sup>* (snd (informer_for t new s)) s' \<Longrightarrow>
     informer_for t new' s' = (fst (informer_for t new s), s')"
  by (rule known) (rule keeps_star [OF _ registers])

end

definition registered :: "('r, 'd) world \<Rightarrow> go_type \<Rightarrow> informer option" where
  "registered w = map_of (f_informers (w_factory w))"

lemma InformerFor_known: "registered w t = Some a \<Longrightarrow> InformerFor t newFunc w = (a, w)"
  by (simp add: InformerFor_def registered_def)

lemma SetTransform_simps [simp]:
  "w_factory (SetTransform tr i w) = w_factory w" "w_goroutines (SetTransform tr i w) = w_goroutines w"
  "w_runs (SetTransform tr i w) = w_runs w" "w_closed (SetTransform tr i w) = w_closed w"
  "w_waiting (SetTransform tr i w) = w_waiting w" "w_shutdown (SetTransform tr i w) = w_shutdown w"
  "length (w_informers (SetTransform tr i w)) = length (w_informers w)"
  by (simp_all add: SetTransform_def)

lemma InformerFor_frame [simp]:
  "f_startedInformers (w_factory (snd (InformerFor t newFunc w))) = f_startedInformers (w_factory w)"
  "f_wg (w_factory (snd (InformerFor t newFunc w))) = f_wg (w_factory w)"
  "f_shuttingDown (w_factory (snd (InformerFor t newFunc w))) = f_shuttingDown (w_factory w)"
  "w_goroutines (snd (InformerFor t newFunc w)) = w_goroutines w"
  "w_runs (snd (InformerFor t newFunc w)) = w_runs w"
  "w_waiting (snd (InformerFor t newFunc w)) = w_waiting w"
  "w_shutdown (snd (InformerFor t newFunc w)) = w_shutdown w"
  by (simp_all add: InformerFor_def Let_def split: option.split prod.split)

lemma InformerFor_new:
  fixes newFunc :: "('r, 'd) NewInformerFunc" and w :: "('r, 'd) world"
  assumes "registered w t = None"
  defines "a \<equiv> fst (InformerFor t newFunc w)" and "w' \<equiv> snd (InformerFor t newFunc w)"
  shows "f_informers (w_factory w') = AList.update t a (f_informers (w_factory w))"
    and "registered w' = (registered w)(t \<mapsto> a)"
    and "constructs newFunc \<Longrightarrow> length (w_informers w) \<le> a \<and> a < length (w_informers w')"
proof -
  show "f_informers (w_factory w') = AList.update t a (f_informers (w_factory w))"
    using assms(1) by (simp add: a_def w'_def InformerFor_def registered_def Let_def case_prod_beta)
  then show "registered w' = (registered w)(t \<mapsto> a)"
    by (auto simp: registered_def entries.lookup_put)
  show "length (w_informers w) \<le> a \<and> a < length (w_informers w')" if "constructs newFunc"
    using assms(1) that unfolding constructs_def
    by (auto simp: a_def w'_def InformerFor_def registered_def Let_def case_prod_beta split: option.split)
      (metis length_append)+
qed

text \<open>What a run of \<open>Start\<close> starts: the entries not yet marked.\<close>

definition unstarted :: "('r, 'd) sharedInformerFactory \<Rightarrow> (go_type \<times> informer) list" where
  "unstarted f = filter (\<lambda>(t, _). \<not> map_index False (Some (f_startedInformers f)) t) (f_informers f)"

lemma start_loop_spec:
  assumes "distinct (map fst es)"
  shows "start_loop ch es f gs =
    (let new = filter (\<lambda>(t, _). \<not> map_index False (Some (f_startedInformers f)) t) es
     in (f\<lparr>f_wg := f_wg f + int (length new),
           f_startedInformers := range_assign (map (\<lambda>(t, _). (t, True)) new) (f_startedInformers f)\<rparr>,
         gs @ map (\<lambda>(_, a). (a, ch)) new))"
  using assms
proof (induction es arbitrary: f gs)
  case (Cons e es)
  obtain t a where e: "e = (t, a)" by (cases e)
  show ?case
  proof (cases "map_index False (Some (f_startedInformers f)) t")
    case True
    then show ?thesis using Cons by (simp add: e)
  next
    case False
    have "filter (\<lambda>(t', _). \<not> map_index False (Some (AList.update t True (f_startedInformers f))) t') es =
          filter (\<lambda>(t', _). \<not> map_index False (Some (f_startedInformers f)) t') es"
      using Cons.prems by (intro filter_cong) (auto simp: e map_index_update image_iff)
    then show ?thesis using Cons False by (simp add: e Let_def add.assoc)
  qed
qed simp

lemma start_loop_informers: "f_informers (fst (start_loop ch es f gs)) = f_informers f"
  by (induction ch es f gs rule: start_loop.induct) auto

lemma registered_Start [simp]: "registered (factory_Start ch w) = registered w"
  by (simp add: registered_def factory_Start_def case_prod_beta start_loop_informers)

lemma registered_step:
  assumes "factory_step w w'" and "registered w t = Some a"
  shows "registered w' t = Some a"
  using assms
proof (induction rule: factory_step.induct)
  case (informer_for newFunc w t')
  then show ?case
    by (cases "registered w t'") (auto simp: InformerFor_known InformerFor_new(2))
next
  case (start w ch)
  then show ?case by simp
qed (simp_all add: registered_def goroutine_done_def factory_Shutdown_def)

interpretation factory: shared_informers registered InformerFor factory_step
proof unfold_locales
  show "registered (snd (InformerFor t new w)) t = Some (fst (InformerFor t new w))" for t new and w :: "('r, 'd) world"
    by (cases "registered w t") (simp_all add: InformerFor_known InformerFor_new(2))
qed (auto simp: InformerFor_known intro: registered_step)

section \<open>The invariant of the factory\<close>

text \<open>
  The entries of the two maps agree, every informer has one type, the informers run are those of
  the marked types, each once, the wait group counts the goroutines, each of which runs an
  informer of its own, and a returned \<open>Shutdown\<close> leaves none.
\<close>

definition marked :: "('r, 'd) world \<Rightarrow> go_type \<Rightarrow> bool" where
  "marked w t \<longleftrightarrow> map_index False (Some (f_startedInformers (w_factory w))) t"

definition marked_informers :: "('r, 'd) world \<Rightarrow> informer set" where
  "marked_informers w = {a. \<exists>t. registered w t = Some a \<and> marked w t}"

definition maps_inv :: "('r, 'd) world \<Rightarrow> bool" where
  "maps_inv w \<longleftrightarrow> distinct (map fst (f_informers (w_factory w))) \<and>
     distinct (map snd (f_informers (w_factory w))) \<and>
     (\<forall>(t, a) \<in> set (f_informers (w_factory w)). a < length (w_informers w)) \<and>
     (\<forall>t. marked w t \<longrightarrow> registered w t \<noteq> None)"

definition runs_inv :: "('r, 'd) world \<Rightarrow> bool" where
  "runs_inv w \<longleftrightarrow> distinct (w_runs w) \<and>
     marked_informers w = set (w_runs w) \<and>
     distinct (map fst (w_goroutines w)) \<and> fst ` set (w_goroutines w) \<subseteq> set (w_runs w) \<and>
     f_wg (w_factory w) = int (length (w_goroutines w))"

definition shutdown_inv :: "('r, 'd) world \<Rightarrow> bool" where
  "shutdown_inv w \<longleftrightarrow> (0 < w_waiting w \<or> w_shutdown w \<longrightarrow> f_shuttingDown (w_factory w)) \<and>
     (w_shutdown w \<longrightarrow> w_goroutines w = [])"

definition factory_inv :: "('r, 'd) world \<Rightarrow> bool" where
  "factory_inv w \<longleftrightarrow> maps_inv w \<and> runs_inv w \<and> shutdown_inv w"

lemma option_fields:
  "is_option opt \<Longrightarrow> f_informers (opt f) = f_informers f \<and> f_startedInformers (opt f) = f_startedInformers f \<and>
     f_wg (opt f) = f_wg f \<and> f_shuttingDown (opt f) = f_shuttingDown f"
  by (induction rule: is_option.induct)
    (simp_all add: WithCustomResyncConfig_def WithTweakListOptions_def WithNamespace_def WithTransform_def)

lemma options_fields:
  "\<forall>opt \<in> set options. is_option opt \<Longrightarrow>
     f_informers (fold (\<lambda>opt f. opt f) options f) = f_informers f \<and>
     f_startedInformers (fold (\<lambda>opt f. opt f) options f) = f_startedInformers f \<and>
     f_wg (fold (\<lambda>opt f. opt f) options f) = f_wg f \<and>
     f_shuttingDown (fold (\<lambda>opt f. opt f) options f) = f_shuttingDown f"
  by (induction options arbitrary: f) (auto simp: option_fields)

lemma factory_inv_created:
  assumes "\<forall>opt \<in> set options. is_option opt"
  shows "factory_inv (new_world (NewSharedInformerFactoryWithOptions client resync options))"
  by (simp add: factory_inv_def maps_inv_def runs_inv_def shutdown_inv_def new_world_def marked_def
      marked_informers_def registered_def NewSharedInformerFactoryWithOptions_def options_fields [OF assms])

lemma factory_inv_InformerFor:
  assumes "factory_inv w" and "constructs newFunc"
  shows "factory_inv (snd (InformerFor t newFunc w))"
proof (cases "registered w t")
  case None
  let ?w = "snd (InformerFor t newFunc w)" and ?a = "fst (InformerFor t newFunc w)"
  have m: "maps_inv w" using assms by (simp add: factory_inv_def)
  have a: "length (w_informers w) \<le> ?a" "?a < length (w_informers ?w)"
    using InformerFor_new(3) [OF None assms(2)] by simp_all
  have fresh: "t \<notin> fst ` set (f_informers (w_factory w))" using None by (simp add: registered_def map_of_eq_None_iff)
  have entries: "f_informers (w_factory ?w) = f_informers (w_factory w) @ [(t, ?a)]"
    using InformerFor_new(1) [OF None] fresh by (simp add: update_fresh)
  have marks: "marked ?w = marked w" by (simp add: marked_def fun_eq_iff)
  have reg: "registered ?w = (registered w)(t \<mapsto> ?a)" by (rule InformerFor_new(2) [OF None])
  have not_marked: "\<not> marked w t" using m None by (auto simp: maps_inv_def)
  have "?a \<notin> snd ` set (f_informers (w_factory w))" using m a by (force simp: maps_inv_def)
  then have "maps_inv ?w" using m fresh a by (fastforce simp: maps_inv_def entries marks reg)
  moreover have "marked_informers ?w = marked_informers w"
    using not_marked by (auto simp: marked_informers_def reg marks)
  ultimately show ?thesis using assms by (simp add: factory_inv_def runs_inv_def shutdown_inv_def)
qed (use assms in \<open>simp add: InformerFor_known\<close>)

lemma inj_registered:
  assumes "maps_inv w" and "registered w t = Some a" and "registered w t' = Some a"
  shows "t = t'"
proof -
  have "(t, a) \<in> set (f_informers (w_factory w))" "(t', a) \<in> set (f_informers (w_factory w))"
    using assms(2,3) by (auto simp: registered_def dest: map_of_SomeD)
  moreover have "inj_on snd (set (f_informers (w_factory w)))" using assms(1) by (simp add: maps_inv_def distinct_map)
  ultimately show ?thesis by (metis Pair_inject inj_onD snd_conv)
qed

text \<open>The state after a \<open>Start\<close> that is not shut down.\<close>

lemma Start_running:
  assumes "maps_inv w" and "\<not> f_shuttingDown (w_factory w)"
  defines "new \<equiv> unstarted (w_factory w)"
  shows "w_goroutines (factory_Start ch w) = w_goroutines w @ map (\<lambda>(_, a). (a, ch)) new"
    and "w_runs (factory_Start ch w) = w_runs w @ map snd new"
    and "f_wg (w_factory (factory_Start ch w)) = f_wg (w_factory w) + int (length new)"
    and "marked (factory_Start ch w) t \<longleftrightarrow> registered w t \<noteq> None"
    and "f_informers (w_factory (factory_Start ch w)) = f_informers (w_factory w)"
    and "w_informers (factory_Start ch w) = w_informers w"
    and "w_waiting (factory_Start ch w) = w_waiting w"
    and "w_shutdown (factory_Start ch w) = w_shutdown w"
    and "f_shuttingDown (w_factory (factory_Start ch w)) = f_shuttingDown (w_factory w)"
proof -
  have d: "distinct (map fst (f_informers (w_factory w)))" using assms(1) by (simp add: maps_inv_def)
  note run = factory_Start_def start_loop_spec [OF d] Let_def unstarted_def [symmetric] assms(2) new_def [symmetric]
  show "w_goroutines (factory_Start ch w) = w_goroutines w @ map (\<lambda>(_, a). (a, ch)) new"
    "f_wg (w_factory (factory_Start ch w)) = f_wg (w_factory w) + int (length new)"
    "f_informers (w_factory (factory_Start ch w)) = f_informers (w_factory w)"
    "w_informers (factory_Start ch w) = w_informers w"
    "w_waiting (factory_Start ch w) = w_waiting w"
    "w_shutdown (factory_Start ch w) = w_shutdown w"
    "f_shuttingDown (w_factory (factory_Start ch w)) = f_shuttingDown (w_factory w)"
    by (simp_all add: run)
  show "w_runs (factory_Start ch w) = w_runs w @ map snd new" by (simp add: run case_prod_beta comp_def)
  let ?ts = "map (\<lambda>(t, _). (t, True)) new"
  have "map fst ?ts = map fst new" by (simp add: case_prod_beta comp_def)
  moreover have "distinct (map fst new)" unfolding new_def unstarted_def by (rule distinct_map_filter [OF d])
  ultimately have dn: "distinct (map fst ?ts)" by metis
  have new_keys: "map_of ?ts t = (if t \<in> fst ` set new then Some True else None)"
    by (induction new) auto
  have "t \<in> fst ` set new \<longleftrightarrow> registered w t \<noteq> None \<and> \<not> marked w t"
    by (force simp: new_def unstarted_def registered_def marked_def map_of_eq_None_iff)
  moreover have "marked w t \<Longrightarrow> registered w t \<noteq> None" using assms(1) by (auto simp: maps_inv_def)
  moreover have "f_startedInformers (w_factory (factory_Start ch w)) = range_assign ?ts (f_startedInformers (w_factory w))"
    by (simp add: run)
  then have "marked (factory_Start ch w) t \<longleftrightarrow> t \<in> fst ` set new \<or> marked w t"
    by (auto simp: marked_def map_index_def map_of_range_assign [OF dn] map_add_def new_keys)
  ultimately show "marked (factory_Start ch w) t \<longleftrightarrow> registered w t \<noteq> None" by blast
qed

lemma unstarted_informers:
  assumes "maps_inv w"
  shows "set (map snd (unstarted (w_factory w))) = {a. \<exists>t. registered w t = Some a \<and> \<not> marked w t}"
    and "distinct (map snd (unstarted (w_factory w)))"
proof -
  have d: "distinct (map fst (f_informers (w_factory w)))" "distinct (map snd (f_informers (w_factory w)))"
    using assms by (simp_all add: maps_inv_def)
  show "set (map snd (unstarted (w_factory w))) = {a. \<exists>t. registered w t = Some a \<and> \<not> marked w t}"
    using map_of_eq_Some_iff [OF d(1)] by (force simp: unstarted_def registered_def marked_def)
  show "distinct (map snd (unstarted (w_factory w)))"
    unfolding unstarted_def by (rule distinct_map_filter [OF d(2)])
qed

lemma factory_inv_Start:
  assumes "factory_inv w"
  shows "factory_inv (factory_Start ch w)"
proof (cases "f_shuttingDown (w_factory w)")
  case False
  let ?w = "factory_Start ch w" and ?new = "unstarted (w_factory w)"
  have inv: "maps_inv w" "runs_inv w" "shutdown_inv w" using assms by (simp_all add: factory_inv_def)
  note s = Start_running [OF inv(1) False]
  have "maps_inv ?w" using inv(1) by (simp add: maps_inv_def s)
  moreover have "runs_inv ?w"
  proof -
    have runs: "distinct (w_runs w)" "marked_informers w = set (w_runs w)"
        "distinct (map fst (w_goroutines w))" "fst ` set (w_goroutines w) \<subseteq> set (w_runs w)"
        "f_wg (w_factory w) = int (length (w_goroutines w))"
      using inv(2) by (simp_all add: runs_inv_def)
    have new: "snd ` set ?new \<inter> set (w_runs w) = {}"
      using inj_registered [OF inv(1)] unstarted_informers(1) [OF inv(1)]
      unfolding runs(2) [symmetric] marked_informers_def by auto
    have "map fst (map (\<lambda>(_, a). (a, ch)) ?new) = map snd ?new" by (simp add: case_prod_beta comp_def)
    then have gs: "map fst (w_goroutines ?w) = map fst (w_goroutines w) @ map snd ?new" by (simp add: s)
    have "marked_informers ?w = marked_informers w \<union> snd ` set ?new"
      using unstarted_informers(1) [OF inv(1)] by (auto simp: marked_informers_def s)
    moreover have "distinct (map fst (w_goroutines ?w))"
      using new runs(3,4) unstarted_informers(2) [OF inv(1)] unfolding gs by auto
    moreover have "fst ` set (w_goroutines ?w) \<subseteq> set (w_runs ?w)"
      using runs(4) by (force simp: s)
    ultimately show ?thesis
      using new runs unstarted_informers(2) [OF inv(1)] by (auto simp: runs_inv_def s)
  qed
  moreover have "shutdown_inv ?w" using inv(3) False by (simp add: shutdown_inv_def s)
  ultimately show ?thesis by (simp add: factory_inv_def)
qed (use assms in \<open>simp add: factory_Start_def\<close>)

lemma set_remove_nth: "set (take i xs @ drop (Suc i) xs) \<subseteq> set xs"
  by (auto dest: in_set_takeD in_set_dropD)

lemma distinct_remove_nth:
  "distinct (map f xs) \<Longrightarrow> distinct (map f (take i xs @ drop (Suc i) xs))"
  using set_take_disj_set_drop_if_distinct [of "map f xs" i "Suc i"]
  by (simp add: take_map [symmetric] drop_map [symmetric] del: set_map)

lemma maps_frame:
  assumes "f_informers (w_factory w') = f_informers (w_factory w)"
    and "f_startedInformers (w_factory w') = f_startedInformers (w_factory w)"
    and "w_informers w' = w_informers w"
  shows "marked_informers w' = marked_informers w" and "maps_inv w' \<longleftrightarrow> maps_inv w"
  using assms by (simp_all add: registered_def marked_def marked_informers_def maps_inv_def)

lemma factory_inv_done:
  assumes "factory_inv w" and "i < length (w_goroutines w)"
  shows "factory_inv (goroutine_done i w)"
proof -
  let ?w = "goroutine_done i w"
  have same: "marked_informers ?w = marked_informers w" "maps_inv ?w = maps_inv w"
    by (rule maps_frame; simp add: goroutine_done_def)+
  have "w_goroutines w \<noteq> []" using assms(2) by auto
  moreover have "set (w_goroutines ?w) \<subseteq> set (w_goroutines w)"
    using set_remove_nth [of i "w_goroutines w"] by (simp add: goroutine_done_def)
  then have "fst ` set (w_goroutines ?w) \<subseteq> set (w_runs w)"
    using assms(1) by (auto simp: factory_inv_def runs_inv_def)
  moreover have "distinct (map fst (w_goroutines ?w))"
    using assms(1) distinct_remove_nth [of fst "w_goroutines w" i]
    by (simp add: goroutine_done_def factory_inv_def runs_inv_def)
  ultimately show ?thesis
    using assms same by (auto simp: factory_inv_def runs_inv_def shutdown_inv_def goroutine_done_def)
qed

lemma factory_inv_step:
  assumes "factory_step w w'" and "factory_inv w"
  shows "factory_inv w'"
  using assms
proof (induction rule: factory_step.induct)
  case (informer_for newFunc w t)
  then show ?case by (intro factory_inv_InformerFor)
next
  case (start w ch)
  then show ?case by (rule factory_inv_Start)
next
  case (ends i w)
  then show ?case by (intro factory_inv_done)
next
  case (close w ch)
  have "marked_informers (w\<lparr>w_closed := ch # w_closed w\<rparr>) = marked_informers w"
    "maps_inv (w\<lparr>w_closed := ch # w_closed w\<rparr>) = maps_inv w"
    by (rule maps_frame; simp)+
  then show ?case using close by (simp add: factory_inv_def runs_inv_def shutdown_inv_def)
next
  case (shutdown w)
  have "marked_informers (factory_Shutdown w) = marked_informers w" "maps_inv (factory_Shutdown w) = maps_inv w"
    by (rule maps_frame; simp add: factory_Shutdown_def)+
  then show ?case using shutdown by (simp add: factory_inv_def runs_inv_def shutdown_inv_def factory_Shutdown_def)
next
  case (shutdown_returns w)
  have "marked_informers (w\<lparr>w_waiting := w_waiting w - 1, w_shutdown := True\<rparr>) = marked_informers w"
    "maps_inv (w\<lparr>w_waiting := w_waiting w - 1, w_shutdown := True\<rparr>) = maps_inv w"
    by (rule maps_frame; simp)+
  then show ?case using shutdown_returns by (simp add: factory_inv_def runs_inv_def shutdown_inv_def)
qed

lemma factory_reachable_inv: "factory_reachable w \<Longrightarrow> factory_inv w"
  by (induction rule: factory_reachable.induct) (auto intro: factory_inv_created factory_inv_step)

section \<open>Starting and stopping\<close>

lemma shutting_step:
  assumes "factory_step w w'" and "f_shuttingDown (w_factory w)"
  shows "f_shuttingDown (w_factory w') \<and> w_runs w' = w_runs w \<and>
    set (w_goroutines w') \<subseteq> set (w_goroutines w) \<and> (w_shutdown w \<longrightarrow> w_shutdown w')"
  using assms
proof (induction rule: factory_step.induct)
  case (informer_for newFunc w t)
  then show ?case by simp
next
  case (start w ch)
  then show ?case by (simp add: factory_Start_def)
next
  case (ends i w)
  then show ?case using set_remove_nth [of i "w_goroutines w"] by (simp add: goroutine_done_def)
qed (simp_all add: factory_Shutdown_def)

lemma shutting_steps:
  assumes "factory_step\<^sup>*\<^sup>* w w'" and "f_shuttingDown (w_factory w)"
  shows "f_shuttingDown (w_factory w') \<and> w_runs w' = w_runs w \<and>
    set (w_goroutines w') \<subseteq> set (w_goroutines w) \<and> (w_shutdown w \<longrightarrow> w_shutdown w')"
  using assms
proof (induction rule: rtranclp_induct)
  case (step w1 w2)
  then show ?case using shutting_step [of w1 w2] by fastforce
qed simp

lemma shutdown_reached:
  assumes "0 < w_waiting w" and "f_wg (w_factory w) = int (length (w_goroutines w))"
    and "snd ` set (w_goroutines w) \<subseteq> set (w_closed w)"
  shows "\<exists>w'. factory_step\<^sup>*\<^sup>* w w' \<and> w_shutdown w' \<and> w_goroutines w' = []"
  using assms
proof (induction "length (w_goroutines w)" arbitrary: w)
  case 0
  then have "factory_step w (w\<lparr>w_waiting := w_waiting w - 1, w_shutdown := True\<rparr>)"
    by (intro factory_step.shutdown_returns) auto
  then show ?case using 0 by (intro exI [of _ "w\<lparr>w_waiting := w_waiting w - 1, w_shutdown := True\<rparr>"]) auto
next
  case (Suc n)
  have "w_goroutines w ! 0 \<in> set (w_goroutines w)" using Suc.hyps(2) by (intro nth_mem) linarith
  then have step: "factory_step w (goroutine_done 0 w)"
    using Suc.hyps(2) Suc.prems(3) by (intro factory_step.ends) auto
  have "n = length (w_goroutines (goroutine_done 0 w))" using Suc.hyps(2) by (simp add: goroutine_done_def)
  from Suc.hyps(1) [OF this] have "\<exists>w'. factory_step\<^sup>*\<^sup>* (goroutine_done 0 w) w' \<and> w_shutdown w' \<and> w_goroutines w' = []"
    using Suc.prems Suc.hyps(2) by (auto simp: goroutine_done_def dest: in_set_dropD)
  then show ?case using step by (meson converse_rtranclp_into_rtranclp)
qed

lemma WaitForCacheSync_marked:
  assumes "maps_inv w"
  shows "map_of (factory_WaitForCacheSync synced w) t = (if marked w t then map_option synced (registered w t) else None)"
proof -
  let ?es = "filter (\<lambda>(t, _). marked w t) (f_informers (w_factory w))"
  have d: "distinct (map fst (f_informers (w_factory w)))" using assms by (simp add: maps_inv_def)
  then have dn: "distinct (map fst ?es)" by (rule distinct_map_filter)
  have "map fst (map (\<lambda>(t, a). (t, synced a)) ?es) = map fst ?es" by (simp add: case_prod_beta comp_def)
  then have ds: "distinct (map fst (map (\<lambda>(t, a). (t, synced a)) ?es))" using dn by metis
  have "factory_WaitForCacheSync synced w = map (\<lambda>(t, a). (t, synced a)) ?es"
    unfolding factory_WaitForCacheSync_def Let_def marked_def [symmetric]
    using dn ds by (simp add: range_assign_fresh)
  then have "map_of (factory_WaitForCacheSync synced w) t = map_option synced (map_of ?es t)"
    by (simp add: map_of_map)
  moreover have "map_of (filter (\<lambda>(t, _). P t) es) t = (if P t then map_of es t else None)"
    for P and es :: "(go_type \<times> informer) list"
    by (induction es) auto
  then have "map_of ?es t = (if marked w t then registered w t else None)" by (simp add: registered_def)
  ultimately show ?thesis by simp
qed

text \<open>
  C19. However calls of \<open>InformerFor\<close>, \<open>Start\<close> and \<open>Shutdown\<close>, closed channels and
  ending goroutines interleave, no informer is ever run twice; the informers that were run are
  those whose type is marked as started; and the wait group counts exactly the goroutines that
  have not ended, so it never goes negative.
\<close>

theorem informers_run_once:
  assumes "factory_reachable w"
  shows "distinct (w_runs w) \<and>
    set (w_runs w) = {a. \<exists>t. registered w t = Some a \<and> map_index False (Some (f_startedInformers (w_factory w))) t} \<and>
    f_wg (w_factory w) = int (length (w_goroutines w)) \<and>
    distinct (map fst (w_goroutines w)) \<and> fst ` set (w_goroutines w) \<subseteq> set (w_runs w)"
  using factory_reachable_inv [OF assms]
  by (simp add: factory_inv_def runs_inv_def marked_informers_def flip: marked_def)

text \<open>A run for the witnesses: one informer, started, its channel closed, and a \<open>Shutdown\<close>.\<close>

definition example_clients :: "(string, string) Clientset" where
  "example_clients = \<lparr>DiscoveryClient = ''discovery'', fgatewayV1alpha1 = Some \<lparr>restClient = ''rest''\<rparr>\<rparr>"

definition example_created :: "(string, string) world" where
  "example_created = new_world (NewSharedInformerFactoryWithOptions example_clients 30 [WithNamespace ''ns''])"

definition example_got :: "(string, string) world" where
  "example_got = snd (ForResource (WithResource SchemeGroupVersion ''gatewayparameterses'') example_created)"

definition example_started :: "(string, string) world" where
  "example_started = factory_Start 7 (factory_Start 7 example_got)"

definition example_stopping :: "(string, string) world" where
  "example_stopping = factory_Shutdown (example_started\<lparr>w_closed := 7 # w_closed example_started\<rparr>)"

definition example_stopped :: "(string, string) world" where
  "example_stopped = (goroutine_done 0 example_stopping)\<lparr>w_waiting := 0, w_shutdown := True\<rparr>"

lemmas example_run = example_created_def example_got_def example_started_def example_stopping_def example_stopped_def
  example_clients_def new_world_def NewSharedInformerFactoryWithOptions_def WithNamespace_def ForResource_def
  accessor_Informer_def InformerFor_def SetTransform_def fresh_informer_def factory_Start_def factory_Shutdown_def goroutine_done_def

lemma Start_steps: "factory_step\<^sup>*\<^sup>* w (factory_Start ch w)"
  by (simp add: factory_step.start r_into_rtranclp)

lemma step_ForResource: "factory_step w (snd (ForResource r w)) \<or> snd (ForResource r w) = w"
  by (auto simp: ForResource_def accessor_Informer_def case_prod_beta intro: factory_step.informer_for)

lemma reachable_example:
  "factory_reachable example_created" "factory_reachable example_got" "factory_reachable example_started"
  "factory_reachable example_stopping" "factory_reachable example_stopped"
proof -
  show c: "factory_reachable example_created"
    unfolding example_created_def by (rule factory_reachable.created) (simp add: is_option.intros)
  then show g: "factory_reachable example_got"
    unfolding example_got_def using step_ForResource by (metis factory_reachable.stepped)
  then show s: "factory_reachable example_started"
    unfolding example_started_def by (blast intro: factory_reachable.stepped factory_step.start)
  then show p: "factory_reachable example_stopping"
    unfolding example_stopping_def by (blast intro: factory_reachable.stepped factory_step.close factory_step.shutdown)
  let ?w = "goroutine_done 0 example_stopping"
  have "factory_step example_stopping ?w"
    by (rule factory_step.ends) (simp_all add: example_run Let_def)
  with p have "factory_reachable ?w" by (rule factory_reachable.stepped)
  moreover have "factory_step ?w (?w\<lparr>w_waiting := w_waiting ?w - 1, w_shutdown := True\<rparr>)"
    by (rule factory_step.shutdown_returns) (simp_all add: example_run Let_def)
  moreover have "?w\<lparr>w_waiting := w_waiting ?w - 1, w_shutdown := True\<rparr> = example_stopped"
    by (simp add: example_run Let_def)
  ultimately show "factory_reachable example_stopped" by (metis factory_reachable.stepped)
qed

theorem informers_run_once_witness:
  "w_runs example_started = [0] \<and> f_wg (w_factory example_started) = int (length (w_goroutines example_started)) \<and>
   distinct (w_runs example_started)"
  using informers_run_once [OF reachable_example(3)] by (simp add: example_run Let_def)

text \<open>
  C22. A call of \<open>Start\<close> on a factory that is not shutting down runs, each once and on the
  stop channel given, exactly the informers requested so far that were not run before; then all
  that were requested have been run, and \<open>WaitForCacheSync\<close> reports on exactly these; on a
  factory that is shutting down \<open>Start\<close> does nothing.
\<close>

theorem Start_complete:
  assumes "factory_reachable w"
  shows "if f_shuttingDown (w_factory w) then factory_Start ch w = w
    else set (w_runs (factory_Start ch w)) = ran (registered w) \<and>
      map_of (factory_WaitForCacheSync synced (factory_Start ch w)) = (\<lambda>t. map_option synced (registered w t)) \<and>
      (\<exists>new. w_runs (factory_Start ch w) = w_runs w @ new \<and>
         set new = ran (registered w) - set (w_runs w) \<and> distinct new \<and>
         w_goroutines (factory_Start ch w) = w_goroutines w @ map (\<lambda>a. (a, ch)) new)"
proof (cases "f_shuttingDown (w_factory w)")
  case False
  let ?w = "factory_Start ch w"
  have inv: "factory_inv w" "factory_inv ?w"
    using factory_reachable_inv [OF assms] factory_inv_Start by blast+
  then have m: "maps_inv w" "maps_inv ?w" and runs: "set (w_runs ?w) = marked_informers ?w"
    by (simp_all add: factory_inv_def runs_inv_def)
  note s = Start_running [OF m(1) False]
  have "set (w_runs ?w) = ran (registered w)"
    unfolding runs by (auto simp: marked_informers_def s ran_def)
  moreover have "map_of (factory_WaitForCacheSync synced ?w) = (\<lambda>t. map_option synced (registered w t))"
    by (auto simp: fun_eq_iff WaitForCacheSync_marked [OF m(2)] s)
  moreover have "set (map snd (unstarted (w_factory w))) = ran (registered w) - set (w_runs w)"
  proof -
    have "set (w_runs w) = {a. \<exists>t. registered w t = Some a \<and> marked w t}"
      using inv(1) by (simp add: factory_inv_def runs_inv_def marked_informers_def)
    then show ?thesis
      using inj_registered [OF m(1)] unfolding unstarted_informers(1) [OF m(1)] by (auto simp: ran_def)
  qed
  moreover note unstarted_informers(2) [OF m(1)]
  ultimately show ?thesis
    using False by (auto simp: s case_prod_beta comp_def intro!: exI [of _ "map snd (unstarted (w_factory w))"])
qed (simp add: factory_Start_def)

theorem Start_complete_witness:
  "factory_reachable example_started \<and> w_runs example_started = [0] \<and>
   set (w_runs (factory_Start 8 example_started)) = {0} \<and>
   (\<exists>new. w_runs (factory_Start 8 example_started) = w_runs example_started @ new \<and> set new = {}) \<and>
   map_of (factory_WaitForCacheSync (\<lambda>_. True) (factory_Start 8 example_started)) GatewayParameters_type = Some True"
  using reachable_example(3) Start_complete [OF reachable_example(3), of 8 "\<lambda>_. True"]
  by (simp add: example_run Let_def registered_def fun_eq_iff)

text \<open>
  C20. Once a call of \<open>Shutdown\<close> has returned no informer is running, and none will run
  again whatever is called afterwards.
\<close>

theorem Shutdown_final:
  assumes "factory_reachable w" and "w_shutdown w" and "factory_step\<^sup>*\<^sup>* w w'"
  shows "w_goroutines w' = [] \<and> w_runs w' = w_runs w \<and> f_wg (w_factory w') = 0"
proof -
  have inv: "factory_inv w" by (rule factory_reachable_inv [OF assms(1)])
  then have down: "f_shuttingDown (w_factory w)" "w_goroutines w = []"
    using assms(2) by (simp_all add: factory_inv_def shutdown_inv_def)
  have "factory_reachable w'"
    using assms(3,1) by (induction rule: rtranclp_induct) (auto intro: factory_reachable.stepped)
  then have "f_wg (w_factory w') = int (length (w_goroutines w'))"
    using factory_reachable_inv by (auto simp: factory_inv_def runs_inv_def)
  with shutting_steps [OF assms(3) down(1)] down(2) show ?thesis by simp
qed

theorem Shutdown_final_witness:
  "factory_reachable example_stopped \<and> w_shutdown example_stopped \<and>
   w_goroutines (factory_Start 8 example_stopped) = [] \<and> w_runs (factory_Start 8 example_stopped) = w_runs example_stopped"
proof -
  have "w_shutdown example_stopped" by (simp add: example_run Let_def)
  then show ?thesis
    using reachable_example(5) Shutdown_final [OF reachable_example(5) _ Start_steps] by blast
qed

text \<open>
  C21. \<open>Shutdown\<close> gets there: in every reachable state in which a call waits and the
  stop channels of the running goroutines are closed, the goroutines can all end and the call
  returns.
\<close>

theorem Shutdown_returns:
  assumes "factory_reachable w" and "0 < w_waiting w"
    and "\<forall>(a, ch) \<in> set (w_goroutines w). ch \<in> set (w_closed w)"
  shows "\<exists>w'. factory_step\<^sup>*\<^sup>* w w' \<and> w_shutdown w' \<and> w_goroutines w' = []"
  using factory_reachable_inv [OF assms(1)] assms(2,3)
  by (intro shutdown_reached) (auto simp: factory_inv_def runs_inv_def)

theorem Shutdown_returns_witness:
  "w_goroutines example_stopping = [(0, 7)] \<and>
   (\<exists>w'. factory_step\<^sup>*\<^sup>* example_stopping w' \<and> w_shutdown w' \<and> w_goroutines w' = [])"
proof -
  have "0 < w_waiting example_stopping" and "w_goroutines example_stopping = [(0, 7)]"
    and "\<forall>(a, ch) \<in> set (w_goroutines example_stopping). ch \<in> set (w_closed example_stopping)"
    by (simp_all add: example_run Let_def)
  then show ?thesis using Shutdown_returns [OF reachable_example(4)] by blast
qed

text \<open>
  C23. The informer of the resource is shared: once any accessor has asked for it,
  \<open>ForResource\<close> on \<^verbatim>\<open>fgateway.fleezesd.io/v1alpha1\<close> \<^verbatim>\<open>gatewayparameterses\<close>, every accessor and every lister
  get that same informer in every later state and create no other, whatever the calls between;
  for every other resource \<open>ForResource\<close> fails and changes nothing.
\<close>

theorem ForResource_shared:
  assumes "factory_step\<^sup>*\<^sup>* (snd (accessor_Informer acc w)) w'"
  defines "a \<equiv> fst (accessor_Informer acc w)"
  shows "ForResource \<lparr>GVR_Group = g, GVR_Version = v, GVR_Resource = r\<rparr> w' =
      (if g = ''fgateway.fleezesd.io'' \<and> v = ''v1alpha1'' \<and> r = ''gatewayparameterses''
       then Inr \<lparr>gi_informer = a, gi_resource = \<lparr>GR_Group = g, GR_Resource = r\<rparr>\<rparr>
       else Inl (ErrNew (''no informer found for '' @ g @ ''/'' @ v @ '', Resource='' @ r)), w') \<and>
    accessor_Informer acc' w' = (a, w') \<and>
    accessor_Lister acc' w' = (\<lparr>lister_indexer = a, lister_resource = Resource ''gatewayparameters'', lister_namespace = None\<rparr>, w')"
proof -
  have "accessor_Informer acc' w' = (a, w')" for acc'
    using factory.shared [OF assms(1) [unfolded accessor_Informer_def]] by (simp add: a_def accessor_Informer_def)
  then show ?thesis
    by (simp add: ForResource_def accessor_Lister_def NewGatewayParametersLister_def WithResource_def
        SchemeGroupVersion_def GVR_GroupResource_def)
qed

theorem ForResource_shared_witness:
  "fst (ForResource \<lparr>GVR_Group = ''fgateway.fleezesd.io'', GVR_Version = ''v1alpha1'', GVR_Resource = ''gatewayparameterses''\<rparr>
     (factory_Start 7 (snd (accessor_Informer (factory_Fgateway example_created) example_created)))) =
   Inr \<lparr>gi_informer = 0, gi_resource = \<lparr>GR_Group = ''fgateway.fleezesd.io'', GR_Resource = ''gatewayparameterses''\<rparr>\<rparr>"
proof -
  let ?acc = "factory_Fgateway example_created"
  have "fst (accessor_Informer ?acc example_created) = 0" by (simp add: example_run Let_def)
  moreover have "factory_step\<^sup>*\<^sup>* (snd (accessor_Informer ?acc example_created)) (factory_Start 7 (snd (accessor_Informer ?acc example_created)))"
    by (rule Start_steps)
  ultimately show ?thesis
    using ForResource_shared [of ?acc example_created _ "''fgateway.fleezesd.io''" "''v1alpha1''" "''gatewayparameterses''" ?acc]
    by simp
qed

end
