(* ===== verification/Fake_Clientset.thy ===== *)
theory Fake_Clientset
  imports Clientset Gateway_Parameters
begin

text \<open>
  The fake clientset: \<^verbatim>\<open>fake/clientset_generated.go\<close> of the generated clientset and the fake client
  of the group, \<^verbatim>\<open>typed/fgateway/v1alpha1/fake\<close>.

  Object tracker, reactions of \<open>testing.Fake\<close> and generic fake client are client-go's. A tracker
  is a value of the type \<open>'t\<close>, its operations are the parameter \<open>tracker_lib\<close>; the clientset holds
  a pointer to the tracker, as do its reactions, so the tracker is returned beside the clientset.
  The \<open>testing.Fake\<close> embedded in a clientset is shared by address with the discovery client and
  the clients of the group.
\<close>

section \<open>The clientset\<close>

record ('t, 'w) tracker_lib =
  tl_NewObjectTracker :: "scheme_kinds \<Rightarrow> 't"
  tl_Add :: "'t \<Rightarrow> KObject \<Rightarrow> go_error option \<times> 't"
  tl_Watch :: "'t \<Rightarrow> GroupVersionResource \<Rightarrow> string \<Rightarrow> go_error + 'w"

record fake_action =
  action_Resource :: GroupVersionResource
  action_Namespace :: string

text \<open>The result of a watch reaction: whether the action is handled, the watch, the error.\<close>

type_synonym 'w watch_result = "bool \<times> 'w option \<times> go_error option"

definition watch_reaction :: "('t, 'w) tracker_lib \<Rightarrow> 't \<Rightarrow> fake_action \<Rightarrow> 'w watch_result" where
  "watch_reaction lib o' action =
     (let gvr = action_Resource action; ns = action_Namespace action
      in case tl_Watch lib o' gvr ns of
           Inl err \<Rightarrow> (False, None, Some err)
         | Inr watch \<Rightarrow> (True, Some watch, None))"

text \<open>
  A reaction is kept with the verb and resource it is registered for: \<open>ObjectReaction\<close> of the
  clientset's tracker, or the function that answers watches from it.
\<close>

datatype reaction = ObjectReaction | WatchReaction

record testing_Fake =
  Fake_ReactionChain :: "(string \<times> string \<times> reaction) list"
  Fake_WatchReactionChain :: "(string \<times> reaction) list"

record fake_Clientset =
  cs_Fake_addr :: nat \<comment> \<open>the address of the embedded \<open>Fake\<close>\<close>
  cs_Fake :: testing_Fake
  cs_discovery :: nat \<comment> \<open>the \<open>Fake\<close> of the discovery client, by address\<close>

fun add_objects :: "('t, 'w) tracker_lib \<Rightarrow> KObject list \<Rightarrow> 't \<Rightarrow> 't exec" where
  "add_objects lib [] o' = Ret o'"
| "add_objects lib (obj # objects) o' =
     (case tl_Add lib o' obj of
        (Some err, _) \<Rightarrow> Panic ''NewSimpleClientset''
      | (None, o') \<Rightarrow> add_objects lib objects o')"

text \<open>\<open>scheme\<close> is the package variable, \<open>addr\<close> the address at which the clientset's \<open>Fake\<close> is allocated.\<close>

definition NewSimpleClientset ::
  "('t, 'w) tracker_lib \<Rightarrow> scheme_kinds \<Rightarrow> nat \<Rightarrow> KObject list \<Rightarrow> (fake_Clientset \<times> 't) exec" where
  "NewSimpleClientset lib scheme addr objects =
     exec_bind (add_objects lib objects (tl_NewObjectTracker lib scheme)) (\<lambda>o'.
       Ret (\<lparr>cs_Fake_addr = addr,
         cs_Fake = \<lparr>Fake_ReactionChain = [(''*'', ''*'', ObjectReaction)],
           Fake_WatchReactionChain = [(''*'', WatchReaction)]\<rparr>,
         cs_discovery = addr\<rparr>, o'))"

definition fake_Discovery :: "fake_Clientset \<Rightarrow> nat" where
  "fake_Discovery c = cs_discovery c"

text \<open>\<open>Tracker\<close>: the tracker the clientset points to, which is the second component here.\<close>

definition Tracker :: "fake_Clientset \<times> 't \<Rightarrow> 't" where
  "Tracker c = snd c"

section \<open>The fake client of the group\<close>

record FakeFgatewayV1alpha1 =
  FFV_Fake :: nat

definition fake_FgatewayV1alpha1 :: "fake_Clientset \<Rightarrow> FakeFgatewayV1alpha1" where
  "fake_FgatewayV1alpha1 c = \<lparr>FFV_Fake = cs_Fake_addr c\<rparr>"

text \<open>
  What the generic fake client is given. \<open>gentype.ToPointerSlice\<close> and \<open>gentype.FromPointerSlice\<close>
  are parameters; the constructors of empty objects are not represented.
\<close>

record ('p, 'm) fakeGatewayParameterses =
  fgp_Fake :: nat
  fgp_Namespace :: string
  fgp_Resource :: GroupVersionResource
  fgp_Kind :: GroupVersionKind
  fgp_copyListMeta :: "GatewayParametersList \<Rightarrow> GatewayParametersList \<Rightarrow> GatewayParametersList"
  fgp_toPointers :: "GatewayParametersList \<Rightarrow> 'p"
  fgp_setItems :: "GatewayParametersList \<Rightarrow> 'p \<Rightarrow> GatewayParametersList"
  fgp_client :: "'m"

text \<open>\<open>schema.GroupVersion.WithKind\<close>\<close>

definition WithKind :: "GroupVersion \<Rightarrow> string \<Rightarrow> GroupVersionKind" where
  "WithKind gv kind = \<lparr>GVK_Group = GV_Group gv, GVK_Version = GV_Version gv, GVK_Kind = kind\<rparr>"

definition newFakeGatewayParameterses ::
  "(GatewayParameters slice \<Rightarrow> 'p) \<Rightarrow> ('p \<Rightarrow> GatewayParameters slice) \<Rightarrow> FakeFgatewayV1alpha1 \<Rightarrow> string \<Rightarrow>
     ('p, FakeFgatewayV1alpha1) fakeGatewayParameterses" where
  "newFakeGatewayParameterses ToPointerSlice FromPointerSlice fake namespace =
     \<lparr>fgp_Fake = FFV_Fake fake, fgp_Namespace = namespace,
      fgp_Resource = WithResource SchemeGroupVersion ''gatewayparameterses'',
      fgp_Kind = WithKind SchemeGroupVersion ''GatewayParameters'',
      fgp_copyListMeta = (\<lambda>dst src. dst\<lparr>GatewayParametersList_ListMeta := GatewayParametersList_ListMeta src\<rparr>),
      fgp_toPointers = (\<lambda>list. ToPointerSlice (GatewayParametersList_Items list)),
      fgp_setItems = (\<lambda>list items. list\<lparr>GatewayParametersList_Items := FromPointerSlice items\<rparr>),
      fgp_client = fake\<rparr>"

definition fake_GatewayParameterses ::
  "(GatewayParameters slice \<Rightarrow> 'p) \<Rightarrow> ('p \<Rightarrow> GatewayParameters slice) \<Rightarrow> FakeFgatewayV1alpha1 \<Rightarrow> string \<Rightarrow>
     ('p, FakeFgatewayV1alpha1) fakeGatewayParameterses" where
  "fake_GatewayParameterses ToPointerSlice FromPointerSlice c namespace =
     newFakeGatewayParameterses ToPointerSlice FromPointerSlice c namespace"

text \<open>An interface value: nil, a pointer type with a nil pointer, or one with a value.\<close>

datatype 'r iface = NilInterface | NilPointer | Holds 'r

definition fake_RESTClient :: "FakeFgatewayV1alpha1 \<Rightarrow> 'r iface" where
  "fake_RESTClient c = NilPointer"

section \<open>Facts\<close>

text \<open>All parts of a clientset share its \<open>Fake\<close>, and list items go through the generic client unchanged.\<close>

lemma fake_shared:
  assumes "NewSimpleClientset lib scheme addr objects = Ret (cs, t)"
  shows "fake_Discovery cs = addr"
    and "fgp_Fake (fake_GatewayParameterses to from (fake_FgatewayV1alpha1 cs) ns) = addr"
  using assms
  by (auto simp: NewSimpleClientset_def exec_bind_eq_Ret fake_Discovery_def fake_GatewayParameterses_def
      newFakeGatewayParameterses_def fake_FgatewayV1alpha1_def)

lemma fake_items_roundtrip:
  assumes "\<And>items. from (to items) = items"
  shows "fgp_setItems (newFakeGatewayParameterses to from c ns) dst (fgp_toPointers (newFakeGatewayParameterses to from c ns) list) =
    dst\<lparr>GatewayParametersList_Items := GatewayParametersList_Items list\<rparr>"
  by (simp add: newFakeGatewayParameterses_def assms)

text \<open>The tracker after adding objects one after another, where every addition succeeds.\<close>

lemma add_objects_append:
  "add_objects lib (xs @ ys) t = exec_bind (add_objects lib xs t) (add_objects lib ys)"
  by (induction xs arbitrary: t) (auto split: prod.split option.split)

lemma add_objects_returns:
  "add_objects lib objects t = Ret t' \<longleftrightarrow>
     t' = fold (\<lambda>obj t. snd (tl_Add lib t obj)) objects t \<and>
     (\<forall>i < length objects. fst (tl_Add lib (fold (\<lambda>obj t. snd (tl_Add lib t obj)) (take i objects) t) (objects ! i)) = None)"
proof (induction objects arbitrary: t)
  case Nil
  then show ?case by auto
next
  case (Cons obj objects)
  obtain err t1 where add: "tl_Add lib t obj = (err, t1)" by fastforce
  show ?case
    by (cases err) (auto simp: add Cons.IH All_less_Suc2)
qed

text \<open>A tracker never changes the scheme it was made with.\<close>

lemma add_objects_observes:
  assumes "\<And>t obj. scheme_of (snd (tl_Add lib t obj)) = scheme_of t" and "add_objects lib objects t = Ret t'"
  shows "scheme_of t' = scheme_of t"
  using assms(2)
proof (induction objects arbitrary: t)
  case (Cons obj objects)
  then show ?case using assms(1) [of t obj] by (auto split: prod.splits option.splits)
qed simp

text \<open>
  C25. The fake clientset cannot hold objects of the program's own types. Given that the tracker
  refuses a GatewayParameters object when its scheme knows no kind of the API group, which no
  scheme of the program does, \<open>NewSimpleClientset\<close> panics whenever such an object is among those
  it is given, wherever it stands. Without one it returns exactly when the tracker accepts each
  object in turn, with all of them in the tracker, and discovery and the client of the group
  record their actions in the clientset's own \<open>Fake\<close>.
\<close>

theorem NewSimpleClientset_rejects_own_types:
  assumes group: "\<And>gv s. set (AddToGroupVersion gv s) \<subseteq> set s \<union> {k. GVK_Group k \<in> {GV_Group gv, ''''}}"
    and init: "fake_scheme_init AddToGroupVersion = Ret scheme"
    and made: "\<And>s. scheme_of (tl_NewObjectTracker lib s) = s"
    and kept: "\<And>t obj. scheme_of (snd (tl_Add lib t obj)) = scheme_of t"
    and refused: "\<And>t obj. KObject_GoType obj = ''v1alpha1.GatewayParameters'' \<Longrightarrow>
      (\<forall>k \<in> set (scheme_of t). GVK_Group k \<noteq> ''fgateway.fleezesd.io'') \<Longrightarrow> fst (tl_Add lib t obj) \<noteq> None"
  shows "((\<exists>obj \<in> set objects. KObject_GoType obj = ''v1alpha1.GatewayParameters'') \<longrightarrow>
      \<not> returns (NewSimpleClientset lib scheme addr objects)) \<and>
    (returns (NewSimpleClientset lib scheme addr objects) \<longleftrightarrow>
      (\<forall>i < length objects. fst (tl_Add lib (fold (\<lambda>obj t. snd (tl_Add lib t obj)) (take i objects)
        (tl_NewObjectTracker lib scheme)) (objects ! i)) = None)) \<and>
    (\<forall>cs t. NewSimpleClientset lib scheme addr objects = Ret (cs, t) \<longrightarrow>
      t = fold (\<lambda>obj t. snd (tl_Add lib t obj)) objects (tl_NewObjectTracker lib scheme) \<and>
      fake_Discovery cs = addr \<and> FFV_Fake (fake_FgatewayV1alpha1 cs) = addr)"
proof (intro conjI impI allI)
  assume "\<exists>obj \<in> set objects. KObject_GoType obj = ''v1alpha1.GatewayParameters''"
  then obtain obj xs ys where split: "objects = xs @ obj # ys" and own: "KObject_GoType obj = ''v1alpha1.GatewayParameters''"
    by (metis split_list)
  have unknown: "\<forall>k \<in> set scheme. GVK_Group k \<noteq> ''fgateway.fleezesd.io''"
    using fake_scheme_foreign [OF group init] by (auto simp: SchemeGroupVersion_def)
  show "\<not> returns (NewSimpleClientset lib scheme addr objects)"
  proof (cases "add_objects lib xs (tl_NewObjectTracker lib scheme)")
    case (Panic m)
    then show ?thesis by (simp add: NewSimpleClientset_def split add_objects_append)
  next
    case (Ret t)
    then have "scheme_of t = scheme" using add_objects_observes [of scheme_of lib, OF kept] made by simp
    then have "fst (tl_Add lib t obj) \<noteq> None" using refused [OF own] unknown by simp
    then show ?thesis
      using Ret by (cases "tl_Add lib t obj") (auto simp: NewSimpleClientset_def split add_objects_append)
  qed
next
  show "returns (NewSimpleClientset lib scheme addr objects) \<longleftrightarrow>
      (\<forall>i < length objects. fst (tl_Add lib (fold (\<lambda>obj t. snd (tl_Add lib t obj)) (take i objects)
        (tl_NewObjectTracker lib scheme)) (objects ! i)) = None)"
    by (auto simp: NewSimpleClientset_def returns_iff exec_bind_eq_Ret add_objects_returns)
next
  fix cs t assume ret: "NewSimpleClientset lib scheme addr objects = Ret (cs, t)"
  then show "t = fold (\<lambda>obj t. snd (tl_Add lib t obj)) objects (tl_NewObjectTracker lib scheme)"
    by (auto simp: NewSimpleClientset_def exec_bind_eq_Ret add_objects_returns)
  show "fake_Discovery cs = addr" using fake_shared(1) [OF ret] .
  show "FFV_Fake (fake_FgatewayV1alpha1 cs) = addr"
    using ret by (auto simp: NewSimpleClientset_def exec_bind_eq_Ret fake_FgatewayV1alpha1_def)
qed

text \<open>A tracker that keeps its scheme and objects, and accepts any object of a type other than its own.\<close>

definition example_tracker_lib :: "(scheme_kinds \<times> KObject list, unit) tracker_lib" where
  "example_tracker_lib = \<lparr>tl_NewObjectTracker = (\<lambda>s. (s, [])),
     tl_Add = (\<lambda>(s, objs) obj. if KObject_GoType obj = ''v1alpha1.GatewayParameters'' \<and>
         (\<forall>k \<in> set s. GVK_Group k \<noteq> ''fgateway.fleezesd.io'')
       then (Some (ErrNew ''no kind is registered''), (s, objs)) else (None, (s, objs @ [obj]))),
     tl_Watch = (\<lambda>_ _ _. Inr ())\<rparr>"

definition example_kobject :: "string \<Rightarrow> KObject" where
  "example_kobject goType = \<lparr>KObject_GoType = goType, KObject_GVK = \<lparr>GVK_Group = '''', GVK_Version = '''', GVK_Kind = ''''\<rparr>,
     KObject_Meta = ObjectMeta_zero, KObject_rest = Opaque ''''\<rparr>"

theorem NewSimpleClientset_rejects_own_types_witness:
  "\<exists>scheme. fake_scheme_init example_AddToGroupVersion = Ret scheme \<and>
     \<not> returns (NewSimpleClientset example_tracker_lib scheme 7 [example_kobject ''v1.Pod'', example_kobject ''v1alpha1.GatewayParameters''])"
proof -
  have group: "set (example_AddToGroupVersion gv s) \<subseteq> set s \<union> {k. GVK_Group k \<in> {GV_Group gv, ''''}}" for gv s
    by (simp add: example_AddToGroupVersion_def)
  obtain scheme where init: "fake_scheme_init example_AddToGroupVersion = Ret scheme"
    using Must_registers [OF local_registers(2)] by (metis fake_scheme_init_def)
  note main = NewSimpleClientset_rejects_own_types [where scheme_of = fst and lib = example_tracker_lib and addr = 7
      and objects = "[example_kobject ''v1.Pod'', example_kobject ''v1alpha1.GatewayParameters'']", OF group init]
  have "\<not> returns (NewSimpleClientset example_tracker_lib scheme 7 [example_kobject ''v1.Pod'', example_kobject ''v1alpha1.GatewayParameters''])"
    by (rule conjunct1 [OF main, THEN mp])
      (auto simp: example_tracker_lib_def example_kobject_def split: prod.splits)
  then show ?thesis using init by blast
qed

end
