(* ===== verification/OpenAPI.thy ===== *)
theory OpenAPI
  imports Prelude
begin

text \<open>
  The generated OpenAPI definitions, \<^verbatim>\<open>pkg/fgateway/openapi/zz_generated.openapi.go\<close>: one function
  per type, which builds the schema of the type, and \<open>GetOpenAPIDefinitions\<close>, which lists them
  under the names of the types.

  A schema keeps, in this order, the fields \<open>Type\<close>, \<open>Format\<close>, \<open>Default\<close>, \<open>Ref\<close>, \<open>Properties\<close>,
  \<open>Items\<close>, \<open>AdditionalProperties\<close> and \<open>Required\<close> of \<open>spec.SchemaProps\<close> and the vendor extensions;
  the descriptions, which are documentation, are left out. A Go map literal is the list of its
  entries in source order. The \<open>ref\<close> argument is the caller's \<open>common.ReferenceCallback\<close>, from the
  name of a type to a reference of any type \<open>'r\<close>. What \<open>OpenAPISchemaType\<close> and
  \<open>OpenAPISchemaFormat\<close> of the library's time types return is the parameter \<open>openapi_lib\<close>.
\<close>

section \<open>Schemas\<close>

text \<open>\<open>JEmpty\<close> is \<open>map[string]interface{}{}\<close>, \<open>JList\<close> a slice of strings.\<close>

datatype json = JStr string | JBool bool | JNum int | JEmpty | JList "string list"

datatype 'r schema = Schema
  (schema_Type: "string list")
  (schema_Format: string)
  (schema_Default: "json option")
  (schema_Ref: "'r option")
  (schema_Properties: "(string \<times> 'r schema) list")
  (schema_Items: "'r schema option")
  (schema_AdditionalProperties: "(bool \<times> 'r schema) option")
  (schema_Required: "string list")
  (schema_Extensions: "(string \<times> json) list")

record 'r OpenAPIDefinition =
  Definition_Schema :: "'r schema"
  Definition_Dependencies :: "string list"

record openapi_lib =
  oa_SchemaType :: "string \<Rightarrow> string list"
  oa_SchemaFormat :: "string \<Rightarrow> string"

text \<open>The names of types are package paths followed by the name in the package.\<close>

definition meta_v1 :: "string \<Rightarrow> string" where
  "meta_v1 n = ''k8s.io/apimachinery/pkg/apis/meta/v1.'' @ n"

definition k8s_runtime :: "string \<Rightarrow> string" where
  "k8s_runtime n = ''k8s.io/apimachinery/pkg/runtime.'' @ n"

definition k8s_version :: "string \<Rightarrow> string" where
  "k8s_version n = ''k8s.io/apimachinery/pkg/version.'' @ n"

definition fgateway_v1alpha1 :: "string \<Rightarrow> string" where
  "fgateway_v1alpha1 n = ''github.com/fleezesd/fgateway/apis/fgateway/v1alpha1.'' @ n"

section \<open>The definitions\<close>

definition schema_fgateway_apis_fgateway_v1alpha1_GatewayParameters :: "(string \<Rightarrow> 'r) \<Rightarrow> 'r OpenAPIDefinition" where
  "schema_fgateway_apis_fgateway_v1alpha1_GatewayParameters ref = \<lparr>Definition_Schema =
    Schema [''object''] '''' None None [
      (''kind'', Schema [''string''] '''' None None [] None None [] []),
      (''apiVersion'', Schema [''string''] '''' None None [] None None [] []),
      (''metadata'', Schema [] '''' (Some JEmpty) (Some (ref (meta_v1 ''ObjectMeta''))) [] None None [] []),
      (''spec'', Schema [] '''' (Some JEmpty) (Some (ref (fgateway_v1alpha1 ''GatewayParametersSpec''))) [] None None [] []),
      (''status'', Schema [] '''' (Some JEmpty) (Some (ref (fgateway_v1alpha1 ''GatewayParametersStatus''))) [] None None [] [])] None None [] [],
   Definition_Dependencies = [fgateway_v1alpha1 ''GatewayParametersSpec'', fgateway_v1alpha1 ''GatewayParametersStatus'', meta_v1 ''ObjectMeta'']\<rparr>"

definition schema_pkg_apis_meta_v1_APIGroup :: "(string \<Rightarrow> 'r) \<Rightarrow> 'r OpenAPIDefinition" where
  "schema_pkg_apis_meta_v1_APIGroup ref = \<lparr>Definition_Schema =
    Schema [''object''] '''' None None [
      (''kind'', Schema [''string''] '''' None None [] None None [] []),
      (''apiVersion'', Schema [''string''] '''' None None [] None None [] []),
      (''name'', Schema [''string''] '''' (Some (JStr '''')) None [] None None [] []),
      (''versions'', Schema [''array''] '''' None None [] (Some (Schema [] '''' (Some JEmpty) (Some (ref (meta_v1 ''GroupVersionForDiscovery''))) [] None None [] [])) None [] [(''x-kubernetes-list-type'', (JStr ''atomic''))]),
      (''preferredVersion'', Schema [] '''' (Some JEmpty) (Some (ref (meta_v1 ''GroupVersionForDiscovery''))) [] None None [] []),
      (''serverAddressByClientCIDRs'', Schema [''array''] '''' None None [] (Some (Schema [] '''' (Some JEmpty) (Some (ref (meta_v1 ''ServerAddressByClientCIDR''))) [] None None [] [])) None [] [(''x-kubernetes-list-type'', (JStr ''atomic''))])] None None [''name'', ''versions''] [],
   Definition_Dependencies = [meta_v1 ''GroupVersionForDiscovery'', meta_v1 ''ServerAddressByClientCIDR'']\<rparr>"

definition schema_pkg_apis_meta_v1_APIGroupList :: "(string \<Rightarrow> 'r) \<Rightarrow> 'r OpenAPIDefinition" where
  "schema_pkg_apis_meta_v1_APIGroupList ref = \<lparr>Definition_Schema =
    Schema [''object''] '''' None None [
      (''kind'', Schema [''string''] '''' None None [] None None [] []),
      (''apiVersion'', Schema [''string''] '''' None None [] None None [] []),
      (''groups'', Schema [''array''] '''' None None [] (Some (Schema [] '''' (Some JEmpty) (Some (ref (meta_v1 ''APIGroup''))) [] None None [] [])) None [] [(''x-kubernetes-list-type'', (JStr ''atomic''))])] None None [''groups''] [],
   Definition_Dependencies = [meta_v1 ''APIGroup'']\<rparr>"

definition schema_pkg_apis_meta_v1_APIResource :: "(string \<Rightarrow> 'r) \<Rightarrow> 'r OpenAPIDefinition" where
  "schema_pkg_apis_meta_v1_APIResource ref = \<lparr>Definition_Schema =
    Schema [''object''] '''' None None [
      (''name'', Schema [''string''] '''' (Some (JStr '''')) None [] None None [] []),
      (''singularName'', Schema [''string''] '''' (Some (JStr '''')) None [] None None [] []),
      (''namespaced'', Schema [''boolean''] '''' (Some (JBool False)) None [] None None [] []),
      (''group'', Schema [''string''] '''' None None [] None None [] []),
      (''version'', Schema [''string''] '''' None None [] None None [] []),
      (''kind'', Schema [''string''] '''' (Some (JStr '''')) None [] None None [] []),
      (''verbs'', Schema [''array''] '''' None None [] (Some (Schema [''string''] '''' (Some (JStr '''')) None [] None None [] [])) None [] []),
      (''shortNames'', Schema [''array''] '''' None None [] (Some (Schema [''string''] '''' (Some (JStr '''')) None [] None None [] [])) None [] [(''x-kubernetes-list-type'', (JStr ''atomic''))]),
      (''categories'', Schema [''array''] '''' None None [] (Some (Schema [''string''] '''' (Some (JStr '''')) None [] None None [] [])) None [] [(''x-kubernetes-list-type'', (JStr ''atomic''))]),
      (''storageVersionHash'', Schema [''string''] '''' None None [] None None [] [])] None None [''name'', ''singularName'', ''namespaced'', ''kind'', ''verbs''] [],
   Definition_Dependencies = []\<rparr>"

definition schema_pkg_apis_meta_v1_APIResourceList :: "(string \<Rightarrow> 'r) \<Rightarrow> 'r OpenAPIDefinition" where
  "schema_pkg_apis_meta_v1_APIResourceList ref = \<lparr>Definition_Schema =
    Schema [''object''] '''' None None [
      (''kind'', Schema [''string''] '''' None None [] None None [] []),
      (''apiVersion'', Schema [''string''] '''' None None [] None None [] []),
      (''groupVersion'', Schema [''string''] '''' (Some (JStr '''')) None [] None None [] []),
      (''resources'', Schema [''array''] '''' None None [] (Some (Schema [] '''' (Some JEmpty) (Some (ref (meta_v1 ''APIResource''))) [] None None [] [])) None [] [(''x-kubernetes-list-type'', (JStr ''atomic''))])] None None [''groupVersion'', ''resources''] [],
   Definition_Dependencies = [meta_v1 ''APIResource'']\<rparr>"

definition schema_pkg_apis_meta_v1_APIVersions :: "(string \<Rightarrow> 'r) \<Rightarrow> 'r OpenAPIDefinition" where
  "schema_pkg_apis_meta_v1_APIVersions ref = \<lparr>Definition_Schema =
    Schema [''object''] '''' None None [
      (''kind'', Schema [''string''] '''' None None [] None None [] []),
      (''apiVersion'', Schema [''string''] '''' None None [] None None [] []),
      (''versions'', Schema [''array''] '''' None None [] (Some (Schema [''string''] '''' (Some (JStr '''')) None [] None None [] [])) None [] [(''x-kubernetes-list-type'', (JStr ''atomic''))]),
      (''serverAddressByClientCIDRs'', Schema [''array''] '''' None None [] (Some (Schema [] '''' (Some JEmpty) (Some (ref (meta_v1 ''ServerAddressByClientCIDR''))) [] None None [] [])) None [] [(''x-kubernetes-list-type'', (JStr ''atomic''))])] None None [''versions'', ''serverAddressByClientCIDRs''] [],
   Definition_Dependencies = [meta_v1 ''ServerAddressByClientCIDR'']\<rparr>"

definition schema_pkg_apis_meta_v1_ApplyOptions :: "(string \<Rightarrow> 'r) \<Rightarrow> 'r OpenAPIDefinition" where
  "schema_pkg_apis_meta_v1_ApplyOptions ref = \<lparr>Definition_Schema =
    Schema [''object''] '''' None None [
      (''kind'', Schema [''string''] '''' None None [] None None [] []),
      (''apiVersion'', Schema [''string''] '''' None None [] None None [] []),
      (''dryRun'', Schema [''array''] '''' None None [] (Some (Schema [''string''] '''' (Some (JStr '''')) None [] None None [] [])) None [] [(''x-kubernetes-list-type'', (JStr ''atomic''))]),
      (''force'', Schema [''boolean''] '''' (Some (JBool False)) None [] None None [] []),
      (''fieldManager'', Schema [''string''] '''' (Some (JStr '''')) None [] None None [] [])] None None [''force'', ''fieldManager''] [],
   Definition_Dependencies = []\<rparr>"

definition schema_pkg_apis_meta_v1_Condition :: "(string \<Rightarrow> 'r) \<Rightarrow> 'r OpenAPIDefinition" where
  "schema_pkg_apis_meta_v1_Condition ref = \<lparr>Definition_Schema =
    Schema [''object''] '''' None None [
      (''type'', Schema [''string''] '''' (Some (JStr '''')) None [] None None [] []),
      (''status'', Schema [''string''] '''' (Some (JStr '''')) None [] None None [] []),
      (''observedGeneration'', Schema [''integer''] ''int64'' None None [] None None [] []),
      (''lastTransitionTime'', Schema [] '''' None (Some (ref (meta_v1 ''Time''))) [] None None [] []),
      (''reason'', Schema [''string''] '''' (Some (JStr '''')) None [] None None [] []),
      (''message'', Schema [''string''] '''' (Some (JStr '''')) None [] None None [] [])] None None [''type'', ''status'', ''lastTransitionTime'', ''reason'', ''message''] [],
   Definition_Dependencies = [meta_v1 ''Time'']\<rparr>"

definition schema_pkg_apis_meta_v1_CreateOptions :: "(string \<Rightarrow> 'r) \<Rightarrow> 'r OpenAPIDefinition" where
  "schema_pkg_apis_meta_v1_CreateOptions ref = \<lparr>Definition_Schema =
    Schema [''object''] '''' None None [
      (''kind'', Schema [''string''] '''' None None [] None None [] []),
      (''apiVersion'', Schema [''string''] '''' None None [] None None [] []),
      (''dryRun'', Schema [''array''] '''' None None [] (Some (Schema [''string''] '''' (Some (JStr '''')) None [] None None [] [])) None [] [(''x-kubernetes-list-type'', (JStr ''atomic''))]),
      (''fieldManager'', Schema [''string''] '''' None None [] None None [] []),
      (''fieldValidation'', Schema [''string''] '''' None None [] None None [] [])] None None [] [],
   Definition_Dependencies = []\<rparr>"

definition schema_pkg_apis_meta_v1_DeleteOptions :: "(string \<Rightarrow> 'r) \<Rightarrow> 'r OpenAPIDefinition" where
  "schema_pkg_apis_meta_v1_DeleteOptions ref = \<lparr>Definition_Schema =
    Schema [''object''] '''' None None [
      (''kind'', Schema [''string''] '''' None None [] None None [] []),
      (''apiVersion'', Schema [''string''] '''' None None [] None None [] []),
      (''gracePeriodSeconds'', Schema [''integer''] ''int64'' None None [] None None [] []),
      (''preconditions'', Schema [] '''' None (Some (ref (meta_v1 ''Preconditions''))) [] None None [] []),
      (''orphanDependents'', Schema [''boolean''] '''' None None [] None None [] []),
      (''propagationPolicy'', Schema [''string''] '''' None None [] None None [] []),
      (''dryRun'', Schema [''array''] '''' None None [] (Some (Schema [''string''] '''' (Some (JStr '''')) None [] None None [] [])) None [] [(''x-kubernetes-list-type'', (JStr ''atomic''))]),
      (''ignoreStoreReadErrorWithClusterBreakingPotential'', Schema [''boolean''] '''' None None [] None None [] [])] None None [] [],
   Definition_Dependencies = [meta_v1 ''Preconditions'']\<rparr>"

definition schema_pkg_apis_meta_v1_Duration :: "openapi_lib \<Rightarrow> (string \<Rightarrow> 'r) \<Rightarrow> 'r OpenAPIDefinition" where
  "schema_pkg_apis_meta_v1_Duration lib ref = \<lparr>Definition_Schema =
    Schema (oa_SchemaType lib ''Duration'') (oa_SchemaFormat lib ''Duration'') None None [] None None [] [],
   Definition_Dependencies = []\<rparr>"

definition schema_pkg_apis_meta_v1_FieldSelectorRequirement :: "(string \<Rightarrow> 'r) \<Rightarrow> 'r OpenAPIDefinition" where
  "schema_pkg_apis_meta_v1_FieldSelectorRequirement ref = \<lparr>Definition_Schema =
    Schema [''object''] '''' None None [
      (''key'', Schema [''string''] '''' (Some (JStr '''')) None [] None None [] []),
      (''operator'', Schema [''string''] '''' (Some (JStr '''')) None [] None None [] []),
      (''values'', Schema [''array''] '''' None None [] (Some (Schema [''string''] '''' (Some (JStr '''')) None [] None None [] [])) None [] [(''x-kubernetes-list-type'', (JStr ''atomic''))])] None None [''key'', ''operator''] [],
   Definition_Dependencies = []\<rparr>"

definition schema_pkg_apis_meta_v1_FieldsV1 :: "(string \<Rightarrow> 'r) \<Rightarrow> 'r OpenAPIDefinition" where
  "schema_pkg_apis_meta_v1_FieldsV1 ref = \<lparr>Definition_Schema =
    Schema [''object''] '''' None None [] None None [] [],
   Definition_Dependencies = []\<rparr>"

definition schema_pkg_apis_meta_v1_GetOptions :: "(string \<Rightarrow> 'r) \<Rightarrow> 'r OpenAPIDefinition" where
  "schema_pkg_apis_meta_v1_GetOptions ref = \<lparr>Definition_Schema =
    Schema [''object''] '''' None None [
      (''kind'', Schema [''string''] '''' None None [] None None [] []),
      (''apiVersion'', Schema [''string''] '''' None None [] None None [] []),
      (''resourceVersion'', Schema [''string''] '''' None None [] None None [] [])] None None [] [],
   Definition_Dependencies = []\<rparr>"

definition schema_pkg_apis_meta_v1_GroupKind :: "(string \<Rightarrow> 'r) \<Rightarrow> 'r OpenAPIDefinition" where
  "schema_pkg_apis_meta_v1_GroupKind ref = \<lparr>Definition_Schema =
    Schema [''object''] '''' None None [
      (''group'', Schema [''string''] '''' (Some (JStr '''')) None [] None None [] []),
      (''kind'', Schema [''string''] '''' (Some (JStr '''')) None [] None None [] [])] None None [''group'', ''kind''] [],
   Definition_Dependencies = []\<rparr>"

definition schema_pkg_apis_meta_v1_GroupResource :: "(string \<Rightarrow> 'r) \<Rightarrow> 'r OpenAPIDefinition" where
  "schema_pkg_apis_meta_v1_GroupResource ref = \<lparr>Definition_Schema =
    Schema [''object''] '''' None None [
      (''group'', Schema [''string''] '''' (Some (JStr '''')) None [] None None [] []),
      (''resource'', Schema [''string''] '''' (Some (JStr '''')) None [] None None [] [])] None None [''group'', ''resource''] [],
   Definition_Dependencies = []\<rparr>"

definition schema_pkg_apis_meta_v1_GroupVersion :: "(string \<Rightarrow> 'r) \<Rightarrow> 'r OpenAPIDefinition" where
  "schema_pkg_apis_meta_v1_GroupVersion ref = \<lparr>Definition_Schema =
    Schema [''object''] '''' None None [
      (''group'', Schema [''string''] '''' (Some (JStr '''')) None [] None None [] []),
      (''version'', Schema [''string''] '''' (Some (JStr '''')) None [] None None [] [])] None None [''group'', ''version''] [],
   Definition_Dependencies = []\<rparr>"

definition schema_pkg_apis_meta_v1_GroupVersionForDiscovery :: "(string \<Rightarrow> 'r) \<Rightarrow> 'r OpenAPIDefinition" where
  "schema_pkg_apis_meta_v1_GroupVersionForDiscovery ref = \<lparr>Definition_Schema =
    Schema [''object''] '''' None None [
      (''groupVersion'', Schema [''string''] '''' (Some (JStr '''')) None [] None None [] []),
      (''version'', Schema [''string''] '''' (Some (JStr '''')) None [] None None [] [])] None None [''groupVersion'', ''version''] [],
   Definition_Dependencies = []\<rparr>"

definition schema_pkg_apis_meta_v1_GroupVersionKind :: "(string \<Rightarrow> 'r) \<Rightarrow> 'r OpenAPIDefinition" where
  "schema_pkg_apis_meta_v1_GroupVersionKind ref = \<lparr>Definition_Schema =
    Schema [''object''] '''' None None [
      (''group'', Schema [''string''] '''' (Some (JStr '''')) None [] None None [] []),
      (''version'', Schema [''string''] '''' (Some (JStr '''')) None [] None None [] []),
      (''kind'', Schema [''string''] '''' (Some (JStr '''')) None [] None None [] [])] None None [''group'', ''version'', ''kind''] [],
   Definition_Dependencies = []\<rparr>"

definition schema_pkg_apis_meta_v1_GroupVersionResource :: "(string \<Rightarrow> 'r) \<Rightarrow> 'r OpenAPIDefinition" where
  "schema_pkg_apis_meta_v1_GroupVersionResource ref = \<lparr>Definition_Schema =
    Schema [''object''] '''' None None [
      (''group'', Schema [''string''] '''' (Some (JStr '''')) None [] None None [] []),
      (''version'', Schema [''string''] '''' (Some (JStr '''')) None [] None None [] []),
      (''resource'', Schema [''string''] '''' (Some (JStr '''')) None [] None None [] [])] None None [''group'', ''version'', ''resource''] [],
   Definition_Dependencies = []\<rparr>"

definition schema_pkg_apis_meta_v1_InternalEvent :: "(string \<Rightarrow> 'r) \<Rightarrow> 'r OpenAPIDefinition" where
  "schema_pkg_apis_meta_v1_InternalEvent ref = \<lparr>Definition_Schema =
    Schema [''object''] '''' None None [
      (''Type'', Schema [''string''] '''' (Some (JStr '''')) None [] None None [] []),
      (''Object'', Schema [] '''' None (Some (ref (k8s_runtime ''Object''))) [] None None [] [])] None None [''Type'', ''Object''] [],
   Definition_Dependencies = [k8s_runtime ''Object'']\<rparr>"

definition schema_pkg_apis_meta_v1_LabelSelector :: "(string \<Rightarrow> 'r) \<Rightarrow> 'r OpenAPIDefinition" where
  "schema_pkg_apis_meta_v1_LabelSelector ref = \<lparr>Definition_Schema =
    Schema [''object''] '''' None None [
      (''matchLabels'', Schema [''object''] '''' None None [] None (Some (True, Schema [''string''] '''' (Some (JStr '''')) None [] None None [] [])) [] []),
      (''matchExpressions'', Schema [''array''] '''' None None [] (Some (Schema [] '''' (Some JEmpty) (Some (ref (meta_v1 ''LabelSelectorRequirement''))) [] None None [] [])) None [] [(''x-kubernetes-list-type'', (JStr ''atomic''))])] None None [] [(''x-kubernetes-map-type'', (JStr ''atomic''))],
   Definition_Dependencies = [meta_v1 ''LabelSelectorRequirement'']\<rparr>"

definition schema_pkg_apis_meta_v1_LabelSelectorRequirement :: "(string \<Rightarrow> 'r) \<Rightarrow> 'r OpenAPIDefinition" where
  "schema_pkg_apis_meta_v1_LabelSelectorRequirement ref = \<lparr>Definition_Schema =
    Schema [''object''] '''' None None [
      (''key'', Schema [''string''] '''' (Some (JStr '''')) None [] None None [] []),
      (''operator'', Schema [''string''] '''' (Some (JStr '''')) None [] None None [] []),
      (''values'', Schema [''array''] '''' None None [] (Some (Schema [''string''] '''' (Some (JStr '''')) None [] None None [] [])) None [] [(''x-kubernetes-list-type'', (JStr ''atomic''))])] None None [''key'', ''operator''] [],
   Definition_Dependencies = []\<rparr>"

definition schema_pkg_apis_meta_v1_List :: "(string \<Rightarrow> 'r) \<Rightarrow> 'r OpenAPIDefinition" where
  "schema_pkg_apis_meta_v1_List ref = \<lparr>Definition_Schema =
    Schema [''object''] '''' None None [
      (''kind'', Schema [''string''] '''' None None [] None None [] []),
      (''apiVersion'', Schema [''string''] '''' None None [] None None [] []),
      (''metadata'', Schema [] '''' (Some JEmpty) (Some (ref (meta_v1 ''ListMeta''))) [] None None [] []),
      (''items'', Schema [''array''] '''' None None [] (Some (Schema [] '''' None (Some (ref (k8s_runtime ''RawExtension''))) [] None None [] [])) None [] [])] None None [''items''] [],
   Definition_Dependencies = [meta_v1 ''ListMeta'', k8s_runtime ''RawExtension'']\<rparr>"

definition schema_pkg_apis_meta_v1_ListMeta :: "(string \<Rightarrow> 'r) \<Rightarrow> 'r OpenAPIDefinition" where
  "schema_pkg_apis_meta_v1_ListMeta ref = \<lparr>Definition_Schema =
    Schema [''object''] '''' None None [
      (''selfLink'', Schema [''string''] '''' None None [] None None [] []),
      (''resourceVersion'', Schema [''string''] '''' None None [] None None [] []),
      (''continue'', Schema [''string''] '''' None None [] None None [] []),
      (''remainingItemCount'', Schema [''integer''] ''int64'' None None [] None None [] [])] None None [] [],
   Definition_Dependencies = []\<rparr>"

definition schema_pkg_apis_meta_v1_ListOptions :: "(string \<Rightarrow> 'r) \<Rightarrow> 'r OpenAPIDefinition" where
  "schema_pkg_apis_meta_v1_ListOptions ref = \<lparr>Definition_Schema =
    Schema [''object''] '''' None None [
      (''kind'', Schema [''string''] '''' None None [] None None [] []),
      (''apiVersion'', Schema [''string''] '''' None None [] None None [] []),
      (''labelSelector'', Schema [''string''] '''' None None [] None None [] []),
      (''fieldSelector'', Schema [''string''] '''' None None [] None None [] []),
      (''watch'', Schema [''boolean''] '''' None None [] None None [] []),
      (''allowWatchBookmarks'', Schema [''boolean''] '''' None None [] None None [] []),
      (''resourceVersion'', Schema [''string''] '''' None None [] None None [] []),
      (''resourceVersionMatch'', Schema [''string''] '''' None None [] None None [] []),
      (''timeoutSeconds'', Schema [''integer''] ''int64'' None None [] None None [] []),
      (''limit'', Schema [''integer''] ''int64'' None None [] None None [] []),
      (''continue'', Schema [''string''] '''' None None [] None None [] []),
      (''sendInitialEvents'', Schema [''boolean''] '''' None None [] None None [] [])] None None [] [],
   Definition_Dependencies = []\<rparr>"

definition schema_pkg_apis_meta_v1_ManagedFieldsEntry :: "(string \<Rightarrow> 'r) \<Rightarrow> 'r OpenAPIDefinition" where
  "schema_pkg_apis_meta_v1_ManagedFieldsEntry ref = \<lparr>Definition_Schema =
    Schema [''object''] '''' None None [
      (''manager'', Schema [''string''] '''' None None [] None None [] []),
      (''operation'', Schema [''string''] '''' None None [] None None [] []),
      (''apiVersion'', Schema [''string''] '''' None None [] None None [] []),
      (''time'', Schema [] '''' None (Some (ref (meta_v1 ''Time''))) [] None None [] []),
      (''fieldsType'', Schema [''string''] '''' None None [] None None [] []),
      (''fieldsV1'', Schema [] '''' None (Some (ref (meta_v1 ''FieldsV1''))) [] None None [] []),
      (''subresource'', Schema [''string''] '''' None None [] None None [] [])] None None [] [],
   Definition_Dependencies = [meta_v1 ''FieldsV1'', meta_v1 ''Time'']\<rparr>"

definition schema_pkg_apis_meta_v1_MicroTime :: "openapi_lib \<Rightarrow> (string \<Rightarrow> 'r) \<Rightarrow> 'r OpenAPIDefinition" where
  "schema_pkg_apis_meta_v1_MicroTime lib ref = \<lparr>Definition_Schema =
    Schema (oa_SchemaType lib ''MicroTime'') (oa_SchemaFormat lib ''MicroTime'') None None [] None None [] [],
   Definition_Dependencies = []\<rparr>"

definition schema_pkg_apis_meta_v1_ObjectMeta :: "(string \<Rightarrow> 'r) \<Rightarrow> 'r OpenAPIDefinition" where
  "schema_pkg_apis_meta_v1_ObjectMeta ref = \<lparr>Definition_Schema =
    Schema [''object''] '''' None None [
      (''name'', Schema [''string''] '''' None None [] None None [] []),
      (''generateName'', Schema [''string''] '''' None None [] None None [] []),
      (''namespace'', Schema [''string''] '''' None None [] None None [] []),
      (''selfLink'', Schema [''string''] '''' None None [] None None [] []),
      (''uid'', Schema [''string''] '''' None None [] None None [] []),
      (''resourceVersion'', Schema [''string''] '''' None None [] None None [] []),
      (''generation'', Schema [''integer''] ''int64'' None None [] None None [] []),
      (''creationTimestamp'', Schema [] '''' None (Some (ref (meta_v1 ''Time''))) [] None None [] []),
      (''deletionTimestamp'', Schema [] '''' None (Some (ref (meta_v1 ''Time''))) [] None None [] []),
      (''deletionGracePeriodSeconds'', Schema [''integer''] ''int64'' None None [] None None [] []),
      (''labels'', Schema [''object''] '''' None None [] None (Some (True, Schema [''string''] '''' (Some (JStr '''')) None [] None None [] [])) [] []),
      (''annotations'', Schema [''object''] '''' None None [] None (Some (True, Schema [''string''] '''' (Some (JStr '''')) None [] None None [] [])) [] []),
      (''ownerReferences'', Schema [''array''] '''' None None [] (Some (Schema [] '''' (Some JEmpty) (Some (ref (meta_v1 ''OwnerReference''))) [] None None [] [])) None [] [(''x-kubernetes-list-map-keys'', (JList [''uid''])), (''x-kubernetes-list-type'', (JStr ''map'')), (''x-kubernetes-patch-merge-key'', (JStr ''uid'')), (''x-kubernetes-patch-strategy'', (JStr ''merge''))]),
      (''finalizers'', Schema [''array''] '''' None None [] (Some (Schema [''string''] '''' (Some (JStr '''')) None [] None None [] [])) None [] [(''x-kubernetes-list-type'', (JStr ''set'')), (''x-kubernetes-patch-strategy'', (JStr ''merge''))]),
      (''managedFields'', Schema [''array''] '''' None None [] (Some (Schema [] '''' (Some JEmpty) (Some (ref (meta_v1 ''ManagedFieldsEntry''))) [] None None [] [])) None [] [(''x-kubernetes-list-type'', (JStr ''atomic''))])] None None [] [],
   Definition_Dependencies = [meta_v1 ''ManagedFieldsEntry'', meta_v1 ''OwnerReference'', meta_v1 ''Time'']\<rparr>"

definition schema_pkg_apis_meta_v1_OwnerReference :: "(string \<Rightarrow> 'r) \<Rightarrow> 'r OpenAPIDefinition" where
  "schema_pkg_apis_meta_v1_OwnerReference ref = \<lparr>Definition_Schema =
    Schema [''object''] '''' None None [
      (''apiVersion'', Schema [''string''] '''' (Some (JStr '''')) None [] None None [] []),
      (''kind'', Schema [''string''] '''' (Some (JStr '''')) None [] None None [] []),
      (''name'', Schema [''string''] '''' (Some (JStr '''')) None [] None None [] []),
      (''uid'', Schema [''string''] '''' (Some (JStr '''')) None [] None None [] []),
      (''controller'', Schema [''boolean''] '''' None None [] None None [] []),
      (''blockOwnerDeletion'', Schema [''boolean''] '''' None None [] None None [] [])] None None [''apiVersion'', ''kind'', ''name'', ''uid''] [(''x-kubernetes-map-type'', (JStr ''atomic''))],
   Definition_Dependencies = []\<rparr>"

definition schema_pkg_apis_meta_v1_PartialObjectMetadata :: "(string \<Rightarrow> 'r) \<Rightarrow> 'r OpenAPIDefinition" where
  "schema_pkg_apis_meta_v1_PartialObjectMetadata ref = \<lparr>Definition_Schema =
    Schema [''object''] '''' None None [
      (''kind'', Schema [''string''] '''' None None [] None None [] []),
      (''apiVersion'', Schema [''string''] '''' None None [] None None [] []),
      (''metadata'', Schema [] '''' (Some JEmpty) (Some (ref (meta_v1 ''ObjectMeta''))) [] None None [] [])] None None [] [],
   Definition_Dependencies = [meta_v1 ''ObjectMeta'']\<rparr>"

definition schema_pkg_apis_meta_v1_PartialObjectMetadataList :: "(string \<Rightarrow> 'r) \<Rightarrow> 'r OpenAPIDefinition" where
  "schema_pkg_apis_meta_v1_PartialObjectMetadataList ref = \<lparr>Definition_Schema =
    Schema [''object''] '''' None None [
      (''kind'', Schema [''string''] '''' None None [] None None [] []),
      (''apiVersion'', Schema [''string''] '''' None None [] None None [] []),
      (''metadata'', Schema [] '''' (Some JEmpty) (Some (ref (meta_v1 ''ListMeta''))) [] None None [] []),
      (''items'', Schema [''array''] '''' None None [] (Some (Schema [] '''' (Some JEmpty) (Some (ref (meta_v1 ''PartialObjectMetadata''))) [] None None [] [])) None [] [])] None None [''items''] [],
   Definition_Dependencies = [meta_v1 ''ListMeta'', meta_v1 ''PartialObjectMetadata'']\<rparr>"

definition schema_pkg_apis_meta_v1_Patch :: "(string \<Rightarrow> 'r) \<Rightarrow> 'r OpenAPIDefinition" where
  "schema_pkg_apis_meta_v1_Patch ref = \<lparr>Definition_Schema =
    Schema [''object''] '''' None None [] None None [] [],
   Definition_Dependencies = []\<rparr>"

definition schema_pkg_apis_meta_v1_PatchOptions :: "(string \<Rightarrow> 'r) \<Rightarrow> 'r OpenAPIDefinition" where
  "schema_pkg_apis_meta_v1_PatchOptions ref = \<lparr>Definition_Schema =
    Schema [''object''] '''' None None [
      (''kind'', Schema [''string''] '''' None None [] None None [] []),
      (''apiVersion'', Schema [''string''] '''' None None [] None None [] []),
      (''dryRun'', Schema [''array''] '''' None None [] (Some (Schema [''string''] '''' (Some (JStr '''')) None [] None None [] [])) None [] [(''x-kubernetes-list-type'', (JStr ''atomic''))]),
      (''force'', Schema [''boolean''] '''' None None [] None None [] []),
      (''fieldManager'', Schema [''string''] '''' None None [] None None [] []),
      (''fieldValidation'', Schema [''string''] '''' None None [] None None [] [])] None None [] [],
   Definition_Dependencies = []\<rparr>"

definition schema_pkg_apis_meta_v1_Preconditions :: "(string \<Rightarrow> 'r) \<Rightarrow> 'r OpenAPIDefinition" where
  "schema_pkg_apis_meta_v1_Preconditions ref = \<lparr>Definition_Schema =
    Schema [''object''] '''' None None [
      (''uid'', Schema [''string''] '''' None None [] None None [] []),
      (''resourceVersion'', Schema [''string''] '''' None None [] None None [] [])] None None [] [],
   Definition_Dependencies = []\<rparr>"

definition schema_pkg_apis_meta_v1_RootPaths :: "(string \<Rightarrow> 'r) \<Rightarrow> 'r OpenAPIDefinition" where
  "schema_pkg_apis_meta_v1_RootPaths ref = \<lparr>Definition_Schema =
    Schema [''object''] '''' None None [
      (''paths'', Schema [''array''] '''' None None [] (Some (Schema [''string''] '''' (Some (JStr '''')) None [] None None [] [])) None [] [(''x-kubernetes-list-type'', (JStr ''atomic''))])] None None [''paths''] [],
   Definition_Dependencies = []\<rparr>"

definition schema_pkg_apis_meta_v1_ServerAddressByClientCIDR :: "(string \<Rightarrow> 'r) \<Rightarrow> 'r OpenAPIDefinition" where
  "schema_pkg_apis_meta_v1_ServerAddressByClientCIDR ref = \<lparr>Definition_Schema =
    Schema [''object''] '''' None None [
      (''clientCIDR'', Schema [''string''] '''' (Some (JStr '''')) None [] None None [] []),
      (''serverAddress'', Schema [''string''] '''' (Some (JStr '''')) None [] None None [] [])] None None [''clientCIDR'', ''serverAddress''] [],
   Definition_Dependencies = []\<rparr>"

definition schema_pkg_apis_meta_v1_Status :: "(string \<Rightarrow> 'r) \<Rightarrow> 'r OpenAPIDefinition" where
  "schema_pkg_apis_meta_v1_Status ref = \<lparr>Definition_Schema =
    Schema [''object''] '''' None None [
      (''kind'', Schema [''string''] '''' None None [] None None [] []),
      (''apiVersion'', Schema [''string''] '''' None None [] None None [] []),
      (''metadata'', Schema [] '''' (Some JEmpty) (Some (ref (meta_v1 ''ListMeta''))) [] None None [] []),
      (''status'', Schema [''string''] '''' None None [] None None [] []),
      (''message'', Schema [''string''] '''' None None [] None None [] []),
      (''reason'', Schema [''string''] '''' None None [] None None [] []),
      (''details'', Schema [] '''' None (Some (ref (meta_v1 ''StatusDetails''))) [] None None [] [(''x-kubernetes-list-type'', (JStr ''atomic''))]),
      (''code'', Schema [''integer''] ''int32'' None None [] None None [] [])] None None [] [],
   Definition_Dependencies = [meta_v1 ''ListMeta'', meta_v1 ''StatusDetails'']\<rparr>"

definition schema_pkg_apis_meta_v1_StatusCause :: "(string \<Rightarrow> 'r) \<Rightarrow> 'r OpenAPIDefinition" where
  "schema_pkg_apis_meta_v1_StatusCause ref = \<lparr>Definition_Schema =
    Schema [''object''] '''' None None [
      (''reason'', Schema [''string''] '''' None None [] None None [] []),
      (''message'', Schema [''string''] '''' None None [] None None [] []),
      (''field'', Schema [''string''] '''' None None [] None None [] [])] None None [] [],
   Definition_Dependencies = []\<rparr>"

definition schema_pkg_apis_meta_v1_StatusDetails :: "(string \<Rightarrow> 'r) \<Rightarrow> 'r OpenAPIDefinition" where
  "schema_pkg_apis_meta_v1_StatusDetails ref = \<lparr>Definition_Schema =
    Schema [''object''] '''' None None [
      (''name'', Schema [''string''] '''' None None [] None None [] []),
      (''group'', Schema [''string''] '''' None None [] None None [] []),
      (''kind'', Schema [''string''] '''' None None [] None None [] []),
      (''uid'', Schema [''string''] '''' None None [] None None [] []),
      (''causes'', Schema [''array''] '''' None None [] (Some (Schema [] '''' (Some JEmpty) (Some (ref (meta_v1 ''StatusCause''))) [] None None [] [])) None [] [(''x-kubernetes-list-type'', (JStr ''atomic''))]),
      (''retryAfterSeconds'', Schema [''integer''] ''int32'' None None [] None None [] [])] None None [] [],
   Definition_Dependencies = [meta_v1 ''StatusCause'']\<rparr>"

definition schema_pkg_apis_meta_v1_Table :: "(string \<Rightarrow> 'r) \<Rightarrow> 'r OpenAPIDefinition" where
  "schema_pkg_apis_meta_v1_Table ref = \<lparr>Definition_Schema =
    Schema [''object''] '''' None None [
      (''kind'', Schema [''string''] '''' None None [] None None [] []),
      (''apiVersion'', Schema [''string''] '''' None None [] None None [] []),
      (''metadata'', Schema [] '''' (Some JEmpty) (Some (ref (meta_v1 ''ListMeta''))) [] None None [] []),
      (''columnDefinitions'', Schema [''array''] '''' None None [] (Some (Schema [] '''' (Some JEmpty) (Some (ref (meta_v1 ''TableColumnDefinition''))) [] None None [] [])) None [] [(''x-kubernetes-list-type'', (JStr ''atomic''))]),
      (''rows'', Schema [''array''] '''' None None [] (Some (Schema [] '''' (Some JEmpty) (Some (ref (meta_v1 ''TableRow''))) [] None None [] [])) None [] [(''x-kubernetes-list-type'', (JStr ''atomic''))])] None None [''columnDefinitions'', ''rows''] [],
   Definition_Dependencies = [meta_v1 ''ListMeta'', meta_v1 ''TableColumnDefinition'', meta_v1 ''TableRow'']\<rparr>"

definition schema_pkg_apis_meta_v1_TableColumnDefinition :: "(string \<Rightarrow> 'r) \<Rightarrow> 'r OpenAPIDefinition" where
  "schema_pkg_apis_meta_v1_TableColumnDefinition ref = \<lparr>Definition_Schema =
    Schema [''object''] '''' None None [
      (''name'', Schema [''string''] '''' (Some (JStr '''')) None [] None None [] []),
      (''type'', Schema [''string''] '''' (Some (JStr '''')) None [] None None [] []),
      (''format'', Schema [''string''] '''' (Some (JStr '''')) None [] None None [] []),
      (''description'', Schema [''string''] '''' (Some (JStr '''')) None [] None None [] []),
      (''priority'', Schema [''integer''] ''int32'' (Some (JNum 0)) None [] None None [] [])] None None [''name'', ''type'', ''format'', ''description'', ''priority''] [],
   Definition_Dependencies = []\<rparr>"

definition schema_pkg_apis_meta_v1_TableOptions :: "(string \<Rightarrow> 'r) \<Rightarrow> 'r OpenAPIDefinition" where
  "schema_pkg_apis_meta_v1_TableOptions ref = \<lparr>Definition_Schema =
    Schema [''object''] '''' None None [
      (''kind'', Schema [''string''] '''' None None [] None None [] []),
      (''apiVersion'', Schema [''string''] '''' None None [] None None [] []),
      (''includeObject'', Schema [''string''] '''' None None [] None None [] [])] None None [] [],
   Definition_Dependencies = []\<rparr>"

definition schema_pkg_apis_meta_v1_TableRow :: "(string \<Rightarrow> 'r) \<Rightarrow> 'r OpenAPIDefinition" where
  "schema_pkg_apis_meta_v1_TableRow ref = \<lparr>Definition_Schema =
    Schema [''object''] '''' None None [
      (''cells'', Schema [''array''] '''' None None [] (Some (Schema [''object''] '''' None None [] None None [] [])) None [] [(''x-kubernetes-list-type'', (JStr ''atomic''))]),
      (''conditions'', Schema [''array''] '''' None None [] (Some (Schema [] '''' (Some JEmpty) (Some (ref (meta_v1 ''TableRowCondition''))) [] None None [] [])) None [] [(''x-kubernetes-list-type'', (JStr ''atomic''))]),
      (''object'', Schema [] '''' None (Some (ref (k8s_runtime ''RawExtension''))) [] None None [] [])] None None [''cells''] [],
   Definition_Dependencies = [meta_v1 ''TableRowCondition'', k8s_runtime ''RawExtension'']\<rparr>"

definition schema_pkg_apis_meta_v1_TableRowCondition :: "(string \<Rightarrow> 'r) \<Rightarrow> 'r OpenAPIDefinition" where
  "schema_pkg_apis_meta_v1_TableRowCondition ref = \<lparr>Definition_Schema =
    Schema [''object''] '''' None None [
      (''type'', Schema [''string''] '''' (Some (JStr '''')) None [] None None [] []),
      (''status'', Schema [''string''] '''' (Some (JStr '''')) None [] None None [] []),
      (''reason'', Schema [''string''] '''' None None [] None None [] []),
      (''message'', Schema [''string''] '''' None None [] None None [] [])] None None [''type'', ''status''] [],
   Definition_Dependencies = []\<rparr>"

definition schema_pkg_apis_meta_v1_Time :: "openapi_lib \<Rightarrow> (string \<Rightarrow> 'r) \<Rightarrow> 'r OpenAPIDefinition" where
  "schema_pkg_apis_meta_v1_Time lib ref = \<lparr>Definition_Schema =
    Schema (oa_SchemaType lib ''Time'') (oa_SchemaFormat lib ''Time'') None None [] None None [] [],
   Definition_Dependencies = []\<rparr>"

definition schema_pkg_apis_meta_v1_Timestamp :: "(string \<Rightarrow> 'r) \<Rightarrow> 'r OpenAPIDefinition" where
  "schema_pkg_apis_meta_v1_Timestamp ref = \<lparr>Definition_Schema =
    Schema [''object''] '''' None None [
      (''seconds'', Schema [''integer''] ''int64'' (Some (JNum 0)) None [] None None [] []),
      (''nanos'', Schema [''integer''] ''int32'' (Some (JNum 0)) None [] None None [] [])] None None [''seconds'', ''nanos''] [],
   Definition_Dependencies = []\<rparr>"

definition schema_pkg_apis_meta_v1_TypeMeta :: "(string \<Rightarrow> 'r) \<Rightarrow> 'r OpenAPIDefinition" where
  "schema_pkg_apis_meta_v1_TypeMeta ref = \<lparr>Definition_Schema =
    Schema [''object''] '''' None None [
      (''kind'', Schema [''string''] '''' None None [] None None [] []),
      (''apiVersion'', Schema [''string''] '''' None None [] None None [] [])] None None [] [],
   Definition_Dependencies = []\<rparr>"

definition schema_pkg_apis_meta_v1_UpdateOptions :: "(string \<Rightarrow> 'r) \<Rightarrow> 'r OpenAPIDefinition" where
  "schema_pkg_apis_meta_v1_UpdateOptions ref = \<lparr>Definition_Schema =
    Schema [''object''] '''' None None [
      (''kind'', Schema [''string''] '''' None None [] None None [] []),
      (''apiVersion'', Schema [''string''] '''' None None [] None None [] []),
      (''dryRun'', Schema [''array''] '''' None None [] (Some (Schema [''string''] '''' (Some (JStr '''')) None [] None None [] [])) None [] [(''x-kubernetes-list-type'', (JStr ''atomic''))]),
      (''fieldManager'', Schema [''string''] '''' None None [] None None [] []),
      (''fieldValidation'', Schema [''string''] '''' None None [] None None [] [])] None None [] [],
   Definition_Dependencies = []\<rparr>"

definition schema_pkg_apis_meta_v1_WatchEvent :: "(string \<Rightarrow> 'r) \<Rightarrow> 'r OpenAPIDefinition" where
  "schema_pkg_apis_meta_v1_WatchEvent ref = \<lparr>Definition_Schema =
    Schema [''object''] '''' None None [
      (''type'', Schema [''string''] '''' (Some (JStr '''')) None [] None None [] []),
      (''object'', Schema [] '''' None (Some (ref (k8s_runtime ''RawExtension''))) [] None None [] [])] None None [''type'', ''object''] [],
   Definition_Dependencies = [k8s_runtime ''RawExtension'']\<rparr>"

definition schema_k8sio_apimachinery_pkg_runtime_RawExtension :: "(string \<Rightarrow> 'r) \<Rightarrow> 'r OpenAPIDefinition" where
  "schema_k8sio_apimachinery_pkg_runtime_RawExtension ref = \<lparr>Definition_Schema =
    Schema [''object''] '''' None None [] None None [] [],
   Definition_Dependencies = []\<rparr>"

definition schema_k8sio_apimachinery_pkg_runtime_TypeMeta :: "(string \<Rightarrow> 'r) \<Rightarrow> 'r OpenAPIDefinition" where
  "schema_k8sio_apimachinery_pkg_runtime_TypeMeta ref = \<lparr>Definition_Schema =
    Schema [''object''] '''' None None [
      (''apiVersion'', Schema [''string''] '''' None None [] None None [] []),
      (''kind'', Schema [''string''] '''' None None [] None None [] [])] None None [] [],
   Definition_Dependencies = []\<rparr>"

definition schema_k8sio_apimachinery_pkg_runtime_Unknown :: "(string \<Rightarrow> 'r) \<Rightarrow> 'r OpenAPIDefinition" where
  "schema_k8sio_apimachinery_pkg_runtime_Unknown ref = \<lparr>Definition_Schema =
    Schema [''object''] '''' None None [
      (''apiVersion'', Schema [''string''] '''' None None [] None None [] []),
      (''kind'', Schema [''string''] '''' None None [] None None [] []),
      (''ContentEncoding'', Schema [''string''] '''' (Some (JStr '''')) None [] None None [] []),
      (''ContentType'', Schema [''string''] '''' (Some (JStr '''')) None [] None None [] [])] None None [''ContentEncoding'', ''ContentType''] [],
   Definition_Dependencies = []\<rparr>"

definition schema_k8sio_apimachinery_pkg_version_Info :: "(string \<Rightarrow> 'r) \<Rightarrow> 'r OpenAPIDefinition" where
  "schema_k8sio_apimachinery_pkg_version_Info ref = \<lparr>Definition_Schema =
    Schema [''object''] '''' None None [
      (''major'', Schema [''string''] '''' (Some (JStr '''')) None [] None None [] []),
      (''minor'', Schema [''string''] '''' (Some (JStr '''')) None [] None None [] []),
      (''gitVersion'', Schema [''string''] '''' (Some (JStr '''')) None [] None None [] []),
      (''gitCommit'', Schema [''string''] '''' (Some (JStr '''')) None [] None None [] []),
      (''gitTreeState'', Schema [''string''] '''' (Some (JStr '''')) None [] None None [] []),
      (''buildDate'', Schema [''string''] '''' (Some (JStr '''')) None [] None None [] []),
      (''goVersion'', Schema [''string''] '''' (Some (JStr '''')) None [] None None [] []),
      (''compiler'', Schema [''string''] '''' (Some (JStr '''')) None [] None None [] []),
      (''platform'', Schema [''string''] '''' (Some (JStr '''')) None [] None None [] [])] None None [''major'', ''minor'', ''gitVersion'', ''gitCommit'', ''gitTreeState'', ''buildDate'', ''goVersion'', ''compiler'', ''platform''] [],
   Definition_Dependencies = []\<rparr>"

definition GetOpenAPIDefinitions :: "openapi_lib \<Rightarrow> (string \<Rightarrow> 'r) \<Rightarrow> (string \<times> 'r OpenAPIDefinition) list" where
  "GetOpenAPIDefinitions lib ref =
     [(fgateway_v1alpha1 ''GatewayParameters'', schema_fgateway_apis_fgateway_v1alpha1_GatewayParameters ref),
      (meta_v1 ''APIGroup'', schema_pkg_apis_meta_v1_APIGroup ref),
      (meta_v1 ''APIGroupList'', schema_pkg_apis_meta_v1_APIGroupList ref),
      (meta_v1 ''APIResource'', schema_pkg_apis_meta_v1_APIResource ref),
      (meta_v1 ''APIResourceList'', schema_pkg_apis_meta_v1_APIResourceList ref),
      (meta_v1 ''APIVersions'', schema_pkg_apis_meta_v1_APIVersions ref),
      (meta_v1 ''ApplyOptions'', schema_pkg_apis_meta_v1_ApplyOptions ref),
      (meta_v1 ''Condition'', schema_pkg_apis_meta_v1_Condition ref),
      (meta_v1 ''CreateOptions'', schema_pkg_apis_meta_v1_CreateOptions ref),
      (meta_v1 ''DeleteOptions'', schema_pkg_apis_meta_v1_DeleteOptions ref),
      (meta_v1 ''Duration'', schema_pkg_apis_meta_v1_Duration lib ref),
      (meta_v1 ''FieldSelectorRequirement'', schema_pkg_apis_meta_v1_FieldSelectorRequirement ref),
      (meta_v1 ''FieldsV1'', schema_pkg_apis_meta_v1_FieldsV1 ref),
      (meta_v1 ''GetOptions'', schema_pkg_apis_meta_v1_GetOptions ref),
      (meta_v1 ''GroupKind'', schema_pkg_apis_meta_v1_GroupKind ref),
      (meta_v1 ''GroupResource'', schema_pkg_apis_meta_v1_GroupResource ref),
      (meta_v1 ''GroupVersion'', schema_pkg_apis_meta_v1_GroupVersion ref),
      (meta_v1 ''GroupVersionForDiscovery'', schema_pkg_apis_meta_v1_GroupVersionForDiscovery ref),
      (meta_v1 ''GroupVersionKind'', schema_pkg_apis_meta_v1_GroupVersionKind ref),
      (meta_v1 ''GroupVersionResource'', schema_pkg_apis_meta_v1_GroupVersionResource ref),
      (meta_v1 ''InternalEvent'', schema_pkg_apis_meta_v1_InternalEvent ref),
      (meta_v1 ''LabelSelector'', schema_pkg_apis_meta_v1_LabelSelector ref),
      (meta_v1 ''LabelSelectorRequirement'', schema_pkg_apis_meta_v1_LabelSelectorRequirement ref),
      (meta_v1 ''List'', schema_pkg_apis_meta_v1_List ref),
      (meta_v1 ''ListMeta'', schema_pkg_apis_meta_v1_ListMeta ref),
      (meta_v1 ''ListOptions'', schema_pkg_apis_meta_v1_ListOptions ref),
      (meta_v1 ''ManagedFieldsEntry'', schema_pkg_apis_meta_v1_ManagedFieldsEntry ref),
      (meta_v1 ''MicroTime'', schema_pkg_apis_meta_v1_MicroTime lib ref),
      (meta_v1 ''ObjectMeta'', schema_pkg_apis_meta_v1_ObjectMeta ref),
      (meta_v1 ''OwnerReference'', schema_pkg_apis_meta_v1_OwnerReference ref),
      (meta_v1 ''PartialObjectMetadata'', schema_pkg_apis_meta_v1_PartialObjectMetadata ref),
      (meta_v1 ''PartialObjectMetadataList'', schema_pkg_apis_meta_v1_PartialObjectMetadataList ref),
      (meta_v1 ''Patch'', schema_pkg_apis_meta_v1_Patch ref),
      (meta_v1 ''PatchOptions'', schema_pkg_apis_meta_v1_PatchOptions ref),
      (meta_v1 ''Preconditions'', schema_pkg_apis_meta_v1_Preconditions ref),
      (meta_v1 ''RootPaths'', schema_pkg_apis_meta_v1_RootPaths ref),
      (meta_v1 ''ServerAddressByClientCIDR'', schema_pkg_apis_meta_v1_ServerAddressByClientCIDR ref),
      (meta_v1 ''Status'', schema_pkg_apis_meta_v1_Status ref),
      (meta_v1 ''StatusCause'', schema_pkg_apis_meta_v1_StatusCause ref),
      (meta_v1 ''StatusDetails'', schema_pkg_apis_meta_v1_StatusDetails ref),
      (meta_v1 ''Table'', schema_pkg_apis_meta_v1_Table ref),
      (meta_v1 ''TableColumnDefinition'', schema_pkg_apis_meta_v1_TableColumnDefinition ref),
      (meta_v1 ''TableOptions'', schema_pkg_apis_meta_v1_TableOptions ref),
      (meta_v1 ''TableRow'', schema_pkg_apis_meta_v1_TableRow ref),
      (meta_v1 ''TableRowCondition'', schema_pkg_apis_meta_v1_TableRowCondition ref),
      (meta_v1 ''Time'', schema_pkg_apis_meta_v1_Time lib ref),
      (meta_v1 ''Timestamp'', schema_pkg_apis_meta_v1_Timestamp ref),
      (meta_v1 ''TypeMeta'', schema_pkg_apis_meta_v1_TypeMeta ref),
      (meta_v1 ''UpdateOptions'', schema_pkg_apis_meta_v1_UpdateOptions ref),
      (meta_v1 ''WatchEvent'', schema_pkg_apis_meta_v1_WatchEvent ref),
      (k8s_runtime ''RawExtension'', schema_k8sio_apimachinery_pkg_runtime_RawExtension ref),
      (k8s_runtime ''TypeMeta'', schema_k8sio_apimachinery_pkg_runtime_TypeMeta ref),
      (k8s_runtime ''Unknown'', schema_k8sio_apimachinery_pkg_runtime_Unknown ref),
      (k8s_version ''Info'', schema_k8sio_apimachinery_pkg_version_Info ref)]"

lemmas schema_defs =
  schema_fgateway_apis_fgateway_v1alpha1_GatewayParameters_def
  schema_pkg_apis_meta_v1_APIGroup_def
  schema_pkg_apis_meta_v1_APIGroupList_def
  schema_pkg_apis_meta_v1_APIResource_def
  schema_pkg_apis_meta_v1_APIResourceList_def
  schema_pkg_apis_meta_v1_APIVersions_def
  schema_pkg_apis_meta_v1_ApplyOptions_def
  schema_pkg_apis_meta_v1_Condition_def
  schema_pkg_apis_meta_v1_CreateOptions_def
  schema_pkg_apis_meta_v1_DeleteOptions_def
  schema_pkg_apis_meta_v1_Duration_def
  schema_pkg_apis_meta_v1_FieldSelectorRequirement_def
  schema_pkg_apis_meta_v1_FieldsV1_def
  schema_pkg_apis_meta_v1_GetOptions_def
  schema_pkg_apis_meta_v1_GroupKind_def
  schema_pkg_apis_meta_v1_GroupResource_def
  schema_pkg_apis_meta_v1_GroupVersion_def
  schema_pkg_apis_meta_v1_GroupVersionForDiscovery_def
  schema_pkg_apis_meta_v1_GroupVersionKind_def
  schema_pkg_apis_meta_v1_GroupVersionResource_def
  schema_pkg_apis_meta_v1_InternalEvent_def
  schema_pkg_apis_meta_v1_LabelSelector_def
  schema_pkg_apis_meta_v1_LabelSelectorRequirement_def
  schema_pkg_apis_meta_v1_List_def
  schema_pkg_apis_meta_v1_ListMeta_def
  schema_pkg_apis_meta_v1_ListOptions_def
  schema_pkg_apis_meta_v1_ManagedFieldsEntry_def
  schema_pkg_apis_meta_v1_MicroTime_def
  schema_pkg_apis_meta_v1_ObjectMeta_def
  schema_pkg_apis_meta_v1_OwnerReference_def
  schema_pkg_apis_meta_v1_PartialObjectMetadata_def
  schema_pkg_apis_meta_v1_PartialObjectMetadataList_def
  schema_pkg_apis_meta_v1_Patch_def
  schema_pkg_apis_meta_v1_PatchOptions_def
  schema_pkg_apis_meta_v1_Preconditions_def
  schema_pkg_apis_meta_v1_RootPaths_def
  schema_pkg_apis_meta_v1_ServerAddressByClientCIDR_def
  schema_pkg_apis_meta_v1_Status_def
  schema_pkg_apis_meta_v1_StatusCause_def
  schema_pkg_apis_meta_v1_StatusDetails_def
  schema_pkg_apis_meta_v1_Table_def
  schema_pkg_apis_meta_v1_TableColumnDefinition_def
  schema_pkg_apis_meta_v1_TableOptions_def
  schema_pkg_apis_meta_v1_TableRow_def
  schema_pkg_apis_meta_v1_TableRowCondition_def
  schema_pkg_apis_meta_v1_Time_def
  schema_pkg_apis_meta_v1_Timestamp_def
  schema_pkg_apis_meta_v1_TypeMeta_def
  schema_pkg_apis_meta_v1_UpdateOptions_def
  schema_pkg_apis_meta_v1_WatchEvent_def
  schema_k8sio_apimachinery_pkg_runtime_RawExtension_def
  schema_k8sio_apimachinery_pkg_runtime_TypeMeta_def
  schema_k8sio_apimachinery_pkg_runtime_Unknown_def
  schema_k8sio_apimachinery_pkg_version_Info_def

section \<open>Consistency\<close>

text \<open>The references that occur anywhere in a schema.\<close>

fun schema_refs :: "'r schema \<Rightarrow> 'r list" where
  "schema_refs (Schema ty fm df rf ps it ad rq ex) =
     (case rf of None \<Rightarrow> [] | Some r \<Rightarrow> [r]) @
     concat (map (\<lambda>(_, s). schema_refs s) ps) @
     (case it of None \<Rightarrow> [] | Some s \<Rightarrow> schema_refs s) @
     (case ad of None \<Rightarrow> [] | Some (_, s) \<Rightarrow> schema_refs s)"

text \<open>
  A default is a value of the type of its node, \<open>Items\<close> occur on arrays only and always there,
  properties on objects only, the properties have distinct names and the required ones are among
  them, and a reference stands alone, for every node of a schema.
\<close>

fun default_ok :: "json option \<Rightarrow> string list \<Rightarrow> bool \<Rightarrow> bool" where
  "default_ok None ty is_ref \<longleftrightarrow> True"
| "default_ok (Some (JStr s)) ty is_ref \<longleftrightarrow> ty = [''string''] \<and> \<not> is_ref"
| "default_ok (Some (JBool b)) ty is_ref \<longleftrightarrow> ty = [''boolean''] \<and> \<not> is_ref"
| "default_ok (Some (JNum n)) ty is_ref \<longleftrightarrow> ty = [''integer''] \<and> \<not> is_ref"
| "default_ok (Some JEmpty) ty is_ref \<longleftrightarrow> is_ref"
| "default_ok (Some (JList l)) ty is_ref \<longleftrightarrow> False"

fun schema_ok :: "'r schema \<Rightarrow> bool" where
  "schema_ok (Schema ty fm df rf ps it ad rq ex) \<longleftrightarrow>
     default_ok df ty (rf \<noteq> None) \<and>
     (rf \<noteq> None \<longrightarrow> ty = [] \<and> fm = '''' \<and> ps = [] \<and> it = None \<and> ad = None) \<and>
     (it \<noteq> None \<longleftrightarrow> ty = [''array'']) \<and>
     (ps \<noteq> [] \<or> ad \<noteq> None \<longrightarrow> ty = [''object'']) \<and>
     distinct (map fst ps) \<and> set rq \<subseteq> set (map fst ps) \<and>
     list_all (\<lambda>(_, s). schema_ok s) ps \<and>
     (case it of None \<Rightarrow> True | Some s \<Rightarrow> schema_ok s) \<and>
     (case ad of None \<Rightarrow> True | Some (_, s) \<Rightarrow> schema_ok s)"

definition definition_ok :: "(string \<Rightarrow> 'r) \<Rightarrow> 'r OpenAPIDefinition \<Rightarrow> bool" where
  "definition_ok ref d \<longleftrightarrow> schema_ok (Definition_Schema d) \<and>
     set (schema_refs (Definition_Schema d)) = ref ` set (Definition_Dependencies d)"

lemma name_eq_simps [simp]:
  "meta_v1 a = meta_v1 b \<longleftrightarrow> a = b" "k8s_runtime a = k8s_runtime b \<longleftrightarrow> a = b"
  "k8s_version a = k8s_version b \<longleftrightarrow> a = b" "fgateway_v1alpha1 a = fgateway_v1alpha1 b \<longleftrightarrow> a = b"
  by (simp_all add: meta_v1_def k8s_runtime_def k8s_version_def fgateway_v1alpha1_def)

lemma name_neq_simps [simp]:
  "meta_v1 a \<noteq> k8s_runtime b" "k8s_runtime b \<noteq> meta_v1 a" "meta_v1 a \<noteq> k8s_version b" "k8s_version b \<noteq> meta_v1 a"
  "meta_v1 a \<noteq> fgateway_v1alpha1 b" "fgateway_v1alpha1 b \<noteq> meta_v1 a" "k8s_runtime a \<noteq> k8s_version b" "k8s_version b \<noteq> k8s_runtime a"
  "k8s_runtime a \<noteq> fgateway_v1alpha1 b" "fgateway_v1alpha1 b \<noteq> k8s_runtime a"
  "k8s_version a \<noteq> fgateway_v1alpha1 b" "fgateway_v1alpha1 b \<noteq> k8s_version a"
  by (simp_all add: meta_v1_def k8s_runtime_def k8s_version_def fgateway_v1alpha1_def)

definition time_types_string :: "openapi_lib \<Rightarrow> bool" where
  "time_types_string lib \<longleftrightarrow> list_all (\<lambda>n. oa_SchemaType lib n = [''string'']) [''Duration'', ''MicroTime'', ''Time'']"

lemma definitions_ok:
  assumes "time_types_string lib"
  shows "list_all (\<lambda>(_, d). definition_ok ref d) (GetOpenAPIDefinitions lib ref)"
  using assms unfolding GetOpenAPIDefinitions_def list.pred_inject prod.case time_types_string_def
  by (intro conjI; simp add: schema_defs definition_ok_def insert_commute)

lemma definition_names:
  "map fst (GetOpenAPIDefinitions lib ref) = fgateway_v1alpha1 ''GatewayParameters'' # map meta_v1
     [''APIGroup'', ''APIGroupList'', ''APIResource'', ''APIResourceList'', ''APIVersions'', ''ApplyOptions'', ''Condition'',
      ''CreateOptions'', ''DeleteOptions'', ''Duration'', ''FieldSelectorRequirement'', ''FieldsV1'', ''GetOptions'', ''GroupKind'',
      ''GroupResource'', ''GroupVersion'', ''GroupVersionForDiscovery'', ''GroupVersionKind'', ''GroupVersionResource'',
      ''InternalEvent'', ''LabelSelector'', ''LabelSelectorRequirement'', ''List'', ''ListMeta'', ''ListOptions'',
      ''ManagedFieldsEntry'', ''MicroTime'', ''ObjectMeta'', ''OwnerReference'', ''PartialObjectMetadata'',
      ''PartialObjectMetadataList'', ''Patch'', ''PatchOptions'', ''Preconditions'', ''RootPaths'', ''ServerAddressByClientCIDR'',
      ''Status'', ''StatusCause'', ''StatusDetails'', ''Table'', ''TableColumnDefinition'', ''TableOptions'', ''TableRow'',
      ''TableRowCondition'', ''Time'', ''Timestamp'', ''TypeMeta'', ''UpdateOptions'', ''WatchEvent''] @
     [k8s_runtime ''RawExtension'', k8s_runtime ''TypeMeta'', k8s_runtime ''Unknown'', k8s_version ''Info'']"
  by (simp add: GetOpenAPIDefinitions_def)

lemma distinct_names: "distinct (map fst (GetOpenAPIDefinitions lib ref))"
  unfolding definition_names by simp

definition all_dependencies :: "openapi_lib \<Rightarrow> (string \<Rightarrow> 'r) \<Rightarrow> string list" where
  "all_dependencies lib ref = concat (map (Definition_Dependencies \<circ> snd) (GetOpenAPIDefinitions lib ref))"

lemma undefined_dependencies:
  "filter (\<lambda>n. n \<notin> set (map fst (GetOpenAPIDefinitions lib ref))) (all_dependencies lib ref) =
     [fgateway_v1alpha1 ''GatewayParametersSpec'', fgateway_v1alpha1 ''GatewayParametersStatus'', k8s_runtime ''Object'']"
  unfolding definition_names all_dependencies_def by (simp add: GetOpenAPIDefinitions_def schema_defs)

text \<open>
  C24. The definitions are consistent: no type is defined twice; in every schema the
  properties have distinct names, the required ones exist, defaults have the type of their node,
  items occur exactly on arrays and properties on objects only; the dependencies listed for a
  type are exactly the types its schema refers to, whatever the reference callback; and the only
  types referred to and not defined are \<open>GatewayParametersSpec\<close>, \<open>GatewayParametersStatus\<close> and
  \<open>runtime.Object\<close>.
\<close>

theorem openapi_consistent:
  assumes "time_types_string lib"
  shows "distinct (map fst (GetOpenAPIDefinitions lib ref)) \<and>
    list_all (\<lambda>(_, d). schema_ok (Definition_Schema d) \<and>
      set (schema_refs (Definition_Schema d)) = ref ` set (Definition_Dependencies d)) (GetOpenAPIDefinitions lib ref) \<and>
    set (concat (map (Definition_Dependencies \<circ> snd) (GetOpenAPIDefinitions lib ref))) - set (map fst (GetOpenAPIDefinitions lib ref)) =
      {''github.com/fleezesd/fgateway/apis/fgateway/v1alpha1.GatewayParametersSpec'',
       ''github.com/fleezesd/fgateway/apis/fgateway/v1alpha1.GatewayParametersStatus'',
       ''k8s.io/apimachinery/pkg/runtime.Object''}"
proof -
  have "set (all_dependencies lib ref) - set (map fst (GetOpenAPIDefinitions lib ref)) =
      set (filter (\<lambda>n. n \<notin> set (map fst (GetOpenAPIDefinitions lib ref))) (all_dependencies lib ref))"
    by auto
  also have "\<dots> = {fgateway_v1alpha1 ''GatewayParametersSpec'', fgateway_v1alpha1 ''GatewayParametersStatus'', k8s_runtime ''Object''}"
    unfolding undefined_dependencies by simp
  finally show ?thesis
    using distinct_names [of lib ref] definitions_ok [OF assms, of ref]
    by (simp add: definition_ok_def fgateway_v1alpha1_def k8s_runtime_def flip: all_dependencies_def)
qed

theorem openapi_consistent_witness:
  "distinct (map fst (GetOpenAPIDefinitions \<lparr>oa_SchemaType = (\<lambda>_. [''string'']), oa_SchemaFormat = (\<lambda>_. ''date-time'')\<rparr>
     (\<lambda>n. ''#/definitions/'' @ n)))"
proof -
  have "time_types_string \<lparr>oa_SchemaType = (\<lambda>_. [''string'']), oa_SchemaFormat = (\<lambda>_. ''date-time'')\<rparr>"
    by (simp add: time_types_string_def)
  from openapi_consistent [OF this, of "\<lambda>n. ''#/definitions/'' @ n"] show ?thesis by blast
qed

end
