(* ===== verification/Spec2Isabelle.thy ===== *)
theory Spec2Isabelle
  imports Merge_Properties Deep_Copy Callbacks Registry_Spec Startup Informers Fake_Clientset OpenAPI
begin

text \<open>
  A verification of the fgateway control plane, a Go program that configures Envoy proxies for
  the Kubernetes Gateway API.

  \<^bold>\<open>The program.\<close> A Kubernetes controller (\<^verbatim>\<open>internal/fgateway/controller\<close>) watches Gateways. For
  each it looks up a \<open>GatewayParameters\<close> object of its own and one of its class and merges the
  two (\<^verbatim>\<open>internal/fgateway/deployer/merge.go\<close>), renders a Helm chart into objects
  (\<^verbatim>\<open>deployer.go\<close>) and writes addresses into the Gateway's status (\<^verbatim>\<open>gw_controller.go\<close>). Beside
  it an xDS server (\<^verbatim>\<open>controlplane.go\<close>) talks to the proxies; callbacks on its streams
  (\<^verbatim>\<open>internal/fgateway/krtcollections\<close>) keep a registry of the clients connected, one per role,
  label set and namespace, and publish it as a collection. Start-up (\<^verbatim>\<open>run.go\<close>, \<^verbatim>\<open>cmd.go\<close>)
  connects the parts.

  \<^bold>\<open>The theories.\<close>
  \<^item> \<open>Prelude\<close>: Go values (pointers, slices, maps, errors, panics), the contract of a map (locale
    \<open>key_store\<close>), strings and decimal numbers. \<open>Transition_Systems\<close>: what it means that a system
    implements an abstract machine (locale \<open>simulation\<close>) and that it comes to rest (locale \<open>settling\<close>).
  \<^item> \<open>Kube_Types\<close>, \<open>Gateway_Parameters\<close>: the structs of the Kubernetes libraries as far as they
    are used, and every struct, accessor and validation rule of \<^verbatim>\<open>apis/fgateway/v1alpha1\<close>
    (\<^verbatim>\<open>kube_types.go\<close>, \<^verbatim>\<open>gateway_parameters_types.go\<close>). A struct \<open>S\<close> with field \<open>F\<close> is a record
    with selector \<open>S_F\<close>, its accessor is \<open>S_GetF\<close>.
  \<^item> \<open>Merge\<close>, \<open>Merge_Leaves\<close>, \<open>Merge_Properties\<close>: every function of \<^verbatim>\<open>merge.go\<close>; the
    specification by leaves and override policies it refines (locale \<open>leaf_merge\<close>, interpreted
    for each struct); map unions, validity and the protected Istio defaults.
  \<^item> \<open>Go_Heap\<close>, \<open>Deep_Copy\<close>: memory with addresses, the contract of a deep copy (locale
    \<open>deep_copier\<close>), and every function of \<^verbatim>\<open>zz_generated.deepcopy.go\<close> over it.
  \<^item> \<open>Client_Identity\<close>, \<open>Xds\<close>, \<open>Pods\<close>: the FNV label hash and resource names, roles and the
    node hash, the pod and node collections.
  \<^item> \<open>Unique_Clients\<close>: the registry of connected clients, \<open>add\<close> and \<open>cleanup\<close> as functions on its
    state, and its invariant. \<open>Stream_System\<close>: the same as a concurrent system (\<open>step\<close>,
    \<open>reachable\<close>) in which callbacks, triggers and recomputations interleave, and the contract of a
    stream registry (locales \<open>stream_registry\<close>, \<open>joining_registry\<close>). \<open>Registry_Spec\<close>: the abstract
    registry of joins, leaves and publications (\<open>spec_step\<close>) and the simulation of one by the other.
    \<open>Callbacks\<close>: what each xDS callback does on each branch.
  \<^item> \<open>Environment\<close>: environment variables, the version report, name constants. \<open>Probe_Server\<close>: the
    liveness probe, its server and its two goroutines (\<open>probe_step\<close>).
  \<^item> \<open>Yaml\<close>: the loop of \<^verbatim>\<open>helmutil/yaml.go\<close> that turns a manifest into objects, with the contract of
    a decoder that consumes its input (locale \<open>consuming_decoder\<close>).
  \<^item> \<open>Deployer\<close>, \<open>Deployer_Properties\<close>: the deployer and the chart loader, with the contract of a
    parameter merge (locale \<open>parameters_merge\<close>).
  \<^item> \<open>Gateway_Status\<close>: the Gateway reconciler and status updates, with a store for the values
    that are compared by pointer.
  \<^item> \<open>Controller\<close>: registration of controllers, watch predicates, \<open>Start\<close>. \<open>Startup\<close>: from the
    command to the running manager, as the sequence of calls made.
  \<^item> \<open>Schemes\<close>: the API group, its scheme builder and the schemes made from it. \<open>Clientset\<close>,
    \<open>Fake_Clientset\<close>: the constructors of the generated clientset and of its fake. \<open>Informers\<close>: the
    generated shared informer factory, its options, the typed and generic access and the listers,
    with the contract its clients use (locale \<open>shared_informers\<close>) and an interleaving semantics
    (\<open>factory_step\<close>, \<open>factory_reachable\<close>) of calls, goroutines and stop channels. \<open>OpenAPI\<close>: every
    generated schema function.

  \<^bold>\<open>What is shown.\<close> The merge equals its leaf-wise specification at every path of a field (the policy of
  \<open>GMSACredentialSpecName\<close> says that the code overwrites it with another field) and keeps the CRD's
  exactly-one-of rule. Deep copies keep the content of every field and share no memory. Under every interleaving the registry lists each connected client once,
  its 64-bit counts are exact and never wrap (stream ids are non-zero, so fewer than \<open>2 ^ 64\<close>
  streams are open), and no update of the published collection is lost, whenever krt chooses
  to run its function; the concurrent registry refines an abstract one, and what it owes is
  published after a bounded number of steps, if krt keeps its promise to run the function after a
  trigger. Each callback is described on every branch, with everything it changes, and pods that
  \<open>Equals\<close> identifies are interchangeable for all of them. Resource names in non-empty namespaces are equal
  exactly when role, label hash and namespace are, and the label hash does not depend on map order. The deployer loads exactly the files of its chart, deploys
  exactly the rendered objects, owned by the Gateway, and panics exactly when Helm does; a status is
  written only from a service the Gateway controls; parameter events reach exactly the Gateways
  annotated with the object, and those that use it through their class are told apart; the manifest loop returns on every finite manifest; start-up follows one call sequence,
  and a probe server that is assigned when the end of its context is noticed is shut down in at
  most four steps.
  The informer factory shares one informer per type,
  runs each at most once under every interleaving, and a returned \<open>Shutdown\<close> is final and can
  always be reached once the stop channels are closed. A clientset is built exactly when its
  parts can be, with one rate limiter. The OpenAPI schemas are well formed and their dependency
  lists exact. Several theorems record where the code departs from
  its intent: the misspelt embed directive, the dropped merge result, the status comparison by
  pointer, the chart the deployer does not keep, so that Helm gets a nil chart, the class lookup
  that drops its error, the requeue that is not returned, the namespace lookup without a name, the Gateway
  controller that is never registered, a nil dereference on fetch requests, OpenAPI references
  to types that are not defined, API types no scheme knows, a probe server that can outlive its
  context, and a command whose context never ends.

  \<^bold>\<open>Parameters.\<close> Code outside the repository is an argument of the definitions that use it: reads
  and patches of the Kubernetes client, Helm (whose run may fail or panic), the YAML decoder and scheme, krt lookups, the
  controller manager, and constants of libraries. What a theorem needs of them is a hypothesis
  of it. No definition uses fuel. The manifest loop, which runs until its decoder reports the end,
  is a partial function whose value is \<open>None\<close> where it does not return, and it is shown to return
  for every finite manifest; every other loop runs over a finite list and is structural recursion.

  \<^bold>\<open>Not modelled.\<close> Logging, except that of the probe server; what the gRPC server does once it
  serves and how \<open>GracefulStop\<close> ends it, which is gRPC's, with the interceptors, which only log;
  goroutines other than the callback, informer and probe interleavings above; weak memory effects
  of the unsynchronised probe variable; mux patterns with a method, host or wildcard; the dispatch
  of actions by the fake clientset, which is client-go's; the descriptions in the OpenAPI schemas;
  interface types and their assertions, which have no behaviour. Except in \<open>Deep_Copy\<close> and in
  \<open>Gateway_Status\<close>, values are trees without addresses: the merge updates its first argument in
  place, and the model returns that argument's new value beside the result.
\<close>

section \<open>The command as a whole\<close>

lemma command_outcome:
  assumes "cmd_RunE lib env vars False p = Ret (out, err, p')"
  obtains err' evs started where
    "startup_outcome lib env (emit [EvProbeServer (StartLivenessProbeServer Background)] p) (Ret (err', p')) evs started"
    and "err = map_option (ErrFmt ''failed to run fgateway: '') err'"
proof -
  obtain err' where run: "Run lib env Background (emit [EvProbeServer (StartLivenessProbeServer Background)] p) = Ret (err', p')"
    and err: "err = map_option (ErrFmt ''failed to run fgateway: '') err'"
    using assms by (auto simp: cmd_RunE_def exec_bind_eq_Ret split: option.splits)
  obtain cfg where cfg: "sl_GetConfig lib = Some cfg"
    using run by (cases "sl_GetConfig lib") (auto simp: Run_def startFgateway_def)
  show ?thesis using Run_outcome [OF cfg, of env _ Background] run err that by metis
qed

text \<open>
  C13. The program as started serves no Gateway: whatever the environment and the libraries
  answer, when the command gets as far as starting its manager, the only controller added to it
  is the one for GatewayClasses, whose reconciler does nothing with Gateways, the only index is
  that of parameters, and the scheme the manager was made with knows no kind at all. The
  registry of clients has been built by then, and the command returns what the manager returns.
\<close>

theorem command_serves_classes_only:
  assumes "cmd_RunE lib env vars False p = Ret (out, err, p')"
    and "EvStartManager mgr \<in> set (drop (length (proc_trace p)) (proc_trace p'))"
  shows "map reg_For (mgr_controllers mgr) = [TGatewayClass] \<and>
    map reg_Reconciler (mgr_controllers mgr) = [ReconcileGatewayClassFunc] \<and>
    mgr_indexes mgr = [(TGateway, GatewayParamsField)] \<and> mo_Scheme (mgr_options mgr) = [] \<and>
    cb_collection (proc_callbacks p') = Some (new_collection (pods_used env)) \<and>
    err = map_option (ErrFmt ''failed to run fgateway: '') (mgrlib_Start (sl_manager lib) mgr)"
proof -
  obtain err' evs started where out: "startup_outcome lib env (emit [EvProbeServer (StartLivenessProbeServer Background)] p)
      (Ret (err', p')) evs started" and err: "err = map_option (ErrFmt ''failed to run fgateway: '') err'"
    by (rule command_outcome [OF assms(1)])
  then have trace: "proc_trace p' = proc_trace p @ EvProbeServer (StartLivenessProbeServer Background) # evs @ started"
    and evs: "prefix evs (startup_calls lib env)"
    by (simp_all add: startup_outcome_def emit_def)
  have "EvStartManager mgr \<notin> set evs" using set_mono_prefix [OF evs] by (auto simp: startup_calls_def)
  then have "EvStartManager mgr \<in> set started" using assms(2) trace by simp
  then have "started = [EvStartManager mgr]" "evs = startup_calls lib env" "serves_classes_only mgr"
      "err' = mgrlib_Start (sl_manager lib) mgr"
    using out by (auto simp: startup_outcome_def)
  moreover have "EvBuildCollection (pods_used env) \<in> set (startup_calls lib env)" by (simp add: startup_calls_def)
  ultimately show ?thesis using out err by (auto simp: startup_outcome_def serves_classes_only_def)
qed

definition example_start_lib :: start_lib where
  "example_start_lib = \<lparr>sl_LogLevelEnvName = ''LOG_LEVEL'', sl_levelSet = (\<lambda>_. None),
     sl_GetServiceHostname = (\<lambda>name ns. name @ ''.'' @ ns @ ''.svc''), sl_GetConfig = Some (Opaque ''config''),
     sl_Listen = (\<lambda>_. None), sl_NewClient = (\<lambda>_ _. Inr (Opaque ''client'')), sl_NewManager = (\<lambda>_ _. None),
     sl_manager = example_manager_lib\<rparr>"

definition example_process :: process where
  "example_process = \<lparr>proc_trace = [], proc_callbacks = \<lparr>cb_collection = None\<rparr>\<rparr>"

lemma example_command:
  "\<exists>p' mgr. cmd_RunE example_start_lib Map.empty vars False example_process = Ret (None, None, p') \<and>
     last (proc_trace p') = EvStartManager mgr \<and> proc_trace p' \<noteq> []"
  by (simp add: cmd_RunE_def startup_defs example_start_lib_def example_process_def GetServiceFQDN_def Getenv_def
      Start_def NewBaseGatewayController_def watchGatewayClass_def addGatewayParamsIndex_def Complete_def
      example_manager_lib_def FgatewayServiceName_def)

theorem command_serves_classes_only_witness:
  "\<exists>p' mgr. cmd_RunE example_start_lib Map.empty \<lparr>var_Version = '''', var_ref = None\<rparr> False example_process = Ret (None, None, p') \<and>
     EvStartManager mgr \<in> set (proc_trace p') \<and> map reg_For (mgr_controllers mgr) = [TGatewayClass] \<and>
     cb_collection (proc_callbacks p') = Some (new_collection True)"
proof -
  obtain p' mgr where run: "cmd_RunE example_start_lib Map.empty \<lparr>var_Version = '''', var_ref = None\<rparr> False example_process = Ret (None, None, p')"
    and mgr: "EvStartManager mgr \<in> set (drop (length (proc_trace example_process)) (proc_trace p'))"
    using example_command by (auto simp: example_process_def) (metis last_in_set)
  have "pods_used Map.empty" by (simp add: pods_used_def Getenv_def)
  then show ?thesis
    using command_serves_classes_only [OF run mgr] run mgr by (auto simp: example_process_def)
qed

text \<open>
  C16. The command never shuts its probe server down. The first thing it does is to start the probe
  under \<open>context.Background()\<close>, which cannot end. From then on, whatever steps the goroutines of
  the probe and their environment take, the one that shuts the server down is still waiting, the
  server is not closing and was never logged as closed, no goroutine has panicked, and the other
  goroutine has returned only if it logged an unexpected error; and there is a run in which it
  serves.
\<close>

theorem command_never_shuts_down:
  assumes "cmd_RunE lib env vars False p = Ret (out, err, p')"
  shows "\<exists>s. proc_trace p' ! length (proc_trace p) = EvProbeServer s \<and> ps_options s = DefaultProbeServerOptions \<and>
    (\<forall>s'. (\<lambda>t t'. probe_step t t' \<or> probe_env t t')\<^sup>*\<^sup>* s s' \<longrightarrow>
       ps_stop s' = AwaitingDone \<and> \<not> probe_closing s' \<and> ProbeClosed \<notin> set (ps_log s') \<and> ps_run s' \<noteq> RunPanicked \<and>
       (ps_run s' = RunReturned \<longrightarrow> (\<exists>e. ProbeFailed e \<in> set (ps_log s')))) \<and>
    (\<exists>s'. (\<lambda>t t'. probe_step t t' \<or> probe_env t t')\<^sup>*\<^sup>* s s' \<and> ps_run s' = Serving)"
proof -
  let ?s = "StartProbeServer Background DefaultProbeServerOptions"
  have init: "probe_reachable DefaultProbeServerOptions ?s" by (rule probe_init)
  have path: "ServerOptions_Path DefaultProbeServerOptions \<noteq> ''''" by simp
  obtain err' evs started where "startup_outcome lib env (emit [EvProbeServer (StartLivenessProbeServer Background)] p)
      (Ret (err', p')) evs started" and "err = map_option (ErrFmt ''failed to run fgateway: '') err'"
    by (rule command_outcome [OF assms])
  then have "proc_trace p' ! length (proc_trace p) = EvProbeServer ?s"
    by (simp add: startup_outcome_def emit_def StartLivenessProbeServer_def)
  moreover have "ps_stop s' = AwaitingDone \<and> \<not> probe_closing s' \<and> ProbeClosed \<notin> set (ps_log s') \<and> ps_run s' \<noteq> RunPanicked \<and>
       (ps_run s' = RunReturned \<longrightarrow> (\<exists>e. ProbeFailed e \<in> set (ps_log s')))"
    if steps: "(\<lambda>t t'. probe_step t t' \<or> probe_env t t')\<^sup>*\<^sup>* ?s s'" for s'
  proof -
    have r: "probe_reachable DefaultProbeServerOptions s'" using steps init by (rule probe_reachable_steps)
    then show ?thesis
      using probe_awaits [OF steps] probe_never_panics [OF r path] probe_returned [OF r] probe_reachable_inv [OF r]
      by (auto simp: probe_inv_def)
  qed
  ultimately show ?thesis
    using probe_can_serve [OF init path] by (auto simp: StartProbeServer_def)
qed

theorem command_never_shuts_down_witness:
  "\<exists>p' s s'. cmd_RunE example_start_lib Map.empty \<lparr>var_Version = '''', var_ref = None\<rparr> False example_process = Ret (None, None, p') \<and>
     proc_trace p' ! 0 = EvProbeServer s \<and> (\<lambda>t t'. probe_step t t' \<or> probe_env t t')\<^sup>*\<^sup>* s s' \<and>
     ps_run s' = Serving \<and> ps_stop s' = AwaitingDone"
proof -
  obtain p' where run: "cmd_RunE example_start_lib Map.empty \<lparr>var_Version = '''', var_ref = None\<rparr> False example_process = Ret (None, None, p')"
    using example_command by blast
  then show ?thesis using command_never_shuts_down [OF run] by (simp add: example_process_def) blast
qed

end
